(* ===== verification/Prelude.thy ===== *)
theory Prelude
  imports Main "HOL-Library.State_Monad" "HOL-Library.Sublist" "HOL-Library.Multiset"
begin

text \<open>
  Shared infrastructure: the named collections the components extend, loops over
  slices as monadic traversals, and the frame locale. A frame is a reflexive and
  transitive relation between the state before and the state after an action; its
  rules lift a fact about the primitive effects to every composed operation, so that
  the safety properties of the reconciler are proved once per primitive.
\<close>

section \<open>Collections\<close>

named_theorems go_consts "string constants of the operator"
named_theorems rel_intros "frame rules: sequencing and branching"

section \<open>Loops\<close>

text \<open>\<open>for _, x := range xs { body }\<close> over a state; \<open>continue\<close> is the end of the body.\<close>

fun for_each :: "('a \<Rightarrow> ('w, unit) state) \<Rightarrow> 'a list \<Rightarrow> ('w, unit) state" where
  "for_each f [] = State_Monad.return ()"
| "for_each f (x # xs) = do { f x; for_each f xs }"

text \<open>The same loop when the body also updates a local variable declared before it.\<close>

fun for_fold :: "('a \<Rightarrow> 'b \<Rightarrow> ('w, 'b) state) \<Rightarrow> 'a list \<Rightarrow> 'b \<Rightarrow> ('w, 'b) state" where
  "for_fold f [] b = State_Monad.return b"
| "for_fold f (x # xs) b = do { b' \<leftarrow> f x b; for_fold f xs b' }"

text \<open>Reading and updating the state.\<close>

definition gets :: "('w \<Rightarrow> 'a) \<Rightarrow> ('w, 'a) state" where
  "gets f = State (\<lambda>w. (f w, w))"

definition modify :: "('w \<Rightarrow> 'w) \<Rightarrow> ('w, unit) state" where
  "modify f = State (\<lambda>w. ((), f w))"

lemma run_gets [simp]: "run_state (gets f) w = (f w, w)"
  by (simp add: gets_def)

lemma run_modify [simp]: "run_state (modify f) w = ((), f w)"
  by (simp add: modify_def)

lemma for_each_append:
  "run_state (for_each f (xs @ ys)) w = run_state (for_each f ys) (snd (run_state (for_each f xs) w))"
  by (induction xs arbitrary: w) (auto split: prod.splits)

section \<open>Frames\<close>

locale frame =
  fixes R :: "'w \<Rightarrow> 'w \<Rightarrow> bool"
  assumes frame_refl: "R w w"
    and frame_trans: "R u v \<Longrightarrow> R v w \<Longrightarrow> R u w"
begin

lemma return_rel: "state_io_rel R (State_Monad.return x)"
  by (simp add: state_io_rel_def frame_refl)

lemma gets_rel: "state_io_rel R (gets f)"
  by (simp add: state_io_rel_def frame_refl)

lemma modify_rel: "(\<And>w. R w (f w)) \<Longrightarrow> state_io_rel R (modify f)"
  by (simp add: state_io_rel_def)

lemma bind_rel:
  "state_io_rel R m \<Longrightarrow> (\<And>x. state_io_rel R (f x)) \<Longrightarrow> state_io_rel R (State_Monad.bind m f)"
  unfolding state_io_rel_def by (auto split: prod.splits) (metis frame_trans snd_conv)

lemma bind_rel_run:
  "state_io_rel R m \<Longrightarrow> (\<And>x w w'. run_state m w = (x, w') \<Longrightarrow> state_io_rel R (f x)) \<Longrightarrow>
   state_io_rel R (State_Monad.bind m f)"
  unfolding state_io_rel_def by (auto split: prod.splits) (metis frame_trans snd_conv)

lemma for_each_rel:
  "(\<And>x. x \<in> set xs \<Longrightarrow> state_io_rel R (f x)) \<Longrightarrow> state_io_rel R (for_each f xs)"
  by (induction xs) (auto intro: return_rel bind_rel)

lemma for_fold_rel:
  "(\<And>x b. x \<in> set xs \<Longrightarrow> state_io_rel R (f x b)) \<Longrightarrow> state_io_rel R (for_fold f xs b)"
  by (induction xs arbitrary: b) (auto intro: return_rel bind_rel)

lemma run_rel: "state_io_rel R m \<Longrightarrow> run_state m w = (x, w') \<Longrightarrow> R w w'"
  by (auto simp: state_io_rel_def dest: spec [of _ w])

lemmas rules = return_rel gets_rel bind_rel for_each_rel for_fold_rel

end

lemma if_rel [rel_intros]:
  "(b \<Longrightarrow> state_io_rel R m) \<Longrightarrow> (\<not> b \<Longrightarrow> state_io_rel R n) \<Longrightarrow>
   state_io_rel R (if b then m else n)"
  by simp

lemma case_option_rel [rel_intros]:
  "(x = None \<Longrightarrow> state_io_rel R m) \<Longrightarrow> (\<And>y. x = Some y \<Longrightarrow> state_io_rel R (f y)) \<Longrightarrow>
   state_io_rel R (case x of None \<Rightarrow> m | Some y \<Rightarrow> f y)"
  by (cases x) auto

lemma case_sum_rel [rel_intros]:
  "(\<And>e. x = Inl e \<Longrightarrow> state_io_rel R (f e)) \<Longrightarrow> (\<And>y. x = Inr y \<Longrightarrow> state_io_rel R (g y)) \<Longrightarrow>
   state_io_rel R (case x of Inl e \<Rightarrow> f e | Inr y \<Rightarrow> g y)"
  by (cases x) auto

lemma case_prod_rel [rel_intros]:
  "(\<And>a b. x = (a, b) \<Longrightarrow> state_io_rel R (f a b)) \<Longrightarrow>
   state_io_rel R (case x of (a, b) \<Rightarrow> f a b)"
  by (cases x) auto

lemma case_list_rel [rel_intros]:
  "(xs = [] \<Longrightarrow> state_io_rel R m) \<Longrightarrow> (\<And>y ys. xs = y # ys \<Longrightarrow> state_io_rel R (f y ys)) \<Longrightarrow>
   state_io_rel R (case xs of [] \<Rightarrow> m | y # ys \<Rightarrow> f y ys)"
  by (cases xs) auto

lemma let_rel [rel_intros]:
  "state_io_rel R (f x) \<Longrightarrow> state_io_rel R (let y = x in f y)"
  by simp

section \<open>Lists\<close>

lemma find_Some_filter: "find P xs = (case filter P xs of [] \<Rightarrow> None | x # _ \<Rightarrow> Some x)"
  by (induction xs) auto

lemma find_SomeD: "find P xs = Some x \<Longrightarrow> x \<in> set xs \<and> P x"
  by (induction xs) (auto split: if_splits)

lemma find_NoneD: "find P xs = None \<Longrightarrow> x \<in> set xs \<Longrightarrow> \<not> P x"
  by (induction xs) (auto split: if_splits)

end
