(* ===== verification/Go_Strings.thy ===== *)
theory Go_Strings
  imports Prelude
begin

text \<open>
  The functions of Go's \<open>strings\<close> package the operator uses, on byte strings. A Go string
  is a sequence of bytes and a \<open>string\<close> here is a list of 8-bit characters, so positions and
  lengths agree. Case mapping and white space are those of the ASCII range: on ASCII text,
  which is all that mgconsole and Kubernetes names produce, they are exactly Go's.
\<close>

section \<open>Characters\<close>

definition is_space :: "char \<Rightarrow> bool" where
  "is_space c = (c \<in> {CHR 0x09, CHR 0x0A, CHR 0x0B, CHR 0x0C, CHR 0x0D, CHR '' ''})"

definition is_digit :: "char \<Rightarrow> bool" where
  "is_digit c = (48 \<le> (of_char c :: int) \<and> (of_char c :: int) \<le> 57)"

definition digit_val :: "char \<Rightarrow> int" where
  "digit_val c = of_char c - 48"

definition to_lower_char :: "char \<Rightarrow> char" where
  "to_lower_char c =
     (if 65 \<le> (of_char c :: int) \<and> (of_char c :: int) \<le> 90 then char_of ((of_char c :: int) + 32) else c)"

definition to_upper_char :: "char \<Rightarrow> char" where
  "to_upper_char c =
     (if 97 \<le> (of_char c :: int) \<and> (of_char c :: int) \<le> 122 then char_of ((of_char c :: int) - 32) else c)"

section \<open>Functions of the strings package\<close>

definition ToLower :: "string \<Rightarrow> string" where
  "ToLower s = map to_lower_char s"

definition ToUpper :: "string \<Rightarrow> string" where
  "ToUpper s = map to_upper_char s"

definition EqualFold :: "string \<Rightarrow> string \<Rightarrow> bool" where
  "EqualFold s t \<longleftrightarrow> ToLower s = ToLower t"

definition TrimFunc :: "(char \<Rightarrow> bool) \<Rightarrow> string \<Rightarrow> string" where
  "TrimFunc p s = rev (dropWhile p (rev (dropWhile p s)))"

definition TrimSpace :: "string \<Rightarrow> string" where
  "TrimSpace s = TrimFunc is_space s"

definition TrimChar :: "char \<Rightarrow> string \<Rightarrow> string" where
  "TrimChar c s = TrimFunc (\<lambda>x. x = c) s"

text \<open>\<open>strings.Trim(s, "\"")\<close>, the cutset the operator uses everywhere.\<close>

definition TrimQuotes :: "string \<Rightarrow> string" where
  "TrimQuotes s = TrimChar (CHR 0x22) s"

definition HasPrefix :: "string \<Rightarrow> string \<Rightarrow> bool" where
  "HasPrefix s p = prefix p s"

fun Contains :: "string \<Rightarrow> string \<Rightarrow> bool" where
  "Contains [] sub = (sub = [])"
| "Contains (c # s) sub = (prefix sub (c # s) \<or> Contains s sub)"

text \<open>\<open>strings.Split\<close> with a one-byte separator: never empty.\<close>

fun Split :: "char \<Rightarrow> string \<Rightarrow> string list" where
  "Split d [] = [[]]"
| "Split d (c # s) =
     (if c = d then [] # Split d s
      else (case Split d s of [] \<Rightarrow> [[c]] | p # ps \<Rightarrow> (c # p) # ps))"

text \<open>\<open>strings.Cut\<close> with a one-byte separator: before, after, found.\<close>

definition Cut :: "char \<Rightarrow> string \<Rightarrow> string \<times> string \<times> bool" where
  "Cut d s = (if d \<in> set s then (takeWhile (\<lambda>c. c \<noteq> d) s, tl (dropWhile (\<lambda>c. c \<noteq> d) s), True)
              else (s, [], False))"

text \<open>\<open>strings.ReplaceAll\<close> of one byte by another.\<close>

definition ReplaceAllChar :: "char \<Rightarrow> char \<Rightarrow> string \<Rightarrow> string" where
  "ReplaceAllChar a b s = map (\<lambda>c. if c = a then b else c) s"

text \<open>\<open>strings.Fields\<close>: the maximal runs of non-space characters.\<close>

function Fields :: "string \<Rightarrow> string list" where
  "Fields s = (case dropWhile is_space s of [] \<Rightarrow> []
               | c # cs \<Rightarrow> (c # takeWhile (\<lambda>x. \<not> is_space x) cs)
                    # Fields (dropWhile (\<lambda>x. \<not> is_space x) cs))"
  by pat_completeness auto
termination
proof (relation "measure length", goal_cases)
  case (2 s c cs)
  have "length (dropWhile is_space s) \<le> length s"
    by (rule length_dropWhile_le)
  moreover have "length (dropWhile (\<lambda>x. \<not> is_space x) cs) \<le> length cs"
    by (rule length_dropWhile_le)
  ultimately show ?case using 2 by simp
qed simp

declare Fields.simps [simp del]

section \<open>Laws\<close>

lemma Contains_sublist: "Contains s sub \<longleftrightarrow> sublist sub s"
  by (induction s) (auto simp: sublist_Cons_right)

lemma Contains_append: "Contains (a @ sub @ b) sub"
  by (simp add: Contains_sublist sublist_def) blast

lemma Split_not_Nil [simp]: "Split d s \<noteq> []"
  by (induction s) (auto split: list.splits)

lemma Split_no_sep: "p \<in> set (Split d s) \<Longrightarrow> d \<notin> set p"
  by (induction s arbitrary: p) (auto split: if_splits list.splits)

fun join_with :: "char \<Rightarrow> string list \<Rightarrow> string" where
  "join_with d [] = []"
| "join_with d [p] = p"
| "join_with d (p # ps) = p @ d # join_with d ps"

lemma join_Cons: "ps \<noteq> [] \<Longrightarrow> join_with d (p # ps) = p @ d # join_with d ps"
  by (cases ps) auto

lemma join_Split: "join_with d (Split d s) = s"
proof (induction s)
  case (Cons c s)
  show ?case
  proof (cases "Split d s")
    case (Cons p ps)
    with Cons.IH show ?thesis by (cases ps) auto
  qed simp
qed simp

lemma Split_single: "d \<notin> set p \<Longrightarrow> Split d p = [p]"
  by (induction p) auto

lemma Split_append: "d \<notin> set p \<Longrightarrow> Split d (p @ d # s) = p # Split d s"
  by (induction p) auto

lemma Split_join: "ps \<noteq> [] \<Longrightarrow> (\<forall>p \<in> set ps. d \<notin> set p) \<Longrightarrow> Split d (join_with d ps) = ps"
  by (induction d ps rule: join_with.induct) (auto simp: Split_single Split_append)

lemma set_TrimFunc: "set (TrimFunc p s) \<subseteq> set s"
proof
  fix x
  assume "x \<in> set (TrimFunc p s)"
  then have "x \<in> set (rev (dropWhile p s))"
    unfolding TrimFunc_def using set_dropWhileD by fastforce
  then show "x \<in> set s" using set_dropWhileD by fastforce
qed

lemma dropWhile_id: "xs = [] \<or> \<not> p (hd xs) \<Longrightarrow> dropWhile p xs = xs"
  by (cases xs) auto

lemma TrimFunc_id: "s = [] \<or> (\<not> p (hd s) \<and> \<not> p (last s)) \<Longrightarrow> TrimFunc p s = s"
  unfolding TrimFunc_def by (auto simp: dropWhile_id hd_rev)

lemma TrimFunc_ends:
  "TrimFunc p s \<noteq> [] \<Longrightarrow> \<not> p (hd (TrimFunc p s)) \<and> \<not> p (last (TrimFunc p s))"
proof -
  let ?u = "dropWhile p s"
  let ?v = "rev (dropWhile p (rev ?u))"
  assume "TrimFunc p s \<noteq> []"
  then have ne: "?v \<noteq> []" by (simp add: TrimFunc_def)
  then have nd: "dropWhile p (rev ?u) \<noteq> []" by simp
  have "\<not> p (hd (dropWhile p (rev ?u)))" using nd by (rule hd_dropWhile)
  then have l: "\<not> p (last ?v)" using nd by (simp add: last_rev)
  obtain a where a: "?u = ?v @ a"
    by (metis rev_append rev_rev_ident takeWhile_dropWhile_id)
  from ne have une: "?u \<noteq> []" by (metis dropWhile.simps(1) rev.simps(1))
  have "hd ?u = hd ?v" using a ne by (metis hd_append2)
  with une have "\<not> p (hd ?v)" using hd_dropWhile [of p s] by simp
  with l show ?thesis by (simp add: TrimFunc_def)
qed

lemma TrimFunc_idem: "TrimFunc p (TrimFunc p s) = TrimFunc p s"
  by (rule TrimFunc_id) (use TrimFunc_ends in blast)

lemma to_lower_char_idem: "to_lower_char (to_lower_char c) = to_lower_char c"
proof (cases "65 \<le> (of_char c :: int) \<and> (of_char c :: int) \<le> 90")
  case True
  then have "of_char (char_of ((of_char c :: int) + 32)) = (of_char c :: int) + 32"
    by simp
  with True show ?thesis by (simp add: to_lower_char_def)
qed (auto simp: to_lower_char_def)

lemma ToLower_idem: "ToLower (ToLower s) = ToLower s"
  by (simp add: ToLower_def to_lower_char_idem)

end
