(* ===== verification/Go_Numbers.thy ===== *)
theory Go_Numbers
  imports Complex_Main Go_Strings
begin

text \<open>
  Go's fixed-width integers, \<open>strconv\<close>, \<open>float64\<close> and \<open>time\<close>, as far as the operator uses
  them. A signed w-bit integer is an \<open>int\<close> kept in range by an explicit wrap-around
  (\<open>int32\<close>, \<open>int64\<close>); a \<open>float64\<close> is an exact rational or one of the special values, rounded
  to nearest even at 53 bits (the sign of zero is not kept); an instant is its number of
  nanoseconds since the zero \<open>time.Time\<close>, so \<open>IsZero\<close> is comparison with 0.
\<close>

section \<open>Fixed-width integers\<close>

definition int32 :: "int \<Rightarrow> int" where
  "int32 i = signed_take_bit 31 i"

definition int64 :: "int \<Rightarrow> int" where
  "int64 i = signed_take_bit 63 i"

definition is_int32 :: "int \<Rightarrow> bool" where
  "is_int32 i \<longleftrightarrow> -(2 ^ 31) \<le> i \<and> i < 2 ^ 31"

definition is_int64 :: "int \<Rightarrow> bool" where
  "is_int64 i \<longleftrightarrow> -(2 ^ 63) \<le> i \<and> i < 2 ^ 63"

lemma int32_id: "is_int32 i \<Longrightarrow> int32 i = i"
  by (simp add: is_int32_def int32_def signed_take_bit_int_eq_self)

lemma int64_id: "is_int64 i \<Longrightarrow> int64 i = i"
  by (simp add: is_int64_def int64_def signed_take_bit_int_eq_self)

lemma is_int32_int32: "is_int32 (int32 i)"
  using signed_take_bit_int_greater_eq_minus_exp [of 31 i] signed_take_bit_int_less_exp [of 31 i]
  by (simp add: is_int32_def int32_def)

lemma is_int64_int64: "is_int64 (int64 i)"
  using signed_take_bit_int_greater_eq_minus_exp [of 63 i] signed_take_bit_int_less_exp [of 63 i]
  by (simp add: is_int64_def int64_def)

lemma int32_add_int32: "int32 (int32 a + b) = int32 (a + b)"
  unfolding int32_def signed_take_bit_eq_iff_take_bit_eq
  by (metis take_bit_add take_bit_signed_take_bit order_refl)

section \<open>Printing and parsing decimal integers\<close>

definition digit_char :: "int \<Rightarrow> char" where
  "digit_char d = char_of (48 + d)"

function show_pos :: "int \<Rightarrow> string" where
  "show_pos n = (if n < 10 then [digit_char n] else show_pos (n div 10) @ [digit_char (n mod 10)])"
  by pat_completeness auto
termination
  by (relation "measure nat") auto

declare show_pos.simps [simp del]

text \<open>\<open>strconv.Itoa\<close>, and the verb \<open>%d\<close>.\<close>

definition Itoa :: "int \<Rightarrow> string" where
  "Itoa i = (if i < 0 then CHR ''-'' # show_pos (- i) else show_pos i)"

datatype num_error = ErrSyntax | ErrRange

text \<open>
  The digit loop of \<open>strconv.ParseUint\<close> in base 10 with 64 bits. An overflow is reported at
  the digit that causes it, before the rest of the input is looked at.
\<close>

fun parse_uint_loop :: "int \<Rightarrow> string \<Rightarrow> num_error + int" where
  "parse_uint_loop n [] = Inr n"
| "parse_uint_loop n (c # cs) =
     (if \<not> is_digit c then Inl ErrSyntax
      else let n' = 10 * n + digit_val c in
        if 2 ^ 64 - 1 < n' then Inl ErrRange else parse_uint_loop n' cs)"

definition ParseUint :: "string \<Rightarrow> num_error + int" where
  "ParseUint s = (if s = [] then Inl ErrSyntax else parse_uint_loop 0 s)"

text \<open>
  \<open>strconv.ParseInt(s, 10, 64)\<close>: the value and the error. On a range error the value is the
  nearest representable one, which callers that drop the error do use.
\<close>

definition ParseInt :: "string \<Rightarrow> int \<times> num_error option" where
  "ParseInt s =
     (if s = [] then (0, Some ErrSyntax)
      else let neg = (hd s = CHR ''-'');
               t = (if hd s \<in> {CHR ''-'', CHR ''+''} then tl s else s)
        in (case ParseUint t of
              Inl ErrSyntax \<Rightarrow> (0, Some ErrSyntax)
            | Inl ErrRange \<Rightarrow> (if neg then - (2 ^ 63) else 2 ^ 63 - 1, Some ErrRange)
            | Inr un \<Rightarrow>
                (if \<not> neg \<and> 2 ^ 63 \<le> un then (2 ^ 63 - 1, Some ErrRange)
                 else if neg \<and> 2 ^ 63 < un then (- (2 ^ 63), Some ErrRange)
                 else (if neg then - un else un, None))))"

text \<open>\<open>strconv.Atoi\<close> on a 64-bit platform.\<close>

definition Atoi :: "string \<Rightarrow> int \<times> num_error option" where
  "Atoi s = ParseInt s"

lemma of_char_digit_char: "0 \<le> d \<Longrightarrow> d < 10 \<Longrightarrow> (of_char (digit_char d) :: int) = 48 + d"
  by (simp add: digit_char_def)

lemma is_digit_digit_char: "0 \<le> d \<Longrightarrow> d < 10 \<Longrightarrow> is_digit (digit_char d)"
  by (simp add: is_digit_def of_char_digit_char)

lemma digit_val_digit_char: "0 \<le> d \<Longrightarrow> d < 10 \<Longrightarrow> digit_val (digit_char d) = d"
  by (simp add: digit_val_def of_char_digit_char)

lemma digit_val_nonneg: "is_digit c \<Longrightarrow> 0 \<le> digit_val c"
  by (simp add: is_digit_def digit_val_def)

lemma show_pos_digits: "0 \<le> n \<Longrightarrow> c \<in> set (show_pos n) \<Longrightarrow> is_digit c"
proof (induction n rule: show_pos.induct)
  case (1 n)
  then show ?case
    by (subst (asm) (2) show_pos.simps) (auto simp: is_digit_digit_char split: if_splits)
qed

lemma show_pos_not_Nil: "show_pos n \<noteq> []"
  by (subst show_pos.simps) simp

lemma parse_loop_append:
  "parse_uint_loop n (xs @ ys) =
     (case parse_uint_loop n xs of Inl e \<Rightarrow> Inl e | Inr m \<Rightarrow> parse_uint_loop m ys)"
  by (induction xs arbitrary: n) (auto simp: Let_def)

lemma parse_loop_nonneg: "parse_uint_loop n s = Inr m \<Longrightarrow> 0 \<le> n \<Longrightarrow> 0 \<le> m"
  by (induction s arbitrary: n) (auto simp: Let_def digit_val_nonneg split: if_splits)

lemma parse_show_pos: "0 \<le> n \<Longrightarrow> n < 2 ^ 64 \<Longrightarrow> parse_uint_loop 0 (show_pos n) = Inr n"
proof (induction n rule: show_pos.induct)
  case (1 n)
  show ?case
  proof (cases "n < 10")
    case True
    with "1.prems" show ?thesis
      by (subst show_pos.simps) (simp add: is_digit_digit_char digit_val_digit_char)
  next
    case False
    with "1.prems" have "parse_uint_loop 0 (show_pos (n div 10)) = Inr (n div 10)"
      using "1.IH" by simp
    moreover have "10 * (n div 10) + n mod 10 = n" by simp
    ultimately show ?thesis using False "1.prems"
      by (subst show_pos.simps)
        (simp add: parse_loop_append is_digit_digit_char digit_val_digit_char Let_def)
  qed
qed

lemma digit_not_sign: "is_digit c \<Longrightarrow> c \<notin> {CHR ''-'', CHR ''+''}"
  by (auto simp: is_digit_def)

lemma ParseInt_Itoa: "is_int64 i \<Longrightarrow> ParseInt (Itoa i) = (i, None)"
proof -
  assume r: "is_int64 i"
  obtain c cs where s: "show_pos \<bar>i\<bar> = c # cs"
    using show_pos_not_Nil by (cases "show_pos \<bar>i\<bar>") auto
  then have "c \<notin> {CHR ''-'', CHR ''+''}"
    using show_pos_digits [of "\<bar>i\<bar>" c] digit_not_sign by simp
  moreover have "parse_uint_loop 0 (c # cs) = Inr \<bar>i\<bar>"
    using parse_show_pos [of "\<bar>i\<bar>"] r s
    by (auto simp: is_int64_def abs_if simp del: parse_uint_loop.simps split: if_splits)
  ultimately have u: "c \<notin> {CHR ''-'', CHR ''+''}" "ParseUint (c # cs) = Inr \<bar>i\<bar>"
    by (simp_all add: ParseUint_def del: parse_uint_loop.simps)
  show ?thesis
  proof (cases "i < 0")
    case True
    with s have "Itoa i = CHR ''-'' # c # cs" by (simp add: Itoa_def)
    with True u r show ?thesis by (simp add: ParseInt_def Let_def is_int64_def)
  next
    case False
    with s have "Itoa i = c # cs" by (simp add: Itoa_def)
    with False u r show ?thesis by (auto simp add: ParseInt_def Let_def is_int64_def)
  qed
qed

lemma ParseInt_range: "is_int64 (fst (ParseInt s))"
proof -
  have "0 \<le> un" if "ParseUint t = Inr un" for t un
    using that by (auto simp: ParseUint_def dest: parse_loop_nonneg split: if_splits)
  then show ?thesis
    by (fastforce simp: ParseInt_def is_int64_def Let_def split: sum.splits num_error.splits)
qed

lemma ParseInt_OK_nonempty: "snd (ParseInt s) = None \<Longrightarrow> s \<noteq> []"
  by (auto simp: ParseInt_def)

end
