(* ===== verification/Go_Time.thy ===== *)
theory Go_Time
  imports Go_Numbers
begin

text \<open>
  \<open>float64\<close> arithmetic and the \<open>time\<close> package as the operator uses them: conversion of
  integers to \<open>float64\<close> for gauges, \<open>Time.Sub\<close> with its saturation, \<open>Duration.Seconds\<close>,
  \<open>Duration.Milliseconds\<close>, \<open>Duration.Round\<close> and the printed form of a duration.
\<close>

section \<open>Binary floating point\<close>

datatype f64 = Fin rat | PosInf | NegInf | NaN

definition round_half_even :: "rat \<Rightarrow> int" where
  "round_half_even q =
     (let f = \<lfloor>q\<rfloor>; r = q - of_int f in
      if r < 1/2 then f else if 1/2 < r then f + 1 else if even f then f else f + 1)"

function bit_length :: "int \<Rightarrow> int" where
  "bit_length n = (if n \<le> 0 then 0 else 1 + bit_length (n div 2))"
  by pat_completeness auto
termination
  by (relation "measure nat") auto

declare bit_length.simps [simp del]

text \<open>The exponent of the leading bit of a positive rational.\<close>

definition pow2 :: "int \<Rightarrow> rat" where
  "pow2 e = (if 0 \<le> e then 2 ^ nat e else 1 / 2 ^ nat (- e))"

definition lead_exp :: "rat \<Rightarrow> int" where
  "lead_exp q =
     (let (n, d) = quotient_of q;
          k = bit_length n - bit_length d
      in if pow2 k \<le> q then k else k - 1)"

definition ulp_exp :: "rat \<Rightarrow> int" where
  "ulp_exp q = max (-1074) (lead_exp \<bar>q\<bar> - 52)"

text \<open>Round to nearest, ties to even, with gradual underflow and overflow to infinity.\<close>

definition f64_round :: "rat \<Rightarrow> f64" where
  "f64_round q =
     (if q = 0 then Fin 0
      else let e = ulp_exp q; v = of_int (round_half_even (q / pow2 e)) * pow2 e in
        if 2 ^ 1024 \<le> v then PosInf else if v \<le> - (2 ^ 1024) then NegInf else Fin v)"

text \<open>\<open>float64(i)\<close> for an integer.\<close>

definition f64_of_int :: "int \<Rightarrow> f64" where
  "f64_of_int i = f64_round (of_int i)"

text \<open>Addition and division, on the finite values the operator applies them to.\<close>

fun f64_add :: "f64 \<Rightarrow> f64 \<Rightarrow> f64" where
  "f64_add (Fin a) (Fin b) = f64_round (a + b)"
| "f64_add NaN y = NaN"
| "f64_add x NaN = NaN"
| "f64_add PosInf NegInf = NaN"
| "f64_add NegInf PosInf = NaN"
| "f64_add PosInf y = PosInf"
| "f64_add NegInf y = NegInf"
| "f64_add (Fin a) y = y"

fun f64_neg :: "f64 \<Rightarrow> f64" where
  "f64_neg (Fin q) = Fin (- q)"
| "f64_neg PosInf = NegInf"
| "f64_neg NegInf = PosInf"
| "f64_neg NaN = NaN"

text \<open>Multiplication by a positive finite constant, the only one the operator does.\<close>

fun f64_scale :: "rat \<Rightarrow> f64 \<Rightarrow> f64" where
  "f64_scale k (Fin q) = f64_round (q * k)"
| "f64_scale k x = x"

text \<open>
  \<open>int64(x)\<close> truncates towards zero; outside the \<open>int64\<close> range Go leaves the result to the
  platform, the argument \<open>oor\<close>.
\<close>

definition f64_to_int64 :: "(f64 \<Rightarrow> int) \<Rightarrow> f64 \<Rightarrow> int" where
  "f64_to_int64 oor x =
     (case x of
        Fin q \<Rightarrow> let i = (if 0 \<le> q then \<lfloor>q\<rfloor> else - \<lfloor>- q\<rfloor>) in
          if is_int64 i then i else oor x
      | _ \<Rightarrow> oor x)"

definition f64_bool :: "bool \<Rightarrow> f64" where
  "f64_bool b = (if b then Fin 1 else Fin 0)"

lemma round_half_even_int [simp]: "round_half_even (of_int i) = i"
  by (simp add: round_half_even_def)

lemma pow2_pos: "0 < pow2 e"
  by (simp add: pow2_def)

lemma f64_round_exact:
  assumes "q = of_int m * pow2 (ulp_exp q)" and "\<bar>q\<bar> < 2 ^ 1024"
  shows "f64_round q = Fin q"
proof -
  have "q / pow2 (ulp_exp q) = of_int m"
    using assms(1) pow2_pos [of "ulp_exp q"] by (metis less_irrefl nonzero_eq_divide_eq)
  then have "of_int (round_half_even (q / pow2 (ulp_exp q))) * pow2 (ulp_exp q) = q"
    using assms(1) by (metis round_half_even_int)
  with assms(2) show ?thesis by (auto simp: f64_round_def Let_def)
qed

lemma bit_length_nonneg: "0 \<le> bit_length n"
  by (induction n rule: bit_length.induct) (subst bit_length.simps, auto)

lemma bit_length_lower: "0 < n \<Longrightarrow> 2 ^ nat (bit_length n - 1) \<le> n"
proof (induction n rule: bit_length.induct)
  case (1 n)
  show ?case
  proof (cases "n = 1")
    case True
    then show ?thesis by (simp add: bit_length.simps)
  next
    case False
    with "1.prems" have h: "0 < n div 2" by simp
    with "1.IH" "1.prems" have "2 ^ nat (bit_length (n div 2) - 1) \<le> n div 2" by simp
    moreover have "0 < bit_length (n div 2)"
      using h bit_length_nonneg [of "n div 2 div 2"] by (subst bit_length.simps) simp
    moreover from this have "nat (bit_length (n div 2)) = Suc (nat (bit_length (n div 2) - 1))"
      by simp
    ultimately have "2 ^ nat (bit_length (n div 2)) \<le> 2 * (n div 2)" by simp
    then have "2 ^ nat (bit_length (n div 2)) \<le> n" by linarith
    with "1.prems" show ?thesis by (subst bit_length.simps) simp
  qed
qed

lemma bit_length_mono_bound: "0 < n \<Longrightarrow> n < 2 ^ k \<Longrightarrow> bit_length n \<le> int k"
proof (rule ccontr)
  assume n: "0 < n" "n < 2 ^ k" and "\<not> bit_length n \<le> int k"
  then have "(2::int) ^ k \<le> 2 ^ nat (bit_length n - 1)" by (intro power_increasing) auto
  with bit_length_lower [of n] n show False by linarith
qed

lemma lead_exp_int:
  assumes "i \<noteq> 0" and "\<bar>i\<bar> < 2 ^ 53"
  shows "lead_exp (of_int \<bar>i\<bar>) \<le> 52"
proof -
  have "bit_length \<bar>i\<bar> \<le> 53"
    using assms bit_length_mono_bound [of "\<bar>i\<bar>" 53] by simp
  moreover have "bit_length 1 = 1" by (simp add: bit_length.simps)
  moreover have "quotient_of (of_int \<bar>i\<bar>) = (\<bar>i\<bar>, 1)"
    using quotient_of_int [of "\<bar>i\<bar>"] by (simp add: Rat.of_int_def del: of_int_abs)
  ultimately show ?thesis by (simp add: lead_exp_def Let_def del: of_int_abs)
qed

text \<open>Integers below \<open>2 ^ 53\<close> convert exactly: the counts and flags of the gauges do.\<close>

lemma f64_of_int_exact:
  assumes "\<bar>i\<bar> < 2 ^ 53"
  shows "f64_of_int i = Fin (of_int i)"
proof (cases "i = 0")
  case True
  then show ?thesis by (simp add: f64_of_int_def f64_round_def)
next
  case False
  let ?q = "of_int i :: rat" and ?e = "ulp_exp (of_int i)"
  have a: "\<bar>?q\<bar> = of_int \<bar>i\<bar>" by simp
  have e: "?e \<le> 0" "-1074 \<le> ?e"
    using lead_exp_int [OF False assms] unfolding ulp_exp_def a by auto
  have "pow2 (- ?e) * pow2 ?e = 1" using e(1) by (auto simp: pow2_def)
  moreover have "pow2 (- ?e) = of_int (2 ^ nat (- ?e))" using e(1) by (simp add: pow2_def)
  ultimately have "?q = of_int (i * 2 ^ nat (- ?e)) * pow2 ?e"
    by (metis mult.assoc mult.right_neutral of_int_mult)
  moreover have "\<bar>?q\<bar> < 2 ^ 1024"
  proof -
    have "\<bar>?q\<bar> < of_int (2 ^ 53)" unfolding a using assms of_int_less_iff by blast
    also have "\<dots> < (2::rat) ^ 1024" by simp
    finally show ?thesis .
  qed
  ultimately show ?thesis unfolding f64_of_int_def by (rule f64_round_exact)
qed

section \<open>Instants and durations\<close>

type_synonym instant = int
type_synonym duration = int

definition Second :: duration where "Second = 1000000000"
definition Millisecond :: duration where "Millisecond = 1000000"
definition Minute :: duration where "Minute = 60000000000"
definition maxDuration :: duration where "maxDuration = 9223372036854775807"
definition minDuration :: duration where "minDuration = -9223372036854775808"

lemmas duration_units = Second_def Millisecond_def Minute_def maxDuration_def minDuration_def

definition IsZero :: "instant \<Rightarrow> bool" where
  "IsZero t \<longleftrightarrow> t = 0"

text \<open>\<open>t.Sub(u)\<close> saturates at the ends of the \<open>int64\<close> range.\<close>

definition time_sub :: "instant \<Rightarrow> instant \<Rightarrow> duration" where
  "time_sub t u = max minDuration (min maxDuration (t - u))"

text \<open>
  The zero \<open>time.Time\<close> is the first of January of year 1; Unix times count from 1970.
\<close>

definition unix_epoch :: instant where "unix_epoch = 62135596800 * Second"

definition Unix :: "instant \<Rightarrow> int" where
  "Unix t = int64 ((t - unix_epoch) div 1000000000)"

definition UnixMilli :: "instant \<Rightarrow> int" where
  "UnixMilli t = int64 ((t - unix_epoch) div 1000000)"

definition UnixNano :: "instant \<Rightarrow> int" where
  "UnixNano t = int64 (t - unix_epoch)"

text \<open>Integer division truncates towards zero; the divisors here are positive.\<close>

definition go_div :: "int \<Rightarrow> int \<Rightarrow> int" where
  "go_div a b = (if 0 \<le> a then a div b else - ((- a) div b))"

definition go_mod :: "int \<Rightarrow> int \<Rightarrow> int" where
  "go_mod a b = a - b * go_div a b"

definition Seconds :: "duration \<Rightarrow> f64" where
  "Seconds d = f64_add (f64_of_int (go_div d Second))
                       (f64_round (of_int (go_mod d Second) / 1000000000))"

definition Milliseconds :: "duration \<Rightarrow> int" where
  "Milliseconds d = go_div d Millisecond"

definition RoundDuration :: "duration \<Rightarrow> duration \<Rightarrow> duration" where
  "RoundDuration d m =
     (let r = go_mod d m in
      if d < 0 then
        (let r = - r in
         if r + r < m then d + r
         else if minDuration \<le> d - m + r then d - m + r else minDuration)
      else if r + r < m then d - r
      else if d + m - r \<le> maxDuration then d + m - r else maxDuration)"

text \<open>
  \<open>Duration.String\<close>. \<open>frac_digits k v\<close> are the k lowest decimal digits of v, most
  significant first; trailing zeros are dropped, and the point with them when none is left.
\<close>

fun frac_digits :: "nat \<Rightarrow> int \<Rightarrow> string" where
  "frac_digits 0 v = []"
| "frac_digits (Suc k) v = frac_digits k (v div 10) @ [digit_char (v mod 10)]"

definition show_frac :: "nat \<Rightarrow> int \<Rightarrow> string" where
  "show_frac k v =
     (let ds = rev (dropWhile (\<lambda>c. c = CHR ''0'') (rev (frac_digits k v)))
      in if ds = [] then [] else CHR ''.'' # ds)"

definition show_duration :: "duration \<Rightarrow> string" where
  "show_duration d =
     (let u = \<bar>d\<bar> in
      (if d < 0 then ''-'' else []) @
      (if u = 0 then ''0s''
       else if u < 1000 then Itoa u @ ''ns''
       else if u < 1000000 then Itoa (u div 1000) @ show_frac 3 u @ [CHR 0xC2, CHR 0xB5] @ ''s''
       else if u < Second then Itoa (u div 1000000) @ show_frac 6 u @ ''ms''
       else let s = u div Second; m = s div 60; h = m div 60 in
         (if 0 < h then Itoa h @ ''h'' else []) @
         (if 0 < m then Itoa (m mod 60) @ ''m'' else []) @
         Itoa (s mod 60) @ show_frac 9 u @ ''s''))"

text \<open>\<open>%t\<close> of a boolean.\<close>

definition show_bool :: "bool \<Rightarrow> string" where
  "show_bool b = (if b then ''true'' else ''false'')"

lemma time_sub_exact: "is_int64 (t - u) \<Longrightarrow> time_sub t u = t - u"
  by (auto simp: time_sub_def is_int64_def duration_units)

lemma time_sub_mono: "t \<le> t' \<Longrightarrow> time_sub t u \<le> time_sub t' u"
  by (auto simp: time_sub_def)

lemma time_sub_self [simp]: "time_sub t t = 0"
  by (simp add: time_sub_def duration_units)

lemma time_sub_gt: "d < maxDuration \<Longrightarrow> minDuration \<le> d \<Longrightarrow> d < time_sub t u \<longleftrightarrow> d < t - u"
  by (auto simp: time_sub_def)

lemma Seconds_0 [simp]: "Seconds 0 = Fin 0"
  by (simp add: Seconds_def go_div_def go_mod_def duration_units f64_of_int_def f64_round_def)

end
