(* ===== verification/Api_Types.thy ===== *)
theory Api_Types
  imports Go_Time
begin

text \<open>
  The custom resource (\<open>api/v1alpha1/memgraphcluster_types.go\<close>) and the parts of the
  Kubernetes objects the operator builds or reads. A pointer field is an \<open>option\<close>, a string
  enumeration stays a string with its constants, and a Kubernetes value that the operator
  only passes through (resources, affinity, tolerations) is an opaque tree.
\<close>

section \<open>Values passed through\<close>

datatype k8s_value = KNull | KBool bool | KNum int | KStr string
  | KList "k8s_value list" | KMap "(string \<times> k8s_value) list"

type_synonym Quantity = string
type_synonym labels = "string \<rightharpoonup> string"

section \<open>Enumerations of the API\<close>

definition ReplicationModeAsync :: string where [go_consts]: "ReplicationModeAsync = ''ASYNC''"
definition ReplicationModeSync :: string where [go_consts]: "ReplicationModeSync = ''SYNC''"
definition ReplicationModeStrictSync :: string where
  [go_consts]: "ReplicationModeStrictSync = ''STRICT_SYNC''"

definition ClusterPhasePending :: string where [go_consts]: "ClusterPhasePending = ''Pending''"
definition ClusterPhaseInitializing :: string where
  [go_consts]: "ClusterPhaseInitializing = ''Initializing''"
definition ClusterPhaseRunning :: string where [go_consts]: "ClusterPhaseRunning = ''Running''"
definition ClusterPhaseFailed :: string where [go_consts]: "ClusterPhaseFailed = ''Failed''"

definition SnapshotConcurrencyAllow :: string where [go_consts]: "SnapshotConcurrencyAllow = ''Allow''"
definition SnapshotConcurrencyForbid :: string where
  [go_consts]: "SnapshotConcurrencyForbid = ''Forbid''"
definition SnapshotConcurrencyReplace :: string where
  [go_consts]: "SnapshotConcurrencyReplace = ''Replace''"

definition ConditionTypeReady :: string where [go_consts]: "ConditionTypeReady = ''Ready''"
definition ConditionTypeMainAvailable :: string where
  [go_consts]: "ConditionTypeMainAvailable = ''MainAvailable''"
definition ConditionTypeReplicasReady :: string where
  [go_consts]: "ConditionTypeReplicasReady = ''ReplicasReady''"
definition ConditionTypeReplicationHealthy :: string where
  [go_consts]: "ConditionTypeReplicationHealthy = ''ReplicationHealthy''"
definition ConditionTypeReplicationLagAcceptable :: string where
  [go_consts]: "ConditionTypeReplicationLagAcceptable = ''ReplicationLagAcceptable''"

section \<open>Specification\<close>

record ServiceNamesSpec =
  HeadlessSuffix :: string
  WriteSuffix :: string
  ReadSuffix :: string

record StorageSpec =
  Size :: Quantity
  StorageClassName :: "string option"

record MemgraphConfig =
  LogLevel :: string
  MemoryLimit :: int
  WALFlushEveryNTx :: int
  SnapshotIntervalSec :: "int option"
  SnapshotRetentionCount :: "int option"
  SnapshotOnExit :: "bool option"

record ReplicationSpec =
  Mode :: string
  BehindAlertThreshold :: "duration option"

record HighAvailabilitySpec =
  HAEnabled :: bool
  FailoverTimeoutSeconds :: int
  PreferredMain :: string

record S3BackupSpec =
  S3Enabled :: bool
  Bucket :: string
  Region :: string
  Endpoint :: string
  Prefix :: string
  SecretRef :: "string option"
  RetentionDays :: int

record SnapshotSpec =
  SnapshotEnabled :: "bool option"
  Schedule :: string
  ConcurrencyPolicy :: string
  ActiveDeadlineSeconds :: "int option"
  StartingDeadlineSeconds :: "int option"
  RetentionCount :: int
  S3 :: "S3BackupSpec option"

text \<open>A nil \<open>Enabled\<close> means the default, which is true.\<close>

definition IsEnabled :: "SnapshotSpec \<Rightarrow> bool" where
  "IsEnabled s = (case SnapshotEnabled s of None \<Rightarrow> True | Some b \<Rightarrow> b)"

record MemgraphClusterSpec =
  Replicas :: int
  Image :: string
  Resources :: k8s_value
  Storage :: StorageSpec
  Config :: MemgraphConfig
  Replication :: ReplicationSpec
  HighAvailability :: "HighAvailabilitySpec option"
  Snapshot :: SnapshotSpec
  NodeSelector :: labels
  Tolerations :: "k8s_value list"
  Affinity :: "k8s_value option"
  ServiceNames :: "ServiceNamesSpec option"

section \<open>Status\<close>

record InstanceValidationStatus =
  IVName :: string
  IVRole :: string
  IVHealthy :: bool
  IVLagMs :: int
  IVLastTestTime :: "instant option"

record ValidationStatus =
  LastConnectivityTest :: "instant option"
  LastReplicationTest :: "instant option"
  ReplicationLagMs :: int
  AllReplicasHealthy :: bool
  Instances :: "InstanceValidationStatus list"

record ReplicationHealth =
  TotalReplicas :: int
  HealthyReplicas :: int

record Condition =
  CondType :: string
  CondStatus :: string
  LastTransitionTime :: instant
  CondReason :: string
  CondMessage :: string

record MemgraphClusterStatus =
  Phase :: string
  WriteInstance :: string
  ReadInstances :: "string list"
  ReadyInstances :: int
  RegisteredReplicas :: int
  LastSnapshotTime :: "instant option"
  LastS3BackupTime :: "instant option"
  Validation :: "ValidationStatus option"
  Conditions :: "Condition list"

section \<open>Objects\<close>

record ObjectMeta =
  Name :: string
  Namespace :: string
  Labels :: labels
  Finalizers :: "string list"
  DeletionTimestamp :: "instant option"
  OwnerReferences :: "k8s_value list"

record MemgraphCluster =
  Meta :: ObjectMeta
  Spec :: MemgraphClusterSpec
  Status :: MemgraphClusterStatus

abbreviation cluster_name :: "MemgraphCluster \<Rightarrow> string" where
  "cluster_name c \<equiv> Name (Meta c)"

abbreviation cluster_ns :: "MemgraphCluster \<Rightarrow> string" where
  "cluster_ns c \<equiv> Namespace (Meta c)"

text \<open>The fields of a pod the operator reads.\<close>

record Pod =
  PodName :: string
  PodPhase :: string
  PodConditions :: "(string \<times> string) list"

record Job =
  JobConditions :: "(string \<times> string) list"
  CompletionTime :: "instant option"

record ServicePort =
  PortName :: string
  Port :: int
  TargetPort :: int
  Protocol :: string

record Service =
  SvcMeta :: ObjectMeta
  SvcType :: string
  ClusterIP :: string
  PublishNotReadyAddresses :: bool
  Ports :: "ServicePort list"
  Selector :: labels

text \<open>Metadata as the builders leave it: name, namespace and labels only.\<close>

definition mk_meta :: "string \<Rightarrow> string \<Rightarrow> labels \<Rightarrow> ObjectMeta" where
  "mk_meta n ns ls = \<lparr>Name = n, Namespace = ns, Labels = ls, Finalizers = [],
     DeletionTimestamp = None, OwnerReferences = []\<rparr>"

section \<open>Errors\<close>

text \<open>
  An error is its message, tagged with the one distinction the operator asks of it
  (\<open>apierrors.IsNotFound\<close>). \<open>wrap\<close> is \<open>fmt.Errorf(prefix + "%w", err)\<close>.
\<close>

datatype go_error = NotFound string | OtherError string

fun err_msg :: "go_error \<Rightarrow> string" where
  "err_msg (NotFound m) = m"
| "err_msg (OtherError m) = m"

fun IsNotFound :: "go_error \<Rightarrow> bool" where
  "IsNotFound (NotFound m) = True"
| "IsNotFound (OtherError m) = False"

fun wrap :: "string \<Rightarrow> go_error \<Rightarrow> go_error" where
  "wrap p (NotFound m) = NotFound (p @ m)"
| "wrap p (OtherError m) = OtherError (p @ m)"

lemma err_msg_wrap [simp]: "err_msg (wrap p e) = p @ err_msg e"
  by (cases e) auto

section \<open>A concrete cluster\<close>

text \<open>The smallest resource: every optional field absent, every other field zero.\<close>

definition bare_spec :: MemgraphClusterSpec where
  "bare_spec = \<lparr>Replicas = 0, Image = [], Resources = KNull,
     Storage = \<lparr>Size = [], StorageClassName = None\<rparr>,
     Config = \<lparr>LogLevel = [], MemoryLimit = 0, WALFlushEveryNTx = 0, SnapshotIntervalSec = None,
       SnapshotRetentionCount = None, SnapshotOnExit = None\<rparr>,
     Replication = \<lparr>Mode = [], BehindAlertThreshold = None\<rparr>,
     HighAvailability = None,
     Snapshot = \<lparr>SnapshotEnabled = None, Schedule = [], ConcurrencyPolicy = [],
       ActiveDeadlineSeconds = None, StartingDeadlineSeconds = None, RetentionCount = 0, S3 = None\<rparr>,
     NodeSelector = Map.empty, Tolerations = [], Affinity = None, ServiceNames = None\<rparr>"

definition bare_status :: MemgraphClusterStatus where
  "bare_status = \<lparr>Phase = [], WriteInstance = [], ReadInstances = [], ReadyInstances = 0,
     RegisteredReplicas = 0, LastSnapshotTime = None, LastS3BackupTime = None,
     Validation = None, Conditions = []\<rparr>"

definition bare_cluster :: MemgraphCluster where
  "bare_cluster = \<lparr>Meta = mk_meta ''mg'' ''db'' Map.empty, Spec = bare_spec, Status = bare_status\<rparr>"

end
