(* ===== verification/K8s_Objects.thy ===== *)
theory K8s_Objects
  imports Api_Types
begin

text \<open>
  The workload objects the operator builds (\<open>corev1\<close>, \<open>appsv1\<close>, \<open>batchv1\<close>), with the fields
  the operator sets. Each has a zero value, the one Go gives to a field that a composite
  literal leaves out.
\<close>

section \<open>Containers\<close>

record EnvVar =
  EnvName :: string
  EnvValue :: string
  EnvSecretKeyRef :: "(string \<times> string) option"

record VolumeMount =
  MountName :: string
  MountPath :: string

record ContainerPort =
  ContainerPortName :: string
  ContainerPortNumber :: int
  ContainerProtocol :: string

record Probe =
  TCPSocketPort :: string
  InitialDelaySeconds :: int
  PeriodSeconds :: int
  TimeoutSeconds :: int
  FailureThreshold :: int

record SecurityContext =
  Privileged :: "bool option"
  RunAsUser :: "int option"
  RunAsGroup :: "int option"
  AllowPrivilegeEscalation :: "bool option"
  DropCapabilities :: "string list"

record Container =
  ContainerName :: string
  ContainerImage :: string
  ImagePullPolicy :: string
  Command :: "string list"
  Args :: "string list"
  ContainerSecurity :: "SecurityContext option"
  ContainerPorts :: "ContainerPort list"
  ContainerResources :: k8s_value
  Env :: "EnvVar list"
  VolumeMounts :: "VolumeMount list"
  PreStop :: "string list option"
  StartupProbe :: "Probe option"
  LivenessProbe :: "Probe option"
  ReadinessProbe :: "Probe option"

definition zero_SecurityContext :: SecurityContext where
  "zero_SecurityContext = \<lparr>Privileged = None, RunAsUser = None, RunAsGroup = None,
     AllowPrivilegeEscalation = None, DropCapabilities = []\<rparr>"

definition zero_Container :: Container where
  "zero_Container = \<lparr>ContainerName = [], ContainerImage = [], ImagePullPolicy = [],
     Command = [], Args = [], ContainerSecurity = None, ContainerPorts = [],
     ContainerResources = KNull, Env = [], VolumeMounts = [], PreStop = None,
     StartupProbe = None, LivenessProbe = None, ReadinessProbe = None\<rparr>"

section \<open>Pod templates\<close>

record PodSecurityContext =
  FSGroup :: "int option"
  PodRunAsUser :: "int option"
  PodRunAsGroup :: "int option"
  RunAsNonRoot :: "bool option"
  SeccompProfile :: "string option"

definition zero_PodSecurityContext :: PodSecurityContext where
  "zero_PodSecurityContext = \<lparr>FSGroup = None, PodRunAsUser = None, PodRunAsGroup = None,
     RunAsNonRoot = None, SeccompProfile = None\<rparr>"

record PodSpec =
  RestartPolicy :: string
  TerminationGracePeriodSeconds :: "int option"
  PodSecurity :: "PodSecurityContext option"
  InitContainers :: "Container list"
  Containers :: "Container list"
  EmptyDirVolumes :: "string list"
  PodNodeSelector :: labels
  PodTolerations :: "k8s_value list"
  PodAffinity :: "k8s_value option"

definition zero_PodSpec :: PodSpec where
  "zero_PodSpec = \<lparr>RestartPolicy = [], TerminationGracePeriodSeconds = None, PodSecurity = None,
     InitContainers = [], Containers = [], EmptyDirVolumes = [], PodNodeSelector = Map.empty,
     PodTolerations = [], PodAffinity = None\<rparr>"

section \<open>Workloads\<close>

record PersistentVolumeClaim =
  ClaimName :: string
  AccessModes :: "string list"
  ClaimStorageClassName :: "string option"
  StorageRequest :: Quantity

record StatefulSet =
  StsMeta :: ObjectMeta
  ServiceName :: string
  StsReplicas :: "int option"
  MatchLabels :: labels
  PodManagementPolicy :: string
  TemplateLabels :: labels
  TemplateSpec :: PodSpec
  VolumeClaimTemplates :: "PersistentVolumeClaim list"

record CronJobSpec =
  CronSchedule :: string
  CronConcurrencyPolicy :: string
  CronStartingDeadlineSeconds :: "int option"
  SuccessfulJobsHistoryLimit :: "int option"
  FailedJobsHistoryLimit :: "int option"
  JobTemplateLabels :: labels
  JobActiveDeadlineSeconds :: "int option"
  JobPodLabels :: labels
  JobPodSpec :: PodSpec

record CronJob =
  CronMeta :: ObjectMeta
  CronSpec :: CronJobSpec

end
