(* ===== verification/World.thy ===== *)
theory World
  imports K8s_Objects
begin

text \<open>
  What surrounds the operator. The Kubernetes API, the exec sub-resource of the pods, the
  clock and the small pure helpers of the Kubernetes libraries are code outside this
  repository: they are the fields of an environment record, actions on an unknown state
  \<open>'s\<close>. The calls whose effect is only seen outside (writes to the API server, queries sent
  to Memgraph, Kubernetes events, Prometheus samples) are also appended to a trace in the
  order the code makes them; the properties speak about that trace.
\<close>

section \<open>Observable calls\<close>

record exec_request =
  ExecNamespace :: string
  ExecPod :: string
  ExecContainer :: string
  ExecCommand :: "string list"
  ExecStdin :: "string option"

type_synonym metric = "string \<times> string list"

datatype metric_op =
    GaugeSet metric "string list" f64
  | CounterInc metric "string list"
  | HistogramObserve metric "string list" f64
  | DeleteLabelValues metric "string list"
  | DeletePartialMatch metric "(string \<times> string) list"

datatype api_write =
    CreateService Service | UpdateService Service
  | CreateStatefulSet StatefulSet | UpdateStatefulSet StatefulSet
  | CreateCronJob CronJob | UpdateCronJob CronJob | DeleteCronJob CronJob
  | UpdateCluster MemgraphCluster | UpdateClusterStatus MemgraphCluster

datatype event_type = EventNormal | EventWarning

datatype effect =
    Exec exec_request
  | Event event_type string string
  | Metric metric_op
  | Write api_write

section \<open>The environment\<close>

record 's env =
  now_op :: "('s, instant) state"
  rest_config_set :: bool
  new_client_op :: "('s, go_error option) state"
  new_executor_op :: "exec_request \<Rightarrow> ('s, go_error option) state"
  stream_op :: "exec_request \<Rightarrow> ('s, string \<times> string \<times> go_error option) state"
  get_cluster_op :: "string \<Rightarrow> string \<Rightarrow> ('s, go_error + MemgraphCluster) state"
  get_service_op :: "string \<Rightarrow> string \<Rightarrow> ('s, go_error + Service) state"
  get_statefulset_op :: "string \<Rightarrow> string \<Rightarrow> ('s, go_error + StatefulSet) state"
  get_cronjob_op :: "string \<Rightarrow> string \<Rightarrow> ('s, go_error + CronJob) state"
  list_pods_op :: "string \<Rightarrow> labels \<Rightarrow> ('s, go_error + Pod list) state"
  list_jobs_op :: "string \<Rightarrow> labels \<Rightarrow> ('s, go_error + Job list) state"
  write_op :: "api_write \<Rightarrow> ('s, go_error option) state"
  write_cluster_op :: "api_write \<Rightarrow> ('s, go_error + MemgraphCluster) state"
  contains_finalizer :: "ObjectMeta \<Rightarrow> string \<Rightarrow> bool"
  add_finalizer :: "ObjectMeta \<Rightarrow> string \<Rightarrow> ObjectMeta"
  remove_finalizer :: "ObjectMeta \<Rightarrow> string \<Rightarrow> ObjectMeta"
  set_controller_reference :: "MemgraphCluster \<Rightarrow> ObjectMeta \<Rightarrow> go_error + ObjectMeta"
  set_status_condition :: "Condition list \<Rightarrow> Condition \<Rightarrow> Condition list"
  float_out_of_range :: "f64 \<Rightarrow> int"
  quantity_is_zero :: "Quantity \<Rightarrow> bool"
  quantity_must_parse :: "string \<Rightarrow> Quantity"
  equal_int_ptr :: "int option \<Rightarrow> int option \<Rightarrow> bool"
  equal_strings :: "string list \<Rightarrow> string list \<Rightarrow> bool"
  equal_labels :: "labels \<Rightarrow> labels \<Rightarrow> bool"
  equal_values :: "k8s_value list \<Rightarrow> k8s_value list \<Rightarrow> bool"
  equal_affinity :: "k8s_value option \<Rightarrow> k8s_value option \<Rightarrow> bool"

section \<open>The operator's process\<close>

text \<open>
  Per-replica timers (\<open>replicaState\<close>), the replication manager that owns them, and the world:
  the outside state, the trace and the lazily created fields of the reconciler. The timers of
  one cluster are an association list with distinct keys, whose order stands for the
  iteration order of the Go map.
\<close>

record replicaState =
  behindSince :: instant
  channelDownSince :: instant

type_synonym replica_states = "(string \<times> replicaState) list"

record ReplicationManager =
  rm_client :: bool
  rm_metrics :: bool
  rm_states :: "string \<rightharpoonup> replica_states"

record 's world =
  ext :: 's
  trace :: "effect list"
  replicationManager :: "ReplicationManager option"
  metrics_set :: bool

type_synonym ('s, 'a) op = "('s world, 'a) state"

section \<open>Primitive actions\<close>

text \<open>An action of the environment, and a call recorded in the trace.\<close>

definition external :: "('s, 'a) state \<Rightarrow> ('s, 'a) op" where
  "external m = State (\<lambda>w. case run_state m (ext w) of (a, s') \<Rightarrow> (a, w\<lparr>ext := s'\<rparr>))"

definition emit :: "effect \<Rightarrow> ('s, unit) op" where
  "emit e = modify (\<lambda>w. w\<lparr>trace := trace w @ [e]\<rparr>)"

definition event :: "event_type \<Rightarrow> string \<Rightarrow> string \<Rightarrow> ('s, unit) op" where
  "event t reason msg = emit (Event t reason msg)"

definition metric :: "metric_op \<Rightarrow> ('s, unit) op" where
  "metric m = emit (Metric m)"

definition now :: "'s env \<Rightarrow> ('s, instant) op" where
  "now e = external (now_op e)"

definition api_write :: "'s env \<Rightarrow> api_write \<Rightarrow> ('s, go_error option) op" where
  "api_write e c = do { emit (Write c); external (write_op e c) }"

definition api_write_cluster :: "'s env \<Rightarrow> api_write \<Rightarrow> ('s, go_error + MemgraphCluster) op" where
  "api_write_cluster e c = do { emit (Write c); external (write_cluster_op e c) }"

lemma run_external:
  "run_state (external m) w = (fst (run_state m (ext w)), w\<lparr>ext := snd (run_state m (ext w))\<rparr>)"
  by (simp add: external_def split: prod.splits)

lemma run_emit [simp]: "run_state (emit e) w = ((), w\<lparr>trace := trace w @ [e]\<rparr>)"
  by (simp add: emit_def)

lemma run_event [simp]: "run_state (event t r m) w = ((), w\<lparr>trace := trace w @ [Event t r m]\<rparr>)"
  by (simp add: event_def)

lemma run_metric [simp]: "run_state (metric m) w = ((), w\<lparr>trace := trace w @ [Metric m]\<rparr>)"
  by (simp add: metric_def)

section \<open>Frames over the trace\<close>

text \<open>
  \<open>emits P\<close>: the operation only appends to the trace, and every appended call satisfies
  \<open>P\<close>. \<open>keeps f\<close>: the operation leaves the component \<open>f\<close> of the world unchanged.
\<close>

definition emits :: "(effect \<Rightarrow> bool) \<Rightarrow> 's world \<Rightarrow> 's world \<Rightarrow> bool" where
  "emits P w w' \<longleftrightarrow> (\<exists>tr. trace w' = trace w @ tr \<and> (\<forall>e \<in> set tr. P e))"

definition keeps :: "('s world \<Rightarrow> 'a) \<Rightarrow> 's world \<Rightarrow> 's world \<Rightarrow> bool" where
  "keeps f w w' \<longleftrightarrow> f w' = f w"

interpretation emits: frame "emits P" for P
proof
  show "emits P w w" for w :: "'a world"
    by (simp add: emits_def)
  show "emits P u v \<Longrightarrow> emits P v w \<Longrightarrow> emits P u w" for u v w :: "'a world"
    by (fastforce simp: emits_def)
qed

interpretation keeps: frame "keeps f" for f
  by unfold_locales (auto simp: keeps_def)

lemma emits_external [rel_intros]: "state_io_rel (emits P) (external m)"
  by (simp add: state_io_rel_def run_external emits_def)

lemma emits_emit [rel_intros]: "P e \<Longrightarrow> state_io_rel (emits P) (emit e)"
  by (simp add: state_io_rel_def emits_def)

lemma emits_event [rel_intros]: "P (Event t r m) \<Longrightarrow> state_io_rel (emits P) (event t r m)"
  by (simp add: event_def emits_emit)

lemma emits_metric [rel_intros]: "P (Metric m) \<Longrightarrow> state_io_rel (emits P) (metric m)"
  by (simp add: metric_def emits_emit)

lemma emits_now [rel_intros]: "state_io_rel (emits P) (now e)"
  by (simp add: now_def emits_external)

lemma emits_modify [rel_intros]:
  "(\<And>w. trace (f w) = trace w) \<Longrightarrow> state_io_rel (emits P) (modify f)"
  by (simp add: state_io_rel_def emits_def)

lemmas emits_rules [rel_intros] = emits.rules

lemma emits_mono: "state_io_rel (emits P) m \<Longrightarrow> (\<And>e. P e \<Longrightarrow> Q e) \<Longrightarrow> state_io_rel (emits Q) m"
  by (fastforce simp: state_io_rel_def emits_def)

text \<open>The process fields, which only the manager and its creation change.\<close>

definition process :: "'s world \<Rightarrow> ReplicationManager option \<times> bool" where
  "process w = (replicationManager w, metrics_set w)"

lemma process_external [rel_intros]: "state_io_rel (keeps process) (external m)"
  by (simp add: state_io_rel_def run_external keeps_def process_def)

lemma process_emit [rel_intros]:
  "state_io_rel (keeps process) (emit e)" "state_io_rel (keeps process) (event t r msg)"
  "state_io_rel (keeps process) (metric m)"
  by (simp_all add: state_io_rel_def keeps_def process_def)

lemma process_now [rel_intros]: "state_io_rel (keeps process) (now e)"
  by (simp add: now_def process_external)

lemmas keeps_rules [rel_intros] = keeps.rules

lemma keepsD: "state_io_rel (keeps f) m \<Longrightarrow> f (snd (run_state m w)) = f w"
  by (simp add: state_io_rel_def keeps_def)

lemma emitsD:
  "state_io_rel (emits P) m \<Longrightarrow>
   \<exists>tr. trace (snd (run_state m w)) = trace w @ tr \<and> (\<forall>e \<in> set tr. P e)"
  by (auto simp: state_io_rel_def emits_def)

text \<open>An invariant of the world that an operation preserves.\<close>

definition preserves :: "('s world \<Rightarrow> bool) \<Rightarrow> 's world \<Rightarrow> 's world \<Rightarrow> bool" where
  "preserves I w w' \<longleftrightarrow> (I w \<longrightarrow> I w')"

interpretation preserves: frame "preserves I" for I
  by unfold_locales (auto simp: preserves_def)

lemmas preserves_rules [rel_intros] = preserves.rules

lemma preserves_keeps:
  "state_io_rel (keeps f) m \<Longrightarrow> (\<And>w w'. f w' = f w \<Longrightarrow> I w \<Longrightarrow> I w') \<Longrightarrow>
   state_io_rel (preserves I) m"
  by (simp add: state_io_rel_def keeps_def preserves_def)

lemma preservesD: "state_io_rel (preserves I) m \<Longrightarrow> I w \<Longrightarrow> I (snd (run_state m w))"
  by (simp add: state_io_rel_def preserves_def)

text \<open>Assertions on the result, for the steps whose effect depends on it.\<close>

definition ensures :: "('s world \<Rightarrow> bool) \<Rightarrow> ('s, 'a) op \<Rightarrow> ('a \<Rightarrow> 's world \<Rightarrow> bool) \<Rightarrow> bool" where
  "ensures P m Q \<longleftrightarrow> (\<forall>w x w'. P w \<longrightarrow> run_state m w = (x, w') \<longrightarrow> Q x w')"

lemma ensures_bind:
  "ensures P m Q \<Longrightarrow> (\<And>x. ensures (Q x) (f x) R) \<Longrightarrow> ensures P (State_Monad.bind m f) R"
  by (fastforce simp: ensures_def split: prod.splits)

lemma ensures_preserves: "ensures P m (\<lambda>_. P) \<longleftrightarrow> state_io_rel (preserves P) m"
  by (auto simp: ensures_def state_io_rel_def preserves_def) (metis snd_conv surj_pair)

lemma ensuresD: "ensures P m Q \<Longrightarrow> P w \<Longrightarrow> Q (fst (run_state m w)) (snd (run_state m w))"
  unfolding ensures_def by (metis surj_pair fst_conv snd_conv)

lemma ensures_weaken:
  "ensures P m Q \<Longrightarrow> (\<And>w. P' w \<Longrightarrow> P w) \<Longrightarrow> (\<And>x w. Q x w \<Longrightarrow> Q' x w) \<Longrightarrow> ensures P' m Q'"
  unfolding ensures_def by blast

lemma ensures_return: "(\<And>w. P w \<Longrightarrow> Q x w) \<Longrightarrow> ensures P (State_Monad.return x) Q"
  by (auto simp: ensures_def)

lemma ensures_fold:
  "(\<And>x b. x \<in> set xs \<Longrightarrow> ensures P (f x b) (\<lambda>_. P)) \<Longrightarrow>
   ensures P (for_fold f xs b) (\<lambda>_. P)"
  by (induction xs arbitrary: b) (auto intro: ensures_return ensures_bind)

lemma ensures_each:
  "(\<And>x. x \<in> set xs \<Longrightarrow> ensures P (f x) (\<lambda>_. P)) \<Longrightarrow> ensures P (for_each f xs) (\<lambda>_. P)"
  by (induction xs) (auto intro: ensures_return ensures_bind)

text \<open>What an operation adds to the trace.\<close>

definition calls :: "('s, 'a) op \<Rightarrow> 's world \<Rightarrow> effect list" where
  "calls m w = drop (length (trace w)) (trace (snd (run_state m w)))"

lemma calls_emits: "state_io_rel (emits P) m \<Longrightarrow> e \<in> set (calls m w) \<Longrightarrow> P e"
  using emitsD [of P m w] by (auto simp: calls_def)

lemma calls_appends:
  "state_io_rel (emits P) m \<Longrightarrow> trace (snd (run_state m w)) = trace w @ calls m w"
  using emitsD [of P m w] by (auto simp: calls_def)

section \<open>Operations with a known outcome\<close>

text \<open>
  \<open>yields m tr x\<close>: whatever the world, the operation returns \<open>x\<close> and appends exactly the
  calls \<open>tr\<close>. The rules compose it along the code.
\<close>

definition yields :: "('s, 'a) op \<Rightarrow> effect list \<Rightarrow> 'a \<Rightarrow> bool" where
  "yields m tr x \<longleftrightarrow>
     (\<forall>w. fst (run_state m w) = x \<and> trace (snd (run_state m w)) = trace w @ tr)"

lemma yieldsD:
  "yields m tr x \<Longrightarrow> fst (run_state m w) = x \<and> trace (snd (run_state m w)) = trace w @ tr"
  by (simp add: yields_def)

lemma yields_calls: "yields m tr x \<Longrightarrow> calls m w = tr"
  by (simp add: yields_def calls_def)

lemma yields_return: "yields (State_Monad.return x) [] x"
  by (simp add: yields_def)

lemma yields_emit: "yields (emit eff) [eff] ()"
  by (simp add: yields_def)

lemma yields_event: "yields (event t r msg) [Event t r msg] ()"
  by (simp add: yields_def)

lemma yields_metric: "yields (metric m) [Metric m] ()"
  by (simp add: yields_def)

lemma yields_bind:
  "yields m tr x \<Longrightarrow> yields (f x) tr' y \<Longrightarrow> yields (State_Monad.bind m f) (tr @ tr') y"
  by (auto simp: yields_def split: prod.splits) (metis fst_conv snd_conv append_assoc)+

lemma yields_then:
  "yields m tr x \<Longrightarrow> yields (f x) [] y \<Longrightarrow> yields (State_Monad.bind m f) tr y"
  using yields_bind [of m tr x f "[]" y] by simp

lemma yields_for_each:
  "(\<And>x. x \<in> set xs \<Longrightarrow> yields (f x) (tr x) ()) \<Longrightarrow>
   yields (for_each f xs) (concat (map tr xs)) ()"
  by (induction xs) (auto intro: yields_return yields_bind)

lemma yields_for_fold:
  "(\<And>x b. x \<in> set xs \<Longrightarrow> yields (f x b) (tr x) (g x b)) \<Longrightarrow>
   yields (for_fold f xs b) (concat (map tr xs)) (fold g xs b)"
  by (induction xs arbitrary: b) (auto intro: yields_return yields_bind)

text \<open>
  An environment action with a always result, whatever the outside state. Hypotheses about
  the answers of the outside are stated with it.
\<close>

definition always :: "('s, 'a) state \<Rightarrow> 'a \<Rightarrow> bool" where
  "always m x \<longleftrightarrow> (\<forall>s. fst (run_state m s) = x)"

lemma yields_external: "always m x \<Longrightarrow> yields (external m) [] x"
  by (simp add: yields_def always_def run_external)

lemma always_return: "always (State_Monad.return x) x"
  by (simp add: always_def)

section \<open>A concrete environment\<close>

text \<open>
  An environment in which every call succeeds with an empty answer and no object exists. The
  witnesses of properties with hypotheses about the outside override single fields of it.
\<close>

definition quiet_env :: "'s env" where
  "quiet_env = \<lparr>
     now_op = State_Monad.return 1,
     rest_config_set = True,
     new_client_op = State_Monad.return None,
     new_executor_op = (\<lambda>_. State_Monad.return None),
     stream_op = (\<lambda>_. State_Monad.return ([], [], None)),
     get_cluster_op = (\<lambda>_ _. State_Monad.return (Inl (NotFound ''cluster''))),
     get_service_op = (\<lambda>_ _. State_Monad.return (Inl (NotFound ''service''))),
     get_statefulset_op = (\<lambda>_ _. State_Monad.return (Inl (NotFound ''statefulset''))),
     get_cronjob_op = (\<lambda>_ _. State_Monad.return (Inl (NotFound ''cronjob''))),
     list_pods_op = (\<lambda>_ _. State_Monad.return (Inr [])),
     list_jobs_op = (\<lambda>_ _. State_Monad.return (Inr [])),
     write_op = (\<lambda>_. State_Monad.return None),
     write_cluster_op = (\<lambda>c. State_Monad.return
       (case c of UpdateCluster cl \<Rightarrow> Inr cl | UpdateClusterStatus cl \<Rightarrow> Inr cl
        | _ \<Rightarrow> Inl (OtherError ''not a cluster''))),
     contains_finalizer = (\<lambda>m f. f \<in> set (Finalizers m)),
     add_finalizer = (\<lambda>m f. m\<lparr>Finalizers := Finalizers m @ [f]\<rparr>),
     remove_finalizer = (\<lambda>m f. m\<lparr>Finalizers := filter (\<lambda>x. x \<noteq> f) (Finalizers m)\<rparr>),
     set_controller_reference = (\<lambda>c m. Inr (m\<lparr>OwnerReferences := [KStr (cluster_name c)]\<rparr>)),
     set_status_condition = (\<lambda>cs c. filter (\<lambda>x. CondType x \<noteq> CondType c) cs @ [c]),
     float_out_of_range = (\<lambda>_. 0),
     quantity_is_zero = (\<lambda>q. q = []),
     quantity_must_parse = (\<lambda>s. s),
     equal_int_ptr = (=), equal_strings = (=), equal_labels = (\<lambda>_ _. True), equal_values = (=),
     equal_affinity = (=)\<rparr>"

definition quiet_world :: "'s \<Rightarrow> 's world" where
  "quiet_world s = \<lparr>ext = s, trace = [], replicationManager = None, metrics_set = True\<rparr>"

end
