(* ===== verification/Go_Json.thy ===== *)
theory Go_Json
  imports Go_Numbers
begin

text \<open>
  \<open>encoding/json\<close> as the operator uses it: the syntax check and the parse tree of a value.
  Go scans the whole input first, so a syntax error anywhere yields no value at all; the
  tree is then stored into the target by the caller's types (theory \<open>Data_Info\<close>). Strings
  are decoded as Go does, bytes outside ASCII being kept as they are. The parser runs on
  fuel; \<open>parse_json\<close> supplies twice the length of the input and two, and more fuel never changes the
  result (\<open>json_fuel_enough\<close>).
\<close>

datatype json = JNull | JBool bool | JNum string | JStr string
  | JArr "json list" | JObj "(string \<times> json) list"

definition json_space :: "char \<Rightarrow> bool" where
  "json_space c \<longleftrightarrow> c \<in> {CHR '' '', CHR 0x09, CHR 0x0A, CHR 0x0D}"

definition skip_ws :: "string \<Rightarrow> string" where
  "skip_ws s = dropWhile json_space s"

section \<open>Strings\<close>

definition hex_val :: "char \<Rightarrow> int option" where
  "hex_val c =
     (let n = of_char c :: int in
      if 48 \<le> n \<and> n \<le> 57 then Some (n - 48)
      else if 97 \<le> n \<and> n \<le> 102 then Some (n - 87)
      else if 65 \<le> n \<and> n \<le> 70 then Some (n - 55) else None)"

fun hex4 :: "string \<Rightarrow> (int \<times> string) option" where
  "hex4 (a # b # c # d # s) =
     (case (hex_val a, hex_val b, hex_val c, hex_val d) of
        (Some w, Some x, Some y, Some z) \<Rightarrow> Some (4096 * w + 256 * x + 16 * y + z, s)
      | _ \<Rightarrow> None)"
| "hex4 s = None"

definition encode_rune :: "int \<Rightarrow> string" where
  "encode_rune r =
     (if r < 0x80 then [char_of r]
      else if r < 0x800 then [char_of (0xC0 + r div 64), char_of (0x80 + r mod 64)]
      else if r < 0x10000 then
        [char_of (0xE0 + r div 4096), char_of (0x80 + r div 64 mod 64), char_of (0x80 + r mod 64)]
      else [char_of (0xF0 + r div 262144), char_of (0x80 + r div 4096 mod 64),
            char_of (0x80 + r div 64 mod 64), char_of (0x80 + r mod 64)])"

definition simple_escape :: "char \<Rightarrow> char option" where
  "simple_escape c =
     (if c \<in> {CHR 0x22, CHR 0x5C, CHR ''/''} then Some c
      else if c = CHR ''b'' then Some (CHR 0x08)
      else if c = CHR ''f'' then Some (CHR 0x0C)
      else if c = CHR ''n'' then Some (CHR 0x0A)
      else if c = CHR ''r'' then Some (CHR 0x0D)
      else if c = CHR ''t'' then Some (CHR 0x09) else None)"

text \<open>
  One character of a string body: the bytes it stands for and the rest. A surrogate that is
  not part of a pair is replaced by U+FFFD, as Go does.
\<close>

definition json_char :: "string \<Rightarrow> (string \<times> string) option" where
  "json_char s =
     (case s of
        [] \<Rightarrow> None
      | c # t \<Rightarrow>
        if c = CHR 0x22 \<or> (of_char c :: int) < 32 then None
        else if c \<noteq> CHR 0x5C then Some ([c], t)
        else (case t of
            [] \<Rightarrow> None
          | e # u \<Rightarrow>
            if e \<noteq> CHR ''u'' then map_option (\<lambda>d. ([d], u)) (simple_escape e)
            else (case hex4 u of
                None \<Rightarrow> None
              | Some (r, v) \<Rightarrow>
                if r < 0xD800 \<or> 0xE000 \<le> r then Some (encode_rune r, v)
                else (case v of
                    b # k # x \<Rightarrow>
                      (case (b = CHR 0x5C \<and> k = CHR ''u'', hex4 x) of
                         (True, Some (r2, y)) \<Rightarrow>
                           if r < 0xDC00 \<and> 0xDC00 \<le> r2 \<and> r2 < 0xE000
                           then Some (encode_rune (0x10000 + 1024 * (r - 0xD800) + (r2 - 0xDC00)), y)
                           else Some (encode_rune 0xFFFD, v)
                       | _ \<Rightarrow> Some (encode_rune 0xFFFD, v))
                  | _ \<Rightarrow> Some (encode_rune 0xFFFD, v)))))"

text \<open>The body of a string after its opening quote: contents, and the rest after the closing one.\<close>

fun json_string :: "nat \<Rightarrow> string \<Rightarrow> (string \<times> string) option" where
  "json_string 0 s = None"
| "json_string (Suc k) s =
     (case s of
        [] \<Rightarrow> None
      | c # t \<Rightarrow>
        if c = CHR 0x22 then Some ([], t)
        else (case json_char s of
            None \<Rightarrow> None
          | Some (d, u) \<Rightarrow> map_option (\<lambda>(x, r). (d @ x, r)) (json_string k u)))"

section \<open>Numbers\<close>

definition json_digits :: "string \<Rightarrow> (string \<times> string) option" where
  "json_digits s = (let ds = takeWhile is_digit s in
     if ds = [] then None else Some (ds, dropWhile is_digit s))"

definition json_int :: "string \<Rightarrow> (string \<times> string) option" where
  "json_int s = (case s of
      [] \<Rightarrow> None
    | c # t \<Rightarrow> if c = CHR ''0'' then Some ([c], t) else json_digits s)"

definition json_frac :: "string \<Rightarrow> (string \<times> string) option" where
  "json_frac s = (case s of
      c # t \<Rightarrow> if c = CHR ''.'' then map_option (\<lambda>(d, r). (c # d, r)) (json_digits t) else Some ([], s)
    | [] \<Rightarrow> Some ([], []))"

definition json_exp :: "string \<Rightarrow> (string \<times> string) option" where
  "json_exp s = (case s of
      c # t \<Rightarrow>
        if c \<in> {CHR ''e'', CHR ''E''} then
          (case t of
             x # u \<Rightarrow> if x \<in> {CHR ''+'', CHR ''-''}
                      then map_option (\<lambda>(d, r). (c # x # d, r)) (json_digits u)
                      else map_option (\<lambda>(d, r). (c # d, r)) (json_digits t)
           | [] \<Rightarrow> None)
        else Some ([], s)
    | [] \<Rightarrow> Some ([], []))"

definition json_number :: "string \<Rightarrow> (string \<times> string) option" where
  "json_number s =
     (let (sg, t) = (case s of c # t \<Rightarrow> if c = CHR ''-'' then ([c], t) else ([], s) | [] \<Rightarrow> ([], []))
      in (case json_int t of None \<Rightarrow> None | Some (i, u) \<Rightarrow>
         (case json_frac u of None \<Rightarrow> None | Some (f, v) \<Rightarrow>
         (case json_exp v of None \<Rightarrow> None | Some (e, r) \<Rightarrow> Some (sg @ i @ f @ e, r)))))"

section \<open>Values\<close>

definition max_depth :: nat where
  "max_depth = 10000"

definition json_literal :: "string \<Rightarrow> json \<Rightarrow> string \<Rightarrow> (json \<times> string) option" where
  "json_literal lit j s = (if prefix lit s then Some (j, drop (length lit) s) else None)"

fun json_value :: "nat \<Rightarrow> nat \<Rightarrow> string \<Rightarrow> (json \<times> string) option"
  and json_members :: "nat \<Rightarrow> nat \<Rightarrow> string \<Rightarrow> ((string \<times> json) list \<times> string) option"
  and json_elements :: "nat \<Rightarrow> nat \<Rightarrow> string \<Rightarrow> (json list \<times> string) option" where
  "json_value 0 d s = None"
| "json_value (Suc k) d s =
     (case skip_ws s of
        [] \<Rightarrow> None
      | c # t \<Rightarrow>
        if c = CHR ''{'' then
          if max_depth \<le> d then None
          else (case skip_ws t of
              [] \<Rightarrow> None
            | x # u \<Rightarrow> if x = CHR ''}'' then Some (JObj [], u)
                       else map_option (\<lambda>(ms, r). (JObj ms, r)) (json_members k (Suc d) (x # u)))
        else if c = CHR ''['' then
          if max_depth \<le> d then None
          else (case skip_ws t of
              [] \<Rightarrow> None
            | x # u \<Rightarrow> if x = CHR '']'' then Some (JArr [], u)
                       else map_option (\<lambda>(vs, r). (JArr vs, r)) (json_elements k (Suc d) (x # u)))
        else if c = CHR 0x22 then map_option (\<lambda>(x, r). (JStr x, r)) (json_string (Suc (length t)) t)
        else if c = CHR ''n'' then json_literal ''null'' JNull (c # t)
        else if c = CHR ''t'' then json_literal ''true'' (JBool True) (c # t)
        else if c = CHR ''f'' then json_literal ''false'' (JBool False) (c # t)
        else map_option (\<lambda>(x, r). (JNum x, r)) (json_number (c # t)))"
| "json_members 0 d s = None"
| "json_members (Suc k) d s =
     (case skip_ws s of
        [] \<Rightarrow> None
      | c # t \<Rightarrow>
        if c \<noteq> CHR 0x22 then None
        else (case json_string (Suc (length t)) t of None \<Rightarrow> None | Some (key, u) \<Rightarrow>
          (case skip_ws u of
             [] \<Rightarrow> None
           | x # v \<Rightarrow>
             if x \<noteq> CHR '':'' then None
             else (case json_value k d v of None \<Rightarrow> None | Some (j, y) \<Rightarrow>
               (case skip_ws y of
                  [] \<Rightarrow> None
                | z # r \<Rightarrow>
                  if z = CHR ''}'' then Some ([(key, j)], r)
                  else if z = CHR '','' then
                    map_option (\<lambda>(ms, q). ((key, j) # ms, q)) (json_members k d r)
                  else None)))))"
| "json_elements 0 d s = None"
| "json_elements (Suc k) d s =
     (case json_value k d s of None \<Rightarrow> None | Some (j, y) \<Rightarrow>
        (case skip_ws y of
           [] \<Rightarrow> None
         | z # r \<Rightarrow>
           if z = CHR '']'' then Some ([j], r)
           else if z = CHR '','' then map_option (\<lambda>(vs, q). (j # vs, q)) (json_elements k d r)
           else None))"

definition parse_json :: "string \<Rightarrow> json option" where
  "parse_json s =
     (case json_value (2 * length s + 2) 0 s of
        None \<Rightarrow> None
      | Some (j, r) \<Rightarrow> if skip_ws r = [] then Some j else None)"

section \<open>The fuel is enough\<close>

lemma skip_ws_length: "length (skip_ws s) \<le> length s"
  by (simp add: skip_ws_def length_dropWhile_le)

lemma json_digits_length: "json_digits s = Some (x, r) \<Longrightarrow> length r \<le> length s"
  by (auto simp: json_digits_def Let_def length_dropWhile_le split: if_splits)

lemma json_number_length: "json_number s = Some (x, r) \<Longrightarrow> length r \<le> length s"
  by (auto simp: json_number_def json_int_def json_frac_def json_exp_def Let_def
    split: list.splits if_splits option.splits prod.splits dest!: json_digits_length)

lemma json_literal_length: "json_literal lit j s = Some (x, r) \<Longrightarrow> length r \<le> length s"
  by (auto simp: json_literal_def split: if_splits)


lemma hex4_length: "hex4 s = Some (r, t) \<Longrightarrow> length t < length s"
  by (cases s rule: hex4.cases) (auto split: option.splits)

lemma json_char_length: "json_char s = Some (d, u) \<Longrightarrow> length u < length s"
  by (auto simp: json_char_def split: list.splits if_splits option.splits prod.splits bool.splits
    dest!: hex4_length)

lemma json_string_length: "json_string k s = Some (x, r) \<Longrightarrow> length r < length s"
  by (induction k arbitrary: s x r)
    (auto split: list.splits if_splits option.splits dest!: json_char_length, fastforce)


lemma skip_ws_Cons: "skip_ws s = c # t \<Longrightarrow> length t < length s"
  using skip_ws_length [of s] by simp

lemma json_rest_length:
  "(\<forall>d s j r. json_value k d s = Some (j, r) \<longrightarrow> length r \<le> length s) \<and>
   (\<forall>d s ms r. json_members k d s = Some (ms, r) \<longrightarrow> length r \<le> length s) \<and>
   (\<forall>d s vs r. json_elements k d s = Some (vs, r) \<longrightarrow> length r \<le> length s)"
proof (induction k)
  case (Suc k)
  have v: "json_value k d s = Some (j, r) \<Longrightarrow> length r \<le> length s"
    and m: "json_members k d s = Some (ms, r) \<Longrightarrow> length r \<le> length s"
    and e: "json_elements k d s = Some (vs, r) \<Longrightarrow> length r \<le> length s" for d s j r ms vs
    using Suc.IH by blast+
  note lengths = json_string_length json_literal_length json_number_length skip_ws_Cons
  show ?case
  proof (intro conjI allI impI)
    show "length r \<le> length s" if "json_value (Suc k) d s = Some (j, r)" for d s j r
      using that
      by (auto split: list.splits if_splits dest!: lengths m e simp del: json_string.simps)
    show "length r \<le> length s" if "json_members (Suc k) d s = Some (ms, r)" for d s ms r
      using that
      by (auto split: list.splits if_splits option.splits dest!: lengths v m simp del: json_string.simps)
    show "length r \<le> length s" if "json_elements (Suc k) d s = Some (vs, r)" for d s vs r
      using that
      by (auto split: list.splits if_splits option.splits dest!: lengths v e simp del: json_string.simps)
  qed
qed simp


text \<open>More fuel than \<open>parse_json\<close> supplies never changes the result.\<close>

lemma json_more_fuel:
  "(\<forall>d s. 2 * length s + 1 \<le> k \<longrightarrow> json_value (Suc k) d s = json_value k d s) \<and>
   (\<forall>d s. 2 * length s + 2 \<le> k \<longrightarrow> json_members (Suc k) d s = json_members k d s) \<and>
   (\<forall>d s. 2 * length s + 2 \<le> k \<longrightarrow> json_elements (Suc k) d s = json_elements k d s)"
proof (induction k)
  case (Suc k)
  have v: "json_value (Suc k) d s = json_value k d s" if "2 * length s + 1 \<le> k" for d s
    using Suc.IH that by blast
  have m: "json_members (Suc k) d s = json_members k d s" if "2 * length s + 2 \<le> k" for d s
    using Suc.IH that by blast
  have e: "json_elements (Suc k) d s = json_elements k d s" if "2 * length s + 2 \<le> k" for d s
    using Suc.IH that by blast
  have len: "length r \<le> length s" if "json_value k d s = Some (j, r)" for d s j r
    using json_rest_length that by blast
  show ?case
  proof (intro conjI allI impI)
    fix d s
    show "json_value (Suc (Suc k)) d s = json_value (Suc k) d s" if fuel: "2 * length s + 1 \<le> Suc k"
    proof (cases "skip_ws s")
      case (Cons c t)
      have "2 * length (x # u) + 2 \<le> k" if "skip_ws t = x # u" for x u
        using that skip_ws_Cons [OF Cons] skip_ws_Cons [of t x u] fuel by simp
      then have "json_members (Suc k) d' (x # u) = json_members k d' (x # u)"
        "json_elements (Suc k) d' (x # u) = json_elements k d' (x # u)" if "skip_ws t = x # u" for d' x u
        using that m e by blast+
      then show ?thesis
        unfolding json_value.simps(2) [of "Suc k" d s] json_value.simps(2) [of k d s] Cons
        by (cases "skip_ws t") (simp_all only: list.case cong: if_cong)
    qed (simp only: json_value.simps(2) list.case)
    show "json_elements (Suc (Suc k)) d s = json_elements (Suc k) d s" if fuel: "2 * length s + 2 \<le> Suc k"
    proof -
      have val: "json_value (Suc k) d s = json_value k d s" using fuel by (intro v) simp
      have "json_elements (Suc k) d r = json_elements k d r"
        if "json_value k d s = Some (j, y)" and "skip_ws y = z # r" for j y z r
        using len [OF that(1)] skip_ws_Cons [OF that(2)] fuel by (intro e) simp
      then show ?thesis
        unfolding json_elements.simps(2) [of "Suc k" d s] json_elements.simps(2) [of k d s] val
        by (auto split: option.split prod.split list.split
            simp del: json_value.simps json_members.simps json_elements.simps)
    qed
    show "json_members (Suc (Suc k)) d s = json_members (Suc k) d s" if fuel: "2 * length s + 2 \<le> Suc k"
    proof (cases "skip_ws s")
      case (Cons c t)
      have val: "json_value (Suc k) d w = json_value k d w"
        if "json_string (Suc (length t)) t = Some (key, u)" "skip_ws u = x # w" for key u x w
        using json_string_length [OF that(1)] skip_ws_Cons [OF that(2)] skip_ws_Cons [OF Cons] fuel
        by (intro v) simp
      have "json_members (Suc k) d r = json_members k d r"
        if "json_string (Suc (length t)) t = Some (key, u)" "skip_ws u = x # w"
          "json_value k d w = Some (j, y)" "skip_ws y = z # r" for key u x w j y z r
        using json_string_length [OF that(1)] skip_ws_Cons [OF that(2)] len [OF that(3)]
          skip_ws_Cons [OF that(4)] skip_ws_Cons [OF Cons] fuel
        by (intro m) simp
      with val show ?thesis
        unfolding json_members.simps(2) [of "Suc k" d s] json_members.simps(2) [of k d s] Cons
        by (auto split: option.split prod.split list.split
            simp del: json_value.simps json_members.simps json_elements.simps json_string.simps)
    qed (simp only: json_members.simps(2) list.case)
  qed
qed simp

lemma json_fuel_enough: "json_value (2 * length s + 2 + k) d s = json_value (2 * length s + 2) d s"
proof (induction k)
  case (Suc k)
  have "json_value (Suc (2 * length s + 2 + k)) d s = json_value (2 * length s + 2 + k) d s"
    using json_more_fuel [of "2 * length s + 2 + k"] by simp
  with Suc show ?case by simp
qed simp

end
