(* ===== verification/Data_Info.thy ===== *)
theory Data_Info
  imports Go_Json Api_Types
begin

text \<open>
  The \<open>data_info\<close> column of \<open>SHOW REPLICAS\<close> (\<open>internal/memgraph/client.go\<close>): types, the
  quoting of bare keys, decoding, and the replica-level summary. A Go map is an association
  list with distinct keys; its order stands for the iteration order Go leaves open, and
  the summary is shown not to depend on it.
\<close>

definition ReplicaStatusReady :: string where [go_consts]: "ReplicaStatusReady = ''ready''"
definition ReplicaStatusReplicating :: string where
  [go_consts]: "ReplicaStatusReplicating = ''replicating''"
definition ReplicaStatusRecovery :: string where [go_consts]: "ReplicaStatusRecovery = ''recovery''"
definition ReplicaStatusInvalid :: string where [go_consts]: "ReplicaStatusInvalid = ''invalid''"

record ReplicaDBInfo =
  Behind :: int
  DBStatus :: string
  Timestamp :: int

type_synonym data_info = "(string \<times> ReplicaDBInfo) list"

record ReplicaInfo =
  RName :: string
  SocketAddress :: string
  RHost :: string
  RPort :: int
  SyncMode :: string
  DataInfo :: data_info
  RBehind :: int
  RStatus :: string
  RTimestamp :: int

definition IsHealthy :: "ReplicaInfo \<Rightarrow> bool" where
  "IsHealthy r \<longleftrightarrow> RStatus r = ReplicaStatusReady \<or> RStatus r = ReplicaStatusReplicating"

definition DataInfoPresent :: "ReplicaInfo \<Rightarrow> bool" where
  "DataInfoPresent r \<longleftrightarrow> 0 < length (DataInfo r)"

section \<open>Quoting bare keys\<close>

text \<open>
  \<open>ReplaceAllString\<close> with the pattern \<open>([{,]\s*)([A-Za-z_][A-Za-z0-9_-]*)\s*:\<close>. The classes
  that follow one another are disjoint, so the greedy match is the only one; matching
  resumes after a match and one byte further on a failure.
\<close>

definition re_space :: "char \<Rightarrow> bool" where
  "re_space c \<longleftrightarrow> c \<in> {CHR '' '', CHR 0x09, CHR 0x0A, CHR 0x0C, CHR 0x0D}"

definition is_letter :: "char \<Rightarrow> bool" where
  "is_letter c = (let n = of_char c :: int in 65 \<le> n \<and> n \<le> 90 \<or> 97 \<le> n \<and> n \<le> 122)"

definition key_start :: "char \<Rightarrow> bool" where
  "key_start c \<longleftrightarrow> is_letter c \<or> c = CHR ''_''"

definition key_char :: "char \<Rightarrow> bool" where
  "key_char c \<longleftrightarrow> key_start c \<or> is_digit c \<or> c = CHR ''-''"

text \<open>The match after a brace or comma: white space, key, and what follows the colon.\<close>

definition match_bare :: "string \<Rightarrow> (string \<times> string \<times> string) option" where
  "match_bare s =
     (let ws = takeWhile re_space s; t = dropWhile re_space s in
      (case t of
         [] \<Rightarrow> None
       | c # cs \<Rightarrow>
         if \<not> key_start c then None
         else (case dropWhile re_space (dropWhile key_char cs) of
             [] \<Rightarrow> None
           | x # rest \<Rightarrow> if x = CHR '':'' then Some (ws, c # takeWhile key_char cs, rest) else None)))"

lemma match_bare_length: "match_bare s = Some (ws, key, rest) \<Longrightarrow> length rest < length s"
proof -
  assume a: "match_bare s = Some (ws, key, rest)"
  then obtain c cs x where t: "dropWhile re_space s = c # cs"
    and x: "dropWhile re_space (dropWhile key_char cs) = x # rest"
    by (auto simp: match_bare_def Let_def split: list.splits if_splits)
  have "length (x # rest) \<le> length cs"
    unfolding x [symmetric] by (meson le_trans length_dropWhile_le)
  moreover have "length (c # cs) \<le> length s"
    unfolding t [symmetric] by (rule length_dropWhile_le)
  ultimately show ?thesis by simp
qed

function quote_bare_keys :: "string \<Rightarrow> string" where
  "quote_bare_keys s =
     (case s of
        [] \<Rightarrow> []
      | c # t \<Rightarrow>
        if c = CHR ''{'' \<or> c = CHR '','' then
          (case match_bare t of
             Some (ws, key, rest) \<Rightarrow>
               c # ws @ CHR 0x22 # key @ [CHR 0x22, CHR '':''] @ quote_bare_keys rest
           | None \<Rightarrow> c # quote_bare_keys t)
        else c # quote_bare_keys t)"
  by pat_completeness auto
termination
  by (relation "measure length") (auto dest: match_bare_length)

declare quote_bare_keys.simps [simp del]

lemma quote_Nil [simp]: "quote_bare_keys [] = []"
  by (simp add: quote_bare_keys.simps)

lemma quote_other:
  "c \<noteq> CHR ''{'' \<Longrightarrow> c \<noteq> CHR '','' \<Longrightarrow> quote_bare_keys (c # t) = c # quote_bare_keys t"
  by (simp add: quote_bare_keys.simps [of "c # t"])

lemma quote_match:
  "c = CHR ''{'' \<or> c = CHR '','' \<Longrightarrow> match_bare t = Some (ws, key, rest) \<Longrightarrow>
   quote_bare_keys (c # t) = c # ws @ CHR 0x22 # key @ [CHR 0x22, CHR '':''] @ quote_bare_keys rest"
  by (subst quote_bare_keys.simps) auto

lemma quote_no_match:
  "match_bare t = None \<Longrightarrow> quote_bare_keys (c # t) = c # quote_bare_keys t"
  by (subst quote_bare_keys.simps) auto

section \<open>Decoding into the map\<close>

definition zero_db :: ReplicaDBInfo where
  "zero_db = \<lparr>Behind = 0, DBStatus = [], Timestamp = 0\<rparr>"

text \<open>
  Storing a JSON value into a field. \<open>null\<close> leaves the field; a value of the wrong kind, or a
  number that is not an \<open>int64\<close>, is a decoding error (\<open>None\<close>), after which the caller drops
  everything. Field names match up to case and unknown ones are skipped.
\<close>

definition store_int :: "json \<Rightarrow> int \<Rightarrow> int option" where
  "store_int j old = (case j of
      JNull \<Rightarrow> Some old
    | JNum l \<Rightarrow> (case ParseInt l of (n, None) \<Rightarrow> Some n | _ \<Rightarrow> None)
    | _ \<Rightarrow> None)"

definition store_string :: "json \<Rightarrow> string \<Rightarrow> string option" where
  "store_string j old = (case j of JNull \<Rightarrow> Some old | JStr x \<Rightarrow> Some x | _ \<Rightarrow> None)"

definition store_field :: "string \<Rightarrow> json \<Rightarrow> ReplicaDBInfo \<Rightarrow> ReplicaDBInfo option" where
  "store_field key j db =
     (if EqualFold key ''behind'' then map_option (\<lambda>n. db\<lparr>Behind := n\<rparr>) (store_int j (Behind db))
      else if EqualFold key ''status'' then
        map_option (\<lambda>x. db\<lparr>DBStatus := x\<rparr>) (store_string j (DBStatus db))
      else if EqualFold key ''ts'' then
        map_option (\<lambda>n. db\<lparr>Timestamp := n\<rparr>) (store_int j (Timestamp db))
      else Some db)"

fun store_fields :: "(string \<times> json) list \<Rightarrow> ReplicaDBInfo \<Rightarrow> ReplicaDBInfo option" where
  "store_fields [] db = Some db"
| "store_fields ((key, j) # ms) db =
     (case store_field key j db of None \<Rightarrow> None | Some db' \<Rightarrow> store_fields ms db')"

definition decode_db :: "json \<Rightarrow> ReplicaDBInfo option" where
  "decode_db j = (case j of JNull \<Rightarrow> Some zero_db | JObj ms \<Rightarrow> store_fields ms zero_db | _ \<Rightarrow> None)"

text \<open>Assignment to a map key.\<close>

fun map_put :: "'k \<Rightarrow> 'v \<Rightarrow> ('k \<times> 'v) list \<Rightarrow> ('k \<times> 'v) list" where
  "map_put k v [] = [(k, v)]"
| "map_put k v ((k', v') # m) = (if k = k' then (k, v) # m else (k', v') # map_put k v m)"

fun decode_members :: "(string \<times> json) list \<Rightarrow> data_info \<Rightarrow> data_info option" where
  "decode_members [] m = Some m"
| "decode_members ((key, j) # ms) m =
     (case decode_db j of None \<Rightarrow> None | Some db \<Rightarrow> decode_members ms (map_put key db m))"

definition decode_data_info :: "json \<Rightarrow> data_info option" where
  "decode_data_info j =
     (case j of JNull \<Rightarrow> Some [] | JObj ms \<Rightarrow> decode_members ms [] | _ \<Rightarrow> None)"

definition parseDataInfo :: "string \<Rightarrow> data_info" where
  "parseDataInfo input =
     (let raw = TrimQuotes (TrimSpace input) in
      if raw = [] \<or> raw = ''{}'' \<or> EqualFold raw ''null'' then []
      else (case parse_json (quote_bare_keys raw) of
              None \<Rightarrow> []
            | Some j \<Rightarrow> (case decode_data_info j of None \<Rightarrow> [] | Some m \<Rightarrow> m)))"

lemma map_put_keys: "fst ` set (map_put k v m) = insert k (fst ` set m)"
proof (induction m)
  case (Cons p m)
  then show ?case by (cases p) auto
qed simp

lemma map_put_distinct: "distinct (map fst m) \<Longrightarrow> distinct (map fst (map_put k v m))"
  by (induction m) (auto simp: map_put_keys)

lemma map_put_map_of: "map_of (map_put k v m) = (map_of m)(k \<mapsto> v)"
  by (induction m) auto

lemma map_put_append: "k \<notin> fst ` set m \<Longrightarrow> map_put k v m = m @ [(k, v)]"
  by (induction m) auto

lemma decode_members_distinct:
  "decode_members ms m = Some m' \<Longrightarrow> distinct (map fst m) \<Longrightarrow> distinct (map fst m')"
proof (induction ms m rule: decode_members.induct)
  case (2 key j ms m)
  from "2.prems"(1) obtain db where db: "decode_db j = Some db"
    and rest: "decode_members ms (map_put key db m) = Some m'"
    by (auto split: option.splits)
  show ?case by (rule "2.IH" [OF db rest map_put_distinct [OF "2.prems"(2)]])
qed simp

text \<open>The parsed value is a map: no database is listed twice.\<close>

lemma parseDataInfo_distinct: "distinct (map fst (parseDataInfo s))"
  by (auto simp: parseDataInfo_def decode_data_info_def Let_def
      split: option.splits json.splits dest: decode_members_distinct)

section \<open>Summary of a replica\<close>

definition statusRank :: "string \<Rightarrow> int option" where
  "statusRank st = map_of [(ReplicaStatusReady, 0), (ReplicaStatusReplicating, 1),
     (ReplicaStatusRecovery, 2), (ReplicaStatusInvalid, 3)] st"

text \<open>Reading the Go map: a missing key reads as 0.\<close>

definition rank_of :: "string \<Rightarrow> int" where
  "rank_of st = (case statusRank st of None \<Rightarrow> 0 | Some r \<Rightarrow> r)"

fun summarize_loop ::
  "ReplicaDBInfo list \<Rightarrow> bool \<Rightarrow> int \<Rightarrow> string \<Rightarrow> int \<Rightarrow> int \<times> string \<times> int" where
  "summarize_loop [] first behind status timestamp = (behind, status, timestamp)"
| "summarize_loop (db # dbs) first behind status timestamp =
     (let behind' = (if first \<or> behind < Behind db then Behind db else behind);
          timestamp' = (if timestamp < Timestamp db then Timestamp db else timestamp);
          s0 = ToLower (TrimQuotes (DBStatus db));
          (dbStatus, rank) = (case statusRank s0 of
              None \<Rightarrow> (ReplicaStatusInvalid, rank_of ReplicaStatusInvalid)
            | Some r \<Rightarrow> (s0, r));
          status' = (if rank_of status < rank then dbStatus else status)
      in summarize_loop dbs False behind' status' timestamp')"

definition summarizeDataInfo :: "data_info \<Rightarrow> int \<times> string \<times> int" where
  "summarizeDataInfo m =
     (if length m = 0 then (0, ReplicaStatusInvalid, 0)
      else summarize_loop (map snd m) True 0 ReplicaStatusReady 0)"

section \<open>What the summary computes\<close>

text \<open>
  Ranks are looked up with unknown statuses ranked as invalid. The loop is a maximum in each
  of its three accumulators, so the result does not depend on the order of the map.
\<close>

definition db_rank :: "ReplicaDBInfo \<Rightarrow> int" where
  "db_rank db = (case statusRank (ToLower (TrimQuotes (DBStatus db))) of
      None \<Rightarrow> rank_of ReplicaStatusInvalid | Some r \<Rightarrow> r)"

definition status_of_rank :: "int \<Rightarrow> string" where
  "status_of_rank r = (if r = 0 then ReplicaStatusReady else if r = 1 then ReplicaStatusReplicating
     else if r = 2 then ReplicaStatusRecovery else ReplicaStatusInvalid)"

lemma statusRank_Some: "statusRank s = Some r \<Longrightarrow> s = status_of_rank r \<and> 0 \<le> r \<and> r \<le> 3"
  by (auto simp: statusRank_def status_of_rank_def go_consts split: if_splits)

lemma rank_of_simps:
  "rank_of ReplicaStatusReady = 0" "rank_of ReplicaStatusInvalid = 3" "rank_of ReplicaStatusRecovery = 2"
  "rank_of ReplicaStatusReplicating = 1"
  by (simp_all add: rank_of_def statusRank_def go_consts)

lemma rank_of_status: "0 \<le> r \<Longrightarrow> r \<le> 3 \<Longrightarrow> rank_of (status_of_rank r) = r"
  by (auto simp: status_of_rank_def rank_of_simps)

lemma db_rank_range: "0 \<le> db_rank db \<and> db_rank db \<le> 3"
  by (auto simp: db_rank_def rank_of_simps dest: statusRank_Some split: option.splits)

lemma summarize_loop_step:
  assumes "0 \<le> r" "r \<le> 3"
  shows "summarize_loop (db # dbs) first b (status_of_rank r) ts =
     summarize_loop dbs False (if first then Behind db else max b (Behind db))
       (status_of_rank (max r (db_rank db))) (max ts (Timestamp db))"
proof (cases "statusRank (ToLower (TrimQuotes (DBStatus db)))")
  case None
  then have "db_rank db = 3" by (simp add: db_rank_def rank_of_simps)
  moreover have "status_of_rank 3 = ReplicaStatusInvalid" by (simp add: status_of_rank_def)
  ultimately show ?thesis using assms None
    by (auto simp: Let_def rank_of_status rank_of_simps max_def)
next
  case (Some x)
  then have "db_rank db = x" by (simp add: db_rank_def)
  moreover have "ToLower (TrimQuotes (DBStatus db)) = status_of_rank x"
    using statusRank_Some [OF Some] by blast
  ultimately show ?thesis using assms Some
    by (auto simp: Let_def rank_of_status max_def)
qed

lemma summarize_loop_max:
  assumes "0 \<le> r" "r \<le> 3"
  shows "summarize_loop dbs False b (status_of_rank r) ts =
     (Max (insert b (Behind ` set dbs)),
      status_of_rank (Max (insert r (db_rank ` set dbs))),
      Max (insert ts (Timestamp ` set dbs)))"
  using assms
proof (induction dbs arbitrary: b r ts)
  case (Cons db dbs)
  have ins: "Max (insert (max x y) A) = Max (insert x (insert y A))" if "finite A" for x y :: int and A
    using that by (cases "A = {}") (auto simp: max.assoc)
  have "0 \<le> max r (db_rank db)" "max r (db_rank db) \<le> 3"
    using Cons.prems db_rank_range [of db] by auto
  with Cons show ?case
    by (simp only: summarize_loop_step Cons.IH) (simp add: ins)
qed simp

lemma summarizeDataInfo_max:
  assumes "m \<noteq> []"
  shows "summarizeDataInfo m =
    (let dbs = snd ` set m in
      (Max (Behind ` dbs), status_of_rank (Max (db_rank ` dbs)), max 0 (Max (Timestamp ` dbs))))"
proof -
  obtain db dbs where m: "map snd m = db # dbs" using assms by (cases m) auto
  then have s: "snd ` set m = insert db (set dbs)" by (metis list.set_map list.simps(15))
  have z: "ReplicaStatusReady = status_of_rank 0" by (simp add: status_of_rank_def)
  have d: "max 0 (db_rank db) = db_rank db" using db_rank_range [of db] by simp
  have "summarizeDataInfo m =
     summarize_loop dbs False (Behind db) (status_of_rank (db_rank db)) (max 0 (Timestamp db))"
    using assms by (simp add: summarizeDataInfo_def m z summarize_loop_step d del: summarize_loop.simps)
  also have "\<dots> = (Max (insert (Behind db) (Behind ` set dbs)),
      status_of_rank (Max (insert (db_rank db) (db_rank ` set dbs))),
      Max (insert (max 0 (Timestamp db)) (Timestamp ` set dbs)))"
    using db_rank_range [of db] by (simp add: summarize_loop_max)
  also have "Max (insert (max 0 (Timestamp db)) (Timestamp ` set dbs)) =
      max 0 (Max (Timestamp ` insert db (set dbs)))"
    by (cases "dbs = []") (auto simp: max.assoc)
  finally show ?thesis by (simp add: s Let_def)
qed

section \<open>Printed form and round trip\<close>

text \<open>
  The literal Memgraph prints for a map of databases (the format quoted in the comments of
  \<open>client.go\<close>), for database names that are bare keys and alphabetic statuses.
\<close>

definition bare_key :: "string \<Rightarrow> bool" where
  "bare_key s \<longleftrightarrow> (case s of [] \<Rightarrow> False | c # cs \<Rightarrow> key_start c \<and> list_all key_char cs)"

definition db_literal :: "string \<times> ReplicaDBInfo \<Rightarrow> string" where
  "db_literal p = fst p @ '': {behind: '' @ Itoa (Behind (snd p)) @ '', status: '' @
     [CHR 0x22] @ DBStatus (snd p) @ [CHR 0x22] @ '', ts: '' @ Itoa (Timestamp (snd p)) @ ''}''"

fun dbs_literal :: "data_info \<Rightarrow> string" where
  "dbs_literal [] = []"
| "dbs_literal [p] = db_literal p @ ''}''"
| "dbs_literal (p # m) = db_literal p @ '', '' @ dbs_literal m"

definition map_literal :: "data_info \<Rightarrow> string" where
  "map_literal m = CHR ''{'' # dbs_literal m"

definition printable_info :: "data_info \<Rightarrow> bool" where
  "printable_info m \<longleftrightarrow> distinct (map fst m) \<and>
     list_all (\<lambda>(k, db). bare_key k \<and> list_all is_letter (DBStatus db) \<and>
       is_int64 (Behind db) \<and> is_int64 (Timestamp db)) m"

lemma quote_plain:
  "CHR ''{'' \<notin> set p \<Longrightarrow> CHR '','' \<notin> set p \<Longrightarrow> quote_bare_keys (p @ t) = p @ quote_bare_keys t"
  by (induction p) (auto simp: quote_other)

lemma key_not_space: "key_char c \<Longrightarrow> \<not> re_space c"
  by (auto simp: key_char_def key_start_def is_letter_def is_digit_def re_space_def)

lemma key_not_colon: "key_char c \<Longrightarrow> c \<noteq> CHR '':''"
  by (auto simp: key_char_def key_start_def is_letter_def is_digit_def)

lemma match_bare_key:
  assumes "bare_key key" and "ws \<in> {[], '' ''}"
  shows "match_bare (ws @ key @ CHR '':'' # t) = Some (ws, key, t)"
proof -
  obtain c cs where k: "key = c # cs" "key_start c" "list_all key_char cs"
    using assms(1) by (auto simp: bare_key_def split: list.splits)
  then have c: "key_char c" by (simp add: key_char_def)
  have nc: "\<not> key_char (CHR '':'')" and ns: "\<not> re_space (CHR '':'')"
    using key_not_colon by (auto simp: re_space_def)
  have sp: "re_space CHR '' ''" by (simp add: re_space_def)
  have "takeWhile re_space (ws @ key @ CHR '':'' # t) = ws"
    and "dropWhile re_space (ws @ key @ CHR '':'' # t) = key @ CHR '':'' # t"
    using assms(2) k c sp by (auto simp: key_not_space)
  moreover have "takeWhile key_char (cs @ CHR '':'' # t) = cs"
    and "dropWhile key_char (cs @ CHR '':'' # t) = CHR '':'' # t"
    using k(3) nc by (simp_all add: list_all_iff takeWhile_append dropWhile_append)
  ultimately show ?thesis using k ns by (simp add: match_bare_def Let_def)
qed

lemma quote_key:
  "bare_key key \<Longrightarrow> ws \<in> {[], '' ''} \<Longrightarrow> c = CHR ''{'' \<or> c = CHR '','' \<Longrightarrow>
   quote_bare_keys (c # ws @ key @ CHR '':'' # t) =
     c # ws @ CHR 0x22 # key @ [CHR 0x22, CHR '':''] @ quote_bare_keys t"
  using quote_match [OF _ match_bare_key] by blast

definition db_json :: "string \<times> ReplicaDBInfo \<Rightarrow> string" where
  "db_json p = CHR 0x22 # fst p @ [CHR 0x22] @ '': {'' @ [CHR 0x22] @ ''behind'' @ [CHR 0x22] @ '': '' @
     Itoa (Behind (snd p)) @ '', '' @ [CHR 0x22] @ ''status'' @ [CHR 0x22] @ '': '' @
     [CHR 0x22] @ DBStatus (snd p) @ [CHR 0x22] @ '', '' @ [CHR 0x22] @ ''ts'' @ [CHR 0x22] @ '': '' @
     Itoa (Timestamp (snd p)) @ ''}''"

fun dbs_json :: "data_info \<Rightarrow> string" where
  "dbs_json [] = []"
| "dbs_json [p] = db_json p @ ''}''"
| "dbs_json (p # m) = db_json p @ '', '' @ dbs_json m"

lemma Itoa_chars: "c \<in> set (Itoa n) \<Longrightarrow> is_digit c \<or> c = CHR ''-''"
  by (auto simp: Itoa_def split: if_splits dest!: show_pos_digits [rotated])

lemma Itoa_plain: "CHR ''{'' \<notin> set (Itoa n)" "CHR '','' \<notin> set (Itoa n)"
  by (auto dest!: Itoa_chars simp: is_digit_def)

lemma status_plain: "list_all is_letter s \<Longrightarrow> CHR ''{'' \<notin> set s \<and> CHR '','' \<notin> set s"
  by (auto simp: list_all_iff is_letter_def)

lemma quote_Itoa: "quote_bare_keys (Itoa n @ t) = Itoa n @ quote_bare_keys t"
  by (rule quote_plain) (simp_all add: Itoa_plain)

lemma quote_open:
  "quote_bare_keys (CHR ''{'' # t) = (case match_bare t of
     Some (ws, key, rest) \<Rightarrow>
       CHR ''{'' # ws @ CHR 0x22 # key @ [CHR 0x22, CHR '':''] @ quote_bare_keys rest
   | None \<Rightarrow> CHR ''{'' # quote_bare_keys t)"
  by (subst quote_bare_keys.simps) (simp split: option.split)

lemma quote_comma:
  "quote_bare_keys (CHR '','' # t) = (case match_bare t of
     Some (ws, key, rest) \<Rightarrow>
       CHR '','' # ws @ CHR 0x22 # key @ [CHR 0x22, CHR '':''] @ quote_bare_keys rest
   | None \<Rightarrow> CHR '','' # quote_bare_keys t)"
  by (subst quote_bare_keys.simps) (simp split: option.split)

lemmas quote_eval = quote_other quote_Itoa quote_open quote_comma match_bare_def re_space_def
  key_char_def key_start_def is_letter_def is_digit_def Let_def

lemma quote_db:
  assumes "bare_key (fst p)" and "list_all is_letter (DBStatus (snd p))"
    and "ws \<in> {[], '' ''}" and "c = CHR ''{'' \<or> c = CHR '',''"
  shows "quote_bare_keys (c # ws @ db_literal p @ t) = c # ws @ db_json p @ quote_bare_keys t"
proof -
  have st: "quote_bare_keys (DBStatus (snd p) @ u) = DBStatus (snd p) @ quote_bare_keys u" for u
    using status_plain [OF assms(2)] by (intro quote_plain) auto
  let ?body = "'' {behind: '' @ Itoa (Behind (snd p)) @ '', status: '' @
     [CHR 0x22] @ DBStatus (snd p) @ [CHR 0x22] @ '', ts: '' @ Itoa (Timestamp (snd p)) @ ''}'' @ t"
  have "c # ws @ db_literal p @ t = c # ws @ fst p @ CHR '':'' # ?body"
    by (simp add: db_literal_def)
  then have "quote_bare_keys (c # ws @ db_literal p @ t) =
      c # ws @ CHR 0x22 # fst p @ [CHR 0x22, CHR '':''] @ quote_bare_keys ?body"
    using quote_key [OF assms(1,3,4)] by metis
  then show ?thesis by (simp add: quote_eval st db_json_def)
qed

lemma quote_dbs:
  assumes "m \<noteq> []" and "ws \<in> {[], '' ''}" and "c = CHR ''{'' \<or> c = CHR '',''"
    and "list_all (\<lambda>(k, db). bare_key k \<and> list_all is_letter (DBStatus db)) m"
  shows "quote_bare_keys (c # ws @ dbs_literal m) = c # ws @ dbs_json m"
  using assms
proof (induction m arbitrary: c ws rule: dbs_literal.induct)
  case (2 p)
  then show ?case using quote_db [of p ws c "''}''"] by (auto simp: quote_other split: prod.splits)
next
  case (3 p q m)
  let ?m = "q # m"
  from 3 have "quote_bare_keys (c # ws @ db_literal p @ CHR '','' # '' '' @ dbs_literal ?m) =
      c # ws @ db_json p @ quote_bare_keys (CHR '','' # '' '' @ dbs_literal ?m)"
    by (intro quote_db) (auto split: prod.splits)
  also have "quote_bare_keys (CHR '','' # '' '' @ dbs_literal ?m) = CHR '','' # '' '' @ dbs_json ?m"
    using 3 by (intro "3.IH") auto
  finally show ?case by simp
qed simp

definition plain_char :: "char \<Rightarrow> bool" where
  "plain_char c \<longleftrightarrow> c \<noteq> CHR 0x22 \<and> c \<noteq> CHR 0x5C \<and> 32 \<le> (of_char c :: int)"

lemma json_string_plain:
  "list_all plain_char s \<Longrightarrow> length s < k \<Longrightarrow> json_string k (s @ CHR 0x22 # t) = Some (s, t)"
proof (induction s arbitrary: k)
  case Nil
  then show ?case by (cases k) auto
next
  case (Cons c s)
  then show ?case by (cases k) (auto simp: plain_char_def json_char_def)
qed

lemma letters_plain: "list_all is_letter s \<Longrightarrow> list_all plain_char s"
  by (auto simp: list_all_iff is_letter_def plain_char_def Let_def)

lemma key_plain: "bare_key s \<Longrightarrow> list_all plain_char s"
  by (auto simp: list_all_iff bare_key_def key_char_def key_start_def is_letter_def is_digit_def
      plain_char_def Let_def split: list.splits)

lemma show_pos_hd: "0 < n \<Longrightarrow> hd (show_pos n) \<noteq> CHR ''0''"
proof (induction n rule: show_pos.induct)
  case (1 n)
  show ?case
  proof (cases "n < 10")
    case True
    with "1.prems" have "(of_char (digit_char n) :: int) \<noteq> of_char (CHR ''0'')"
      by (simp add: of_char_digit_char)
    then show ?thesis using True by (subst show_pos.simps) auto
  next
    case False
    with "1" show ?thesis by (subst show_pos.simps) (simp add: show_pos_not_Nil hd_append)
  qed
qed

definition number_end :: "string \<Rightarrow> bool" where
  "number_end t \<longleftrightarrow> (case t of [] \<Rightarrow> True | c # _ \<Rightarrow>
     \<not> is_digit c \<and> c \<noteq> CHR ''.'' \<and> c \<noteq> CHR ''e'' \<and> c \<noteq> CHR ''E'')"

lemma digits_end: "list_all is_digit ds \<Longrightarrow> ds \<noteq> [] \<Longrightarrow> number_end t \<Longrightarrow>
    json_digits (ds @ t) = Some (ds, t)"
proof -
  assume a: "list_all is_digit ds" "ds \<noteq> []" "number_end t"
  then have "takeWhile is_digit (ds @ t) = ds" "dropWhile is_digit (ds @ t) = t"
    by (auto simp: list_all_iff takeWhile_append dropWhile_append number_end_def split: list.splits)
  with a(2) show ?thesis by (simp add: json_digits_def Let_def)
qed

lemma show_pos_all_digits: "0 \<le> n \<Longrightarrow> list_all is_digit (show_pos n)"
  by (auto simp: list_all_iff show_pos_digits)

lemma json_int_show_pos: "0 \<le> n \<Longrightarrow> number_end t \<Longrightarrow> json_int (show_pos n @ t) = Some (show_pos n, t)"
proof (cases "n = 0")
  case True
  assume "number_end t"
  have "char_of (48 :: int) = CHR ''0''" using char_of_char [of "CHR ''0''", where ?'a = int] by simp
  then have "show_pos 0 = ''0''" by (subst show_pos.simps) (simp add: digit_char_def)
  with True show ?thesis by (simp add: json_int_def)
next
  case False
  assume a: "0 \<le> n" "number_end t"
  obtain c cs where s: "show_pos n = c # cs" using show_pos_not_Nil by (cases "show_pos n") auto
  with False a(1) show_pos_hd [of n] have "c \<noteq> CHR ''0''" by simp
  then have "json_int (show_pos n @ t) = json_digits (show_pos n @ t)"
    by (simp add: json_int_def s)
  with a show ?thesis by (simp add: digits_end show_pos_all_digits show_pos_not_Nil)
qed

lemma json_number_tail: "number_end t \<Longrightarrow> json_frac t = Some ([], t) \<and> json_exp t = Some ([], t)"
  by (cases t) (auto simp: number_end_def json_frac_def json_exp_def)

lemma json_number_Itoa: "number_end t \<Longrightarrow> json_number (Itoa n @ t) = Some (Itoa n, t)"
proof (cases "n < 0")
  case True
  assume "number_end t"
  with True json_number_tail [of t] show ?thesis
    by (simp add: json_number_def Itoa_def json_int_show_pos)
next
  case False
  assume t: "number_end t"
  obtain c cs where s: "show_pos n = c # cs" using show_pos_not_Nil by (cases "show_pos n") auto
  then have "is_digit c" using show_pos_digits [of n c] False by simp
  then have "c \<noteq> CHR ''-''" by (auto simp: is_digit_def)
  with s False t json_number_tail [OF t] json_int_show_pos [of n t] show ?thesis
    by (simp add: json_number_def Itoa_def)
qed

lemma Itoa_hd: "\<exists>c cs. Itoa n = c # cs \<and> (is_digit c \<or> c = CHR ''-'')"
proof -
  have "Itoa n \<noteq> []" by (simp add: Itoa_def show_pos_not_Nil)
  then obtain c cs where "Itoa n = c # cs" by (cases "Itoa n") auto
  moreover have "is_digit c \<or> c = CHR ''-''" by (rule Itoa_chars [of c n]) (simp add: calculation)
  ultimately show ?thesis by blast
qed

lemma json_value_Itoa:
  assumes "number_end t"
  shows "json_value (Suc k) d (CHR '' '' # Itoa n @ t) = Some (JNum (Itoa n), t)"
proof -
  obtain c cs where c: "Itoa n = c # cs" "is_digit c \<or> c = CHR ''-''" using Itoa_hd by blast
  then have "\<not> json_space c" "c \<notin> {CHR ''{'', CHR ''['', CHR 0x22, CHR ''n'', CHR ''t'', CHR ''f''}"
    by (auto simp: json_space_def is_digit_def)
  moreover have "json_space (CHR '' '')" by (simp add: json_space_def)
  ultimately show ?thesis using c(1) json_number_Itoa [OF assms, of n]
    by (simp add: skip_ws_def)
qed

definition db_tree :: "ReplicaDBInfo \<Rightarrow> json" where
  "db_tree db = JObj [(''behind'', JNum (Itoa (Behind db))), (''status'', JStr (DBStatus db)),
     (''ts'', JNum (Itoa (Timestamp db)))]"

lemma decode_db_tree:
  "is_int64 (Behind db) \<Longrightarrow> is_int64 (Timestamp db) \<Longrightarrow> decode_db (db_tree db) = Some db"
  by (simp add: decode_db_def db_tree_def store_field_def EqualFold_def ToLower_def to_lower_char_def
      store_int_def store_string_def ParseInt_Itoa zero_db_def)

lemma json_value_open:
  "d < max_depth \<Longrightarrow> json_value (Suc k) d (CHR '' '' # CHR ''{'' # CHR 0x22 # t) =
     map_option (\<lambda>(ms, r). (JObj ms, r)) (json_members k (Suc d) (CHR 0x22 # t))"
  by (simp add: skip_ws_def json_space_def)

lemma json_value_letters:
  "list_all is_letter s \<Longrightarrow>
   json_value (Suc k) d (CHR '' '' # CHR 0x22 # s @ CHR 0x22 # t) = Some (JStr s, t)"
  using json_string_plain [of s "Suc (length (s @ CHR 0x22 # t))" t]
  by (simp add: skip_ws_def json_space_def letters_plain del: json_string.simps)

lemma db_value:
  assumes "list_all is_letter (DBStatus db)" and "d < max_depth"
  shows "json_value (Suc (Suc (Suc (Suc (Suc k))))) d
     ('' {'' @ [CHR 0x22] @ ''behind'' @ [CHR 0x22] @ '': '' @
     Itoa (Behind db) @ '', '' @ [CHR 0x22] @ ''status'' @ [CHR 0x22] @ '': '' @
     [CHR 0x22] @ DBStatus db @ [CHR 0x22] @ '', '' @ [CHR 0x22] @ ''ts'' @ [CHR 0x22] @ '': '' @
     Itoa (Timestamp db) @ ''}'' @ t) = Some (db_tree db, t)"
proof -
  have "number_end (CHR '','' # u)" "number_end (CHR ''}'' # u)" for u
    by (auto simp: number_end_def is_digit_def)
  note n = this [THEN json_value_Itoa]
  show ?thesis using assms
    by (simp add: skip_ws_def json_space_def json_char_def n db_tree_def json_value_open
        json_value_letters del: json_value.simps(2))
qed

lemma json_members_space:
  "json_members (Suc k) d (CHR '' '' # s) = json_members (Suc k) d s"
  by (simp add: skip_ws_def json_space_def)

lemma json_members_key:
  assumes "list_all plain_char key"
  shows "json_members (Suc k) d (CHR 0x22 # key @ CHR 0x22 # CHR '':'' # v) =
     (case json_value k d v of None \<Rightarrow> None | Some (j, y) \<Rightarrow>
       (case skip_ws y of
          [] \<Rightarrow> None
        | z # r \<Rightarrow>
          if z = CHR ''}'' then Some ([(key, j)], r)
          else if z = CHR '','' then
            map_option (\<lambda>(ms, q). ((key, j) # ms, q)) (json_members k d r)
          else None))"
proof -
  have "json_string (Suc (length (key @ CHR 0x22 # CHR '':'' # v))) (key @ CHR 0x22 # CHR '':'' # v) =
      Some (key, CHR '':'' # v)"
    by (rule json_string_plain [OF assms]) simp
  then show ?thesis
    by (simp add: skip_ws_def json_space_def del: json_string.simps)
qed

lemma db_members:
  assumes "bare_key (fst p)" and "list_all is_letter (DBStatus (snd p))" and "d < max_depth"
    and "z = CHR ''}'' \<or> z = CHR '',''"
  shows "json_members (Suc (Suc (Suc (Suc (Suc (Suc k)))))) d (db_json p @ z # r) =
     (if z = CHR ''}'' then Some ([(fst p, db_tree (snd p))], r)
      else map_option (\<lambda>(ms, q). ((fst p, db_tree (snd p)) # ms, q))
         (json_members (Suc (Suc (Suc (Suc (Suc k))))) d r))"
proof -
  have z: "\<not> json_space z" using assms(4) by (auto simp: json_space_def)
  have "db_json p @ z # r = CHR 0x22 # fst p @ CHR 0x22 # CHR '':'' #
     ('' {'' @ [CHR 0x22] @ ''behind'' @ [CHR 0x22] @ '': '' @
     Itoa (Behind (snd p)) @ '', '' @ [CHR 0x22] @ ''status'' @ [CHR 0x22] @ '': '' @
     [CHR 0x22] @ DBStatus (snd p) @ [CHR 0x22] @ '', '' @ [CHR 0x22] @ ''ts'' @ [CHR 0x22] @ '': '' @
     Itoa (Timestamp (snd p)) @ ''}'' @ z # r)"
    by (simp add: db_json_def)
  then show ?thesis
    using z assms(4)
    by (simp only: json_members_key [OF key_plain [OF assms(1)]] db_value [OF assms(2,3)])
       (auto simp: skip_ws_def)
qed

lemma fuel_split: "Suc n + 5 \<le> k \<Longrightarrow>
  \<exists>k'. k = Suc (Suc (Suc (Suc (Suc (Suc k'))))) \<and> n + 5 \<le> Suc (Suc (Suc (Suc (Suc k'))))"
  by (rule exI [of _ "k - 6"]) linarith

lemma dbs_members:
  assumes "m \<noteq> []" and "d < max_depth" and "length m + 5 \<le> k"
    and "list_all (\<lambda>(k, db). bare_key k \<and> list_all is_letter (DBStatus db)) m"
  shows "json_members k d (dbs_json m @ r) = Some (map (\<lambda>p. (fst p, db_tree (snd p))) m, r)"
  using assms
proof (induction m arbitrary: k rule: dbs_json.induct)
  case (2 p)
  then obtain k' where k: "k = Suc (Suc (Suc (Suc (Suc (Suc k')))))"
    using fuel_split [of 0 k] by auto
  with 2 db_members [of p d "CHR ''}''" k' r] show ?case
    by (auto simp del: json_members.simps split: prod.splits)
next
  case (3 p q m)
  let ?m = "q # m"
  from 3 obtain k' where k: "k = Suc (Suc (Suc (Suc (Suc (Suc k')))))"
    and le: "length ?m + 5 \<le> Suc (Suc (Suc (Suc (Suc k'))))"
    using fuel_split [of "length ?m" k] by auto
  have "json_members (Suc (Suc (Suc (Suc (Suc k'))))) d (dbs_json ?m @ r) =
      Some (map (\<lambda>p. (fst p, db_tree (snd p))) ?m, r)"
    using 3 le by (intro "3.IH") auto
  with 3 db_members [of p d "CHR '',''" k' "'' '' @ dbs_json ?m @ r"] show ?case
    by (auto simp: k json_members_space simp del: json_members.simps split: prod.splits)
qed simp

lemma dbs_json_length: "m \<noteq> [] \<Longrightarrow> length m + 10 \<le> length (dbs_json m)"
  by (induction m rule: dbs_json.induct) (auto simp: db_json_def)

lemma dbs_json_hd: "m \<noteq> [] \<Longrightarrow> \<exists>t. dbs_json m = CHR 0x22 # t"
  by (cases m rule: dbs_json.cases) (auto simp: db_json_def)

lemma parse_map_json:
  assumes "m \<noteq> []" and "list_all (\<lambda>(k, db). bare_key k \<and> list_all is_letter (DBStatus db)) m"
  shows "parse_json (CHR ''{'' # dbs_json m) = Some (JObj (map (\<lambda>p. (fst p, db_tree (snd p))) m))"
proof -
  obtain t where t: "dbs_json m = CHR 0x22 # t" using dbs_json_hd [OF assms(1)] by blast
  define k where "k = 2 * length (dbs_json m) + 3"
  have "json_members k 1 (dbs_json m) = Some (map (\<lambda>p. (fst p, db_tree (snd p))) m, [])"
    using dbs_members [of m 1 k "[]"] assms dbs_json_length [OF assms(1)]
    by (simp add: max_depth_def k_def)
  then have "json_value (Suc k) 0 (CHR ''{'' # dbs_json m) =
      Some (JObj (map (\<lambda>p. (fst p, db_tree (snd p))) m), [])"
    using t by (simp add: skip_ws_def json_space_def max_depth_def del: json_members.simps)
  moreover have "Suc k = 2 * length (CHR ''{'' # dbs_json m) + 2" by (simp add: k_def)
  ultimately show ?thesis
    by (simp add: parse_json_def skip_ws_def del: json_value.simps)
qed

lemma decode_members_trees:
  assumes "list_all (\<lambda>(k, db). is_int64 (Behind db) \<and> is_int64 (Timestamp db)) m"
    and "distinct (map fst (acc @ m))"
  shows "decode_members (map (\<lambda>p. (fst p, db_tree (snd p))) m) acc = Some (acc @ m)"
  using assms
proof (induction m arbitrary: acc)
  case (Cons p m)
  obtain k db where p: "p = (k, db)" by (cases p)
  with Cons.prems have "decode_db (db_tree db) = Some db" "map_put k db acc = acc @ [(k, db)]"
    by (auto intro!: decode_db_tree map_put_append)
  with Cons.IH [of "acc @ [(k, db)]"] Cons.prems p show ?case by simp
qed simp

lemma dbs_literal_last: "m \<noteq> [] \<Longrightarrow> dbs_literal m \<noteq> [] \<and> last (dbs_literal m) = CHR ''}''"
  by (induction m rule: dbs_literal.induct) auto

lemma parse_map_literal:
  assumes "printable_info m" and "m \<noteq> []"
  shows "parseDataInfo (map_literal m) = m"
proof -
  have keys: "list_all (\<lambda>(k, db). bare_key k \<and> list_all is_letter (DBStatus db)) m"
    and ints: "list_all (\<lambda>(k, db). is_int64 (Behind db) \<and> is_int64 (Timestamp db)) m"
    and dist: "distinct (map fst m)"
    using assms(1) by (auto simp: printable_info_def list_all_iff)
  have l: "hd (map_literal m) = CHR ''{''" "last (map_literal m) = CHR ''}''"
    using dbs_literal_last [OF assms(2)] by (auto simp: map_literal_def)
  then have "TrimQuotes (TrimSpace (map_literal m)) = map_literal m"
    by (simp add: TrimQuotes_def TrimChar_def TrimSpace_def TrimFunc_id is_space_def)
  moreover have "quote_bare_keys (map_literal m) = CHR ''{'' # dbs_json m"
    using quote_dbs [of m "[]" "CHR ''{''"] assms(2) keys by (simp add: map_literal_def)
  moreover have "\<not> EqualFold (map_literal m) ''null''"
    by (simp add: EqualFold_def map_literal_def ToLower_def to_lower_char_def)
  moreover have "2 < length (map_literal m)"
    using assms(2) by (cases m rule: dbs_literal.cases) (auto simp: map_literal_def db_literal_def)
  then have "map_literal m \<noteq> []" "map_literal m \<noteq> ''{}''" by auto
  ultimately show ?thesis
    using parse_map_json [OF assms(2) keys] decode_members_trees [OF ints, of "[]"] dist
    by (simp add: parseDataInfo_def decode_data_info_def Let_def)
qed

end
