(* ===== verification/Client.thy ===== *)
theory Client
  imports World Data_Info
begin

text \<open>
  The Memgraph client (\<open>internal/memgraph/client.go\<close>): queries run through mgconsole in the
  pod, and the table that \<open>SHOW REPLICAS\<close> prints. The exec sub-resource is the environment's;
  every command streamed to a pod is in the trace.
\<close>

section \<open>Running a query\<close>

text \<open>\<open>NewClient\<close>: the clientset comes from the Kubernetes library.\<close>

definition NewClient :: "'s env \<Rightarrow> ('s, go_error option) op" where
  "NewClient e = do {
     err \<leftarrow> external (new_client_op e);
     State_Monad.return
       (case err of Some er \<Rightarrow> Some (wrap ''failed to create kubernetes clientset: '' er) | None \<Rightarrow> None)
   }"

definition mgconsole_cmd :: "string list" where
  "mgconsole_cmd = [''mgconsole'', ''--host'', ''127.0.0.1'', ''--port'', ''7687'',
     ''--use-ssl=false'', ''--no-history'', ''--output-format'', ''tabular'']"

definition query_request :: "string \<Rightarrow> string \<Rightarrow> string \<Rightarrow> exec_request" where
  "query_request ns pod query = \<lparr>ExecNamespace = ns, ExecPod = pod, ExecContainer = ''memgraph'',
     ExecCommand = mgconsole_cmd, ExecStdin = Some (query @ [CHR 0x0A])\<rparr>"

definition execInPod ::
  "'s env \<Rightarrow> string \<Rightarrow> string \<Rightarrow> string \<Rightarrow> string list \<Rightarrow> string option \<Rightarrow>
   ('s, string \<times> string \<times> go_error option) op" where
  "execInPod e ns pod container cmd stdin =
     (let req = \<lparr>ExecNamespace = ns, ExecPod = pod, ExecContainer = container,
                 ExecCommand = cmd, ExecStdin = stdin\<rparr> in
      do {
        err \<leftarrow> external (new_executor_op e req);
        case err of
          Some er \<Rightarrow> State_Monad.return ([], [], Some (wrap ''failed to create executor: '' er))
        | None \<Rightarrow> do {
            emit (Exec req);
            external (stream_op e req)
          }
      })"

fun wrap_stderr :: "string \<Rightarrow> go_error \<Rightarrow> go_error" where
  "wrap_stderr se (NotFound m) = NotFound (''failed to execute query: '' @ m @ '', stderr: '' @ se)"
| "wrap_stderr se (OtherError m) = OtherError (''failed to execute query: '' @ m @ '', stderr: '' @ se)"

definition ExecuteQuery :: "'s env \<Rightarrow> string \<Rightarrow> string \<Rightarrow> string \<Rightarrow> ('s, go_error + string) op" where
  "ExecuteQuery e ns pod query = do {
     (stdout, stderr, err) \<leftarrow> execInPod e ns pod ''memgraph'' mgconsole_cmd (Some (query @ [CHR 0x0A]));
     State_Monad.return
       (case err of Some er \<Rightarrow> Inl (wrap_stderr stderr er) | None \<Rightarrow> Inr stdout)
   }"

section \<open>Commands\<close>

definition role_query :: "bool \<Rightarrow> string" where
  "role_query isMain =
     (if isMain then ''SET REPLICATION ROLE TO MAIN;''
      else ''SET REPLICATION ROLE TO REPLICA WITH PORT 10000;'')"

definition SetReplicationRole :: "'s env \<Rightarrow> string \<Rightarrow> string \<Rightarrow> bool \<Rightarrow> ('s, go_error option) op" where
  "SetReplicationRole e ns pod isMain = do {
     r \<leftarrow> ExecuteQuery e ns pod (role_query isMain);
     State_Monad.return
       (case r of Inl er \<Rightarrow> Some (wrap ''failed to set replication role: '' er) | Inr _ \<Rightarrow> None)
   }"

definition register_query :: "string \<Rightarrow> string \<Rightarrow> string \<Rightarrow> string" where
  "register_query name host mode =
     ''REGISTER REPLICA '' @ name @ '' '' @ (if mode = [] then ''ASYNC'' else mode) @
     '' TO '' @ [CHR 0x27] @ host @ '':10000'' @ [CHR 0x27] @ '';''"

definition RegisterReplica ::
  "'s env \<Rightarrow> string \<Rightarrow> string \<Rightarrow> string \<Rightarrow> string \<Rightarrow> string \<Rightarrow> ('s, go_error option) op" where
  "RegisterReplica e ns mainPod name host mode = do {
     r \<leftarrow> ExecuteQuery e ns mainPod (register_query name host mode);
     State_Monad.return
       (case r of Inl er \<Rightarrow> Some (wrap (''failed to register replica '' @ name @ '': '') er)
                | Inr _ \<Rightarrow> None)
   }"

definition drop_query :: "string \<Rightarrow> string" where
  "drop_query name = ''DROP REPLICA '' @ name @ '';''"

definition doesnt_exist :: string where
  "doesnt_exist = ''doesn'' @ [CHR 0x27] @ ''t exist''"

definition UnregisterReplica ::
  "'s env \<Rightarrow> string \<Rightarrow> string \<Rightarrow> string \<Rightarrow> ('s, go_error option) op" where
  "UnregisterReplica e ns mainPod name = do {
     r \<leftarrow> ExecuteQuery e ns mainPod (drop_query name);
     State_Monad.return
       (case r of
          Inl er \<Rightarrow> if \<not> Contains (err_msg er) doesnt_exist
                     then Some (wrap (''failed to unregister replica '' @ name @ '': '') er) else None
        | Inr _ \<Rightarrow> None)
   }"

definition CreateSnapshot :: "'s env \<Rightarrow> string \<Rightarrow> string \<Rightarrow> ('s, go_error option) op" where
  "CreateSnapshot e ns pod = do {
     r \<leftarrow> ExecuteQuery e ns pod ''CREATE SNAPSHOT;'';
     State_Monad.return
       (case r of Inl er \<Rightarrow> Some (wrap ''failed to create snapshot: '' er) | Inr _ \<Rightarrow> None)
   }"

definition Ping :: "'s env \<Rightarrow> string \<Rightarrow> string \<Rightarrow> ('s, go_error option) op" where
  "Ping e ns pod = do {
     r \<leftarrow> ExecuteQuery e ns pod ''RETURN 1;'';
     State_Monad.return
       (case r of Inl er \<Rightarrow> Some (wrap ''ping failed: '' er) | Inr _ \<Rightarrow> None)
   }"

text \<open>The role is read off the printed table by substring search, \<open>main\<close> first.\<close>

definition role_of_output :: "string \<Rightarrow> string" where
  "role_of_output output =
     (let out = TrimSpace (ToLower output) in
      if Contains out ''main'' then ''MAIN''
      else if Contains out ''replica'' then ''REPLICA'' else ''UNKNOWN'')"

definition GetReplicationRole :: "'s env \<Rightarrow> string \<Rightarrow> string \<Rightarrow> ('s, go_error + string) op" where
  "GetReplicationRole e ns pod = do {
     r \<leftarrow> ExecuteQuery e ns pod ''SHOW REPLICATION ROLE;'';
     State_Monad.return
       (case r of Inl er \<Rightarrow> Inl (wrap ''failed to get replication role: '' er)
                | Inr output \<Rightarrow> Inr (role_of_output output))
   }"

section \<open>The table of \<open>SHOW REPLICAS\<close>\<close>

text \<open>One line of the output: \<open>None\<close> where the Go loop continues without a replica.\<close>

definition parse_replica_cols :: "string list \<Rightarrow> ReplicaInfo option" where
  "parse_replica_cols cols =
     (let name = TrimQuotes (cols ! 0) in
      if name = [] \<or> name = ''name'' then None
      else (case Atoi (TrimQuotes (cols ! 2)) of
          (port, None) \<Rightarrow>
            Some \<lparr>RName = name, SocketAddress = [], RHost = TrimQuotes (cols ! 1), RPort = port,
              SyncMode = TrimQuotes (cols ! 3), DataInfo = [], RBehind = 0,
              RStatus = TrimQuotes (cols ! 4), RTimestamp = 0\<rparr>
        | (_, Some _) \<Rightarrow>
            let addr = TrimQuotes (cols ! 1);
                di = parseDataInfo (cols ! 4);
                (host, portStr, found) = Cut (CHR '':'') addr;
                (behind, status, ts) = summarizeDataInfo di
            in Some \<lparr>RName = name, SocketAddress = addr,
              RHost = (if found then host else addr),
              RPort = (if found then fst (Atoi portStr) else 0),
              SyncMode = TrimQuotes (cols ! 2), DataInfo = di, RBehind = behind,
              RStatus = status, RTimestamp = ts\<rparr>))"

definition parse_replica_line :: "string \<Rightarrow> ReplicaInfo option" where
  "parse_replica_line l =
     (let line = TrimSpace l in
      if line = [] \<or> HasPrefix line ''+'' \<or> \<not> HasPrefix line ''|'' then None
      else let parts = Split (CHR ''|'') line in
        if length parts < 7 then None
        else parse_replica_cols (map TrimSpace (butlast (tl parts))))"

definition parseShowReplicasOutput :: "string \<Rightarrow> ReplicaInfo list" where
  "parseShowReplicasOutput output = List.map_filter parse_replica_line (Split (CHR 0x0A) output)"

definition ShowReplicas :: "'s env \<Rightarrow> string \<Rightarrow> string \<Rightarrow> ('s, go_error + ReplicaInfo list) op" where
  "ShowReplicas e ns mainPod = do {
     r \<leftarrow> ExecuteQuery e ns mainPod ''SHOW REPLICAS;'';
     State_Monad.return
       (case r of Inl er \<Rightarrow> Inl (wrap ''failed to show replicas: '' er)
                | Inr output \<Rightarrow> Inr (parseShowReplicasOutput output))
   }"

section \<open>Frames of the client\<close>

text \<open>
  Everything the client does to the trace is the query it runs, at most once; it touches
  nothing else of the operator's process.
\<close>

lemma ExecuteQuery_emits:
  "P (Exec (query_request ns pod q)) \<Longrightarrow> state_io_rel (emits P) (ExecuteQuery e ns pod q)"
  unfolding ExecuteQuery_def execInPod_def Let_def
  by (intro rel_intros) (simp add: query_request_def)

lemmas client_defs = SetReplicationRole_def RegisterReplica_def UnregisterReplica_def
  CreateSnapshot_def Ping_def GetReplicationRole_def ShowReplicas_def

lemma client_emits [rel_intros]:
  "P (Exec (query_request ns pod (role_query b))) \<Longrightarrow>
     state_io_rel (emits P) (SetReplicationRole e ns pod b)"
  "P (Exec (query_request ns pod (register_query name host mode))) \<Longrightarrow>
     state_io_rel (emits P) (RegisterReplica e ns pod name host mode)"
  "P (Exec (query_request ns pod (drop_query name))) \<Longrightarrow>
     state_io_rel (emits P) (UnregisterReplica e ns pod name)"
  "P (Exec (query_request ns pod ''CREATE SNAPSHOT;'')) \<Longrightarrow>
     state_io_rel (emits P) (CreateSnapshot e ns pod)"
  "P (Exec (query_request ns pod ''RETURN 1;'')) \<Longrightarrow> state_io_rel (emits P) (Ping e ns pod)"
  "P (Exec (query_request ns pod ''SHOW REPLICATION ROLE;'')) \<Longrightarrow>
     state_io_rel (emits P) (GetReplicationRole e ns pod)"
  "P (Exec (query_request ns pod ''SHOW REPLICAS;'')) \<Longrightarrow>
     state_io_rel (emits P) (ShowReplicas e ns pod)"
  unfolding client_defs by (intro rel_intros ExecuteQuery_emits; simp)+

lemma ExecuteQuery_process: "state_io_rel (keeps process) (ExecuteQuery e ns pod q)"
  unfolding ExecuteQuery_def execInPod_def Let_def by (intro rel_intros)

lemma client_process [rel_intros]:
  "state_io_rel (keeps process) (SetReplicationRole e ns pod b)"
  "state_io_rel (keeps process) (RegisterReplica e ns pod name host mode)"
  "state_io_rel (keeps process) (UnregisterReplica e ns pod name)"
  "state_io_rel (keeps process) (CreateSnapshot e ns pod)"
  "state_io_rel (keeps process) (Ping e ns pod)"
  "state_io_rel (keeps process) (GetReplicationRole e ns pod)"
  "state_io_rel (keeps process) (ShowReplicas e ns pod)"
  unfolding client_defs by (intro rel_intros ExecuteQuery_process)+

section \<open>Answers\<close>

text \<open>
  A query is answered when the exec stream for it always opens and returns the given output;
  it is refused when the stream always ends in the given error.
\<close>

definition answers :: "'s env \<Rightarrow> string \<Rightarrow> string \<Rightarrow> string \<Rightarrow> string \<Rightarrow> bool" where
  "answers e ns pod q out \<longleftrightarrow>
     always (new_executor_op e (query_request ns pod q)) None \<and>
     (\<exists>se. always (stream_op e (query_request ns pod q)) (out, se, None))"

definition refuses :: "'s env \<Rightarrow> string \<Rightarrow> string \<Rightarrow> string \<Rightarrow> go_error \<Rightarrow> bool" where
  "refuses e ns pod q er \<longleftrightarrow>
     always (new_executor_op e (query_request ns pod q)) None \<and>
     (\<exists>out se er'. always (stream_op e (query_request ns pod q)) (out, se, Some er') \<and>
        er = wrap_stderr se er')"

lemma ExecuteQuery_yields:
  assumes "always (new_executor_op e (query_request ns pod q)) None"
    and "always (stream_op e (query_request ns pod q)) (out, se, err)"
  shows "yields (ExecuteQuery e ns pod q) [Exec (query_request ns pod q)]
     (case err of Some er \<Rightarrow> Inl (wrap_stderr se er) | None \<Rightarrow> Inr out)"
proof -
  have "yields (execInPod e ns pod ''memgraph'' mgconsole_cmd (Some (q @ [CHR 0x0A])))
      ([] @ [Exec (query_request ns pod q)] @ []) (out, se, err)"
    unfolding execInPod_def Let_def query_request_def [symmetric]
    by (rule yields_bind [OF yields_external [OF assms(1)]])
      (simp only: option.case, rule yields_bind [OF yields_emit yields_external [OF assms(2)]])
  then have run: "yields (execInPod e ns pod ''memgraph'' mgconsole_cmd (Some (q @ [CHR 0x0A])))
      [Exec (query_request ns pod q)] (out, se, err)"
    by simp
  show ?thesis
    unfolding ExecuteQuery_def by (rule yields_then [OF run]) (simp add: yields_return)
qed

lemma answers_yields:
  "answers e ns pod q out \<Longrightarrow>
   yields (ExecuteQuery e ns pod q) [Exec (query_request ns pod q)] (Inr out)"
  unfolding answers_def using ExecuteQuery_yields [of e ns pod q out _ None] by auto

lemma refuses_yields:
  "refuses e ns pod q er \<Longrightarrow>
   yields (ExecuteQuery e ns pod q) [Exec (query_request ns pod q)] (Inl er)"
  unfolding refuses_def using ExecuteQuery_yields [of e ns pod q _ _ "Some _"] by auto

lemma GetReplicationRole_yields:
  "answers e ns pod ''SHOW REPLICATION ROLE;'' out \<Longrightarrow>
   yields (GetReplicationRole e ns pod) [Exec (query_request ns pod ''SHOW REPLICATION ROLE;'')]
     (Inr (role_of_output out))"
  unfolding GetReplicationRole_def by (rule yields_then [OF answers_yields]) (assumption, simp only: sum.case yields_return)

lemma GetReplicationRole_refused:
  "refuses e ns pod ''SHOW REPLICATION ROLE;'' er \<Longrightarrow>
   yields (GetReplicationRole e ns pod) [Exec (query_request ns pod ''SHOW REPLICATION ROLE;'')]
     (Inl (wrap ''failed to get replication role: '' er))"
  unfolding GetReplicationRole_def
  by (rule yields_then [OF refuses_yields]) (assumption, simp only: sum.case yields_return)

lemma ShowReplicas_yields:
  "answers e ns pod ''SHOW REPLICAS;'' out \<Longrightarrow>
   yields (ShowReplicas e ns pod) [Exec (query_request ns pod ''SHOW REPLICAS;'')]
     (Inr (parseShowReplicasOutput out))"
  unfolding ShowReplicas_def by (rule yields_then [OF answers_yields]) (assumption, simp only: sum.case yields_return)

lemma SetReplicationRole_refused:
  "refuses e ns pod (role_query b) er \<Longrightarrow>
   yields (SetReplicationRole e ns pod b) [Exec (query_request ns pod (role_query b))]
     (Some (wrap ''failed to set replication role: '' er))"
  unfolding SetReplicationRole_def by (rule yields_then [OF refuses_yields]) (assumption, simp only: sum.case yields_return)

end
