(* ===== verification/Services.thy ===== *)
theory Services
  imports Api_Types Go_Strings
begin

text \<open>
  Labels, names and services (\<open>internal/controller/labels.go\<close>, \<open>service.go\<close>), the readiness
  test of a pod, and the naming scheme of \<open>replication.go\<close> that ties a pod to its Memgraph
  replica name and to its address behind the headless service.
\<close>

section \<open>Labels\<close>

definition labelApp :: string where [go_consts]: "labelApp = ''app.kubernetes.io/name''"
definition labelInstance :: string where [go_consts]: "labelInstance = ''app.kubernetes.io/instance''"
definition labelComponent :: string where
  [go_consts]: "labelComponent = ''app.kubernetes.io/component''"
definition labelManagedBy :: string where
  [go_consts]: "labelManagedBy = ''app.kubernetes.io/managed-by''"
definition labelAppValue :: string where [go_consts]: "labelAppValue = ''memgraph''"
definition labelManagedByValue :: string where
  [go_consts]: "labelManagedByValue = ''memgraph-operator''"
definition labelComponentValue :: string where [go_consts]: "labelComponentValue = ''database''"

definition podNameLabel :: string where
  [go_consts]: "podNameLabel = ''statefulset.kubernetes.io/pod-name''"

definition labelsForCluster :: "MemgraphCluster \<Rightarrow> labels" where
  "labelsForCluster c = [labelApp \<mapsto> labelAppValue, labelInstance \<mapsto> cluster_name c,
     labelComponent \<mapsto> labelComponentValue, labelManagedBy \<mapsto> labelManagedByValue]"

section \<open>Names\<close>

definition defaultHeadlessSuffix :: string where [go_consts]: "defaultHeadlessSuffix = ''-hl''"
definition defaultWriteSuffix :: string where [go_consts]: "defaultWriteSuffix = ''-write''"
definition defaultReadSuffix :: string where [go_consts]: "defaultReadSuffix = ''-read''"

text \<open>A suffix of the spec replaces the default unless it is absent or empty.\<close>

definition service_suffix :: "string \<Rightarrow> (ServiceNamesSpec \<Rightarrow> string) \<Rightarrow> MemgraphCluster \<Rightarrow> string" where
  "service_suffix dflt get c =
     (case ServiceNames (Spec c) of
        Some names \<Rightarrow> if get names \<noteq> [] then get names else dflt
      | None \<Rightarrow> dflt)"

definition headlessServiceName :: "MemgraphCluster \<Rightarrow> string" where
  "headlessServiceName c = cluster_name c @ service_suffix defaultHeadlessSuffix HeadlessSuffix c"

definition writeServiceName :: "MemgraphCluster \<Rightarrow> string" where
  "writeServiceName c = cluster_name c @ service_suffix defaultWriteSuffix WriteSuffix c"

definition readServiceName :: "MemgraphCluster \<Rightarrow> string" where
  "readServiceName c = cluster_name c @ service_suffix defaultReadSuffix ReadSuffix c"

text \<open>Replica names use underscores; a pod is addressed through the headless service.\<close>

definition getReplicaName :: "string \<Rightarrow> string" where
  "getReplicaName podName = ReplaceAllChar (CHR ''-'') (CHR ''_'') podName"

definition getPodFQDN :: "string \<Rightarrow> MemgraphCluster \<Rightarrow> string" where
  "getPodFQDN podName c =
     podName @ ''.'' @ headlessServiceName c @ ''.'' @ cluster_ns c @ ''.svc.cluster.local''"

section \<open>Service objects\<close>

definition boltPortName :: string where [go_consts]: "boltPortName = ''bolt''"
definition boltPort :: int where [go_consts]: "boltPort = 7687"
definition replicationPortName :: string where [go_consts]: "replicationPortName = ''replication''"
definition replicationPort :: int where [go_consts]: "replicationPort = 10000"

definition bolt_service_port :: ServicePort where
  "bolt_service_port = \<lparr>PortName = boltPortName, Port = boltPort, TargetPort = boltPort,
     Protocol = ''TCP''\<rparr>"

definition replication_service_port :: ServicePort where
  "replication_service_port = \<lparr>PortName = replicationPortName, Port = replicationPort,
     TargetPort = replicationPort, Protocol = ''TCP''\<rparr>"

definition buildHeadlessService :: "MemgraphCluster \<Rightarrow> Service" where
  "buildHeadlessService c =
     \<lparr>SvcMeta = mk_meta (headlessServiceName c) (cluster_ns c) (labelsForCluster c),
      SvcType = [], ClusterIP = ''None'', PublishNotReadyAddresses = True,
      Ports = [bolt_service_port, replication_service_port],
      Selector = labelsForCluster c\<rparr>"

definition buildWriteService :: "MemgraphCluster \<Rightarrow> string \<Rightarrow> Service" where
  "buildWriteService c writeInstanceName =
     \<lparr>SvcMeta = mk_meta (writeServiceName c) (cluster_ns c) (labelsForCluster c),
      SvcType = ''ClusterIP'', ClusterIP = [], PublishNotReadyAddresses = False,
      Ports = [bolt_service_port],
      Selector = (if writeInstanceName \<noteq> []
        then (labelsForCluster c)(podNameLabel \<mapsto> writeInstanceName)
        else labelsForCluster c)\<rparr>"

definition buildReadService :: "MemgraphCluster \<Rightarrow> Service" where
  "buildReadService c =
     \<lparr>SvcMeta = mk_meta (readServiceName c) (cluster_ns c) (labelsForCluster c),
      SvcType = ''ClusterIP'', ClusterIP = [], PublishNotReadyAddresses = False,
      Ports = [bolt_service_port],
      Selector = labelsForCluster c\<rparr>"

section \<open>Readiness\<close>

definition isPodReady :: "Pod \<Rightarrow> bool" where
  "isPodReady pod \<longleftrightarrow> PodPhase pod = ''Running'' \<and>
     (\<exists>cond \<in> set (PodConditions pod). fst cond = ''Ready'' \<and> snd cond = ''True'')"

section \<open>Laws\<close>

text \<open>A pod carries the labels of a selector.\<close>

definition selects :: "labels \<Rightarrow> labels \<Rightarrow> bool" where
  "selects sel ls \<longleftrightarrow> sel \<subseteq>\<^sub>m ls"

lemma podNameLabel_fresh: "labelsForCluster c podNameLabel = None"
  by (simp add: labelsForCluster_def go_consts)

lemma labels_instance: "labelsForCluster c labelInstance = Some (cluster_name c)"
  by (simp add: labelsForCluster_def go_consts)

lemma getReplicaName_inj:
  assumes "CHR ''_'' \<notin> set a" and "CHR ''_'' \<notin> set b" and "getReplicaName a = getReplicaName b"
  shows "a = b"
proof -
  have "inj_on (\<lambda>c. if c = CHR ''-'' then CHR ''_'' else c) (set a \<union> set b)"
    using assms(1,2) by (auto simp: inj_on_def)
  with assms(3) show ?thesis
    unfolding getReplicaName_def ReplaceAllChar_def by (rule map_inj_on)
qed

lemma getReplicaName_valid: "CHR ''-'' \<notin> set (getReplicaName a)"
  by (auto simp: getReplicaName_def ReplaceAllChar_def)

lemma service_suffix_not_Nil:
  "dflt \<noteq> [] \<Longrightarrow> service_suffix dflt get c \<noteq> []"
  by (simp add: service_suffix_def split: option.splits)

end
