(* ===== verification/Classifier.thy ===== *)
theory Classifier
  imports World Data_Info
begin

text \<open>
  The health policy of one replica (\<open>internal/controller/replica_classifier.go\<close>): a state
  machine over two timers. The classifier mutates the \<open>replicaState\<close> it is given; here the
  new state is returned with the class. The databases are visited in the order of the list,
  which stands for one iteration order of the Go map; the result is proved not to depend on it.
\<close>

section \<open>The policy\<close>

datatype replicaClassification =
    classificationHealthy
  | classificationBehind
  | classificationTransient
  | classificationDataChannelDown
  | classificationInvalid
  | classificationUnknownStatus
  | classificationBehindTooLong

definition channelDownGracePeriod :: duration where
  "channelDownGracePeriod = 30 * Second"

fun isHealthy :: "replicaClassification \<Rightarrow> bool" where
  "isHealthy classificationHealthy = True"
| "isHealthy classificationBehind = True"
| "isHealthy classificationTransient = True"
| "isHealthy _ = False"

definition zero_replicaState :: replicaState where
  "zero_replicaState = \<lparr>behindSince = 0, channelDownSince = 0\<rparr>"

definition dbStatus :: "ReplicaDBInfo \<Rightarrow> string" where
  "dbStatus db = ToLower (TrimQuotes (TrimSpace (DBStatus db)))"

definition known_good :: "string \<Rightarrow> bool" where
  "known_good st \<longleftrightarrow>
     st = ReplicaStatusReady \<or> st = ReplicaStatusRecovery \<or> st = ReplicaStatusReplicating"

text \<open>The second pass: \<open>Inl\<close> is the early return, \<open>Inr\<close> the locals at the end of the loop.\<close>

fun classify_loop ::
  "instant \<Rightarrow> duration \<Rightarrow> ReplicaDBInfo list \<Rightarrow> replicaClassification \<Rightarrow> bool \<Rightarrow> replicaState \<Rightarrow>
   (replicaClassification + replicaClassification \<times> bool) \<times> replicaState" where
  "classify_loop tnow thr [] worst anyBehind st = (Inr (worst, anyBehind), st)"
| "classify_loop tnow thr (db # dbs) worst anyBehind st =
     (let worst' = (if known_good (dbStatus db) then worst else classificationUnknownStatus) in
      if Behind db > 0 then
        (let st' = (if IsZero (behindSince st) then st\<lparr>behindSince := tnow\<rparr> else st) in
         if time_sub tnow (behindSince st') > thr then (Inl classificationBehindTooLong, st')
         else classify_loop tnow thr dbs
                (if worst' = classificationHealthy then classificationBehind else worst') True st')
      else classify_loop tnow thr dbs worst' anyBehind st)"

definition classify_dbs ::
  "ReplicaDBInfo list \<Rightarrow> ReplicaDBInfo list \<Rightarrow> replicaState \<Rightarrow> instant \<Rightarrow> duration \<Rightarrow>
   replicaClassification \<times> replicaState" where
  "classify_dbs first second st tnow thr =
     (if \<exists>db \<in> set first. dbStatus db = ReplicaStatusInvalid then (classificationInvalid, st)
      else case classify_loop tnow thr second classificationHealthy False st of
          (Inl class, st') \<Rightarrow> (class, st')
        | (Inr (worst, anyBehind), st') \<Rightarrow>
            (worst, if \<not> anyBehind then st'\<lparr>behindSince := 0\<rparr> else st'))"

definition classifyReplica ::
  "ReplicaInfo \<Rightarrow> replicaState \<Rightarrow> instant \<Rightarrow> duration \<Rightarrow> replicaClassification \<times> replicaState" where
  "classifyReplica replica st tnow behindThreshold =
     (if length (DataInfo replica) = 0 then
        (let st1 = (if IsZero (channelDownSince st) then st\<lparr>channelDownSince := tnow\<rparr> else st);
             st2 = st1\<lparr>behindSince := 0\<rparr> in
         (if time_sub tnow (channelDownSince st2) > channelDownGracePeriod
          then classificationDataChannelDown else classificationTransient, st2))
      else (let dbs = map snd (DataInfo replica) in
         classify_dbs dbs dbs (st\<lparr>channelDownSince := 0\<rparr>) tnow behindThreshold))"

section \<open>Closed form\<close>

text \<open>What the second pass computes, from the set of databases only.\<close>

definition any_behind :: "ReplicaDBInfo set \<Rightarrow> bool" where
  "any_behind D \<longleftrightarrow> (\<exists>db \<in> D. Behind db > 0)"

definition any_unknown :: "ReplicaDBInfo set \<Rightarrow> bool" where
  "any_unknown D \<longleftrightarrow> (\<exists>db \<in> D. \<not> known_good (dbStatus db))"

definition any_invalid :: "ReplicaDBInfo set \<Rightarrow> bool" where
  "any_invalid D \<longleftrightarrow> (\<exists>db \<in> D. dbStatus db = ReplicaStatusInvalid)"

definition started :: "instant \<Rightarrow> replicaState \<Rightarrow> replicaState" where
  "started tnow st = (if IsZero (behindSince st) then st\<lparr>behindSince := tnow\<rparr> else st)"

definition set_policy ::
  "ReplicaDBInfo set \<Rightarrow> replicaState \<Rightarrow> instant \<Rightarrow> duration \<Rightarrow> replicaClassification \<times> replicaState" where
  "set_policy D st tnow thr =
     (if any_invalid D then (classificationInvalid, st)
      else if \<not> any_behind D then
        (if any_unknown D then classificationUnknownStatus else classificationHealthy,
         st\<lparr>behindSince := 0\<rparr>)
      else (if time_sub tnow (behindSince (started tnow st)) > thr then classificationBehindTooLong
            else if any_unknown D then classificationUnknownStatus else classificationBehind,
            started tnow st))"

lemma started_idem [simp]: "started tnow (started tnow st) = started tnow st"
  by (simp add: started_def IsZero_def)

lemma classify_loop_fold:
  "classify_loop tnow thr (db # dbs) worst anyBehind st =
     (let worst' = (if known_good (dbStatus db) then worst else classificationUnknownStatus) in
      if Behind db > 0 then
        (if time_sub tnow (behindSince (started tnow st)) > thr
         then (Inl classificationBehindTooLong, started tnow st)
         else classify_loop tnow thr dbs
                (if worst' = classificationHealthy then classificationBehind else worst') True
                (started tnow st))
      else classify_loop tnow thr dbs worst' anyBehind st)"
  by (simp add: started_def Let_def)

declare classify_loop.simps(2) [simp del]

lemma classify_loop_late:
  "time_sub tnow (behindSince (started tnow st)) > thr \<Longrightarrow> any_behind (set dbs) \<Longrightarrow>
   classify_loop tnow thr dbs w b st = (Inl classificationBehindTooLong, started tnow st)"
  by (induction dbs arbitrary: w b)
    (auto simp: any_behind_def classify_loop_fold)

lemma classify_loop_still:
  "\<not> any_behind (set dbs) \<Longrightarrow>
   classify_loop tnow thr dbs w b st =
     (Inr (if any_unknown (set dbs) then classificationUnknownStatus else w, b), st)"
  by (induction dbs arbitrary: w) (auto simp: any_behind_def any_unknown_def classify_loop_fold)

lemma classify_loop_in_time:
  assumes "\<not> time_sub tnow (behindSince (started tnow st)) > thr"
    and "w = classificationHealthy \<or> w = classificationBehind \<or> w = classificationUnknownStatus"
  shows "classify_loop tnow thr dbs w b st =
     (Inr (if any_unknown (set dbs) \<or> w = classificationUnknownStatus then classificationUnknownStatus
           else if any_behind (set dbs) then classificationBehind else w,
           b \<or> any_behind (set dbs)),
      if any_behind (set dbs) then started tnow st else st)"
  using assms
proof (induction dbs arbitrary: w b st)
  case (Cons db dbs)
  show ?case
    using Cons.prems Cons.IH [of "started tnow st"] Cons.IH [of st]
    by (auto simp: Let_def classify_loop_fold any_behind_def any_unknown_def)
qed (auto simp: any_behind_def any_unknown_def)

lemma classify_dbs_policy:
  assumes "set first = set second"
  shows "classify_dbs first second st tnow thr = set_policy (set second) st tnow thr"
proof (cases "any_behind (set second)")
  case False
  then show ?thesis
    using assms by (auto simp: classify_dbs_def set_policy_def any_invalid_def classify_loop_still)
next
  case True
  show ?thesis
  proof (cases "time_sub tnow (behindSince (started tnow st)) > thr")
    case late: True
    show ?thesis
      using assms True late classify_loop_late [OF late True]
      by (auto simp: classify_dbs_def set_policy_def any_invalid_def)
  next
    case False
    then show ?thesis
      using assms True classify_loop_in_time [OF False]
      by (auto simp: classify_dbs_def set_policy_def any_invalid_def)
  qed
qed

lemma classifyReplica_empty:
  "DataInfo r = [] \<Longrightarrow> classifyReplica r st tnow thr =
     (let since = (if channelDownSince st = 0 then tnow else channelDownSince st) in
      (if time_sub tnow since > channelDownGracePeriod then classificationDataChannelDown
       else classificationTransient, \<lparr>behindSince = 0, channelDownSince = since\<rparr>))"
  by (simp add: classifyReplica_def Let_def IsZero_def)

lemma classifyReplica_nonempty:
  "DataInfo r \<noteq> [] \<Longrightarrow> classifyReplica r st tnow thr =
     set_policy (snd ` set (DataInfo r)) (st\<lparr>channelDownSince := 0\<rparr>) tnow thr"
  by (simp add: classifyReplica_def Let_def classify_dbs_policy)

section \<open>Severity\<close>

text \<open>The classes in the order in which one hides another; the policy is a maximum in this order.\<close>

fun severity :: "replicaClassification \<Rightarrow> nat" where
  "severity classificationHealthy = 0"
| "severity classificationBehind = 1"
| "severity classificationTransient = 2"
| "severity classificationUnknownStatus = 3"
| "severity classificationBehindTooLong = 4"
| "severity classificationInvalid = 5"
| "severity classificationDataChannelDown = 6"

lemma severity_inj: "severity a = severity b \<Longrightarrow> a = b"
  by (cases a; cases b) simp_all

instantiation replicaClassification :: linorder
begin

definition less_eq_replicaClassification :: "replicaClassification \<Rightarrow> replicaClassification \<Rightarrow> bool" where
  "a \<le> b \<longleftrightarrow> severity a \<le> severity b"

definition less_replicaClassification :: "replicaClassification \<Rightarrow> replicaClassification \<Rightarrow> bool" where
  "a < b \<longleftrightarrow> severity a < severity b"

instance
  by standard (auto simp: less_eq_replicaClassification_def less_replicaClassification_def dest: severity_inj)

end

lemmas severity_order = less_eq_replicaClassification_def less_replicaClassification_def

lemma healthy_severity: "isHealthy c \<longleftrightarrow> c \<le> classificationTransient"
  by (cases c) (simp_all add: severity_order)

definition db_class :: "bool \<Rightarrow> ReplicaDBInfo \<Rightarrow> replicaClassification" where
  "db_class late db =
     (if dbStatus db = ReplicaStatusInvalid then classificationInvalid
      else if Behind db > 0 \<and> late then classificationBehindTooLong
      else if \<not> known_good (dbStatus db) then classificationUnknownStatus
      else if Behind db > 0 then classificationBehind else classificationHealthy)"

lemma set_policy_worst:
  assumes "finite B" and "b \<in> B"
  shows "fst (set_policy B st tnow thr) =
    Max (db_class (time_sub tnow (behindSince (started tnow st)) > thr) ` B)"
proof -
  let ?late = "time_sub tnow (behindSince (started tnow st)) > thr"
  let ?c = "fst (set_policy B st tnow thr)"
  note defs = set_policy_def db_class_def any_invalid_def any_behind_def any_unknown_def
  have "db_class ?late db \<le> ?c" if "db \<in> B" for db
    using that by (auto simp: defs severity_order)
  moreover have "\<exists>db \<in> B. ?c = db_class ?late db"
  proof (cases "any_invalid B")
    case True
    then show ?thesis by (auto simp: defs)
  next
    case valid: False
    then have st: "dbStatus db \<noteq> ReplicaStatusInvalid" if "db \<in> B" for db
      using that by (auto simp: any_invalid_def)
    consider db where "db \<in> B" "Behind db > 0" ?late
      | db where "db \<in> B" "\<not> known_good (dbStatus db)" "\<not> (any_behind B \<and> ?late)"
      | db where "db \<in> B" "Behind db > 0" "\<not> any_unknown B" "\<not> ?late"
      | "\<not> any_behind B" "\<not> any_unknown B"
      unfolding any_behind_def any_unknown_def by blast
    then show ?thesis
    proof cases
      case (1 db)
      then have "any_behind B" by (auto simp: any_behind_def)
      with 1 valid st [of db] show ?thesis by (intro bexI [of _ db]) (simp_all add: set_policy_def db_class_def)
    next
      case (2 db)
      then have "any_unknown B" "Behind db > 0 \<Longrightarrow> \<not> ?late" by (auto simp: any_unknown_def any_behind_def)
      with 2 valid st [of db] show ?thesis
        by (intro bexI [of _ db]) (auto simp: set_policy_def db_class_def)
    next
      case (3 db)
      then have "any_behind B" "known_good (dbStatus db)" by (auto simp: any_unknown_def any_behind_def)
      with 3 valid st [of db] show ?thesis
        by (intro bexI [of _ db]) (simp_all add: set_policy_def db_class_def)
    next
      case 4
      then have "\<not> Behind b > 0" "known_good (dbStatus b)"
        using assms(2) by (auto simp: any_unknown_def any_behind_def)
      with 4 valid st [OF assms(2)] assms(2) show ?thesis
        by (intro bexI [of _ b]) (simp_all add: set_policy_def db_class_def)
    qed
  qed
  ultimately show ?thesis
    using assms(1) by (intro Max_eqI [symmetric]) auto
qed

section \<open>Histories of health checks\<close>

text \<open>The timers after a sequence of checks of one replica.\<close>

definition run_checks ::
  "duration \<Rightarrow> (ReplicaInfo \<times> instant) list \<Rightarrow> replicaState \<Rightarrow> replicaState" where
  "run_checks thr obs st = fold (\<lambda>(r, t) s. snd (classifyReplica r s t thr)) obs st"

text \<open>
  What a single observation says: no data channel, or lagging. An \<open>invalid\<close> database returns
  before the timers are looked at, so it neither starts nor stops the lag timer.
\<close>

definition silent :: "ReplicaInfo \<Rightarrow> bool" where
  "silent r \<longleftrightarrow> DataInfo r = []"

definition invalid :: "ReplicaInfo \<Rightarrow> bool" where
  "invalid r \<longleftrightarrow> any_invalid (snd ` set (DataInfo r))"

definition lagging :: "ReplicaInfo \<Rightarrow> bool" where
  "lagging r \<longleftrightarrow> \<not> invalid r \<and> any_behind (snd ` set (DataInfo r))"

lemma run_checks_append:
  "run_checks thr (xs @ ys) st = run_checks thr ys (run_checks thr xs st)"
  by (simp add: run_checks_def)

lemma run_checks_Cons:
  "run_checks thr ((r, t) # obs) st = run_checks thr obs (snd (classifyReplica r st t thr))"
  by (simp add: run_checks_def)

lemma run_checks_Nil [simp]: "run_checks thr [] st = st"
  by (simp add: run_checks_def)

lemma set_policy_channel:
  "channelDownSince (snd (set_policy D st t thr)) = channelDownSince st"
  by (simp add: set_policy_def started_def)

lemma not_silent_clears_channel:
  "\<not> silent r \<Longrightarrow> channelDownSince (snd (classifyReplica r st t thr)) = 0"
  by (simp add: silent_def classifyReplica_nonempty set_policy_channel)

lemma silent_run:
  "\<forall>(r, t) \<in> set mid. silent r \<Longrightarrow> channelDownSince st = t0 \<Longrightarrow> t0 \<noteq> 0 \<Longrightarrow>
   channelDownSince (run_checks thr mid st) = t0"
  by (induction mid arbitrary: st)
    (auto simp: run_checks_Cons silent_def classifyReplica_empty Let_def)

lemma not_lagging_clears_behind:
  "\<not> lagging r \<Longrightarrow> \<not> invalid r \<Longrightarrow> behindSince (snd (classifyReplica r st t thr)) = 0"
  by (cases "DataInfo r = []")
    (auto simp: lagging_def invalid_def classifyReplica_nonempty classifyReplica_empty set_policy_def
      Let_def)

lemma lagging_not_empty: "lagging r \<or> invalid r \<Longrightarrow> DataInfo r \<noteq> []"
  by (auto simp: lagging_def invalid_def any_behind_def any_invalid_def)

lemma lagging_run:
  "\<forall>(r, t) \<in> set mid. lagging r \<or> invalid r \<Longrightarrow> behindSince st = t0 \<Longrightarrow> t0 \<noteq> 0 \<Longrightarrow>
   behindSince (run_checks thr mid st) = t0"
proof (induction mid arbitrary: st)
  case (Cons x mid)
  obtain r t where x: "x = (r, t)" by (cases x)
  with Cons.prems(1) have l: "lagging r \<or> invalid r" by simp
  have "behindSince (snd (classifyReplica r st t thr)) = t0"
    using Cons.prems(2,3) l classifyReplica_nonempty [OF lagging_not_empty [OF l]]
    by (auto simp: set_policy_def started_def IsZero_def lagging_def invalid_def)
  with Cons show ?case by (simp add: x run_checks_Cons)
qed simp

lemma lagging_starts:
  "lagging r \<Longrightarrow> behindSince st = 0 \<Longrightarrow> behindSince (snd (classifyReplica r st t thr)) = t"
  using classifyReplica_nonempty [OF lagging_not_empty]
  by (auto simp: lagging_def invalid_def set_policy_def started_def IsZero_def)

lemma silent_starts:
  "silent r \<Longrightarrow> channelDownSince st = 0 \<Longrightarrow> channelDownSince (snd (classifyReplica r st t thr)) = t"
  by (simp add: silent_def classifyReplica_empty)

text \<open>The two timers are never both running after a check.\<close>

definition timers_exclusive :: "replicaState \<Rightarrow> bool" where
  "timers_exclusive st \<longleftrightarrow> behindSince st = 0 \<or> channelDownSince st = 0"

lemma classifyReplica_exclusive: "timers_exclusive (snd (classifyReplica r st t thr))"
  by (cases "silent r")
    (auto simp: timers_exclusive_def not_silent_clears_channel silent_def classifyReplica_empty Let_def)

section \<open>Properties\<close>

text \<open>Go leaves the iteration order of the \<open>data_info\<close> map open, and the two loops of
  \<open>classifyReplica\<close> may see two different orders; they do not matter.\<close>

lemma classify_order_independent:
  assumes "mset first = mset (map snd (DataInfo r))"
    and "mset second = mset (map snd (DataInfo r))" and "DataInfo r \<noteq> []"
  shows "classify_dbs first second (st\<lparr>channelDownSince := 0\<rparr>) t thr = classifyReplica r st t thr"
  using assms by (metis classify_dbs_policy classifyReplica_nonempty list.set_map mset_eq_setD)

definition sample_db :: "int \<Rightarrow> string \<Rightarrow> ReplicaDBInfo" where
  "sample_db b s = \<lparr>Behind = b, DBStatus = s, Timestamp = 0\<rparr>"

definition sample_replica :: "data_info \<Rightarrow> ReplicaInfo" where
  "sample_replica m = \<lparr>RName = ''r_1'', SocketAddress = [], RHost = [], RPort = 0, SyncMode = [],
     DataInfo = m, RBehind = 0, RStatus = [], RTimestamp = 0\<rparr>"

text \<open>C18: A replica counts as healthy exactly when its data channel is down for no longer than
  the grace period, or it reports data and no database is invalid, none has a status outside
  ready, recovery and replicating, and none has been behind for longer than the threshold.\<close>

theorem healthy_iff:
  "isHealthy (fst (classifyReplica r st t thr)) \<longleftrightarrow>
     (if silent r
      then time_sub t (if channelDownSince st = 0 then t else channelDownSince st)
             \<le> channelDownGracePeriod
      else \<not> invalid r \<and> \<not> any_unknown (snd ` set (DataInfo r)) \<and>
           (lagging r \<longrightarrow> time_sub t (if behindSince st = 0 then t else behindSince st) \<le> thr))"
proof (cases "silent r")
  case True
  then show ?thesis by (auto simp: silent_def classifyReplica_empty Let_def)
next
  case False
  then show ?thesis
    by (auto simp: silent_def classifyReplica_nonempty set_policy_def started_def IsZero_def
        invalid_def lagging_def)
qed

lemma healthy_iff_witness:
  "isHealthy (fst (classifyReplica (sample_replica [(''a'', sample_db 3 ''ready'')])
      \<lparr>behindSince = 10, channelDownSince = 0\<rparr> 15 7))"
  by (subst healthy_iff)
    (simp add: silent_def invalid_def lagging_def any_unknown_def any_invalid_def any_behind_def
      sample_replica_def sample_db_def known_good_def dbStatus_def go_consts time_sub_def
      duration_units TrimSpace_def TrimFunc_def TrimQuotes_def TrimChar_def is_space_def
      ToLower_def to_lower_char_def)

text \<open>C19: The class of a replica that reports data is the worst of the classes its databases would
  have alone, in the order healthy, behind, transient, unknown status, behind too long, invalid,
  data channel down; so it counts as healthy exactly when each of its databases would.\<close>

theorem class_is_worst:
  fixes r st tnow thr
  assumes "DataInfo r \<noteq> []"
  defines "class_of \<equiv> \<lambda>x. fst (classifyReplica x st tnow thr)"
  shows "class_of r = Max ((\<lambda>db. class_of (r\<lparr>DataInfo := [db]\<rparr>)) ` set (DataInfo r)) \<and>
    (isHealthy (class_of r) \<longleftrightarrow> (\<forall>db \<in> set (DataInfo r). isHealthy (class_of (r\<lparr>DataInfo := [db]\<rparr>))))"
proof -
  let ?st = "st\<lparr>channelDownSince := 0\<rparr>" and ?B = "snd ` set (DataInfo r)"
  let ?late = "time_sub tnow (behindSince (started tnow ?st)) > thr"
  have single: "class_of (r\<lparr>DataInfo := [db]\<rparr>) = db_class ?late (snd db)" for db
    using set_policy_worst [of "{snd db}" "snd db" ?st tnow thr]
    by (simp add: class_of_def classifyReplica_nonempty)
  obtain db where "db \<in> ?B" using assms(1) by (cases "DataInfo r") auto
  then have "class_of r = Max (db_class ?late ` ?B)"
    using set_policy_worst [of ?B db ?st tnow thr] assms(1)
    by (simp add: class_of_def classifyReplica_nonempty)
  then have "class_of r = Max ((\<lambda>db. class_of (r\<lparr>DataInfo := [db]\<rparr>)) ` set (DataInfo r))"
    unfolding single by (simp add: image_image)
  moreover from this assms(1) have "isHealthy (class_of r) \<longleftrightarrow>
      (\<forall>db \<in> set (DataInfo r). isHealthy (class_of (r\<lparr>DataInfo := [db]\<rparr>)))"
    by (simp add: healthy_severity)
  ultimately show ?thesis ..
qed

lemma class_is_worst_witness:
  "let r = sample_replica [(''a'', sample_db 3 ''ready''), (''b'', sample_db 0 ''odd'')];
       class_of = (\<lambda>x. fst (classifyReplica x \<lparr>behindSince = 10, channelDownSince = 0\<rparr> 15 7))
   in class_of r = Max ((\<lambda>db. class_of (r\<lparr>DataInfo := [db]\<rparr>)) ` set (DataInfo r)) \<and>
     (isHealthy (class_of r) \<longleftrightarrow> (\<forall>db \<in> set (DataInfo r). isHealthy (class_of (r\<lparr>DataInfo := [db]\<rparr>))))"
  unfolding Let_def by (rule class_is_worst) (simp add: sample_replica_def)

text \<open>C16: The data-channel alarm measures real time. Over any history of checks in which a
  replica turned silent at \<open>t0\<close> (having reported data just before, or never having been
  seen) and stayed silent, the check at \<open>t\<close> answers data-channel-down exactly when more
  than the grace period has passed since \<open>t0\<close>, and transient otherwise.\<close>

theorem channel_down_history:
  assumes "pre = [] \<or> \<not> silent (fst (last pre))" and "\<forall>(r, t) \<in> set mid. silent r"
    and "silent r0" and "silent r" and "t0 \<noteq> 0"
  shows "fst (classifyReplica r (run_checks thr (pre @ (r0, t0) # mid) zero_replicaState) t thr) =
     (if time_sub t t0 > channelDownGracePeriod then classificationDataChannelDown
      else classificationTransient)"
proof -
  let ?s = "run_checks thr pre zero_replicaState"
  have "channelDownSince ?s = 0"
    using assms(1)
    by (cases pre rule: rev_cases)
      (auto simp: zero_replicaState_def run_checks_append run_checks_Cons not_silent_clears_channel)
  then have "channelDownSince (snd (classifyReplica r0 ?s t0 thr)) = t0"
    using assms(3) by (simp add: silent_starts)
  then have "channelDownSince (run_checks thr (pre @ (r0, t0) # mid) zero_replicaState) = t0"
    using assms(2,5) by (simp add: run_checks_append run_checks_Cons silent_run)
  then show ?thesis using assms(4,5) by (simp add: silent_def classifyReplica_empty)
qed

lemma channel_down_history_witness:
  "fst (classifyReplica (sample_replica [])
     (run_checks 5 ([(sample_replica [(''a'', sample_db 0 ''ready'')], 4)] @ (sample_replica [], 9) # [])
        zero_replicaState) (10 + 30 * Second) 5) = classificationDataChannelDown"
  by (subst channel_down_history)
    (simp_all add: silent_def sample_replica_def channelDownGracePeriod_def time_sub_def duration_units)

text \<open>C17: The lag alarm measures real time. Over any history in which a replica started to lag
  at \<open>t0\<close> (the check before had it caught up or silent, or it had never been seen) and every
  later check found it lagging or invalid, a check at \<open>t\<close> that finds it lagging answers
  behind-too-long exactly when more than the threshold has passed since \<open>t0\<close>.\<close>

theorem behind_too_long_history:
  assumes "pre = [] \<or> \<not> lagging (fst (last pre)) \<and> \<not> invalid (fst (last pre))"
    and "\<forall>(r, t) \<in> set mid. lagging r \<or> invalid r"
    and "lagging r0" and "lagging r" and "t0 \<noteq> 0"
  shows "fst (classifyReplica r (run_checks thr (pre @ (r0, t0) # mid) zero_replicaState) t thr) =
       classificationBehindTooLong \<longleftrightarrow> time_sub t t0 > thr"
proof -
  let ?s = "run_checks thr pre zero_replicaState"
  have "behindSince ?s = 0"
    using assms(1)
    by (cases pre rule: rev_cases)
      (auto simp: zero_replicaState_def run_checks_append run_checks_Cons not_lagging_clears_behind)
  then have "behindSince (snd (classifyReplica r0 ?s t0 thr)) = t0"
    using assms(3) by (simp add: lagging_starts)
  then have b: "behindSince (run_checks thr (pre @ (r0, t0) # mid) zero_replicaState) = t0"
    using assms(2,5) by (simp add: run_checks_append run_checks_Cons lagging_run)
  then show ?thesis
    using assms(4,5) classifyReplica_nonempty [OF lagging_not_empty]
    by (auto simp: lagging_def invalid_def set_policy_def started_def IsZero_def)
qed

lemma behind_too_long_history_witness:
  "fst (classifyReplica (sample_replica [(''a'', sample_db 2 ''ready'')])
     (run_checks 100 ([] @ (sample_replica [(''a'', sample_db 1 ''ready'')], 9) #
        [(sample_replica [(''a'', sample_db 1 ''invalid'')], 50)]) zero_replicaState) 110 100) =
     classificationBehindTooLong \<longleftrightarrow> time_sub 110 9 > 100"
  by (rule behind_too_long_history)
    (simp_all add: invalid_def lagging_def any_invalid_def any_behind_def
      sample_replica_def sample_db_def dbStatus_def go_consts
      TrimSpace_def TrimFunc_def TrimQuotes_def TrimChar_def is_space_def
      ToLower_def to_lower_char_def)

end
