(* ===== verification/Timer_Store.thy ===== *)
theory Timer_Store
  imports Classifier
begin

text \<open>
  The per-replica timers the replication manager keeps between health checks
  (\<open>states\<close>, \<open>stateFor\<close> and \<open>pruneStates\<close> of \<open>internal/controller/replication.go\<close>). The
  interface a health check relies on is the locale \<open>timer_store\<close>: reading creates a zero
  entry, writing replaces one entry, pruning keeps the observed names of one cluster.
\<close>

section \<open>Interface\<close>

text \<open>
  One pass over the observed replicas: each one's entry is read and rewritten in turn.
\<close>

definition store_step ::
  "('s \<Rightarrow> string \<Rightarrow> string \<Rightarrow> 'v \<times> 's) \<Rightarrow> ('s \<Rightarrow> string \<Rightarrow> string \<Rightarrow> 'v \<Rightarrow> 's) \<Rightarrow>
   string \<Rightarrow> ('r \<Rightarrow> string) \<Rightarrow> ('r \<Rightarrow> 'v \<Rightarrow> 'v) \<Rightarrow> 'r \<Rightarrow> 's \<Rightarrow> 's" where
  "store_step get put k nm f r s = (let (v, s1) = get s k (nm r) in put s1 k (nm r) (f r v))"

definition store_pass ::
  "('s \<Rightarrow> string \<Rightarrow> string \<Rightarrow> 'v \<times> 's) \<Rightarrow> ('s \<Rightarrow> string \<Rightarrow> string \<Rightarrow> 'v \<Rightarrow> 's) \<Rightarrow>
   string \<Rightarrow> ('r \<Rightarrow> string) \<Rightarrow> ('r \<Rightarrow> 'v \<Rightarrow> 'v) \<Rightarrow> 'r list \<Rightarrow> 's \<Rightarrow> 's" where
  "store_pass get put k nm f rs s = fold (store_step get put k nm f) rs s"

locale timer_store =
  fixes get :: "'s \<Rightarrow> string \<Rightarrow> string \<Rightarrow> 'v \<times> 's"
    and put :: "'s \<Rightarrow> string \<Rightarrow> string \<Rightarrow> 'v \<Rightarrow> 's"
    and prune :: "'s \<Rightarrow> string \<Rightarrow> string list \<Rightarrow> 's"
    and look :: "'s \<Rightarrow> string \<Rightarrow> string \<Rightarrow> 'v option"
    and zero :: 'v
  assumes get_value: "fst (get s k n) = (case look s k n of None \<Rightarrow> zero | Some v \<Rightarrow> v)"
    and get_look: "look (snd (get s k n)) k' n' =
      (if k' = k \<and> n' = n then Some (fst (get s k n)) else look s k' n')"
    and put_look: "look (put s k n v) k' n' = (if k' = k \<and> n' = n then Some v else look s k' n')"
    and prune_look: "look (prune s k obs) k' n' =
      (if k' = k \<and> n' \<notin> set obs then None else look s k' n')"
begin

lemma step_look:
  "look (store_step get put k nm f r s) k' n' =
     (if k' = k \<and> n' = nm r then Some (f r (case look s k (nm r) of None \<Rightarrow> zero | Some v \<Rightarrow> v))
      else look s k' n')"
proof -
  obtain v s1 where g: "get s k (nm r) = (v, s1)" by (cases "get s k (nm r)")
  with get_value [of s k "nm r"] get_look [of s k "nm r"] show ?thesis
    by (simp add: put_look store_step_def)
qed

lemma pass_other: "k' \<noteq> k \<Longrightarrow> look (store_pass get put k nm f rs s) k' n' = look s k' n'"
  by (induction rs arbitrary: s) (auto simp: store_pass_def step_look)

lemma pass_look:
  "look (store_pass get put k nm f rs s) k n =
     (if n \<in> nm ` set rs
      then Some (fold f (filter (\<lambda>r. nm r = n) rs) (case look s k n of None \<Rightarrow> zero | Some v \<Rightarrow> v))
      else look s k n)"
proof (induction rs arbitrary: s)
  case (Cons r rs)
  have "store_pass get put k nm f (r # rs) s =
      store_pass get put k nm f rs (store_step get put k nm f r s)"
    by (simp add: store_pass_def)
  moreover have "fold f (filter (\<lambda>r. nm r = n) rs) v = v" if "n \<notin> nm ` set rs" for v
    using that by (induction rs) auto
  ultimately show ?case by (auto simp: Cons.IH step_look)
qed (simp add: store_pass_def)

text \<open>A pass followed by pruning to what it observed: exactly the observed names remain.\<close>

lemma check_look:
  "look (prune (store_pass get put k nm f rs s) k (map nm rs)) k' n =
     (if k' = k
      then (if n \<in> nm ` set rs
            then Some (fold f (filter (\<lambda>r. nm r = n) rs)
                         (case look s k n of None \<Rightarrow> zero | Some v \<Rightarrow> v))
            else None)
      else look s k' n)"
  by (auto simp: prune_look pass_look pass_other)

end

section \<open>The timer store\<close>

type_synonym timer_store = "string \<rightharpoonup> replica_states"

definition cluster_key :: "string \<Rightarrow> string \<Rightarrow> string" where
  "cluster_key ns name = ns @ ''/'' @ name"

text \<open>
  \<open>stateFor\<close> returns a pointer into the store, creating the entries on the way; the caller
  writes through it. Here the pointed-to value is returned with the store, and the write is
  \<open>putState\<close>.
\<close>

definition replicas_of :: "timer_store \<Rightarrow> string \<Rightarrow> replica_states" where
  "replicas_of states clusterKey = (case states clusterKey of None \<Rightarrow> [] | Some m \<Rightarrow> m)"

definition stateFor ::
  "timer_store \<Rightarrow> string \<Rightarrow> string \<Rightarrow> replicaState \<times> timer_store" where
  "stateFor states clusterKey replicaName =
     (let byReplica = replicas_of states clusterKey in
      case map_of byReplica replicaName of
        Some st \<Rightarrow> (st, states(clusterKey \<mapsto> byReplica))
      | None \<Rightarrow> (zero_replicaState,
                 states(clusterKey \<mapsto> map_put replicaName zero_replicaState byReplica)))"

definition putState ::
  "timer_store \<Rightarrow> string \<Rightarrow> string \<Rightarrow> replicaState \<Rightarrow> timer_store" where
  "putState states clusterKey replicaName st =
     states(clusterKey \<mapsto> map_put replicaName st (replicas_of states clusterKey))"

definition pruneStates :: "timer_store \<Rightarrow> string \<Rightarrow> string list \<Rightarrow> timer_store" where
  "pruneStates states clusterKey observed =
     (case states clusterKey of
        None \<Rightarrow> states
      | Some byReplica \<Rightarrow>
          states(clusterKey \<mapsto> filter (\<lambda>(name, _). name \<in> set observed) byReplica))"

definition lookupState :: "timer_store \<Rightarrow> string \<Rightarrow> string \<Rightarrow> replicaState option" where
  "lookupState states clusterKey replicaName = map_of (replicas_of states clusterKey) replicaName"

section \<open>The store implements the interface\<close>

lemma replicas_of_upd [simp]:
  "replicas_of (s(k \<mapsto> m)) k' = (if k' = k then m else replicas_of s k')"
  by (simp add: replicas_of_def)

lemma map_of_filter_keys:
  "map_of (filter (\<lambda>(n, _). P n) m) n' = (if P n' then map_of m n' else None)"
  by (induction m) (auto split: if_splits)

interpretation ts: timer_store stateFor putState pruneStates lookupState zero_replicaState
proof
  fix s :: timer_store and k n k' n' v obs
  show "fst (stateFor s k n) = (case lookupState s k n of None \<Rightarrow> zero_replicaState | Some v \<Rightarrow> v)"
    by (simp add: stateFor_def lookupState_def Let_def split: option.splits)
  show "lookupState (snd (stateFor s k n)) k' n' =
      (if k' = k \<and> n' = n then Some (fst (stateFor s k n)) else lookupState s k' n')"
    by (auto simp: stateFor_def lookupState_def Let_def map_put_map_of split: option.splits)
  show "lookupState (putState s k n v) k' n' =
      (if k' = k \<and> n' = n then Some v else lookupState s k' n')"
    by (auto simp: putState_def lookupState_def map_put_map_of)
  show "lookupState (pruneStates s k obs) k' n' =
      (if k' = k \<and> n' \<notin> set obs then None else lookupState s k' n')"
    by (auto simp: pruneStates_def lookupState_def replicas_of_def map_of_filter_keys split: option.splits)
qed

text \<open>
  The invariant of the store: no replica has two entries, and in each entry at most one of
  the two timers runs.
\<close>

definition store_ok :: "timer_store \<Rightarrow> bool" where
  "store_ok s \<longleftrightarrow> (\<forall>k m. s k = Some m \<longrightarrow>
     distinct (map fst m) \<and> (\<forall>st \<in> snd ` set m. timers_exclusive st))"

lemma store_okI:
  "store_ok s \<Longrightarrow> distinct (map fst m) \<Longrightarrow> \<forall>st \<in> snd ` set m. timers_exclusive st \<Longrightarrow>
   store_ok (s(k \<mapsto> m))"
  by (simp add: store_ok_def)

lemma replicas_of_ok:
  "store_ok s \<Longrightarrow>
   distinct (map fst (replicas_of s k)) \<and> (\<forall>st \<in> snd ` set (replicas_of s k). timers_exclusive st)"
  unfolding replicas_of_def by (cases "s k") (simp, simp add: store_ok_def)

lemma map_put_values: "snd ` set (map_put k v m) \<subseteq> insert v (snd ` set m)"
  by (induction m) (fastforce split: if_splits)+

lemma map_put_exclusive:
  "\<forall>st \<in> snd ` set m. timers_exclusive st \<Longrightarrow> timers_exclusive v \<Longrightarrow>
   \<forall>st \<in> snd ` set (map_put k v m). timers_exclusive st"
  using map_put_values [of k v m] by blast

lemma zero_exclusive: "timers_exclusive zero_replicaState"
  by (simp add: timers_exclusive_def zero_replicaState_def)

lemma store_ok_empty: "store_ok Map.empty"
  by (simp add: store_ok_def)

lemma putState_ok: "store_ok s \<Longrightarrow> timers_exclusive st \<Longrightarrow> store_ok (putState s k n st)"
  unfolding putState_def
  by (intro store_okI map_put_distinct map_put_exclusive) (auto dest: replicas_of_ok [of s k])

lemma stateFor_ok:
  assumes "store_ok s"
  shows "store_ok (snd (stateFor s k n))"
proof -
  note r = replicas_of_ok [OF assms, of k]
  have "store_ok (s(k \<mapsto> map_put n zero_replicaState (replicas_of s k)))"
    using r by (intro store_okI assms map_put_distinct map_put_exclusive zero_exclusive) auto
  moreover have "store_ok (s(k \<mapsto> replicas_of s k))"
    using r by (intro store_okI assms) auto
  ultimately show ?thesis by (simp add: stateFor_def Let_def split: option.splits)
qed

lemma pruneStates_ok: "store_ok s \<Longrightarrow> store_ok (pruneStates s k obs)"
  using replicas_of_ok [of s k]
  by (auto simp: pruneStates_def replicas_of_def distinct_map inj_on_def
      intro!: store_okI split: option.splits)

lemma remove_ok: "store_ok s \<Longrightarrow> store_ok (s(k := None))"
  by (simp add: store_ok_def)

end
