(* ===== verification/Go_Float.thy ===== *)
theory Go_Float
  imports Go_Time
begin

text \<open>
  \<open>strconv.ParseFloat(s, 64)\<close>: signs, decimal and hexadecimal mantissas with underscores
  between digits, exponents, infinities and NaN. The result is the exact value rounded once.
\<close>

section \<open>Mantissa and exponent\<close>

definition hex_digit :: "char \<Rightarrow> int option" where
  "hex_digit c =
     (let n = of_char c :: int in
      if 48 \<le> n \<and> n \<le> 57 then Some (n - 48)
      else if 97 \<le> n \<and> n \<le> 102 then Some (n - 87)
      else if 65 \<le> n \<and> n \<le> 70 then Some (n - 55) else None)"

definition digit_in :: "int \<Rightarrow> char \<Rightarrow> int option" where
  "digit_in base c =
     (case hex_digit c of None \<Rightarrow> None | Some d \<Rightarrow> if d < base then Some d else None)"

text \<open>
  The digit loop: mantissa so far, digits after the point, whether a point and whether a digit
  was seen. It stops at the first character that is none of digit, point or underscore.
\<close>

fun mantissa_loop ::
  "int \<Rightarrow> string \<Rightarrow> int \<Rightarrow> int \<Rightarrow> bool \<Rightarrow> bool \<Rightarrow> int \<times> int \<times> bool \<times> string" where
  "mantissa_loop base [] m fr dot seen = (m, fr, seen, [])"
| "mantissa_loop base (c # cs) m fr dot seen =
     (if c = CHR ''_'' then mantissa_loop base cs m fr dot seen
      else if c = CHR ''.'' then
        (if dot then (m, fr, seen, c # cs) else mantissa_loop base cs m fr True seen)
      else (case digit_in base c of
          Some d \<Rightarrow> mantissa_loop base cs (base * m + d) (if dot then fr + 1 else fr) dot True
        | None \<Rightarrow> (m, fr, seen, c # cs)))"

text \<open>Exponent digits; the value stops growing once it has five digits.\<close>

fun exponent_loop :: "string \<Rightarrow> int \<Rightarrow> int \<times> string" where
  "exponent_loop [] x = (x, [])"
| "exponent_loop (c # cs) x =
     (if c = CHR ''_'' then exponent_loop cs x
      else if is_digit c then exponent_loop cs (if x < 10000 then 10 * x + digit_val c else x)
      else (x, c # cs))"

definition read_exponent :: "string \<Rightarrow> (int \<times> string) option" where
  "read_exponent s =
     (let (sg, t) = (case s of
          c # cs \<Rightarrow> if c = CHR ''+'' then (1, cs) else if c = CHR ''-'' then (-1, cs) else (1, s)
        | [] \<Rightarrow> (1, s))
      in (case t of
          [] \<Rightarrow> None
        | c # cs \<Rightarrow> if is_digit c then (let (x, r) = exponent_loop t 0 in Some (sg * x, r)) else None))"

section \<open>Underscores\<close>

text \<open>
  \<open>underscoreOK\<close> on a number without its sign: an underscore only between digits, or between a
  base prefix and a digit. The state is the kind of the last character: \<open>CHR ''0''\<close> digit,
  \<open>CHR ''_''\<close> underscore, \<open>CHR ''!''\<close> anything else, \<open>CHR ''^''\<close> the start.
\<close>

fun underscore_loop :: "bool \<Rightarrow> char \<Rightarrow> string \<Rightarrow> bool" where
  "underscore_loop hex i [] = (i \<noteq> CHR ''_'')"
| "underscore_loop hex i (c # cs) =
     (if is_digit c \<or> hex \<and> digit_in 16 c \<noteq> None then underscore_loop hex (CHR ''0'') cs
      else if c = CHR ''_'' then i = CHR ''0'' \<and> underscore_loop hex (CHR ''_'') cs
      else i \<noteq> CHR ''_'' \<and> underscore_loop hex (CHR ''!'') cs)"

definition underscoreOK :: "string \<Rightarrow> bool" where
  "underscoreOK s =
     (case s of
        a # b # t \<Rightarrow>
          if a = CHR ''0'' \<and> to_lower_char b \<in> {CHR ''b'', CHR ''o'', CHR ''x''}
          then underscore_loop (to_lower_char b = CHR ''x'') (CHR ''0'') t
          else underscore_loop False (CHR ''^'') s
      | _ \<Rightarrow> underscore_loop False (CHR ''^'') s)"

section \<open>The whole number\<close>

text \<open>The unsigned number, exactly; \<open>None\<close> is a syntax error.\<close>

definition parse_decimal :: "string \<Rightarrow> rat option" where
  "parse_decimal s =
     (let (m, fr, seen, r) = mantissa_loop 10 s 0 0 False False in
      if \<not> seen then None
      else (case r of
          [] \<Rightarrow> Some (of_int m / 10 ^ nat fr)
        | c # cs \<Rightarrow>
          if to_lower_char c \<noteq> CHR ''e'' then None
          else (case read_exponent cs of
              Some (x, []) \<Rightarrow>
                Some (of_int m / 10 ^ nat fr * (if 0 \<le> x then 10 ^ nat x else 1 / 10 ^ nat (- x)))
            | _ \<Rightarrow> None)))"

definition parse_hex :: "string \<Rightarrow> rat option" where
  "parse_hex s =
     (let (m, fr, seen, r) = mantissa_loop 16 s 0 0 False False in
      if \<not> seen then None
      else (case r of
          [] \<Rightarrow> None
        | c # cs \<Rightarrow>
          if to_lower_char c \<noteq> CHR ''p'' then None
          else (case read_exponent cs of
              Some (x, []) \<Rightarrow> Some (of_int m / 16 ^ nat fr * pow2 x)
            | _ \<Rightarrow> None)))"

definition parse_unsigned_float :: "string \<Rightarrow> rat option" where
  "parse_unsigned_float s =
     (if CHR ''_'' \<in> set s \<and> \<not> underscoreOK s then None
      else (case s of
          a # b # c # t \<Rightarrow> if a = CHR ''0'' \<and> to_lower_char b = CHR ''x''
                           then parse_hex (c # t) else parse_decimal s
        | _ \<Rightarrow> parse_decimal s))"

definition ParseFloat :: "string \<Rightarrow> f64 \<times> num_error option" where
  "ParseFloat s =
     (let signed = (s \<noteq> [] \<and> hd s \<in> {CHR ''+'', CHR ''-''});
          neg = (s \<noteq> [] \<and> hd s = CHR ''-'');
          t = (if signed then tl s else s);
          sg = (if neg then f64_neg else (\<lambda>x. x))
      in if ToLower t = ''inf'' \<or> ToLower t = ''infinity'' then (sg PosInf, None)
         else if \<not> signed \<and> ToLower t = ''nan'' then (NaN, None)
         else (case parse_unsigned_float t of
             None \<Rightarrow> (Fin 0, Some ErrSyntax)
           | Some q \<Rightarrow>
               (let x = f64_round q in (sg x, if x = PosInf then Some ErrRange else None))))"

end
