(* ===== verification/Storage_Info.thy ===== *)
theory Storage_Info
  imports Client Go_Float
begin

text \<open>
  \<open>SHOW STORAGE INFO\<close> (\<open>internal/memgraph/client.go\<close>): the key/value table and its memory
  sizes with units.
\<close>

record StorageInfo =
  SName :: string
  VertexCount :: int
  EdgeCount :: int
  AverageDegree :: f64
  MemoryRes :: int
  PeakMemoryRes :: int
  DiskUsage :: int
  MemoryTracked :: int
  AllocationLimit :: int
  UnreleasedDeltaObjects :: int
  StorageMode :: string
  IsolationLevel :: string

definition zero_StorageInfo :: StorageInfo where
  "zero_StorageInfo = \<lparr>SName = [], VertexCount = 0, EdgeCount = 0, AverageDegree = Fin 0,
     MemoryRes = 0, PeakMemoryRes = 0, DiskUsage = 0, MemoryTracked = 0, AllocationLimit = 0,
     UnreleasedDeltaObjects = 0, StorageMode = [], IsolationLevel = []\<rparr>"

section \<open>Memory sizes\<close>

definition applyMemoryUnit :: "(f64 \<Rightarrow> int) \<Rightarrow> f64 \<Rightarrow> string \<Rightarrow> int" where
  "applyMemoryUnit oor num u =
     (let unit = ToUpper u; k = f64_scale 1024 in
      if unit \<in> {''B'', ''BYTES''} then f64_to_int64 oor num
      else if unit \<in> {''KB'', ''KIB''} then f64_to_int64 oor (k num)
      else if unit \<in> {''MB'', ''MIB''} then f64_to_int64 oor (k (k num))
      else if unit \<in> {''GB'', ''GIB''} then f64_to_int64 oor (k (k (k num)))
      else if unit \<in> {''TB'', ''TIB''} then f64_to_int64 oor (k (k (k (k num))))
      else f64_to_int64 oor num)"

definition splitNumberAndUnit :: "string \<Rightarrow> string \<times> string" where
  "splitNumberAndUnit s = (takeWhile (\<lambda>c. \<not> is_letter c) s, dropWhile (\<lambda>c. \<not> is_letter c) s)"

definition parseMemoryValue :: "(f64 \<Rightarrow> int) \<Rightarrow> string \<Rightarrow> int" where
  "parseMemoryValue oor v =
     (let value = TrimSpace v in
      if value = [] then 0
      else (case ParseInt value of
          (n, None) \<Rightarrow> n
        | _ \<Rightarrow>
          (case Fields value of
             [] \<Rightarrow> 0
           | [p] \<Rightarrow>
               (let (numStr, unit) = splitNumberAndUnit p in
                if numStr = [] then 0
                else (case ParseFloat numStr of
                    (_, Some _) \<Rightarrow> 0
                  | (num, None) \<Rightarrow>
                      if unit = [] then f64_to_int64 oor num else applyMemoryUnit oor num unit))
           | p # u # _ \<Rightarrow>
               (case ParseFloat p of (_, Some _) \<Rightarrow> 0 | (num, None) \<Rightarrow> applyMemoryUnit oor num u))))"

section \<open>The table\<close>

definition store_storage :: "(f64 \<Rightarrow> int) \<Rightarrow> string \<Rightarrow> string \<Rightarrow> StorageInfo \<Rightarrow> StorageInfo" where
  "store_storage oor key value info =
     (if key = ''name'' then info\<lparr>SName := value\<rparr>
      else if key = ''vertex_count'' then info\<lparr>VertexCount := fst (ParseInt value)\<rparr>
      else if key = ''edge_count'' then info\<lparr>EdgeCount := fst (ParseInt value)\<rparr>
      else if key = ''average_degree'' then info\<lparr>AverageDegree := fst (ParseFloat value)\<rparr>
      else if key = ''memory_res'' then info\<lparr>MemoryRes := parseMemoryValue oor value\<rparr>
      else if key = ''peak_memory_res'' then info\<lparr>PeakMemoryRes := parseMemoryValue oor value\<rparr>
      else if key = ''disk_usage'' then info\<lparr>DiskUsage := parseMemoryValue oor value\<rparr>
      else if key = ''memory_tracked'' then info\<lparr>MemoryTracked := parseMemoryValue oor value\<rparr>
      else if key = ''allocation_limit'' then info\<lparr>AllocationLimit := parseMemoryValue oor value\<rparr>
      else if key = ''unreleased_delta_objects'' then
        info\<lparr>UnreleasedDeltaObjects := fst (ParseInt value)\<rparr>
      else if key = ''storage_mode'' then info\<lparr>StorageMode := value\<rparr>
      else if key = ''global_isolation_level'' then info\<lparr>IsolationLevel := value\<rparr>
      else info)"

definition parse_storage_line :: "(f64 \<Rightarrow> int) \<Rightarrow> string \<Rightarrow> StorageInfo \<Rightarrow> StorageInfo" where
  "parse_storage_line oor l info =
     (let line = TrimSpace l in
      if line = [] \<or> HasPrefix line ''+'' then info
      else if HasPrefix line ''|'' then
        (let parts = Split (CHR ''|'') line in
         if 3 \<le> length parts then
           store_storage oor (TrimQuotes (TrimSpace (parts ! 1))) (TrimQuotes (TrimSpace (parts ! 2))) info
         else info)
      else info)"

definition parseStorageInfoOutput :: "(f64 \<Rightarrow> int) \<Rightarrow> string \<Rightarrow> StorageInfo" where
  "parseStorageInfoOutput oor output =
     fold (parse_storage_line oor) (Split (CHR 0x0A) output) zero_StorageInfo"

text \<open>
  The verb \<open>%.500s\<close> keeps 500 runes, not bytes: the width of the first rune of a text in UTF-8,
  where a byte that starts no valid encoding counts as one rune.
\<close>

definition rune_width :: "string \<Rightarrow> nat" where
  "rune_width s =
     (let b = (\<lambda>i. if i < length s then of_char (s ! i) else 0 :: int);
          cont = (\<lambda>i. 0x80 \<le> b i \<and> b i \<le> 0xBF)
      in if 0xC2 \<le> b 0 \<and> b 0 \<le> 0xDF \<and> cont 1 then 2
         else if 0xE0 \<le> b 0 \<and> b 0 \<le> 0xEF \<and> cont 1 \<and> cont 2 \<and>
           (b 0 = 0xE0 \<longrightarrow> 0xA0 \<le> b 1) \<and> (b 0 = 0xED \<longrightarrow> b 1 \<le> 0x9F) then 3
         else if 0xF0 \<le> b 0 \<and> b 0 \<le> 0xF4 \<and> cont 1 \<and> cont 2 \<and> cont 3 \<and>
           (b 0 = 0xF0 \<longrightarrow> 0x90 \<le> b 1) \<and> (b 0 = 0xF4 \<longrightarrow> b 1 \<le> 0x8F) then 4
         else 1)"

fun take_runes :: "nat \<Rightarrow> string \<Rightarrow> string" where
  "take_runes 0 s = []"
| "take_runes (Suc n) s =
     (if s = [] then [] else take (rune_width s) s @ take_runes n (drop (rune_width s) s))"

text \<open>Where the report was empty, Go returns the parsed value beside the error; so does the model.\<close>

definition GetStorageInfo ::
  "'s env \<Rightarrow> string \<Rightarrow> string \<Rightarrow> ('s, go_error \<times> StorageInfo option + StorageInfo) op" where
  "GetStorageInfo e ns pod = do {
     r \<leftarrow> ExecuteQuery e ns pod ''SHOW STORAGE INFO;'';
     State_Monad.return
       (case r of
          Inl er \<Rightarrow> Inl (wrap ''failed to get storage info: '' er, None)
        | Inr output \<Rightarrow>
            let info = parseStorageInfoOutput (float_out_of_range e) output in
            if output \<noteq> [] \<and> VertexCount info = 0 \<and> MemoryRes info = 0 \<and> AllocationLimit info = 0
               \<and> SName info = [] \<and> StorageMode info = []
            then Inl (OtherError (''storage info parsing returned empty results, raw output length: '' @
                   Itoa (int (length output)) @ '' bytes, first 500 chars: '' @ take_runes 500 output),
                 Some info)
            else Inr info)
   }"

lemma GetStorageInfo_emits [rel_intros]:
  "P (Exec (query_request ns pod ''SHOW STORAGE INFO;'')) \<Longrightarrow>
   state_io_rel (emits P) (GetStorageInfo e ns pod)"
  unfolding GetStorageInfo_def by (intro rel_intros ExecuteQuery_emits)

lemma GetStorageInfo_process [rel_intros]:
  "state_io_rel (keeps process) (GetStorageInfo e ns pod)"
  unfolding GetStorageInfo_def by (intro rel_intros ExecuteQuery_process)

end
