(* ===== verification/Metrics.thy ===== *)
theory Metrics
  imports Storage_Info
begin

text \<open>
  The Prometheus recorder (\<open>internal/controller/metrics.go\<close>). A metric vector is its name
  with its label names; every recording or deletion is a call of the Prometheus library,
  appended to the trace.
\<close>

section \<open>Metric vectors\<close>

definition clusterPhaseGauge :: metric where
  "clusterPhaseGauge = (''memgraph_cluster_phase'', [''cluster'', ''namespace''])"
definition clusterReadyInstancesGauge :: metric where
  "clusterReadyInstancesGauge = (''memgraph_cluster_ready_instances'', [''cluster'', ''namespace''])"
definition clusterDesiredInstancesGauge :: metric where
  "clusterDesiredInstancesGauge =
     (''memgraph_cluster_desired_instances'', [''cluster'', ''namespace''])"
definition clusterRegisteredReplicasGauge :: metric where
  "clusterRegisteredReplicasGauge =
     (''memgraph_cluster_registered_replicas'', [''cluster'', ''namespace''])"
definition replicationLagGauge :: metric where
  "replicationLagGauge = (''memgraph_replication_lag_milliseconds'', [''cluster'', ''namespace''])"
definition replicationHealthyGauge :: metric where
  "replicationHealthyGauge = (''memgraph_replication_healthy'', [''cluster'', ''namespace''])"
definition replicaDataChannelUpGauge :: metric where
  "replicaDataChannelUpGauge =
     (''memgraph_replica_data_channel_up'', [''cluster'', ''namespace'', ''replica''])"
definition replicaBehindSecondsGauge :: metric where
  "replicaBehindSecondsGauge =
     (''memgraph_replica_behind_seconds'', [''cluster'', ''namespace'', ''replica''])"
definition replicaHealthyGauge :: metric where
  "replicaHealthyGauge = (''memgraph_replica_healthy'', [''cluster'', ''namespace'', ''replica''])"
definition replicaStatusGauge :: metric where
  "replicaStatusGauge =
     (''memgraph_replica_status'', [''cluster'', ''namespace'', ''replica'', ''status''])"
definition replicaBehindGauge :: metric where
  "replicaBehindGauge =
     (''memgraph_replica_behind_count'', [''cluster'', ''namespace'', ''replica''])"
definition replicaLastConfirmedTimestampGauge :: metric where
  "replicaLastConfirmedTimestampGauge =
     (''memgraph_replica_last_confirmed_timestamp_seconds'', [''cluster'', ''namespace'', ''replica''])"
definition replicaDataInfoPresentGauge :: metric where
  "replicaDataInfoPresentGauge =
     (''memgraph_replica_data_info_present'', [''cluster'', ''namespace'', ''replica''])"
definition clusterReplicasTotalGauge :: metric where
  "clusterReplicasTotalGauge = (''memgraph_cluster_replicas_total'', [''cluster'', ''namespace''])"
definition clusterReplicasHealthyTotalGauge :: metric where
  "clusterReplicasHealthyTotalGauge =
     (''memgraph_cluster_replicas_healthy_total'', [''cluster'', ''namespace''])"
definition replicationVertexDriftGauge :: metric where
  "replicationVertexDriftGauge =
     (''memgraph_replication_vertex_drift'', [''cluster'', ''namespace'', ''replica''])"
definition replicationEdgeDriftGauge :: metric where
  "replicationEdgeDriftGauge =
     (''memgraph_replication_edge_drift'', [''cluster'', ''namespace'', ''replica''])"
definition instanceHealthGauge :: metric where
  "instanceHealthGauge =
     (''memgraph_instance_healthy'', [''cluster'', ''namespace'', ''instance'', ''role''])"
definition reconcileOperationsTotal :: metric where
  "reconcileOperationsTotal =
     (''memgraph_reconcile_operations_total'', [''cluster'', ''namespace'', ''result''])"
definition reconcileDurationHistogram :: metric where
  "reconcileDurationHistogram =
     (''memgraph_reconcile_duration_seconds'', [''cluster'', ''namespace''])"
definition snapshotLastSuccessTimestamp :: metric where
  "snapshotLastSuccessTimestamp =
     (''memgraph_snapshot_last_success_timestamp_seconds'', [''cluster'', ''namespace''])"
definition snapshotOperationsTotal :: metric where
  "snapshotOperationsTotal =
     (''memgraph_snapshot_operations_total'', [''cluster'', ''namespace'', ''result''])"
definition failoverEventsTotal :: metric where
  "failoverEventsTotal = (''memgraph_failover_events_total'',
     [''cluster'', ''namespace'', ''from_instance'', ''to_instance''])"
definition validationLastRunTimestamp :: metric where
  "validationLastRunTimestamp =
     (''memgraph_validation_last_run_timestamp_seconds'', [''cluster'', ''namespace''])"
definition validationPassedGauge :: metric where
  "validationPassedGauge = (''memgraph_validation_passed'', [''cluster'', ''namespace''])"

text \<open>The storage vectors share their labels.\<close>

definition storage_labels :: "string list" where
  "storage_labels = [''cluster'', ''namespace'', ''instance'', ''role'']"

definition storageVertexCountGauge :: metric where
  "storageVertexCountGauge = (''memgraph_storage_vertex_count'', storage_labels)"
definition storageEdgeCountGauge :: metric where
  "storageEdgeCountGauge = (''memgraph_storage_edge_count'', storage_labels)"
definition storageAverageDegreeGauge :: metric where
  "storageAverageDegreeGauge = (''memgraph_storage_average_degree'', storage_labels)"
definition storageMemoryResGauge :: metric where
  "storageMemoryResGauge = (''memgraph_storage_memory_resident_bytes'', storage_labels)"
definition storagePeakMemoryResGauge :: metric where
  "storagePeakMemoryResGauge = (''memgraph_storage_memory_peak_bytes'', storage_labels)"
definition storageDiskUsageGauge :: metric where
  "storageDiskUsageGauge = (''memgraph_storage_disk_usage_bytes'', storage_labels)"
definition storageMemoryTrackedGauge :: metric where
  "storageMemoryTrackedGauge = (''memgraph_storage_memory_tracked_bytes'', storage_labels)"
definition storageAllocationLimitGauge :: metric where
  "storageAllocationLimitGauge = (''memgraph_storage_allocation_limit_bytes'', storage_labels)"
definition storageUnreleasedDeltaObjectsGauge :: metric where
  "storageUnreleasedDeltaObjectsGauge =
     (''memgraph_storage_unreleased_delta_objects'', storage_labels)"

lemmas metric_vectors =
  clusterPhaseGauge_def clusterReadyInstancesGauge_def clusterDesiredInstancesGauge_def
  clusterRegisteredReplicasGauge_def replicationLagGauge_def replicationHealthyGauge_def
  replicaDataChannelUpGauge_def replicaBehindSecondsGauge_def replicaHealthyGauge_def
  replicaStatusGauge_def replicaBehindGauge_def replicaLastConfirmedTimestampGauge_def
  replicaDataInfoPresentGauge_def clusterReplicasTotalGauge_def
  clusterReplicasHealthyTotalGauge_def replicationVertexDriftGauge_def
  replicationEdgeDriftGauge_def instanceHealthGauge_def reconcileOperationsTotal_def
  reconcileDurationHistogram_def snapshotLastSuccessTimestamp_def snapshotOperationsTotal_def
  failoverEventsTotal_def validationLastRunTimestamp_def validationPassedGauge_def

lemmas storage_vectors =
  storageVertexCountGauge_def storageEdgeCountGauge_def storageAverageDegreeGauge_def
  storageMemoryResGauge_def storagePeakMemoryResGauge_def storageDiskUsageGauge_def
  storageMemoryTrackedGauge_def storageAllocationLimitGauge_def
  storageUnreleasedDeltaObjectsGauge_def storage_labels_def

text \<open>The vectors \<open>init\<close> registers.\<close>

definition registered_metrics :: "metric list" where
  "registered_metrics =
     [clusterPhaseGauge, clusterReadyInstancesGauge, clusterDesiredInstancesGauge,
      clusterRegisteredReplicasGauge, replicationLagGauge, replicationHealthyGauge,
      replicaDataChannelUpGauge, replicaBehindSecondsGauge, replicaHealthyGauge,
      replicaStatusGauge, replicaBehindGauge, replicaLastConfirmedTimestampGauge,
      replicaDataInfoPresentGauge, clusterReplicasTotalGauge, clusterReplicasHealthyTotalGauge,
      replicationVertexDriftGauge, replicationEdgeDriftGauge, instanceHealthGauge,
      reconcileOperationsTotal, reconcileDurationHistogram, snapshotLastSuccessTimestamp,
      snapshotOperationsTotal, failoverEventsTotal, validationLastRunTimestamp,
      validationPassedGauge, storageVertexCountGauge, storageEdgeCountGauge,
      storageAverageDegreeGauge, storageMemoryResGauge, storagePeakMemoryResGauge,
      storageDiskUsageGauge, storageMemoryTrackedGauge, storageAllocationLimitGauge,
      storageUnreleasedDeltaObjectsGauge]"

lemma registered_distinct: "distinct (map fst registered_metrics)"
  by (simp add: registered_metrics_def metric_vectors storage_vectors)

section \<open>Recording\<close>

definition set_gauge :: "metric \<Rightarrow> string list \<Rightarrow> f64 \<Rightarrow> ('s, unit) op" where
  "set_gauge m ls v = metric (GaugeSet m ls v)"

definition delete_labels :: "string list \<Rightarrow> metric \<Rightarrow> ('s, unit) op" where
  "delete_labels ls m = metric (DeleteLabelValues m ls)"

definition delete_partial :: "string \<Rightarrow> string \<Rightarrow> metric \<Rightarrow> ('s, unit) op" where
  "delete_partial cluster ns m =
     metric (DeletePartialMatch m [(''cluster'', cluster), (''namespace'', ns)])"

definition phase_value :: "string \<Rightarrow> f64" where
  "phase_value phase =
     (if phase = ''Pending'' then Fin 0 else if phase = ''Initializing'' then Fin 1
      else if phase = ''Running'' then Fin 2 else if phase = ''Failed'' then Fin 3 else Fin 0)"

definition RecordClusterPhase :: "string \<Rightarrow> string \<Rightarrow> string \<Rightarrow> ('s, unit) op" where
  "RecordClusterPhase cl ns phase = set_gauge clusterPhaseGauge [cl, ns] (phase_value phase)"

definition RecordClusterInstances ::
  "string \<Rightarrow> string \<Rightarrow> int \<Rightarrow> int \<Rightarrow> int \<Rightarrow> ('s, unit) op" where
  "RecordClusterInstances cl ns ready desired registered = do {
     set_gauge clusterReadyInstancesGauge [cl, ns] (f64_of_int ready);
     set_gauge clusterDesiredInstancesGauge [cl, ns] (f64_of_int desired);
     set_gauge clusterRegisteredReplicasGauge [cl, ns] (f64_of_int registered)
   }"

definition RecordReplicationLag :: "string \<Rightarrow> string \<Rightarrow> int \<Rightarrow> ('s, unit) op" where
  "RecordReplicationLag cl ns lagMs = set_gauge replicationLagGauge [cl, ns] (f64_of_int lagMs)"

definition knownReplicaStatuses :: "string list" where
  "knownReplicaStatuses = [ReplicaStatusReady, ReplicaStatusReplicating, ReplicaStatusRecovery,
     ReplicaStatusInvalid]"

definition record_replica :: "string \<Rightarrow> string \<Rightarrow> ReplicaInfo \<Rightarrow> int \<Rightarrow> ('s, int) op" where
  "record_replica cl ns r healthyCount = do {
     set_gauge replicaHealthyGauge [cl, ns, RName r] (f64_bool (IsHealthy r));
     for_each (\<lambda>st. set_gauge replicaStatusGauge [cl, ns, RName r, st] (f64_bool (st = RStatus r)))
       knownReplicaStatuses;
     set_gauge replicaBehindGauge [cl, ns, RName r] (f64_of_int (RBehind r));
     set_gauge replicaLastConfirmedTimestampGauge [cl, ns, RName r] (f64_of_int (RTimestamp r));
     set_gauge replicaDataInfoPresentGauge [cl, ns, RName r] (f64_bool (DataInfoPresent r));
     State_Monad.return (if IsHealthy r then healthyCount + 1 else healthyCount)
   }"

definition RecordReplicaSet :: "string \<Rightarrow> string \<Rightarrow> ReplicaInfo list \<Rightarrow> ('s, unit) op" where
  "RecordReplicaSet cl ns replicas = do {
     for_each (delete_partial cl ns)
       [replicaHealthyGauge, replicaStatusGauge, replicaBehindGauge,
        replicaLastConfirmedTimestampGauge, replicaDataInfoPresentGauge];
     healthyCount \<leftarrow> for_fold (record_replica cl ns) replicas 0;
     set_gauge clusterReplicasTotalGauge [cl, ns] (f64_of_int (int (length replicas)));
     set_gauge clusterReplicasHealthyTotalGauge [cl, ns] (f64_of_int healthyCount);
     set_gauge replicationHealthyGauge [cl, ns] (f64_bool (healthyCount = int (length replicas)))
   }"

definition RecordReplicationDrift ::
  "string \<Rightarrow> string \<Rightarrow> string \<Rightarrow> int \<Rightarrow> int \<Rightarrow> ('s, unit) op" where
  "RecordReplicationDrift cl ns replica vertexDrift edgeDrift = do {
     set_gauge replicationVertexDriftGauge [cl, ns, replica] (f64_of_int vertexDrift);
     set_gauge replicationEdgeDriftGauge [cl, ns, replica] (f64_of_int edgeDrift)
   }"

definition DeleteReplicationDriftMetrics :: "string \<Rightarrow> string \<Rightarrow> ('s, unit) op" where
  "DeleteReplicationDriftMetrics cl ns =
     for_each (delete_partial cl ns) [replicationVertexDriftGauge, replicationEdgeDriftGauge]"

definition RecordInstanceHealth ::
  "string \<Rightarrow> string \<Rightarrow> string \<Rightarrow> string \<Rightarrow> bool \<Rightarrow> ('s, unit) op" where
  "RecordInstanceHealth cl ns inst role healthy =
     set_gauge instanceHealthGauge [cl, ns, inst, role] (f64_bool healthy)"

definition RecordReconcileOperation :: "string \<Rightarrow> string \<Rightarrow> string \<Rightarrow> ('s, unit) op" where
  "RecordReconcileOperation cl ns result = metric (CounterInc reconcileOperationsTotal [cl, ns, result])"

definition RecordReconcileDuration :: "string \<Rightarrow> string \<Rightarrow> f64 \<Rightarrow> ('s, unit) op" where
  "RecordReconcileDuration cl ns d = metric (HistogramObserve reconcileDurationHistogram [cl, ns] d)"

definition RecordSnapshotSuccess :: "string \<Rightarrow> string \<Rightarrow> f64 \<Rightarrow> ('s, unit) op" where
  "RecordSnapshotSuccess cl ns ts = do {
     set_gauge snapshotLastSuccessTimestamp [cl, ns] ts;
     metric (CounterInc snapshotOperationsTotal [cl, ns, ''success''])
   }"

definition RecordSnapshotFailure :: "string \<Rightarrow> string \<Rightarrow> ('s, unit) op" where
  "RecordSnapshotFailure cl ns = metric (CounterInc snapshotOperationsTotal [cl, ns, ''failure''])"

definition RecordFailoverEvent :: "string \<Rightarrow> string \<Rightarrow> string \<Rightarrow> string \<Rightarrow> ('s, unit) op" where
  "RecordFailoverEvent cl ns fromInst toInst =
     metric (CounterInc failoverEventsTotal [cl, ns, fromInst, toInst])"

definition RecordValidation :: "string \<Rightarrow> string \<Rightarrow> f64 \<Rightarrow> bool \<Rightarrow> ('s, unit) op" where
  "RecordValidation cl ns ts passed = do {
     set_gauge validationLastRunTimestamp [cl, ns] ts;
     set_gauge validationPassedGauge [cl, ns] (f64_bool passed)
   }"

definition RecordStorageInfo ::
  "string \<Rightarrow> string \<Rightarrow> string \<Rightarrow> string \<Rightarrow> StorageInfo option \<Rightarrow> ('s, unit) op" where
  "RecordStorageInfo cl ns inst role p =
     (case p of None \<Rightarrow> State_Monad.return ()
      | Some info \<Rightarrow> for_each (\<lambda>(m, v). set_gauge m [cl, ns, inst, role] v)
          [(storageVertexCountGauge, f64_of_int (VertexCount info)),
           (storageEdgeCountGauge, f64_of_int (EdgeCount info)),
           (storageAverageDegreeGauge, AverageDegree info),
           (storageMemoryResGauge, f64_of_int (MemoryRes info)),
           (storagePeakMemoryResGauge, f64_of_int (PeakMemoryRes info)),
           (storageDiskUsageGauge, f64_of_int (DiskUsage info)),
           (storageMemoryTrackedGauge, f64_of_int (MemoryTracked info)),
           (storageAllocationLimitGauge, f64_of_int (AllocationLimit info)),
           (storageUnreleasedDeltaObjectsGauge, f64_of_int (UnreleasedDeltaObjects info))])"

definition DeleteInstanceStorageMetrics ::
  "string \<Rightarrow> string \<Rightarrow> string \<Rightarrow> string \<Rightarrow> ('s, unit) op" where
  "DeleteInstanceStorageMetrics cl ns inst role =
     for_each (delete_labels [cl, ns, inst, role])
       [storageVertexCountGauge, storageEdgeCountGauge, storageAverageDegreeGauge,
        storageMemoryResGauge, storagePeakMemoryResGauge, storageDiskUsageGauge,
        storageMemoryTrackedGauge, storageAllocationLimitGauge, storageUnreleasedDeltaObjectsGauge]"

text \<open>The vectors the deletion of a cluster clears: by exact labels, and by a sweep.\<close>

definition cluster_vectors :: "metric list" where
  "cluster_vectors =
     [clusterPhaseGauge, clusterReadyInstancesGauge, clusterDesiredInstancesGauge,
      clusterRegisteredReplicasGauge, replicationLagGauge, replicationHealthyGauge,
      clusterReplicasTotalGauge, clusterReplicasHealthyTotalGauge, snapshotLastSuccessTimestamp,
      validationLastRunTimestamp, validationPassedGauge]"

definition swept_vectors :: "metric list" where
  "swept_vectors =
     [replicaDataChannelUpGauge, replicaBehindSecondsGauge, replicaHealthyGauge,
      replicaStatusGauge, replicaBehindGauge, replicaLastConfirmedTimestampGauge,
      replicaDataInfoPresentGauge, replicationVertexDriftGauge, replicationEdgeDriftGauge,
      instanceHealthGauge]"

definition DeleteClusterMetrics :: "string \<Rightarrow> string \<Rightarrow> ('s, unit) op" where
  "DeleteClusterMetrics cl ns = do {
     for_each (delete_labels [cl, ns]) cluster_vectors;
     for_each (delete_partial cl ns) swept_vectors
   }"

definition RecordReplicaDataChannel :: "string \<Rightarrow> string \<Rightarrow> string \<Rightarrow> bool \<Rightarrow> ('s, unit) op" where
  "RecordReplicaDataChannel cl ns replica up =
     set_gauge replicaDataChannelUpGauge [cl, ns, replica] (f64_bool up)"

definition RecordReplicaBehindSeconds :: "string \<Rightarrow> string \<Rightarrow> string \<Rightarrow> f64 \<Rightarrow> ('s, unit) op" where
  "RecordReplicaBehindSeconds cl ns replica seconds =
     set_gauge replicaBehindSecondsGauge [cl, ns, replica] seconds"

definition DeleteReplicaMetrics :: "string \<Rightarrow> string \<Rightarrow> string \<Rightarrow> ('s, unit) op" where
  "DeleteReplicaMetrics cl ns replica =
     for_each (delete_labels [cl, ns, replica]) [replicaDataChannelUpGauge, replicaBehindSecondsGauge]"

section \<open>Well-formed calls\<close>

text \<open>
  \<open>WithLabelValues\<close> panics unless the number of values is the number of labels of the vector.
  Every call of the recorder passes the right number, on a registered vector, and is about
  the cluster it was asked to record.
\<close>

fun call_metric :: "metric_op \<Rightarrow> metric" where
  "call_metric (GaugeSet m ls v) = m"
| "call_metric (CounterInc m ls) = m"
| "call_metric (HistogramObserve m ls v) = m"
| "call_metric (DeleteLabelValues m ls) = m"
| "call_metric (DeletePartialMatch m ps) = m"

fun call_ok :: "string \<Rightarrow> string \<Rightarrow> metric_op \<Rightarrow> bool" where
  "call_ok cl ns (DeletePartialMatch m ps) \<longleftrightarrow>
     m \<in> set registered_metrics \<and> ps = [(''cluster'', cl), (''namespace'', ns)] \<and>
     fst ` set ps \<subseteq> set (snd m)"
| "call_ok cl ns (GaugeSet m ls v) \<longleftrightarrow>
     m \<in> set registered_metrics \<and> length ls = length (snd m) \<and> prefix [cl, ns] ls"
| "call_ok cl ns (CounterInc m ls) \<longleftrightarrow>
     m \<in> set registered_metrics \<and> length ls = length (snd m) \<and> prefix [cl, ns] ls"
| "call_ok cl ns (HistogramObserve m ls v) \<longleftrightarrow>
     m \<in> set registered_metrics \<and> length ls = length (snd m) \<and> prefix [cl, ns] ls"
| "call_ok cl ns (DeleteLabelValues m ls) \<longleftrightarrow>
     m \<in> set registered_metrics \<and> length ls = length (snd m) \<and> prefix [cl, ns] ls"

definition metric_call :: "string \<Rightarrow> string \<Rightarrow> effect \<Rightarrow> bool" where
  "metric_call cl ns eff \<longleftrightarrow> (case eff of Metric m \<Rightarrow> call_ok cl ns m | _ \<Rightarrow> False)"

lemma metric_call_Metric [simp]: "metric_call cl ns (Metric m) = call_ok cl ns m"
  by (simp add: metric_call_def)

lemma metric_calls_only: "metric_call cl ns eff \<Longrightarrow> \<exists>m. eff = Metric m"
  by (cases eff) (auto simp: metric_call_def)

lemmas recorder_primitives = set_gauge_def delete_labels_def delete_partial_def

lemmas recorder_defs = RecordClusterPhase_def RecordClusterInstances_def RecordReplicationLag_def
  record_replica_def RecordReplicationDrift_def
  DeleteReplicationDriftMetrics_def RecordInstanceHealth_def RecordReconcileOperation_def
  RecordReconcileDuration_def RecordSnapshotSuccess_def RecordSnapshotFailure_def
  RecordFailoverEvent_def RecordValidation_def RecordStorageInfo_def
  DeleteInstanceStorageMetrics_def DeleteClusterMetrics_def RecordReplicaDataChannel_def
  RecordReplicaBehindSeconds_def DeleteReplicaMetrics_def

lemma vector_arity:
  "length (snd clusterPhaseGauge) = 2"
  "length (snd clusterReadyInstancesGauge) = 2"
  "length (snd clusterDesiredInstancesGauge) = 2"
  "length (snd clusterRegisteredReplicasGauge) = 2"
  "length (snd replicationLagGauge) = 2"
  "length (snd replicationHealthyGauge) = 2"
  "length (snd replicaDataChannelUpGauge) = 3"
  "length (snd replicaBehindSecondsGauge) = 3"
  "length (snd replicaHealthyGauge) = 3"
  "length (snd replicaStatusGauge) = 4"
  "length (snd replicaBehindGauge) = 3"
  "length (snd replicaLastConfirmedTimestampGauge) = 3"
  "length (snd replicaDataInfoPresentGauge) = 3"
  "length (snd clusterReplicasTotalGauge) = 2"
  "length (snd clusterReplicasHealthyTotalGauge) = 2"
  "length (snd replicationVertexDriftGauge) = 3"
  "length (snd replicationEdgeDriftGauge) = 3"
  "length (snd instanceHealthGauge) = 4"
  "length (snd reconcileOperationsTotal) = 3"
  "length (snd reconcileDurationHistogram) = 2"
  "length (snd snapshotLastSuccessTimestamp) = 2"
  "length (snd snapshotOperationsTotal) = 3"
  "length (snd failoverEventsTotal) = 4"
  "length (snd validationLastRunTimestamp) = 2"
  "length (snd validationPassedGauge) = 2"
  "length (snd storageVertexCountGauge) = 4"
  "length (snd storageEdgeCountGauge) = 4"
  "length (snd storageAverageDegreeGauge) = 4"
  "length (snd storageMemoryResGauge) = 4"
  "length (snd storagePeakMemoryResGauge) = 4"
  "length (snd storageDiskUsageGauge) = 4"
  "length (snd storageMemoryTrackedGauge) = 4"
  "length (snd storageAllocationLimitGauge) = 4"
  "length (snd storageUnreleasedDeltaObjectsGauge) = 4"
  by (simp_all add: metric_vectors storage_vectors)

lemma vector_registered:
  "clusterPhaseGauge \<in> set registered_metrics"
  "clusterReadyInstancesGauge \<in> set registered_metrics"
  "clusterDesiredInstancesGauge \<in> set registered_metrics"
  "clusterRegisteredReplicasGauge \<in> set registered_metrics"
  "replicationLagGauge \<in> set registered_metrics"
  "replicationHealthyGauge \<in> set registered_metrics"
  "replicaDataChannelUpGauge \<in> set registered_metrics"
  "replicaBehindSecondsGauge \<in> set registered_metrics"
  "replicaHealthyGauge \<in> set registered_metrics"
  "replicaStatusGauge \<in> set registered_metrics"
  "replicaBehindGauge \<in> set registered_metrics"
  "replicaLastConfirmedTimestampGauge \<in> set registered_metrics"
  "replicaDataInfoPresentGauge \<in> set registered_metrics"
  "clusterReplicasTotalGauge \<in> set registered_metrics"
  "clusterReplicasHealthyTotalGauge \<in> set registered_metrics"
  "replicationVertexDriftGauge \<in> set registered_metrics"
  "replicationEdgeDriftGauge \<in> set registered_metrics"
  "instanceHealthGauge \<in> set registered_metrics"
  "reconcileOperationsTotal \<in> set registered_metrics"
  "reconcileDurationHistogram \<in> set registered_metrics"
  "snapshotLastSuccessTimestamp \<in> set registered_metrics"
  "snapshotOperationsTotal \<in> set registered_metrics"
  "failoverEventsTotal \<in> set registered_metrics"
  "validationLastRunTimestamp \<in> set registered_metrics"
  "validationPassedGauge \<in> set registered_metrics"
  "storageVertexCountGauge \<in> set registered_metrics"
  "storageEdgeCountGauge \<in> set registered_metrics"
  "storageAverageDegreeGauge \<in> set registered_metrics"
  "storageMemoryResGauge \<in> set registered_metrics"
  "storagePeakMemoryResGauge \<in> set registered_metrics"
  "storageDiskUsageGauge \<in> set registered_metrics"
  "storageMemoryTrackedGauge \<in> set registered_metrics"
  "storageAllocationLimitGauge \<in> set registered_metrics"
  "storageUnreleasedDeltaObjectsGauge \<in> set registered_metrics"
  by (simp_all add: registered_metrics_def)

lemma vector_cluster_labels:
  "m \<in> set registered_metrics \<Longrightarrow> fst ` set [(''cluster'', cl), (''namespace'', ns)] \<subseteq> set (snd m)"
  by (auto simp: registered_metrics_def metric_vectors storage_vectors)

lemma set_gauge_ok [rel_intros]:
  "m \<in> set registered_metrics \<Longrightarrow> length ls = length (snd m) \<Longrightarrow> prefix [cl, ns] ls \<Longrightarrow>
   state_io_rel (emits (metric_call cl ns)) (set_gauge m ls v)"
  by (auto simp: set_gauge_def intro!: emits_metric)

lemma delete_labels_ok [rel_intros]:
  "m \<in> set registered_metrics \<Longrightarrow> length ls = length (snd m) \<Longrightarrow> prefix [cl, ns] ls \<Longrightarrow>
   state_io_rel (emits (metric_call cl ns)) (delete_labels ls m)"
  by (auto simp: delete_labels_def intro!: emits_metric)

lemma delete_partial_ok [rel_intros]:
  "m \<in> set registered_metrics \<Longrightarrow>
   state_io_rel (emits (metric_call cl ns)) (delete_partial cl ns m)"
  using vector_cluster_labels [of m cl ns] by (auto simp: delete_partial_def intro!: emits_metric)

lemma recorder_metric_calls [rel_intros]:
  "state_io_rel (emits (metric_call cl ns)) (RecordClusterPhase cl ns phase)"
  "state_io_rel (emits (metric_call cl ns)) (RecordClusterInstances cl ns a b c)"
  "state_io_rel (emits (metric_call cl ns)) (RecordReplicationLag cl ns lag)"
  "state_io_rel (emits (metric_call cl ns)) (record_replica cl ns r k)"
  "state_io_rel (emits (metric_call cl ns)) (RecordReplicationDrift cl ns x i j)"
  "state_io_rel (emits (metric_call cl ns)) (DeleteReplicationDriftMetrics cl ns)"
  "state_io_rel (emits (metric_call cl ns)) (RecordInstanceHealth cl ns inst role h)"
  "state_io_rel (emits (metric_call cl ns)) (RecordReconcileOperation cl ns result)"
  "state_io_rel (emits (metric_call cl ns)) (RecordReconcileDuration cl ns d)"
  "state_io_rel (emits (metric_call cl ns)) (RecordSnapshotSuccess cl ns d)"
  "state_io_rel (emits (metric_call cl ns)) (RecordSnapshotFailure cl ns)"
  "state_io_rel (emits (metric_call cl ns)) (RecordFailoverEvent cl ns f t)"
  "state_io_rel (emits (metric_call cl ns)) (RecordValidation cl ns d p)"
  "state_io_rel (emits (metric_call cl ns)) (RecordStorageInfo cl ns inst role si)"
  "state_io_rel (emits (metric_call cl ns)) (DeleteInstanceStorageMetrics cl ns inst role)"
  "state_io_rel (emits (metric_call cl ns)) (DeleteClusterMetrics cl ns)"
  "state_io_rel (emits (metric_call cl ns)) (RecordReplicaDataChannel cl ns x up)"
  "state_io_rel (emits (metric_call cl ns)) (RecordReplicaBehindSeconds cl ns x d)"
  "state_io_rel (emits (metric_call cl ns)) (DeleteReplicaMetrics cl ns x)"
  unfolding recorder_defs
  by (intro rel_intros emits_metric;
      auto simp: vector_arity vector_registered cluster_vectors_def swept_vectors_def)+

lemma RecordReplicaSet_calls [rel_intros]:
  "state_io_rel (emits (metric_call cl ns)) (RecordReplicaSet cl ns replicas)"
  unfolding RecordReplicaSet_def
  by (intro rel_intros; auto simp: vector_arity vector_registered)

lemma primitive_process [rel_intros]:
  "state_io_rel (keeps process) (set_gauge m ls v)"
  "state_io_rel (keeps process) (delete_labels ls m)"
  "state_io_rel (keeps process) (delete_partial cl ns m)"
  unfolding recorder_primitives by (intro rel_intros)+

lemma recorder_process [rel_intros]:
  "state_io_rel (keeps process) (RecordClusterPhase cl ns phase)"
  "state_io_rel (keeps process) (RecordClusterInstances cl ns a b c)"
  "state_io_rel (keeps process) (RecordReplicationLag cl ns lag)"
  "state_io_rel (keeps process) (record_replica cl ns r k)"
  "state_io_rel (keeps process) (RecordReplicationDrift cl ns x i j)"
  "state_io_rel (keeps process) (DeleteReplicationDriftMetrics cl ns)"
  "state_io_rel (keeps process) (RecordInstanceHealth cl ns inst role h)"
  "state_io_rel (keeps process) (RecordReconcileOperation cl ns result)"
  "state_io_rel (keeps process) (RecordReconcileDuration cl ns d)"
  "state_io_rel (keeps process) (RecordSnapshotSuccess cl ns d)"
  "state_io_rel (keeps process) (RecordSnapshotFailure cl ns)"
  "state_io_rel (keeps process) (RecordFailoverEvent cl ns f t)"
  "state_io_rel (keeps process) (RecordValidation cl ns d p)"
  "state_io_rel (keeps process) (RecordStorageInfo cl ns inst role si)"
  "state_io_rel (keeps process) (DeleteInstanceStorageMetrics cl ns inst role)"
  "state_io_rel (keeps process) (DeleteClusterMetrics cl ns)"
  "state_io_rel (keeps process) (RecordReplicaDataChannel cl ns x up)"
  "state_io_rel (keeps process) (RecordReplicaBehindSeconds cl ns x d)"
  "state_io_rel (keeps process) (DeleteReplicaMetrics cl ns x)"
  unfolding recorder_defs by (intro rel_intros)+

lemma RecordReplicaSet_process [rel_intros]:
  "state_io_rel (keeps process) (RecordReplicaSet cl ns replicas)"
  unfolding RecordReplicaSet_def by (intro rel_intros)

end
