(* ===== verification/Events.thy ===== *)
theory Events
  imports Prelude
begin

text \<open>The reasons of the Kubernetes events (\<open>internal/controller/events.go\<close>).\<close>

text \<open>Event reason constants for Kubernetes events.\<close>

text \<open>Cluster lifecycle events.\<close>

definition EventReasonClusterCreated :: string where
  [go_consts]: "EventReasonClusterCreated = ''ClusterCreated''"
definition EventReasonClusterReady :: string where
  [go_consts]: "EventReasonClusterReady = ''ClusterReady''"
definition EventReasonClusterDegraded :: string where
  [go_consts]: "EventReasonClusterDegraded = ''ClusterDegraded''"

text \<open>StatefulSet events.\<close>

definition EventReasonCreatingStatefulSet :: string where
  [go_consts]: "EventReasonCreatingStatefulSet = ''CreatingStatefulSet''"
definition EventReasonScalingStatefulSet :: string where
  [go_consts]: "EventReasonScalingStatefulSet = ''ScalingStatefulSet''"
definition EventReasonUpdatingImage :: string where
  [go_consts]: "EventReasonUpdatingImage = ''UpdatingImage''"

text \<open>Replication events.\<close>

definition EventReasonMainInstanceConfigured :: string where
  [go_consts]: "EventReasonMainInstanceConfigured = ''MainInstanceConfigured''"
definition EventReasonReplicaRegistered :: string where
  [go_consts]: "EventReasonReplicaRegistered = ''ReplicaRegistered''"
definition EventReasonReplicaUnregistered :: string where
  [go_consts]: "EventReasonReplicaUnregistered = ''ReplicaUnregistered''"
definition EventReasonReplicationHealthy :: string where
  [go_consts]: "EventReasonReplicationHealthy = ''ReplicationHealthy''"
definition EventReasonReplicationError :: string where
  [go_consts]: "EventReasonReplicationError = ''ReplicationError''"
definition EventReasonReplicaDataChannelDown :: string where
  [go_consts]: "EventReasonReplicaDataChannelDown = ''ReplicaDataChannelDown''"
definition EventReasonReplicaInvalid :: string where
  [go_consts]: "EventReasonReplicaInvalid = ''ReplicaInvalid''"
definition EventReasonReplicaBehindTooLong :: string where
  [go_consts]: "EventReasonReplicaBehindTooLong = ''ReplicaBehindTooLong''"
definition EventReasonReplicationLagHigh :: string where
  [go_consts]: "EventReasonReplicationLagHigh = ''ReplicationLagHigh''"

text \<open>Failover events.\<close>

definition EventReasonMainInstanceFailed :: string where
  [go_consts]: "EventReasonMainInstanceFailed = ''MainInstanceFailed''"
definition EventReasonFailoverStarted :: string where
  [go_consts]: "EventReasonFailoverStarted = ''FailoverStarted''"
definition EventReasonFailoverCompleted :: string where
  [go_consts]: "EventReasonFailoverCompleted = ''FailoverCompleted''"
definition EventReasonFailoverFailed :: string where
  [go_consts]: "EventReasonFailoverFailed = ''FailoverFailed''"

text \<open>Snapshot events.\<close>

definition EventReasonSnapshotCronJobCreated :: string where
  [go_consts]: "EventReasonSnapshotCronJobCreated = ''SnapshotCronJobCreated''"
definition EventReasonSnapshotCronJobUpdated :: string where
  [go_consts]: "EventReasonSnapshotCronJobUpdated = ''SnapshotCronJobUpdated''"
definition EventReasonSnapshotSucceeded :: string where
  [go_consts]: "EventReasonSnapshotSucceeded = ''SnapshotSucceeded''"
definition EventReasonSnapshotFailed :: string where
  [go_consts]: "EventReasonSnapshotFailed = ''SnapshotFailed''"

text \<open>S3 backup events.\<close>

definition EventReasonS3BackupSucceeded :: string where
  [go_consts]: "EventReasonS3BackupSucceeded = ''S3BackupSucceeded''"
definition EventReasonS3BackupFailed :: string where
  [go_consts]: "EventReasonS3BackupFailed = ''S3BackupFailed''"

text \<open>Health check events.\<close>

definition EventReasonHealthCheckPassed :: string where
  [go_consts]: "EventReasonHealthCheckPassed = ''HealthCheckPassed''"
definition EventReasonHealthCheckFailed :: string where
  [go_consts]: "EventReasonHealthCheckFailed = ''HealthCheckFailed''"

text \<open>Write service events.\<close>

definition EventReasonUpdatedWriteService :: string where
  [go_consts]: "EventReasonUpdatedWriteService = ''UpdatedWriteService''"

text \<open>Reconcile events.\<close>

definition EventReasonReconcileError :: string where
  [go_consts]: "EventReasonReconcileError = ''ReconcileError''"

end
