(* ===== verification/Replication.thy ===== *)
theory Replication
  imports Client Services Timer_Store Metrics Events
    "HOL-Library.List_Lexorder" "HOL-Library.Char_ord"
begin

text \<open>
  The replication manager (\<open>internal/controller/replication.go\<close>): the configuration of MAIN
  and replicas, the health check over the timer store and the failover choice.
  Its methods run on the manager held by the world, which their callers create first.
\<close>

section \<open>The manager in the world\<close>

definition NewReplicationManager :: ReplicationManager where
  "NewReplicationManager = \<lparr>rm_client = True, rm_metrics = False, rm_states = Map.empty\<rparr>"

definition SetMetricsRecorder :: "bool \<Rightarrow> ReplicationManager \<Rightarrow> ReplicationManager" where
  "SetMetricsRecorder m rm = rm\<lparr>rm_metrics := m\<rparr>"

text \<open>The receiver of the methods; they are only called on a manager that exists.\<close>

definition manager :: "'s world \<Rightarrow> ReplicationManager" where
  "manager w = (case replicationManager w of None \<Rightarrow> NewReplicationManager | Some rm \<Rightarrow> rm)"

definition set_states :: "timer_store \<Rightarrow> ('s, unit) op" where
  "set_states s = modify (\<lambda>w. w\<lparr>replicationManager := Some (manager w \<lparr>rm_states := s\<rparr>)\<rparr>)"

definition if_metrics :: "('s, unit) op \<Rightarrow> ('s, unit) op" where
  "if_metrics m = do {
     wired \<leftarrow> gets (\<lambda>w. rm_metrics (manager w));
     if wired then m else State_Monad.return ()
   }"

definition DeleteClusterState :: "string \<Rightarrow> string \<Rightarrow> ('s, unit) op" where
  "DeleteClusterState clusterName ns = do {
     states \<leftarrow> gets (\<lambda>w. rm_states (manager w));
     case states (cluster_key ns clusterName) of
       None \<Rightarrow> State_Monad.return ()
     | Some byReplica \<Rightarrow> do {
         if_metrics (for_each (\<lambda>(name, _). DeleteReplicaMetrics clusterName ns name) byReplica);
         set_states (states(cluster_key ns clusterName := None))
       }
   }"

text \<open>
  The reconciler creates its manager on first use (\<open>ensureReplicationManager\<close> of
  \<open>memgraphcluster_controller.go\<close>).
\<close>

definition ensureReplicationManager :: "'s env \<Rightarrow> ('s, go_error option) op" where
  "ensureReplicationManager e = do {
     rm \<leftarrow> gets replicationManager;
     case rm of
       Some _ \<Rightarrow> State_Monad.return None
     | None \<Rightarrow>
         if \<not> rest_config_set e then State_Monad.return (Some (OtherError ''rest config is not set''))
         else do {
           err \<leftarrow> NewClient e;
           case err of
             Some er \<Rightarrow> State_Monad.return (Some (wrap ''failed to create memgraph client: '' er))
           | None \<Rightarrow> do {
               modify (\<lambda>w. w\<lparr>replicationManager :=
                 Some (SetMetricsRecorder (metrics_set w) NewReplicationManager)\<rparr>);
               State_Monad.return None
             }
         }
   }"

section \<open>Configuring replication\<close>

definition getReadyPodsSorted :: "Pod list \<Rightarrow> Pod list" where
  "getReadyPodsSorted pods = sort_key PodName (filter isPodReady pods)"

text \<open>A role that could not be read is the empty string.\<close>

definition current_role :: "go_error + string \<Rightarrow> string" where
  "current_role r = (case r of Inl _ \<Rightarrow> [] | Inr role \<Rightarrow> role)"

definition ensureMainRole ::
  "'s env \<Rightarrow> MemgraphCluster \<Rightarrow> string \<Rightarrow> ('s, go_error option) op" where
  "ensureMainRole e cluster podName = do {
     r \<leftarrow> GetReplicationRole e (cluster_ns cluster) podName;
     if current_role r = ''MAIN'' then State_Monad.return None
     else do {
       err \<leftarrow> SetReplicationRole e (cluster_ns cluster) podName True;
       case err of
         Some er \<Rightarrow> State_Monad.return (Some er)
       | None \<Rightarrow> do {
           event EventNormal EventReasonMainInstanceConfigured
             (''Instance '' @ podName @ '' configured as MAIN'');
           State_Monad.return None
         }
     }
   }"

definition ensureReplicaRole :: "'s env \<Rightarrow> string \<Rightarrow> string \<Rightarrow> ('s, go_error option) op" where
  "ensureReplicaRole e ns podName = do {
     r \<leftarrow> GetReplicationRole e ns podName;
     if current_role r = ''REPLICA'' then State_Monad.return None
     else SetReplicationRole e ns podName False
   }"

definition cleanup_replica ::
  "'s env \<Rightarrow> MemgraphCluster \<Rightarrow> string \<Rightarrow> string list \<Rightarrow> ReplicaInfo \<Rightarrow> ('s, unit) op" where
  "cleanup_replica e cluster mainPod expectedReplicas replica =
     (if RName replica \<in> set expectedReplicas then State_Monad.return ()
      else do {
        err \<leftarrow> UnregisterReplica e (cluster_ns cluster) mainPod (RName replica);
        case err of
          Some _ \<Rightarrow> State_Monad.return ()
        | None \<Rightarrow> do {
            event EventNormal EventReasonReplicaUnregistered
              (''Stale replica '' @ RName replica @ '' unregistered from main'');
            if_metrics (DeleteReplicaMetrics (cluster_name cluster) (cluster_ns cluster)
              (RName replica))
          }
      })"

definition expected_replicas :: "string \<Rightarrow> Pod list \<Rightarrow> string list" where
  "expected_replicas mainPod readyPods =
     map (getReplicaName \<circ> PodName) (filter (\<lambda>pod. PodName pod \<noteq> mainPod) readyPods)"

definition cleanupStaleReplicas ::
  "'s env \<Rightarrow> MemgraphCluster \<Rightarrow> string \<Rightarrow> Pod list \<Rightarrow> ReplicaInfo list \<Rightarrow> ('s, unit) op" where
  "cleanupStaleReplicas e cluster mainPod readyPods currentReplicas =
     for_each (cleanup_replica e cluster mainPod (expected_replicas mainPod readyPods)) currentReplicas"

text \<open>The body of the loop over the ready pods; it returns \<open>registeredCount\<close>.\<close>

definition configure_pod ::
  "'s env \<Rightarrow> MemgraphCluster \<Rightarrow> string \<Rightarrow> string \<Rightarrow> string list \<Rightarrow> Pod \<Rightarrow> int \<Rightarrow> ('s, int) op" where
  "configure_pod e cluster writeInstance mode currentReplicaNames pod registeredCount =
     (if PodName pod = writeInstance then State_Monad.return registeredCount
      else
        let replicaName = getReplicaName (PodName pod);
            replicaHost = getPodFQDN (PodName pod) cluster in
        do {
          err \<leftarrow> ensureReplicaRole e (cluster_ns cluster) (PodName pod);
          case err of
            Some _ \<Rightarrow> State_Monad.return registeredCount
          | None \<Rightarrow>
              if replicaName \<notin> set currentReplicaNames then do {
                err \<leftarrow> RegisterReplica e (cluster_ns cluster) writeInstance replicaName replicaHost mode;
                case err of
                  Some _ \<Rightarrow> State_Monad.return registeredCount
                | None \<Rightarrow> do {
                    event EventNormal EventReasonReplicaRegistered
                      (''Replica '' @ replicaName @ '' registered with main '' @ writeInstance);
                    State_Monad.return (int32 (registeredCount + 1))
                  }
              }
              else State_Monad.return (int32 (registeredCount + 1))
        })"

definition ConfigureReplication ::
  "'s env \<Rightarrow> MemgraphCluster \<Rightarrow> Pod list \<Rightarrow> string \<Rightarrow> ('s, go_error option) op" where
  "ConfigureReplication e cluster pods writeInstance =
     (if writeInstance = [] then State_Monad.return None
      else
        let readyPods = getReadyPodsSorted pods;
            m = Mode (Replication (Spec cluster));
            mode = (if m = [] then ''ASYNC'' else m) in
        if length readyPods = 0 then State_Monad.return None
        else do {
          err \<leftarrow> ensureMainRole e cluster writeInstance;
          case err of
            Some er \<Rightarrow> State_Monad.return
              (Some (wrap (''failed to ensure main role on '' @ writeInstance @ '': '') er))
          | None \<Rightarrow> do {
              r \<leftarrow> ShowReplicas e (cluster_ns cluster) writeInstance;
              let currentReplicas = (case r of Inl _ \<Rightarrow> [] | Inr rs \<Rightarrow> rs);
              let currentReplicaNames = map RName currentReplicas;
              registeredCount \<leftarrow>
                for_fold (configure_pod e cluster writeInstance mode currentReplicaNames) readyPods 0;
              cleanupStaleReplicas e cluster writeInstance readyPods currentReplicas;
              State_Monad.return None
            }
        })"

section \<open>Checking replication health\<close>

definition channel_up :: "replicaClassification \<Rightarrow> bool" where
  "channel_up class \<longleftrightarrow> class \<noteq> classificationDataChannelDown \<and> class \<noteq> classificationTransient \<and>
     class \<noteq> classificationInvalid \<and> class \<noteq> classificationUnknownStatus"

definition em_dash :: string where
  "em_dash = [CHR 0xE2, CHR 0x80, CHR 0x94]"

definition health_event ::
  "ReplicaInfo \<Rightarrow> replicaClassification \<Rightarrow> replicaState \<Rightarrow> instant \<Rightarrow> duration \<Rightarrow> ('s, unit) op" where
  "health_event replica class st tnow behindThreshold =
     (case class of
        classificationDataChannelDown \<Rightarrow>
          event EventWarning EventReasonReplicaDataChannelDown
            (''Replica '' @ RName replica @ '' registered but data_info is empty for '' @
             show_duration (RoundDuration (time_sub tnow (channelDownSince st)) Second) @ '' '' @ em_dash @
             '' main has not opened a data channel. Check connectivity on :10000, replica role, and version match. Re-registering with a fresh PVC usually resolves this.'')
      | classificationInvalid \<Rightarrow>
          event EventWarning EventReasonReplicaInvalid
            (''Replica '' @ RName replica @
             '' reports invalid status. Manual intervention required (drop + re-register).'')
      | classificationBehindTooLong \<Rightarrow>
          event EventWarning EventReasonReplicaBehindTooLong
            (''Replica '' @ RName replica @ '' has been behind for '' @
             show_duration (RoundDuration (time_sub tnow (behindSince st)) Second) @
             '' (threshold '' @ show_duration behindThreshold @ '').'')
      | _ \<Rightarrow> State_Monad.return ())"

definition behind_seconds :: "instant \<Rightarrow> replicaState \<Rightarrow> f64" where
  "behind_seconds tnow st =
     (if \<not> IsZero (behindSince st) then Seconds (time_sub tnow (behindSince st)) else Fin 0)"

text \<open>The body of the loop over the replicas; it returns \<open>HealthyReplicas\<close>.\<close>

definition check_replica ::
  "MemgraphCluster \<Rightarrow> instant \<Rightarrow> duration \<Rightarrow> ReplicaInfo \<Rightarrow> int \<Rightarrow> ('s, int) op" where
  "check_replica cluster tnow behindThreshold replica healthyReplicas =
     (let clusterKey = cluster_key (cluster_ns cluster) (cluster_name cluster) in
      do {
        states \<leftarrow> gets (\<lambda>w. rm_states (manager w));
        let (st, states1) = stateFor states clusterKey (RName replica);
        let (class, st') = classifyReplica replica st tnow behindThreshold;
        set_states (putState states1 clusterKey (RName replica) st');
        if_metrics (do {
          RecordReplicaDataChannel (cluster_name cluster) (cluster_ns cluster) (RName replica)
            (channel_up class);
          RecordReplicaBehindSeconds (cluster_name cluster) (cluster_ns cluster) (RName replica)
            (behind_seconds tnow st')
        });
        health_event replica class st' tnow behindThreshold;
        State_Monad.return
          (if isHealthy class then int32 (healthyReplicas + 1) else healthyReplicas)
      })"

definition behind_threshold :: "MemgraphCluster \<Rightarrow> duration" where
  "behind_threshold cluster =
     (case BehindAlertThreshold (Replication (Spec cluster)) of
        Some t \<Rightarrow> if t > 0 then t else 5 * Minute
      | None \<Rightarrow> 5 * Minute)"

definition CheckReplicationHealth ::
  "'s env \<Rightarrow> MemgraphCluster \<Rightarrow> string \<Rightarrow>
   ('s, go_error + ReplicationHealth \<times> ReplicaInfo list) op" where
  "CheckReplicationHealth e cluster writeInstance =
     (if writeInstance = [] then State_Monad.return (Inl (OtherError ''no write instance specified''))
      else do {
        r \<leftarrow> ShowReplicas e (cluster_ns cluster) writeInstance;
        case r of
          Inl er \<Rightarrow> State_Monad.return (Inl (wrap ''failed to show replicas: '' er))
        | Inr replicas \<Rightarrow> do {
            tnow \<leftarrow> now e;
            let clusterKey = cluster_key (cluster_ns cluster) (cluster_name cluster);
            let total = int32 (int (length replicas));
            healthy \<leftarrow> for_fold (check_replica cluster tnow (behind_threshold cluster)) replicas 0;
            states \<leftarrow> gets (\<lambda>w. rm_states (manager w));
            set_states (pruneStates states clusterKey (map RName replicas));
            (if healthy = total \<and> total > 0
             then event EventNormal EventReasonReplicationHealthy
               (''All '' @ Itoa total @ '' replicas are healthy'')
             else State_Monad.return ());
            State_Monad.return
              (Inr (\<lparr>TotalReplicas = total, HealthyReplicas = healthy\<rparr>, replicas))
          }
      })"

section \<open>Failover\<close>

definition failover_enabled :: "MemgraphCluster \<Rightarrow> bool" where
  "failover_enabled cluster =
     (case HighAvailability (Spec cluster) of None \<Rightarrow> False | Some ha \<Rightarrow> HAEnabled ha)"

definition preferred_main :: "MemgraphCluster \<Rightarrow> string" where
  "preferred_main cluster =
     (case HighAvailability (Spec cluster) of None \<Rightarrow> [] | Some ha \<Rightarrow> PreferredMain ha)"

definition failover_candidates :: "Pod list \<Rightarrow> string \<Rightarrow> Pod list" where
  "failover_candidates pods failedMain =
     filter (\<lambda>pod. PodName pod \<noteq> failedMain \<and> isPodReady pod) pods"

definition promoted :: "MemgraphCluster \<Rightarrow> Pod list \<Rightarrow> string" where
  "promoted cluster candidates =
     (let newMain =
        (if preferred_main cluster \<noteq> [] then
           (case find (\<lambda>pod. PodName pod = preferred_main cluster) candidates of
              Some pod \<Rightarrow> PodName pod | None \<Rightarrow> [])
         else [])
      in if newMain = [] then PodName (hd candidates) else newMain)"

definition HandleMainFailover ::
  "MemgraphCluster \<Rightarrow> Pod list \<Rightarrow> string \<Rightarrow> ('s, go_error + string) op" where
  "HandleMainFailover cluster pods failedMain =
     (if \<not> failover_enabled cluster
      then State_Monad.return (Inl (OtherError ''high availability is not enabled''))
      else do {
        event EventWarning EventReasonMainInstanceFailed
          (''Main instance '' @ failedMain @ '' has failed'');
        event EventNormal EventReasonFailoverStarted (''Initiating failover from '' @ failedMain);
        let candidates = failover_candidates pods failedMain;
        if length candidates = 0 then do {
          event EventWarning EventReasonFailoverFailed ''No healthy candidates available for failover'';
          State_Monad.return (Inl (OtherError ''no healthy candidates available for failover''))
        } else do {
          let newMain = promoted cluster candidates;
          event EventNormal EventReasonFailoverCompleted
            (''Failover completed: '' @ newMain @ '' promoted to main'');
          State_Monad.return (Inr newMain)
        }
      })"

end
