(* ===== verification/Validation.thy ===== *)
theory Validation
  imports Replication Go_Numbers
begin

text \<open>
  Validation of a running cluster (\<open>internal/controller/validation.go\<close>): pings, the replication
  probe that writes through MAIN and reads from the replicas, and the validation status. The
  pause between write and reads is left to the environment's clock.
\<close>

section \<open>Results\<close>

record InstanceValidation =
  VName :: string
  VRole :: string
  VHealthy :: bool
  VLagMs :: int
  VError :: string

record ValidationResult =
  ConnectivityPassed :: bool
  ReplicationPassed :: bool
  VReplicationLagMs :: int
  InstanceResults :: "InstanceValidation list"

section \<open>The replication probe\<close>

definition test_node :: string where
  "test_node = ''(n:__ValidationTest {id: '' @ [CHR 0x27] @ ''replication_test'' @ [CHR 0x27] @ ''})''"

definition write_query :: "string \<Rightarrow> string" where
  "write_query testValue = join_with (CHR 0x0A)
     [[],
      [CHR 0x09, CHR 0x09] @ ''MERGE '' @ test_node,
      [CHR 0x09, CHR 0x09] @ ''SET n.value = '' @ [CHR 0x27] @ testValue @ [CHR 0x27] @
        '', n.timestamp = timestamp()'',
      [CHR 0x09, CHR 0x09] @ ''RETURN n.timestamp AS ts'',
      [CHR 0x09]]"

definition read_query :: string where
  "read_query = ''MATCH '' @ test_node @ '' RETURN n.value AS value, n.timestamp AS ts''"

definition cleanup_query :: string where
  "cleanup_query = ''MATCH '' @ test_node @ '' DETACH DELETE n''"

text \<open>The first column of a data row that is a positive integer.\<close>

fun first_timestamp :: "string list \<Rightarrow> int option" where
  "first_timestamp [] = None"
| "first_timestamp (part # parts) =
     (case ParseInt (TrimSpace part) of
        (ts, None) \<Rightarrow> if ts > 0 then Some ts else first_timestamp parts
      | (_, Some _) \<Rightarrow> first_timestamp parts)"

fun timestamp_loop :: "string list \<Rightarrow> int" where
  "timestamp_loop [] = 0"
| "timestamp_loop (l # ls) =
     (let line = TrimSpace l in
      if line = [] \<or> HasPrefix line ''+'' \<or> (HasPrefix line ''|'' \<and> Contains line ''ts'')
      then timestamp_loop ls
      else if HasPrefix line ''|'' then
        (case first_timestamp (Split (CHR ''|'') line) of Some ts \<Rightarrow> ts | None \<Rightarrow> timestamp_loop ls)
      else timestamp_loop ls)"

definition parseTimestamp :: "string \<Rightarrow> int" where
  "parseTimestamp output = timestamp_loop (Split (CHR 0x0A) output)"

definition probe_replica ::
  "'s env \<Rightarrow> MemgraphCluster \<Rightarrow> string \<Rightarrow> string \<Rightarrow> instant \<Rightarrow> int \<Rightarrow> Pod \<Rightarrow> int \<Rightarrow> ('s, int) op" where
  "probe_replica e cluster writeInstance testValue startTime writeTimestamp pod maxLag =
     (if PodName pod = writeInstance \<or> \<not> isPodReady pod then State_Monad.return maxLag
      else do {
        r \<leftarrow> ExecuteQuery e (cluster_ns cluster) (PodName pod) read_query;
        case r of
          Inl _ \<Rightarrow> State_Monad.return maxLag
        | Inr output \<Rightarrow>
            if \<not> Contains output testValue then do {
              t \<leftarrow> now e;
              let lag = Milliseconds (time_sub t startTime);
              State_Monad.return (if lag > maxLag then lag else maxLag)
            }
            else
              let readTimestamp = parseTimestamp output in
              State_Monad.return
                (if readTimestamp > 0 \<and> writeTimestamp > 0
                 then (let lag = int64 (readTimestamp - writeTimestamp) in
                       if lag > maxLag then lag else maxLag)
                 else maxLag)
      })"

definition testReplicationLag ::
  "'s env \<Rightarrow> MemgraphCluster \<Rightarrow> Pod list \<Rightarrow> string \<Rightarrow> ('s, go_error + int) op" where
  "testReplicationLag e cluster pods writeInstance = do {
     t0 \<leftarrow> now e;
     let testValue = ''validation_'' @ Itoa (UnixNano t0);
     startTime \<leftarrow> now e;
     r \<leftarrow> ExecuteQuery e (cluster_ns cluster) writeInstance (write_query testValue);
     case r of
       Inl er \<Rightarrow> State_Monad.return (Inl (wrap ''failed to write test value: '' er))
     | Inr output \<Rightarrow> do {
         writeTimestamp \<leftarrow>
           (if parseTimestamp output = 0 then do { t \<leftarrow> now e; State_Monad.return (UnixMilli t) }
            else State_Monad.return (parseTimestamp output));
         maxLag \<leftarrow> for_fold
           (probe_replica e cluster writeInstance testValue startTime writeTimestamp) pods 0;
         _ \<leftarrow> ExecuteQuery e (cluster_ns cluster) writeInstance cleanup_query;
         State_Monad.return (Inr maxLag)
       }
   }"

section \<open>Running the validation\<close>

definition ping_instance ::
  "'s env \<Rightarrow> MemgraphCluster \<Rightarrow> string \<Rightarrow> Pod \<Rightarrow> ValidationResult \<Rightarrow> ('s, ValidationResult) op" where
  "ping_instance e cluster writeInstance pod result =
     (if \<not> isPodReady pod then State_Monad.return result
      else
        let role = (if PodName pod = writeInstance then ''MAIN'' else ''REPLICA'') in
        do {
          err \<leftarrow> Ping e (cluster_ns cluster) (PodName pod);
          State_Monad.return
            (case err of
               Some er \<Rightarrow> result\<lparr>ConnectivityPassed := False,
                 InstanceResults := InstanceResults result @
                   [\<lparr>VName = PodName pod, VRole = role, VHealthy = False, VLagMs = 0,
                     VError = ''ping failed: '' @ err_msg er\<rparr>]\<rparr>
             | None \<Rightarrow> result\<lparr>
                 InstanceResults := InstanceResults result @
                   [\<lparr>VName = PodName pod, VRole = role, VHealthy = True, VLagMs = 0, VError = []\<rparr>]\<rparr>)
        })"

definition RunValidation ::
  "'s env \<Rightarrow> MemgraphCluster \<Rightarrow> Pod list \<Rightarrow> string \<Rightarrow> ('s, ValidationResult) op" where
  "RunValidation e cluster pods writeInstance = do {
     result \<leftarrow> for_fold (ping_instance e cluster writeInstance) pods
       \<lparr>ConnectivityPassed = True, ReplicationPassed = True, VReplicationLagMs = 0, InstanceResults = []\<rparr>;
     if writeInstance \<noteq> [] \<and> length pods > 1 then do {
       r \<leftarrow> testReplicationLag e cluster pods writeInstance;
       State_Monad.return
         (case r of
            Inl _ \<Rightarrow> result\<lparr>ReplicationPassed := False\<rparr>
          | Inr lagMs \<Rightarrow>
              (let result1 = result\<lparr>VReplicationLagMs := lagMs\<rparr> in
               if lagMs > 10000 then result1\<lparr>ReplicationPassed := False\<rparr> else result1))
     }
     else State_Monad.return result
   }"

definition zero_ValidationStatus :: ValidationStatus where
  "zero_ValidationStatus = \<lparr>LastConnectivityTest = None, LastReplicationTest = None,
     ReplicationLagMs = 0, AllReplicasHealthy = False, Instances = []\<rparr>"

definition instance_status :: "instant \<Rightarrow> InstanceValidation \<Rightarrow> InstanceValidationStatus" where
  "instance_status t iv = \<lparr>IVName = VName iv, IVRole = VRole iv, IVHealthy = VHealthy iv,
     IVLagMs = VLagMs iv, IVLastTestTime = Some t\<rparr>"

definition UpdateValidationStatus ::
  "'s env \<Rightarrow> MemgraphCluster \<Rightarrow> ValidationResult \<Rightarrow> ('s, MemgraphCluster) op" where
  "UpdateValidationStatus e cluster result = do {
     t \<leftarrow> now e;
     let v = (case Validation (Status cluster) of None \<Rightarrow> zero_ValidationStatus | Some v \<Rightarrow> v);
     State_Monad.return (cluster\<lparr>Status := (Status cluster)\<lparr>Validation := Some (v\<lparr>
       LastConnectivityTest := Some t,
       LastReplicationTest := Some t,
       ReplicationLagMs := VReplicationLagMs result,
       AllReplicasHealthy := ConnectivityPassed result \<and> ReplicationPassed result,
       Instances := map (instance_status t) (InstanceResults result)\<rparr>)\<rparr>\<rparr>)
   }"

section \<open>Validation in the reconciler\<close>

definition tested_recently :: "MemgraphCluster \<Rightarrow> instant option" where
  "tested_recently cluster =
     (case Validation (Status cluster) of None \<Rightarrow> None | Some v \<Rightarrow> LastConnectivityTest v)"

definition validation_events :: "ValidationResult \<Rightarrow> ('s, unit) op" where
  "validation_events result = do {
     (if ConnectivityPassed result \<and> ReplicationPassed result
      then event EventNormal EventReasonHealthCheckPassed
        (''Health check passed: '' @ Itoa (int (length (InstanceResults result))) @ '' healthy instances'')
      else event EventWarning EventReasonHealthCheckFailed
        (''Health check failed: connectivity='' @ show_bool (ConnectivityPassed result) @
         '', replication='' @ show_bool (ReplicationPassed result) @ '', lag='' @
         Itoa (VReplicationLagMs result) @ ''ms''));
     (if VReplicationLagMs result > 5000
      then event EventWarning EventReasonReplicationLagHigh
        (''Replication lag is high: '' @ Itoa (VReplicationLagMs result) @ ''ms'')
      else State_Monad.return ())
   }"

definition run_validation ::
  "'s env \<Rightarrow> MemgraphCluster \<Rightarrow> Pod list \<Rightarrow> string \<Rightarrow> ('s, go_error option \<times> MemgraphCluster) op" where
  "run_validation e cluster pods writeInstance = do {
     err \<leftarrow> ensureReplicationManager e;
     case err of
       Some er \<Rightarrow> State_Monad.return (Some er, cluster)
     | None \<Rightarrow> do {
         result \<leftarrow> RunValidation e cluster pods writeInstance;
         cluster1 \<leftarrow> UpdateValidationStatus e cluster result;
         validation_events result;
         State_Monad.return (None, cluster1)
       }
   }"

definition reconcileValidation ::
  "'s env \<Rightarrow> MemgraphCluster \<Rightarrow> Pod list \<Rightarrow> string \<Rightarrow> ('s, go_error option \<times> MemgraphCluster) op" where
  "reconcileValidation e cluster pods writeInstance =
     (if Phase (Status cluster) \<noteq> ClusterPhaseRunning then State_Monad.return (None, cluster)
      else (case tested_recently cluster of
          Some lastTest \<Rightarrow> do {
            t \<leftarrow> now e;
            if time_sub t lastTest < 30 * Second then State_Monad.return (None, cluster)
            else run_validation e cluster pods writeInstance
          }
        | None \<Rightarrow> run_validation e cluster pods writeInstance))"

section \<open>What the validation may do\<close>

definition validation_call :: "MemgraphCluster \<Rightarrow> Pod list \<Rightarrow> string \<Rightarrow> effect \<Rightarrow> bool" where
  "validation_call cluster pods wi eff =
     (case eff of
        Exec req \<Rightarrow>
          (\<exists>v. req = query_request (cluster_ns cluster) wi (write_query v)) \<or>
          req = query_request (cluster_ns cluster) wi cleanup_query \<or>
          (\<exists>p \<in> set pods. isPodReady p \<and> PodName p \<noteq> wi \<and>
             req = query_request (cluster_ns cluster) (PodName p) read_query) \<or>
          (\<exists>p \<in> set pods. isPodReady p \<and>
             req = query_request (cluster_ns cluster) (PodName p) ''RETURN 1;'')
      | Event t reason msg \<Rightarrow>
          (t, reason) \<in> {(EventNormal, EventReasonHealthCheckPassed),
            (EventWarning, EventReasonHealthCheckFailed), (EventWarning, EventReasonReplicationLagHigh)}
      | _ \<Rightarrow> False)"

lemma ensureReplicationManager_emits [rel_intros]:
  "state_io_rel (emits P) (ensureReplicationManager e)"
  unfolding ensureReplicationManager_def NewClient_def by (intro rel_intros) simp

lemma probe_calls:
  "pod \<in> set pods \<Longrightarrow>
   state_io_rel (emits (validation_call cluster pods wi)) (probe_replica e cluster wi v t0 ts pod m)"
  unfolding probe_replica_def Let_def
  by (intro rel_intros ExecuteQuery_emits) (auto simp: validation_call_def)

lemma testReplicationLag_calls:
  "state_io_rel (emits (validation_call cluster pods wi)) (testReplicationLag e cluster pods wi)"
  unfolding testReplicationLag_def Let_def
  by (intro rel_intros ExecuteQuery_emits probe_calls) (auto simp: validation_call_def)

lemma RunValidation_calls:
  "state_io_rel (emits (validation_call cluster pods wi)) (RunValidation e cluster pods wi)"
  unfolding RunValidation_def ping_instance_def Let_def
  by (intro rel_intros testReplicationLag_calls) (auto simp: validation_call_def)

lemma reconcileValidation_calls:
  "state_io_rel (emits (validation_call cluster pods wi)) (reconcileValidation e cluster pods wi)"
  unfolding reconcileValidation_def run_validation_def UpdateValidationStatus_def
    validation_events_def Let_def
  by (intro rel_intros RunValidation_calls) (auto simp: validation_call_def)

text \<open>C31: Validation writes to MAIN only. The probe node is created and removed on the write
  instance; every other query it sends is a ping of a ready pod or the read of the probe on
  a ready pod other than the write instance; it writes nothing to the API server, and its
  events are the three of the health check.\<close>

theorem validation_safety:
  "list_all (validation_call cluster pods wi) (calls (reconcileValidation e cluster pods wi) w)"
  unfolding list_all_iff by (blast intro: calls_emits [OF reconcileValidation_calls])

section \<open>The verdict\<close>

definition role_in :: "string \<Rightarrow> Pod \<Rightarrow> string" where
  "role_in wi pod = (if PodName pod = wi then ''MAIN'' else ''REPLICA'')"

definition covers :: "string \<Rightarrow> Pod list \<Rightarrow> ValidationResult \<Rightarrow> bool" where
  "covers wi pods res \<longleftrightarrow>
     map VName (InstanceResults res) = map PodName (filter isPodReady pods) \<and>
     map VRole (InstanceResults res) = map (role_in wi) (filter isPodReady pods) \<and>
     ConnectivityPassed res = list_all VHealthy (InstanceResults res) \<and>
     ReplicationPassed res \<and> VReplicationLagMs res = 0"

lemma ping_covers:
  assumes "covers wi done res"
  shows "covers wi (done @ [pod]) (fst (run_state (ping_instance e cluster wi pod res) w))"
  using assms
  by (auto simp: ping_instance_def covers_def role_in_def Let_def split: option.splits prod.splits)

lemma pings_cover:
  "covers wi done res \<Longrightarrow>
   covers wi (done @ pods) (fst (run_state (for_fold (ping_instance e cluster wi) pods res) w))"
proof (induction pods arbitrary: "done" res w)
  case (Cons pod pods)
  obtain res1 w1 where p: "run_state (ping_instance e cluster wi pod res) w = (res1, w1)"
    by (cases "run_state (ping_instance e cluster wi pod res) w")
  have "covers wi (done @ [pod]) res1"
    using ping_covers [OF Cons.prems, of pod e cluster w] p by simp
  from Cons.IH [OF this, of w1] show ?case by (simp add: p)
qed simp

lemma probe_mono: "0 \<le> m \<Longrightarrow> 0 \<le> fst (run_state (probe_replica e cluster wi v t0 ts pod m) w)"
  by (auto simp: probe_replica_def Let_def split: sum.splits prod.splits if_splits)

lemma probes_mono:
  "0 \<le> m \<Longrightarrow> 0 \<le> fst (run_state (for_fold (probe_replica e cluster wi v t0 ts) pods m) w)"
proof (induction pods arbitrary: m w)
  case (Cons pod pods)
  obtain m1 w1 where p: "run_state (probe_replica e cluster wi v t0 ts pod m) w = (m1, w1)"
    by (cases "run_state (probe_replica e cluster wi v t0 ts pod m) w")
  have "0 \<le> m1" using probe_mono [OF Cons.prems, of e cluster wi v t0 ts pod w] p by simp
  from Cons.IH [OF this, of w1] show ?case by (simp add: p)
qed simp

lemma testReplicationLag_nonneg:
  assumes "fst (run_state (testReplicationLag e cluster pods wi) w) = Inr lag"
  shows "0 \<le> lag"
proof -
  have "0 \<le> m" if "run_state (for_fold (probe_replica e cluster wi v t0 ts) pods 0) w' = (m, w'')"
    for v t0 ts m and w' w'' :: "'a world"
    using probes_mono [of 0 e cluster wi v t0 ts pods w'] that by simp
  with assms show ?thesis
    by (auto simp: testReplicationLag_def Let_def split: sum.splits prod.splits if_splits)
qed

text \<open>C32: The verdict of a validation covers the cluster: it has one entry per ready pod, in the
  order of the pod list and with its role; connectivity passed exactly when every entry is
  healthy; the lag is never negative, and a replication that passed lags at most 10 seconds.\<close>

theorem validation_verdict:
  "(let res = fst (run_state (RunValidation e cluster pods wi) w) in
     map VName (InstanceResults res) = map PodName (filter isPodReady pods) \<and>
     map VRole (InstanceResults res) = map (role_in wi) (filter isPodReady pods) \<and>
     ConnectivityPassed res = list_all VHealthy (InstanceResults res) \<and>
     0 \<le> VReplicationLagMs res \<and>
     (ReplicationPassed res \<longrightarrow> VReplicationLagMs res \<le> 10000))"
proof -
  let ?r0 = "\<lparr>ConnectivityPassed = True, ReplicationPassed = True, VReplicationLagMs = 0, InstanceResults = []\<rparr>"
  obtain res w1 where p: "run_state (for_fold (ping_instance e cluster wi) pods ?r0) w = (res, w1)"
    by (cases "run_state (for_fold (ping_instance e cluster wi) pods ?r0) w")
  have "covers wi [] ?r0" by (simp add: covers_def)
  from pings_cover [OF this, of pods e cluster w] have c: "covers wi pods res" by (simp add: p)
  have lag: "0 \<le> l" if "run_state (testReplicationLag e cluster pods wi) w1 = (Inr l, w2)" for l w2
    using testReplicationLag_nonneg [of e cluster pods wi w1 l] that by simp
  show ?thesis
    using c lag
    by (auto simp: RunValidation_def p covers_def Let_def split: sum.splits prod.splits)
qed

lemma validation_verdict_witness:
  "map VRole (InstanceResults (fst (run_state
      (RunValidation (quiet_env :: unit env) bare_cluster
         [\<lparr>PodName = ''a'', PodPhase = ''Running'', PodConditions = [(''Ready'', ''True'')]\<rparr>,
          \<lparr>PodName = ''b'', PodPhase = ''Pending'', PodConditions = []\<rparr>] ''a'')
      (quiet_world ())))) = [''MAIN'']"
  using validation_verdict [of "quiet_env :: unit env" bare_cluster
      "[\<lparr>PodName = ''a'', PodPhase = ''Running'', PodConditions = [(''Ready'', ''True'')]\<rparr>,
        \<lparr>PodName = ''b'', PodPhase = ''Pending'', PodConditions = []\<rparr>]" "''a''" "quiet_world ()"]
  by (simp add: Let_def isPodReady_def role_in_def)

text \<open>Validation is rate limited: while the last connectivity test of the status is less than 30
  seconds old nothing is sent, emitted or changed, and outside the phase Running it never
  runs at all.\<close>

lemma validation_rate_limited:
  assumes "Phase (Status cluster) \<noteq> ClusterPhaseRunning \<or>
     (always (now_op e) t \<and> tested_recently cluster = Some lastTest \<and> t - lastTest < 30 * Second)"
  shows "yields (reconcileValidation e cluster pods wi) [] (None, cluster)"
proof (cases "Phase (Status cluster) = ClusterPhaseRunning")
  case False
  then show ?thesis by (simp add: reconcileValidation_def yields_return)
next
  case True
  with assms have n: "always (now_op e) t" and l: "tested_recently cluster = Some lastTest"
    and "t - lastTest < 30 * Second" by auto
  then have s: "time_sub t lastTest < 30 * Second" by (simp add: time_sub_def duration_units)
  show ?thesis
    unfolding reconcileValidation_def True l option.case now_def
    by (simp only: simp_thms if_False)
      (rule yields_then [OF yields_external [OF n]], simp add: s yields_return)
qed

end
