(* ===== verification/Workload.thy ===== *)
theory Workload
  imports K8s_Objects World Services Go_Numbers
begin

text \<open>
  The StatefulSet of a cluster (\<open>internal/controller/statefulset.go\<close>): the command line of
  Memgraph, the init containers, the probes and the object itself.
\<close>

section \<open>Constants\<close>

definition memgraphContainerName :: string where [go_consts]: "memgraphContainerName = ''memgraph''"
definition dataVolumeName :: string where [go_consts]: "dataVolumeName = ''data''"
definition dataVolumePath :: string where [go_consts]: "dataVolumePath = ''/var/lib/memgraph''"
definition defaultTerminationGracePeriod :: int where
  [go_consts]: "defaultTerminationGracePeriod = 300"
definition defaultMemgraphImage :: string where
  [go_consts]: "defaultMemgraphImage = ''memgraph/memgraph:2.21.0''"
definition defaultStorageSize :: string where [go_consts]: "defaultStorageSize = ''10Gi''"
definition defaultMemoryLimit :: int where [go_consts]: "defaultMemoryLimit = 3000"
definition defaultLogLevel :: string where [go_consts]: "defaultLogLevel = ''WARNING''"
definition defaultWALFlushEveryNTx :: int where [go_consts]: "defaultWALFlushEveryNTx = 100000"
definition memgraphUID :: int where [go_consts]: "memgraphUID = 999"
definition memgraphGID :: int where [go_consts]: "memgraphGID = 999"

text \<open>A multi-line literal, a newline between its lines.\<close>

definition text_lines :: "string list \<Rightarrow> string" where
  "text_lines ls = join_with (CHR 0x0A) ls"

definition dquote :: string where "dquote = [CHR 0x22]"
definition squote :: string where "squote = [CHR 0x27]"

section \<open>Memgraph's arguments\<close>

definition opt_arg :: "string \<Rightarrow> ('a \<Rightarrow> string) \<Rightarrow> 'a option \<Rightarrow> string list" where
  "opt_arg flag pr v = (case v of None \<Rightarrow> [] | Some x \<Rightarrow> [flag @ pr x])"

definition buildMemgraphArgs :: "MemgraphCluster \<Rightarrow> string list" where
  "buildMemgraphArgs cluster =
     (let c = Config (Spec cluster);
          logLevel = (if LogLevel c = [] then defaultLogLevel else LogLevel c);
          memoryLimit = (if MemoryLimit c = 0 then defaultMemoryLimit else MemoryLimit c);
          walFlushEveryNTx =
            (if WALFlushEveryNTx c = 0 then defaultWALFlushEveryNTx else WALFlushEveryNTx c)
      in [''--log-level='' @ logLevel,
          ''--log-file='' @ dataVolumePath @ ''/memgraph.log'',
          ''--memory-limit='' @ Itoa memoryLimit,
          ''--storage-wal-file-flush-every-n-tx='' @ Itoa walFlushEveryNTx]
         @ opt_arg ''--storage-snapshot-interval-sec='' Itoa (SnapshotIntervalSec c)
         @ opt_arg ''--storage-snapshot-retention-count='' Itoa (SnapshotRetentionCount c)
         @ opt_arg ''--storage-snapshot-on-exit='' show_bool (SnapshotOnExit c))"

section \<open>Init containers and probes\<close>

definition data_mount :: VolumeMount where
  "data_mount = \<lparr>MountName = dataVolumeName, MountPath = dataVolumePath\<rparr>"

definition run_as_root :: SecurityContext where
  "run_as_root = zero_SecurityContext\<lparr>RunAsUser := Some 0\<rparr>"

definition sysctl_container :: Container where
  "sysctl_container = zero_Container\<lparr>
     ContainerName := ''sysctl-init'', ContainerImage := ''busybox:1.36'',
     ImagePullPolicy := ''IfNotPresent'',
     Command := [''sh'', ''-c'', ''sysctl -w vm.max_map_count=262144''],
     ContainerSecurity := Some (run_as_root\<lparr>Privileged := Some True\<rparr>)\<rparr>"

definition clear_replication_container :: Container where
  "clear_replication_container = zero_Container\<lparr>
     ContainerName := ''clear-replication-state'', ContainerImage := ''busybox:1.36'',
     ImagePullPolicy := ''IfNotPresent'',
     Command := [''sh'', ''-c'', text_lines
       [''echo '' @ dquote @ ''Clearing Memgraph replication state...'' @ dquote,
        ''rm -rf '' @ dataVolumePath @ ''/.internal/replication 2>/dev/null || true'',
        ''rm -f '' @ dataVolumePath @ ''/.internal/replication_* 2>/dev/null || true'',
        ''rm -f '' @ dataVolumePath @ ''/.internal/epoch_id 2>/dev/null || true'',
        ''echo '' @ dquote @ ''Replication state cleared. Operator will reconfigure after startup.'' @ dquote]],
     ContainerSecurity := Some run_as_root,
     VolumeMounts := [data_mount]\<rparr>"

definition permissions_container :: Container where
  "permissions_container = zero_Container\<lparr>
     ContainerName := ''volume-permissions'', ContainerImage := ''busybox:1.36'',
     ImagePullPolicy := ''IfNotPresent'',
     Command := [''sh'', ''-c'',
       ''chown -R '' @ Itoa memgraphUID @ '':'' @ Itoa memgraphGID @ '' '' @ dataVolumePath @
       '' && chmod -R 755 '' @ dataVolumePath],
     ContainerSecurity := Some run_as_root,
     VolumeMounts := [data_mount]\<rparr>"

definition buildInitContainers :: "Container list" where
  "buildInitContainers = [sysctl_container, clear_replication_container, permissions_container]"

definition buildStartupProbe :: Probe where
  "buildStartupProbe = \<lparr>TCPSocketPort = boltPortName, InitialDelaySeconds = 10, PeriodSeconds = 5,
     TimeoutSeconds = 3, FailureThreshold = 30\<rparr>"

definition buildLivenessProbe :: Probe where
  "buildLivenessProbe = \<lparr>TCPSocketPort = boltPortName, InitialDelaySeconds = 60, PeriodSeconds = 10,
     TimeoutSeconds = 5, FailureThreshold = 5\<rparr>"

definition buildReadinessProbe :: Probe where
  "buildReadinessProbe = \<lparr>TCPSocketPort = boltPortName, InitialDelaySeconds = 30, PeriodSeconds = 5,
     TimeoutSeconds = 3, FailureThreshold = 5\<rparr>"

section \<open>The StatefulSet\<close>

definition preStopHook :: "string list" where
  "preStopHook = [''/bin/bash'', ''-c'', text_lines
     [''echo '' @ dquote @ ''Creating snapshot before shutdown...'' @ dquote,
      ''echo '' @ dquote @ ''CREATE SNAPSHOT;'' @ dquote @
        '' | mgconsole --host 127.0.0.1 --port 7687 --use-ssl=false'',
      ''echo '' @ dquote @ ''Snapshot created, proceeding with shutdown'' @ dquote,
      ''sleep 5'']]"

text \<open>A spec without a replica count means three.\<close>

definition desired_replicas :: "MemgraphCluster \<Rightarrow> int" where
  "desired_replicas cluster =
     (let replicas = Replicas (Spec cluster) in if replicas = 0 then 3 else replicas)"

definition cluster_image :: "MemgraphCluster \<Rightarrow> string" where
  "cluster_image cluster =
     (let image = Image (Spec cluster) in if image = [] then defaultMemgraphImage else image)"

definition memgraph_container :: "MemgraphCluster \<Rightarrow> Container" where
  "memgraph_container cluster = zero_Container\<lparr>
     ContainerName := memgraphContainerName,
     ContainerImage := cluster_image cluster,
     ImagePullPolicy := ''IfNotPresent'',
     Command := [''/usr/lib/memgraph/memgraph''],
     Args := buildMemgraphArgs cluster,
     ContainerSecurity := Some (zero_SecurityContext\<lparr>RunAsUser := Some memgraphUID,
       RunAsGroup := Some memgraphGID\<rparr>),
     ContainerPorts :=
       [\<lparr>ContainerPortName = boltPortName, ContainerPortNumber = boltPort, ContainerProtocol = ''TCP''\<rparr>,
        \<lparr>ContainerPortName = replicationPortName, ContainerPortNumber = replicationPort,
         ContainerProtocol = ''TCP''\<rparr>],
     ContainerResources := Resources (Spec cluster),
     VolumeMounts := [data_mount],
     PreStop := Some preStopHook,
     StartupProbe := Some buildStartupProbe,
     LivenessProbe := Some buildLivenessProbe,
     ReadinessProbe := Some buildReadinessProbe\<rparr>"

definition buildStatefulSet :: "'s env \<Rightarrow> MemgraphCluster \<Rightarrow> StatefulSet" where
  "buildStatefulSet e cluster =
     (let labels = labelsForCluster cluster;
          storageSize =
            (let size = Size (Storage (Spec cluster)) in
             if quantity_is_zero e size then quantity_must_parse e defaultStorageSize else size)
      in \<lparr>StsMeta = mk_meta (cluster_name cluster) (cluster_ns cluster) labels,
          ServiceName = headlessServiceName cluster,
          StsReplicas = Some (desired_replicas cluster),
          MatchLabels = labels,
          PodManagementPolicy = ''Parallel'',
          TemplateLabels = labels,
          TemplateSpec = zero_PodSpec\<lparr>
            TerminationGracePeriodSeconds := Some defaultTerminationGracePeriod,
            PodSecurity := Some (zero_PodSecurityContext\<lparr>FSGroup := Some memgraphGID\<rparr>),
            InitContainers := buildInitContainers,
            Containers := [memgraph_container cluster],
            PodNodeSelector := NodeSelector (Spec cluster),
            PodTolerations := Tolerations (Spec cluster),
            PodAffinity := Affinity (Spec cluster)\<rparr>,
          VolumeClaimTemplates =
            [\<lparr>ClaimName = dataVolumeName, AccessModes = [''ReadWriteOnce''],
              ClaimStorageClassName = StorageClassName (Storage (Spec cluster)),
              StorageRequest = storageSize\<rparr>]\<rparr>)"

section \<open>Consistency of the objects\<close>

text \<open>
  The wiring between the objects, which no single builder shows: what one names, another
  provides.
\<close>

definition volumes_resolved :: "string list \<Rightarrow> Container \<Rightarrow> bool" where
  "volumes_resolved vols c \<longleftrightarrow> (\<forall>m \<in> set (VolumeMounts c). MountName m \<in> set vols)"

definition probe_resolved :: "Container \<Rightarrow> Probe option \<Rightarrow> bool" where
  "probe_resolved c p \<longleftrightarrow>
     (case p of None \<Rightarrow> True | Some pr \<Rightarrow> TCPSocketPort pr \<in> ContainerPortName ` set (ContainerPorts c))"

definition container_resolved :: "string list \<Rightarrow> Container \<Rightarrow> bool" where
  "container_resolved vols c \<longleftrightarrow> volumes_resolved vols c \<and>
     probe_resolved c (StartupProbe c) \<and> probe_resolved c (LivenessProbe c) \<and>
     probe_resolved c (ReadinessProbe c)"

text \<open>A service port leads to the container port of its name, number and protocol.\<close>

definition port_resolved :: "Container list \<Rightarrow> ServicePort \<Rightarrow> bool" where
  "port_resolved cs p \<longleftrightarrow> (\<exists>c \<in> set cs. \<exists>q \<in> set (ContainerPorts c).
     ContainerPortName q = PortName p \<and> ContainerPortNumber q = TargetPort p \<and>
     ContainerProtocol q = Protocol p)"

definition statefulset_wired :: "MemgraphCluster \<Rightarrow> StatefulSet \<Rightarrow> bool" where
  "statefulset_wired cluster sts \<longleftrightarrow>
     selects (MatchLabels sts) (TemplateLabels sts) \<and>
     selects (Selector (buildHeadlessService cluster)) (TemplateLabels sts) \<and>
     selects (Selector (buildReadService cluster)) (TemplateLabels sts) \<and>
     ServiceName sts = Name (SvcMeta (buildHeadlessService cluster)) \<and>
     Namespace (StsMeta sts) = Namespace (SvcMeta (buildHeadlessService cluster)) \<and>
     (let vols = map ClaimName (VolumeClaimTemplates sts); pod = TemplateSpec sts in
        list_all (container_resolved vols) (InitContainers pod @ Containers pod)) \<and>
     list_all (port_resolved (Containers (TemplateSpec sts))) (Ports (buildHeadlessService cluster)) \<and>
     list_all (port_resolved (Containers (TemplateSpec sts))) (Ports (buildReadService cluster))"

lemma containers_resolved:
  "list_all (container_resolved [dataVolumeName]) (buildInitContainers @ [memgraph_container cluster])"
  by (simp add: buildInitContainers_def container_resolved_def
      volumes_resolved_def probe_resolved_def sysctl_container_def clear_replication_container_def
      permissions_container_def memgraph_container_def zero_Container_def data_mount_def
      buildStartupProbe_def buildLivenessProbe_def buildReadinessProbe_def)

lemma ports_resolved:
  "list_all (port_resolved [memgraph_container cluster]) (Ports (buildHeadlessService cluster))"
  "list_all (port_resolved [memgraph_container cluster]) (Ports (buildReadService cluster))"
  "list_all (port_resolved [memgraph_container cluster]) (Ports (buildWriteService cluster wi))"
  by (simp_all add: port_resolved_def buildHeadlessService_def buildReadService_def buildWriteService_def
      memgraph_container_def bolt_service_port_def replication_service_port_def)

lemma selects_refl: "selects ls ls"
  by (simp add: selects_def)

section \<open>Properties\<close>

text \<open>C33: The objects fit together. The selectors of the StatefulSet, of the headless and of the
  read service match the labels of the pod template; the StatefulSet is served by the
  headless service of its namespace; every mounted volume is a claim template, every probe
  names a port of its container, and every port of the headless, the read and the write service
  leads to the container port of its name, number and protocol, the two client services offering
  the Bolt port.
  Among the pods of the cluster the write service built for a write instance selects exactly
  the one of that name, and the read service selects all of them.\<close>

theorem StatefulSet_wired:
  "statefulset_wired cluster (buildStatefulSet e cluster) \<and>
   list_all (port_resolved (Containers (TemplateSpec (buildStatefulSet e cluster))))
     (Ports (buildWriteService cluster wi)) \<and>
   map PortName (Ports (buildWriteService cluster wi)) = [boltPortName] \<and>
   map PortName (Ports (buildReadService cluster)) = [boltPortName] \<and>
   selects (Selector (buildWriteService cluster wi)) ((labelsForCluster cluster)(podNameLabel \<mapsto> p)) =
     (wi = [] \<or> p = wi) \<and>
   selects (Selector (buildReadService cluster)) ((labelsForCluster cluster)(podNameLabel \<mapsto> p))"
proof (intro conjI)
  show "statefulset_wired cluster (buildStatefulSet e cluster)"
    unfolding statefulset_wired_def
    using containers_resolved [of cluster] ports_resolved(1,2) [of cluster]
    by (simp add: buildStatefulSet_def selects_refl Let_def mk_meta_def zero_PodSpec_def
        buildHeadlessService_def buildReadService_def)
  show "list_all (port_resolved (Containers (TemplateSpec (buildStatefulSet e cluster))))
      (Ports (buildWriteService cluster wi))"
    using ports_resolved(3) [of cluster wi] by (simp add: buildStatefulSet_def Let_def zero_PodSpec_def)
  show "map PortName (Ports (buildWriteService cluster wi)) = [boltPortName]"
    "map PortName (Ports (buildReadService cluster)) = [boltPortName]"
    by (simp_all add: buildWriteService_def buildReadService_def bolt_service_port_def)
  show "selects (Selector (buildWriteService cluster wi)) ((labelsForCluster cluster)(podNameLabel \<mapsto> p)) =
      (wi = [] \<or> p = wi)"
    and "selects (Selector (buildReadService cluster)) ((labelsForCluster cluster)(podNameLabel \<mapsto> p))"
    using podNameLabel_fresh [of cluster]
    by (auto simp: selects_def buildWriteService_def buildReadService_def map_le_def dom_def)
qed

end
