(* ===== verification/Snapshot.thy ===== *)
theory Snapshot
  imports Workload Client Events
begin

text \<open>
  Scheduled snapshots (\<open>internal/controller/snapshot.go\<close>): the CronJob and its containers, the
  drift test, the reconciliation of the CronJob and the snapshot status.
\<close>

section \<open>Constants\<close>

definition defaultAWSCLIImage :: string where
  [go_consts]: "defaultAWSCLIImage = ''amazon/aws-cli:latest''"
definition snapshotDataVolume :: string where [go_consts]: "snapshotDataVolume = ''snapshot-data''"
definition defaultActiveDeadlineSeconds :: int where
  [go_consts]: "defaultActiveDeadlineSeconds = 600"
definition defaultStartingDeadlineSeconds :: int where
  [go_consts]: "defaultStartingDeadlineSeconds = 300"

section \<open>Triggering a snapshot\<close>

definition TriggerSnapshot :: "'s env \<Rightarrow> string \<Rightarrow> string \<Rightarrow> ('s, go_error option) op" where
  "TriggerSnapshot e ns podName = do {
     err \<leftarrow> CreateSnapshot e ns podName;
     State_Monad.return
       (case err of Some er \<Rightarrow> Some (wrap ''failed to create snapshot: '' er) | None \<Rightarrow> None)
   }"

section \<open>Containers of the job\<close>

definition s3_enabled :: "MemgraphCluster \<Rightarrow> bool" where
  "s3_enabled cluster = (case S3 (Snapshot (Spec cluster)) of None \<Rightarrow> False | Some s3 \<Rightarrow> S3Enabled s3)"

definition restricted :: SecurityContext where
  "restricted = zero_SecurityContext\<lparr>AllowPrivilegeEscalation := Some False, DropCapabilities := [''ALL'']\<rparr>"

definition snapshotCmd :: "MemgraphCluster \<Rightarrow> string" where
  "snapshotCmd cluster = text_lines
     [[],
      ''set -e'',
      ''echo '' @ dquote @ ''Creating snapshot on '' @ writeServiceName cluster @ ''...'' @ dquote,
      ''echo '' @ dquote @ ''CREATE SNAPSHOT;'' @ dquote @ '' | mgconsole --host '' @
        writeServiceName cluster @ '' --port 7687 --use-ssl=false --no-history'',
      ''echo '' @ dquote @ ''Snapshot created successfully at $(date)'' @ dquote,
      []]"

definition backslash :: string where "backslash = [CHR 0x5C]"

definition copyCmd :: "MemgraphCluster \<Rightarrow> string" where
  "copyCmd cluster = (let ns = cluster_ns cluster in text_lines
     [[],
      ''set -e'',
      ''echo '' @ dquote @ ''Copying snapshot files from MAIN pod...'' @ dquote,
      [],
      ''# Find the current write instance'',
      ''WRITE_POD=$(kubectl get svc '' @ writeServiceName cluster @ '' -n '' @ ns @ '' -o jsonpath='' @
        squote @ ''{.spec.selector.statefulset'' @ backslash @ ''.kubernetes'' @ backslash @
        ''.io/pod-name}'' @ squote @ '' 2>/dev/null || echo '' @ dquote @ dquote @ '')'',
      ''if [ -z '' @ dquote @ ''$WRITE_POD'' @ dquote @ '' ]; then'',
      ''  # Fallback: get first ready pod'',
      ''  WRITE_POD=$(kubectl get pods -n '' @ ns @ '' -l app.kubernetes.io/instance='' @
        cluster_name cluster @ '' --field-selector=status.phase=Running -o jsonpath='' @ squote @
        ''{.items[0].metadata.name}'' @ squote @ '')'',
      ''fi'',
      [],
      ''echo '' @ dquote @ ''MAIN pod: ${WRITE_POD}'' @ dquote,
      [],
      ''# Copy snapshot files'',
      ''mkdir -p /snapshot-data/snapshots'',
      ''kubectl exec ${WRITE_POD} -n '' @ ns @ '' -c memgraph -- tar -cf - -C /var/lib/memgraph/snapshots . 2>/dev/null | tar -xf - -C /snapshot-data/snapshots/ || echo '' @
        dquote @ ''Warning: Could not copy snapshots'' @ dquote,
      [],
      ''# Write timestamp'',
      ''echo '' @ dquote @ ''$(date +%Y%m%d-%H%M%S)'' @ dquote @ '' > /snapshot-data/timestamp'',
      ''echo '' @ dquote @ ''Snapshot files copied successfully'' @ dquote,
      ''ls -la /snapshot-data/snapshots/'',
      []])"

definition snapshot_mount :: VolumeMount where
  "snapshot_mount = \<lparr>MountName = snapshotDataVolume, MountPath = ''/snapshot-data''\<rparr>"

definition buildSnapshotInitContainers :: "MemgraphCluster \<Rightarrow> string \<Rightarrow> Container list" where
  "buildSnapshotInitContainers cluster memgraphImage =
     [zero_Container\<lparr>ContainerName := ''create-snapshot'', ContainerImage := memgraphImage,
        Command := [''/bin/bash'', ''-c''], Args := [snapshotCmd cluster],
        ContainerSecurity := Some restricted\<rparr>]
     @ (if s3_enabled cluster then
          [zero_Container\<lparr>ContainerName := ''copy-snapshots'', ContainerImage := ''bitnami/kubectl:latest'',
             Command := [''/bin/sh'', ''-c''], Args := [copyCmd cluster],
             ContainerSecurity := Some restricted, VolumeMounts := [snapshot_mount]\<rparr>]
        else [])"

definition buildS3EndpointConfig :: "S3BackupSpec \<Rightarrow> string" where
  "buildS3EndpointConfig s3 =
     (if Endpoint s3 = [] then []
      else ''export AWS_ENDPOINT_URL='' @ dquote @ Endpoint s3 @ dquote)"

definition s3_env :: "S3BackupSpec \<Rightarrow> EnvVar list" where
  "s3_env s3 =
     (case SecretRef s3 of
        None \<Rightarrow> []
      | Some ref \<Rightarrow>
          [\<lparr>EnvName = ''AWS_ACCESS_KEY_ID'', EnvValue = [],
            EnvSecretKeyRef = Some (ref, ''access-key-id'')\<rparr>,
           \<lparr>EnvName = ''AWS_SECRET_ACCESS_KEY'', EnvValue = [],
            EnvSecretKeyRef = Some (ref, ''secret-access-key'')\<rparr>])
     @ (if Region s3 \<noteq> []
        then [\<lparr>EnvName = ''AWS_REGION'', EnvValue = Region s3, EnvSecretKeyRef = None\<rparr>] else [])"

definition buildS3Env :: "MemgraphCluster \<Rightarrow> EnvVar list" where
  "buildS3Env cluster = (case S3 (Snapshot (Spec cluster)) of None \<Rightarrow> [] | Some s3 \<Rightarrow> s3_env s3)"

definition s3Cmd :: "MemgraphCluster \<Rightarrow> S3BackupSpec \<Rightarrow> string" where
  "s3Cmd cluster s3 =
     (let prefix = (if Prefix s3 = [] then ''memgraph/snapshots'' else Prefix s3) in text_lines
     [[],
      ''set -e'',
      [],
      ''TIMESTAMP=$(cat /snapshot-data/timestamp)'',
      ''BACKUP_PATH='' @ dquote @ ''s3://'' @ Bucket s3 @ ''/'' @ prefix @ ''/'' @ cluster_name cluster @
        ''/${TIMESTAMP}'' @ dquote,
      [],
      ''echo '' @ dquote @ ''Uploading snapshot to ${BACKUP_PATH}...'' @ dquote,
      [],
      ''# Configure endpoint if specified'',
      buildS3EndpointConfig s3,
      [],
      ''# Upload to S3'',
      ''if [ -d '' @ dquote @ ''/snapshot-data/snapshots'' @ dquote @ '' ] && [ '' @ dquote @
        ''$(ls -A /snapshot-data/snapshots 2>/dev/null)'' @ dquote @ '' ]; then'',
      ''  aws s3 cp /snapshot-data/snapshots/ ${BACKUP_PATH}/snapshots/ --recursive'',
      ''  echo '' @ dquote @ ''Snapshot uploaded successfully to ${BACKUP_PATH}'' @ dquote,
      ''else'',
      ''  echo '' @ dquote @ ''No snapshot files found to upload'' @ dquote,
      ''  exit 1'',
      ''fi'',
      [],
      ''echo '' @ dquote @ ''S3 backup completed at $(date)'' @ dquote,
      []])"

text \<open>Called with S3 enabled only: the spec it reads is there.\<close>

definition buildS3UploadContainer :: "MemgraphCluster \<Rightarrow> S3BackupSpec \<Rightarrow> Container" where
  "buildS3UploadContainer cluster s3 = zero_Container\<lparr>
     ContainerName := ''s3-upload'', ContainerImage := defaultAWSCLIImage,
     Command := [''/bin/sh'', ''-c''], Args := [s3Cmd cluster s3],
     ContainerSecurity := Some restricted,
     Env := buildS3Env cluster,
     VolumeMounts := [snapshot_mount]\<rparr>"

definition complete_container :: Container where
  "complete_container = zero_Container\<lparr>
     ContainerName := ''complete'', ContainerImage := ''busybox:1.36'',
     Command := [''/bin/sh'', ''-c''],
     Args := [''echo '' @ squote @ ''Snapshot job completed successfully'' @ squote],
     ContainerSecurity := Some restricted\<rparr>"

definition buildSnapshotMainContainers :: "MemgraphCluster \<Rightarrow> Container list" where
  "buildSnapshotMainContainers cluster =
     (case S3 (Snapshot (Spec cluster)) of
        Some s3 \<Rightarrow> if S3Enabled s3 then [buildS3UploadContainer cluster s3] else [complete_container]
      | None \<Rightarrow> [complete_container])"

definition buildSnapshotVolumes :: "MemgraphCluster \<Rightarrow> string list" where
  "buildSnapshotVolumes cluster = (if s3_enabled cluster then [snapshotDataVolume] else [])"

section \<open>The CronJob\<close>

definition snapshot_name :: "MemgraphCluster \<Rightarrow> string" where
  "snapshot_name cluster = cluster_name cluster @ ''-snapshot''"

definition buildSnapshotCronJob :: "MemgraphCluster \<Rightarrow> CronJob" where
  "buildSnapshotCronJob cluster =
     (let s = Snapshot (Spec cluster);
          schedule = (if Schedule s = [] then ''*/15 * * * *'' else Schedule s);
          concurrency = (if ConcurrencyPolicy s = [] then ''Forbid'' else ConcurrencyPolicy s);
          startingDeadline = (case StartingDeadlineSeconds s of
              None \<Rightarrow> Some defaultStartingDeadlineSeconds | Some d \<Rightarrow> Some d);
          activeDeadline = (case ActiveDeadlineSeconds s of
              None \<Rightarrow> Some defaultActiveDeadlineSeconds | Some d \<Rightarrow> Some d);
          memgraphImage = cluster_image cluster
      in \<lparr>CronMeta = mk_meta (snapshot_name cluster) (cluster_ns cluster) (labelsForCluster cluster),
          CronSpec = \<lparr>
            CronSchedule = schedule,
            CronConcurrencyPolicy = concurrency,
            CronStartingDeadlineSeconds = startingDeadline,
            SuccessfulJobsHistoryLimit = Some 3,
            FailedJobsHistoryLimit = Some 1,
            JobTemplateLabels = labelsForCluster cluster,
            JobActiveDeadlineSeconds = activeDeadline,
            JobPodLabels = labelsForCluster cluster,
            JobPodSpec = zero_PodSpec\<lparr>
              RestartPolicy := ''OnFailure'',
              PodSecurity := Some (zero_PodSecurityContext\<lparr>PodRunAsUser := Some 999,
                PodRunAsGroup := Some 999, RunAsNonRoot := Some True,
                SeccompProfile := Some ''RuntimeDefault''\<rparr>),
              PodNodeSelector := NodeSelector (Spec cluster),
              PodTolerations := Tolerations (Spec cluster),
              PodAffinity := Affinity (Spec cluster),
              InitContainers := buildSnapshotInitContainers cluster memgraphImage,
              Containers := buildSnapshotMainContainers cluster,
              EmptyDirVolumes := buildSnapshotVolumes cluster\<rparr>\<rparr>\<rparr>)"

section \<open>Drift\<close>

fun same_containers :: "'s env \<Rightarrow> Container list \<Rightarrow> Container list \<Rightarrow> bool" where
  "same_containers e (x # xs) (d # ds) \<longleftrightarrow>
     (if ContainerName x \<noteq> ContainerName d \<or> ContainerImage x \<noteq> ContainerImage d \<or>
         \<not> equal_strings e (Args x) (Args d) then False
      else same_containers e xs ds)"
| "same_containers e _ _ \<longleftrightarrow> True"

definition snapshotContainersEqual :: "'s env \<Rightarrow> Container list \<Rightarrow> Container list \<Rightarrow> bool" where
  "snapshotContainersEqual e existing desired =
     (if length existing \<noteq> length desired then False else same_containers e existing desired)"

definition snapshotCronJobNeedsUpdate :: "'s env \<Rightarrow> CronJob \<Rightarrow> CronJob \<Rightarrow> bool" where
  "snapshotCronJobNeedsUpdate ev existing desired =
     (let x = CronSpec existing; y = CronSpec desired in
      if CronSchedule x \<noteq> CronSchedule y \<or> CronConcurrencyPolicy x \<noteq> CronConcurrencyPolicy y \<or>
         \<not> equal_int_ptr ev (CronStartingDeadlineSeconds x) (CronStartingDeadlineSeconds y)
      then True
      else if \<not> equal_int_ptr ev (JobActiveDeadlineSeconds x) (JobActiveDeadlineSeconds y) then True
      else let e = JobPodSpec x; d = JobPodSpec y in
        \<not> equal_labels ev (PodNodeSelector e) (PodNodeSelector d) \<or>
        \<not> equal_values ev (PodTolerations e) (PodTolerations d) \<or>
        \<not> equal_affinity ev (PodAffinity e) (PodAffinity d) \<or>
        \<not> snapshotContainersEqual ev (InitContainers e) (InitContainers d) \<or>
        \<not> snapshotContainersEqual ev (Containers e) (Containers d))"

section \<open>Reconciliation\<close>

definition deleteSnapshotCronJob :: "'s env \<Rightarrow> MemgraphCluster \<Rightarrow> ('s, go_error option) op" where
  "deleteSnapshotCronJob e cluster = do {
     r \<leftarrow> external (get_cronjob_op e (snapshot_name cluster) (cluster_ns cluster));
     case r of
       Inl er \<Rightarrow> State_Monad.return (if IsNotFound er then None else Some er)
     | Inr cronJob \<Rightarrow> api_write e (DeleteCronJob cronJob)
   }"

definition reconcileSnapshotCronJob :: "'s env \<Rightarrow> MemgraphCluster \<Rightarrow> ('s, go_error option) op" where
  "reconcileSnapshotCronJob e cluster =
     (if \<not> IsEnabled (Snapshot (Spec cluster)) then deleteSnapshotCronJob e cluster
      else
        let built = buildSnapshotCronJob cluster in
        case set_controller_reference e cluster (CronMeta built) of
          Inl er \<Rightarrow> State_Monad.return (Some er)
        | Inr meta \<Rightarrow>
            let desired = built\<lparr>CronMeta := meta\<rparr> in
            do {
              r \<leftarrow> external (get_cronjob_op e (Name meta) (Namespace meta));
              case r of
                Inl er \<Rightarrow>
                  if IsNotFound er then do {
                    err \<leftarrow> api_write e (CreateCronJob desired);
                    case err of
                      Some er \<Rightarrow> State_Monad.return (Some er)
                    | None \<Rightarrow> do {
                        event EventNormal EventReasonSnapshotCronJobCreated
                          (''Snapshot CronJob created with schedule: '' @
                           Schedule (Snapshot (Spec cluster)));
                        State_Monad.return None
                      }
                  }
                  else State_Monad.return (Some er)
              | Inr existing \<Rightarrow>
                  if snapshotCronJobNeedsUpdate e existing desired then do {
                    err \<leftarrow> api_write e (UpdateCronJob (existing\<lparr>CronSpec := CronSpec desired\<rparr>));
                    case err of
                      Some er \<Rightarrow> State_Monad.return (Some er)
                    | None \<Rightarrow> do {
                        event EventNormal EventReasonSnapshotCronJobUpdated
                          (''Snapshot schedule updated to: '' @ CronSchedule (CronSpec desired));
                        State_Monad.return None
                      }
                  }
                  else State_Monad.return None
            })"

section \<open>Status\<close>

definition job_success :: "Job \<Rightarrow> string \<times> string \<Rightarrow> instant option" where
  "job_success job condition =
     (if fst condition = ''Complete'' \<and> snd condition = ''True'' then CompletionTime job else None)"

definition later :: "instant option \<Rightarrow> instant option \<Rightarrow> instant option" where
  "later t latest =
     (case t of
        None \<Rightarrow> latest
      | Some x \<Rightarrow> (case latest of None \<Rightarrow> Some x | Some y \<Rightarrow> if x > y then Some x else latest))"

definition latest_success :: "Job list \<Rightarrow> instant option" where
  "latest_success jobs =
     fold (\<lambda>job latest. fold (\<lambda>condition. later (job_success job condition)) (JobConditions job) latest)
       jobs None"

definition updateSnapshotStatus ::
  "'s env \<Rightarrow> MemgraphCluster \<Rightarrow> ('s, go_error option \<times> MemgraphCluster) op" where
  "updateSnapshotStatus e cluster = do {
     r \<leftarrow> external (list_jobs_op e (cluster_ns cluster) (labelsForCluster cluster));
     State_Monad.return
       (case r of
          Inl er \<Rightarrow> (Some er, cluster)
        | Inr jobs \<Rightarrow>
            (None, case latest_success jobs of
                None \<Rightarrow> cluster
              | Some t \<Rightarrow> cluster\<lparr>Status := (Status cluster)\<lparr>LastSnapshotTime := Some t\<rparr>\<rparr>))
   }"

section \<open>Wiring of the job\<close>

lemma job_containers_resolved:
  "list_all (container_resolved (buildSnapshotVolumes cluster))
     (buildSnapshotInitContainers cluster img @ buildSnapshotMainContainers cluster)"
  by (auto simp: buildSnapshotInitContainers_def buildSnapshotMainContainers_def
      buildSnapshotVolumes_def s3_enabled_def buildS3UploadContainer_def complete_container_def
      container_resolved_def volumes_resolved_def probe_resolved_def zero_Container_def
      snapshot_mount_def split: option.splits)

text \<open>Every volume a container of the snapshot job mounts is a volume of its pod, with S3
  enabled or not, and no container of it may gain privileges.\<close>

lemma snapshot_job_wired:
  "(let pod = JobPodSpec (CronSpec (buildSnapshotCronJob cluster)) in
     list_all (container_resolved (EmptyDirVolumes pod)) (InitContainers pod @ Containers pod) \<and>
     list_all (\<lambda>c. ContainerSecurity c = Some restricted) (InitContainers pod @ Containers pod))"
  using job_containers_resolved [of cluster "cluster_image cluster"]
  by (auto simp: buildSnapshotCronJob_def Let_def buildSnapshotInitContainers_def
      buildSnapshotMainContainers_def buildS3UploadContainer_def complete_container_def
      split: option.splits)

text \<open>The pods of the snapshot job carry all labels of the cluster, so the pod list of the
  operator, the selector of the StatefulSet and the headless and read services match them
  like Memgraph pods.\<close>

lemma snapshot_pods_look_like_members:
  "(let ls = JobPodLabels (CronSpec (buildSnapshotCronJob cluster)) in
     selects (labelsForCluster cluster) ls \<and>
     selects (MatchLabels (buildStatefulSet e cluster)) ls \<and>
     selects (Selector (buildHeadlessService cluster)) ls \<and>
     selects (Selector (buildReadService cluster)) ls)"
  by (simp add: buildSnapshotCronJob_def buildStatefulSet_def buildHeadlessService_def
      buildReadService_def selects_refl Let_def)

section \<open>Drift laws\<close>

text \<open>
  What the code relies on of \<open>equality.Semantic.DeepEqual\<close> at the types it is used at: it is
  reflexive, and on the scalars and strings it is equality.
\<close>

definition deep_equal_ok :: "'s env \<Rightarrow> bool" where
  "deep_equal_ok e \<longleftrightarrow>
     (\<forall>a b. equal_int_ptr e a b \<longleftrightarrow> a = b) \<and> (\<forall>a b. equal_strings e a b \<longleftrightarrow> a = b) \<and>
     (\<forall>a. equal_labels e a a) \<and> (\<forall>a. equal_values e a a) \<and> (\<forall>a. equal_affinity e a a)"

definition container_key :: "Container \<Rightarrow> string \<times> string \<times> string list" where
  "container_key c = (ContainerName c, ContainerImage c, Args c)"

lemma same_containers_keys:
  "deep_equal_ok e \<Longrightarrow> length xs = length ds \<Longrightarrow>
   same_containers e xs ds \<longleftrightarrow> map container_key xs = map container_key ds"
  by (induction e xs ds rule: same_containers.induct)
    (auto simp: deep_equal_ok_def container_key_def)

lemma snapshotContainersEqual_keys:
  "deep_equal_ok e \<Longrightarrow>
   snapshotContainersEqual e xs ds \<longleftrightarrow> map container_key xs = map container_key ds"
  using same_containers_keys [of e xs ds]
  by (auto simp: snapshotContainersEqual_def dest: map_eq_imp_length_eq)

text \<open>An object as the API server may return it: everything the drift test ignores is free.\<close>

definition agrees :: "CronJob \<Rightarrow> CronJob \<Rightarrow> bool" where
  "agrees x y \<longleftrightarrow>
     CronSchedule (CronSpec x) = CronSchedule (CronSpec y) \<and>
     CronConcurrencyPolicy (CronSpec x) = CronConcurrencyPolicy (CronSpec y) \<and>
     CronStartingDeadlineSeconds (CronSpec x) = CronStartingDeadlineSeconds (CronSpec y) \<and>
     JobActiveDeadlineSeconds (CronSpec x) = JobActiveDeadlineSeconds (CronSpec y) \<and>
     PodNodeSelector (JobPodSpec (CronSpec x)) = PodNodeSelector (JobPodSpec (CronSpec y)) \<and>
     PodTolerations (JobPodSpec (CronSpec x)) = PodTolerations (JobPodSpec (CronSpec y)) \<and>
     PodAffinity (JobPodSpec (CronSpec x)) = PodAffinity (JobPodSpec (CronSpec y)) \<and>
     map container_key (InitContainers (JobPodSpec (CronSpec x))) =
       map container_key (InitContainers (JobPodSpec (CronSpec y))) \<and>
     map container_key (Containers (JobPodSpec (CronSpec x))) =
       map container_key (Containers (JobPodSpec (CronSpec y)))"

lemma agrees_no_update: "deep_equal_ok e \<Longrightarrow> agrees x y \<Longrightarrow> \<not> snapshotCronJobNeedsUpdate e x y"
  by (simp add: agrees_def snapshotCronJobNeedsUpdate_def Let_def snapshotContainersEqual_keys)
    (simp add: deep_equal_ok_def)

lemma no_update_agrees:
  "deep_equal_ok e \<Longrightarrow> \<not> snapshotCronJobNeedsUpdate e x y \<Longrightarrow>
   CronSchedule (CronSpec x) = CronSchedule (CronSpec y) \<and>
   CronConcurrencyPolicy (CronSpec x) = CronConcurrencyPolicy (CronSpec y) \<and>
   CronStartingDeadlineSeconds (CronSpec x) = CronStartingDeadlineSeconds (CronSpec y) \<and>
   JobActiveDeadlineSeconds (CronSpec x) = JobActiveDeadlineSeconds (CronSpec y) \<and>
   map container_key (InitContainers (JobPodSpec (CronSpec x))) =
     map container_key (InitContainers (JobPodSpec (CronSpec y))) \<and>
   map container_key (Containers (JobPodSpec (CronSpec x))) =
     map container_key (Containers (JobPodSpec (CronSpec y)))"
  by (auto simp: snapshotCronJobNeedsUpdate_def Let_def snapshotContainersEqual_keys
      split: if_splits) (auto simp: deep_equal_ok_def)

section \<open>Properties of the reconciliation\<close>

lemma cronjob_in_sync:
  assumes "deep_equal_ok e" and "IsEnabled (Snapshot (Spec cluster))"
    and "set_controller_reference e cluster (CronMeta (buildSnapshotCronJob cluster)) = Inr meta"
    and "always (get_cronjob_op e (Name meta) (Namespace meta)) (Inr existing)"
    and "agrees existing (buildSnapshotCronJob cluster)"
  shows "yields (reconcileSnapshotCronJob e cluster) [] None"
proof -
  have "agrees existing (buildSnapshotCronJob cluster\<lparr>CronMeta := meta\<rparr>)"
    using assms(5) by (simp add: agrees_def)
  then have n: "\<not> snapshotCronJobNeedsUpdate e existing (buildSnapshotCronJob cluster\<lparr>CronMeta := meta\<rparr>)"
    by (rule agrees_no_update [OF assms(1)])
  show ?thesis
    unfolding reconcileSnapshotCronJob_def Let_def assms(3) sum.case
    by (simp only: assms(2) simp_thms if_False)
      (rule yields_then [OF yields_external [OF assms(4)]], simp add: n yields_return)
qed

text \<open>The drift test is stable: once the CronJob in the cluster agrees with the desired one on
  the fields the operator compares (whatever the API server defaulted in the others), the
  reconciliation writes nothing, emits nothing and succeeds, so it cannot loop.\<close>

theorem snapshot_settled:
  assumes "deep_equal_ok e" and "IsEnabled (Snapshot (Spec cluster))"
    and "set_controller_reference e cluster (CronMeta (buildSnapshotCronJob cluster)) = Inr meta"
    and "always (get_cronjob_op e (Name meta) (Namespace meta)) (Inr existing)"
    and "agrees existing (buildSnapshotCronJob cluster)"
  shows "yields (reconcileSnapshotCronJob e cluster) [] None"
  by (rule cronjob_in_sync [OF assms])

lemma quiet_deep_equal: "deep_equal_ok (quiet_env :: 's env)"
  by (simp add: deep_equal_ok_def quiet_env_def)

lemma snapshot_settled_witness:
  "yields (reconcileSnapshotCronJob
     ((quiet_env :: unit env)\<lparr>get_cronjob_op := \<lambda>_ _. State_Monad.return
        (Inr ((buildSnapshotCronJob bare_cluster)\<lparr>CronMeta := mk_meta ''x'' ''y'' Map.empty\<rparr>))\<rparr>)
     bare_cluster) [] None"
proof (rule snapshot_settled [where existing =
    "(buildSnapshotCronJob bare_cluster)\<lparr>CronMeta := mk_meta ''x'' ''y'' Map.empty\<rparr>"])
  show "IsEnabled (Snapshot (Spec bare_cluster))"
    by (simp add: IsEnabled_def bare_cluster_def bare_spec_def)
qed (auto simp: deep_equal_ok_def quiet_env_def always_def agrees_def)

lemma api_write_yields:
  "always (write_op e c) r \<Longrightarrow> yields (api_write e c) [Write c] r"
  unfolding api_write_def using yields_bind [OF yields_emit yields_external] by fastforce

text \<open>A write with its event after it, and the two ways a CronJob is repaired.\<close>

lemma write_then_event:
  assumes "\<forall>c. always (write_op e c) result"
  shows "yields (do {
      err \<leftarrow> api_write e c;
      case err of Some er \<Rightarrow> State_Monad.return (Some er)
      | None \<Rightarrow> do { event t r m; State_Monad.return None } })
    (Write c # (if result = None then [Event t r m] else [])) result"
proof -
  have w: "yields (api_write e c) [Write c] result"
    using assms by (simp add: api_write_yields)
  have ev: "yields (case result of Some er \<Rightarrow> State_Monad.return (Some er)
      | None \<Rightarrow> do { event t r m; State_Monad.return None })
      (if result = None then [Event t r m] else []) result"
    by (cases result) (auto intro: yields_return yields_then [OF yields_event])
  have "yields (do {
      err \<leftarrow> api_write e c;
      case err of Some er \<Rightarrow> State_Monad.return (Some er)
      | None \<Rightarrow> do { event t r m; State_Monad.return None } })
    ([Write c] @ (if result = None then [Event t r m] else [])) result"
    by (rule yields_bind [OF w]) (rule ev)
  then show ?thesis by (simp only: append.simps)
qed

lemma reconcileSnapshotCronJob_yields:
  assumes "IsEnabled (Snapshot (Spec cluster))"
    and "set_controller_reference e cluster (CronMeta (buildSnapshotCronJob cluster)) = Inr meta"
    and "always (get_cronjob_op e (Name meta) (Namespace meta)) found"
    and "\<forall>c. always (write_op e c) result"
  shows "(case found of
      Inl er \<Rightarrow> IsNotFound er \<longrightarrow> yields (reconcileSnapshotCronJob e cluster)
        (Write (CreateCronJob ((buildSnapshotCronJob cluster)\<lparr>CronMeta := meta\<rparr>)) #
         (if result = None
          then [Event EventNormal EventReasonSnapshotCronJobCreated
            (''Snapshot CronJob created with schedule: '' @ Schedule (Snapshot (Spec cluster)))]
          else [])) result
    | Inr x \<Rightarrow> snapshotCronJobNeedsUpdate e x ((buildSnapshotCronJob cluster)\<lparr>CronMeta := meta\<rparr>) \<longrightarrow>
        yields (reconcileSnapshotCronJob e cluster)
        (Write (UpdateCronJob (x\<lparr>CronSpec := CronSpec (buildSnapshotCronJob cluster)\<rparr>)) #
         (if result = None
          then [Event EventNormal EventReasonSnapshotCronJobUpdated
            (''Snapshot schedule updated to: '' @ CronSchedule (CronSpec (buildSnapshotCronJob cluster)))]
          else [])) result)"
proof -
  let ?d = "(buildSnapshotCronJob cluster)\<lparr>CronMeta := meta\<rparr>"
  have spec: "CronSpec ?d = CronSpec (buildSnapshotCronJob cluster)" by simp
  have run: "yields (f found) tr x \<Longrightarrow> yields (do {
      r \<leftarrow> external (get_cronjob_op e (Name meta) (Namespace meta)); f r }) tr x" for f tr and x :: "go_error option"
    using yields_bind [OF yields_external [OF assms(3)], of f tr x] by simp
  show ?thesis
    unfolding reconcileSnapshotCronJob_def Let_def assms(2) sum.case
    by (cases found)
      (simp_all only: assms(1) simp_thms if_False sum.case, safe,
        (rule run, simp only: sum.case if_True spec, rule write_then_event [OF assms(4)])+)
qed

text \<open>C34: Drift is repaired in one step. When the CronJob is missing, the desired one is created;
  when it drifted, its whole spec is replaced by the desired one and nothing else of it changes.
  The event is emitted exactly when the write succeeded, and a failed write is returned as the
  error.\<close>

theorem snapshot_repaired:
  assumes "IsEnabled (Snapshot (Spec cluster))"
    and "set_controller_reference e cluster (CronMeta (buildSnapshotCronJob cluster)) = Inr meta"
    and "always (get_cronjob_op e (Name meta) (Namespace meta)) found"
    and "case found of Inl er \<Rightarrow> IsNotFound er
         | Inr x \<Rightarrow> snapshotCronJobNeedsUpdate e x ((buildSnapshotCronJob cluster)\<lparr>CronMeta := meta\<rparr>)"
    and "\<forall>c. always (write_op e c) result"
  shows "yields (reconcileSnapshotCronJob e cluster)
     (Write (case found of
          Inl _ \<Rightarrow> CreateCronJob ((buildSnapshotCronJob cluster)\<lparr>CronMeta := meta\<rparr>)
        | Inr x \<Rightarrow> UpdateCronJob (x\<lparr>CronSpec := CronSpec (buildSnapshotCronJob cluster)\<rparr>)) #
      (if result = None
       then [case found of
          Inl _ \<Rightarrow> Event EventNormal EventReasonSnapshotCronJobCreated
            (''Snapshot CronJob created with schedule: '' @ Schedule (Snapshot (Spec cluster)))
        | Inr _ \<Rightarrow> Event EventNormal EventReasonSnapshotCronJobUpdated
            (''Snapshot schedule updated to: '' @ CronSchedule (CronSpec (buildSnapshotCronJob cluster)))]
       else [])) result"
  using reconcileSnapshotCronJob_yields [OF assms(1,2,3,5)] assms(4)
  by (cases found) (simp_all only: sum.case simp_thms)

lemma snapshot_repaired_witness:
  "yields (reconcileSnapshotCronJob (quiet_env :: unit env) bare_cluster)
     [Write (CreateCronJob ((buildSnapshotCronJob bare_cluster)\<lparr>CronMeta :=
        (CronMeta (buildSnapshotCronJob bare_cluster))\<lparr>OwnerReferences := [KStr (cluster_name bare_cluster)]\<rparr>\<rparr>)),
      Event EventNormal EventReasonSnapshotCronJobCreated
        (''Snapshot CronJob created with schedule: '' @ Schedule (Snapshot (Spec bare_cluster)))] None"
proof -
  have "IsEnabled (Snapshot (Spec bare_cluster))"
    by (simp add: IsEnabled_def bare_cluster_def bare_spec_def)
  moreover have "set_controller_reference (quiet_env :: unit env) bare_cluster m =
      Inr (m\<lparr>OwnerReferences := [KStr (cluster_name bare_cluster)]\<rparr>)" for m
    by (simp add: quiet_env_def)
  moreover have "always (get_cronjob_op (quiet_env :: unit env) n ns) (Inl (NotFound ''cronjob''))"
      "always (write_op (quiet_env :: unit env) c) None" for n ns c
    by (simp_all add: quiet_env_def always_def)
  ultimately show ?thesis
    using snapshot_repaired [of bare_cluster "quiet_env :: unit env" _ "Inl (NotFound ''cronjob'')" None]
    by simp
qed

section \<open>A drift the test misses\<close>

definition with_s3 :: "MemgraphCluster \<Rightarrow> S3BackupSpec \<Rightarrow> MemgraphCluster" where
  "with_s3 c s3 = c\<lparr>Spec := (Spec c)\<lparr>Snapshot := (Snapshot (Spec c))\<lparr>S3 := Some s3\<rparr>\<rparr>\<rparr>"

lemma agrees_trans: "agrees x y \<Longrightarrow> agrees y z \<Longrightarrow> agrees x z"
  by (simp add: agrees_def)

lemma with_s3_agrees:
  "agrees (buildSnapshotCronJob (with_s3 c s3))
     (buildSnapshotCronJob (with_s3 c (s3\<lparr>SecretRef := ref, Region := r\<rparr>)))"
  by (simp add: agrees_def buildSnapshotCronJob_def Let_def with_s3_def cluster_image_def
      buildSnapshotInitContainers_def buildSnapshotMainContainers_def s3_enabled_def snapshotCmd_def
      copyCmd_def writeServiceName_def service_suffix_def buildS3UploadContainer_def s3Cmd_def
      buildS3EndpointConfig_def container_key_def)

text \<open>The environments of the containers of the job.\<close>

definition job_env :: "MemgraphCluster \<Rightarrow> EnvVar list list" where
  "job_env c = map Env (Containers (JobPodSpec (CronSpec (buildSnapshotCronJob c))))"

lemma job_env_s3: "S3Enabled s3 \<Longrightarrow> job_env (with_s3 c s3) = [s3_env s3]"
  by (simp add: job_env_def buildSnapshotCronJob_def Let_def with_s3_def buildSnapshotMainContainers_def
      s3_enabled_def buildS3UploadContainer_def buildS3Env_def)

lemma s3_env_eq:
  "s3_env (s3\<lparr>SecretRef := ref, Region := r\<rparr>) = s3_env s3 \<longleftrightarrow> ref = SecretRef s3 \<and> r = Region s3"
  by (cases ref; cases "SecretRef s3") (auto simp: s3_env_def)

text \<open>C36: The credentials and the region of the S3 target reach the job only through environment
  variables, which the drift test does not compare: a CronJob that agrees with the desired
  one is left alone when the secret or the region of the spec changes, although the
  environment of the desired upload container does change.\<close>

theorem s3_credentials_drift_missed:
  assumes "deep_equal_ok e" and "agrees existing (buildSnapshotCronJob (with_s3 c s3))" and "S3Enabled s3"
  shows "\<not> snapshotCronJobNeedsUpdate e existing
       (buildSnapshotCronJob (with_s3 c (s3\<lparr>SecretRef := ref, Region := r\<rparr>))) \<and>
     (job_env (with_s3 c (s3\<lparr>SecretRef := ref, Region := r\<rparr>)) = job_env (with_s3 c s3) \<longleftrightarrow>
        ref = SecretRef s3 \<and> r = Region s3)"
proof
  show "\<not> snapshotCronJobNeedsUpdate e existing
      (buildSnapshotCronJob (with_s3 c (s3\<lparr>SecretRef := ref, Region := r\<rparr>)))"
    using agrees_no_update [OF assms(1) agrees_trans [OF assms(2) with_s3_agrees]] .
  show "job_env (with_s3 c (s3\<lparr>SecretRef := ref, Region := r\<rparr>)) = job_env (with_s3 c s3) \<longleftrightarrow>
      ref = SecretRef s3 \<and> r = Region s3"
    using assms(3) by (simp add: job_env_s3 s3_env_eq)
qed

definition sample_s3 :: S3BackupSpec where
  "sample_s3 = \<lparr>S3Enabled = True, Bucket = ''b'', Region = ''eu'', Endpoint = [], Prefix = [],
     SecretRef = Some ''old'', RetentionDays = 0\<rparr>"

lemma s3_credentials_drift_missed_witness:
  "(let old = with_s3 bare_cluster sample_s3;
        new = with_s3 bare_cluster (sample_s3\<lparr>SecretRef := Some ''new'', Region := ''us''\<rparr>) in
     \<not> snapshotCronJobNeedsUpdate (quiet_env :: unit env)
         (buildSnapshotCronJob old) (buildSnapshotCronJob new) \<and>
     job_env new \<noteq> job_env old)"
  using s3_credentials_drift_missed [OF quiet_deep_equal, of "buildSnapshotCronJob (with_s3 bare_cluster sample_s3)"
      bare_cluster sample_s3 "''us''" "Some ''new''"]
  by (simp add: Let_def agrees_def sample_s3_def)

section \<open>The snapshot status\<close>

text \<open>The completion times of the successful jobs.\<close>

definition successes :: "Job list \<Rightarrow> instant set" where
  "successes jobs = {t. \<exists>job \<in> set jobs. CompletionTime job = Some t \<and>
     (''Complete'', ''True'') \<in> set (JobConditions job)}"

definition max_opt :: "instant set \<Rightarrow> instant option" where
  "max_opt S = (if S = {} then None else Some (Max S))"

lemma later_max: "finite S \<Longrightarrow> later (Some t) (max_opt S) = max_opt (insert t S)"
  by (cases "S = {}") (simp_all add: later_def max_opt_def max_def del: Max_less_iff Max_le_iff Max_ge_iff Max_gr_iff)

lemma conditions_max:
  "finite S \<Longrightarrow>
   fold (\<lambda>condition. later (job_success job condition)) conds (max_opt S) =
     max_opt (S \<union> {t. CompletionTime job = Some t \<and> (''Complete'', ''True'') \<in> set conds})"
proof (induction conds arbitrary: S)
  case (Cons c conds)
  show ?case
  proof (cases "c = (''Complete'', ''True'') \<and> CompletionTime job \<noteq> None")
    case True
    then obtain t where t: "CompletionTime job = Some t" by auto
    have "{u. CompletionTime job = Some u \<and> (''Complete'', ''True'') \<in> set (c # conds)} =
        insert t {u. CompletionTime job = Some u \<and> (''Complete'', ''True'') \<in> set conds}"
      using True t by auto
    moreover have "later (job_success job c) (max_opt S) = max_opt (insert t S)"
      using True t later_max [OF Cons.prems] by (simp add: job_success_def)
    ultimately show ?thesis using Cons.IH [of "insert t S"] Cons.prems by simp
  next
    case False
    then have "job_success job c = None"
      by (cases c) (auto simp: job_success_def)
    moreover have "{u. CompletionTime job = Some u \<and> (''Complete'', ''True'') \<in> set (c # conds)} =
        {u. CompletionTime job = Some u \<and> (''Complete'', ''True'') \<in> set conds}"
      using False by auto
    ultimately show ?thesis using Cons.IH [OF Cons.prems] by (simp add: later_def)
  qed
qed simp

lemma finite_success: "finite {t. CompletionTime job = Some t \<and> P}"
  by (rule finite_subset [of _ "set_option (CompletionTime job)"]) auto

lemma successes_Cons:
  "successes (job # jobs) =
     {t. CompletionTime job = Some t \<and> (''Complete'', ''True'') \<in> set (JobConditions job)} \<union> successes jobs"
  by (auto simp: successes_def)

lemma latest_success_max:
  "latest_success jobs = (if successes jobs = {} then None else Some (Max (successes jobs)))"
proof -
  have "finite S \<Longrightarrow>
      fold (\<lambda>job latest. fold (\<lambda>condition. later (job_success job condition)) (JobConditions job) latest)
        jobs (max_opt S) = max_opt (S \<union> successes jobs)" for S
  proof (induction jobs arbitrary: S)
    case (Cons job jobs)
    then show ?case
      by (simp add: conditions_max finite_success successes_Cons Un_assoc)
  qed (simp add: successes_def)
  from this [of "{}"] show ?thesis by (simp add: latest_success_def max_opt_def)
qed

text \<open>C35: The reported snapshot time. The update of the snapshot status asks the API server once,
  for the jobs of the namespace with the labels of the cluster, and does nothing else to the
  world. When the server answers with jobs of which some succeeded, the last snapshot time of the
  status becomes the latest completion time among these, in whatever order they are listed and
  even if it is earlier than the time held; with no successful job, and when the list fails, the
  object is unchanged, and the failure is returned.\<close>

theorem snapshot_time_reported:
  "run_state (updateSnapshotStatus e cluster) w =
     (case run_state (list_jobs_op e (cluster_ns cluster) (labelsForCluster cluster)) (ext w) of
        (Inl er, s) \<Rightarrow> ((Some er, cluster), w\<lparr>ext := s\<rparr>)
      | (Inr jobs, s) \<Rightarrow>
          ((None, if successes jobs = {} then cluster
                  else cluster\<lparr>Status := (Status cluster)\<lparr>LastSnapshotTime := Some (Max (successes jobs))\<rparr>\<rparr>),
           w\<lparr>ext := s\<rparr>))"
  by (simp add: updateSnapshotStatus_def run_external latest_success_max split: prod.split sum.split)

end
