(* ===== verification/Reconciler.thy ===== *)
theory Reconciler
  imports Validation Snapshot Metrics
begin

text \<open>
  The reconciler (\<open>internal/controller/memgraphcluster_controller.go\<close>): the services and the
  StatefulSet, the choice of the write instance, status and conditions, storage metrics, and
  the reconciliation loop. The cluster object that Go mutates is passed and returned; a Go
  panic (nil pointer or index out of range) is a value of its own.
\<close>

section \<open>Results\<close>

record reconcile_result =
  Requeue :: bool
  RequeueAfter :: duration

definition zero_result :: reconcile_result where
  "zero_result = \<lparr>Requeue = False, RequeueAfter = 0\<rparr>"

definition requeueAfterShort :: duration where [go_consts]: "requeueAfterShort = 10 * Second"
definition requeueAfterLong :: duration where [go_consts]: "requeueAfterLong = 30 * Second"
definition requeueAfterError :: duration where [go_consts]: "requeueAfterError = 30 * Second"
definition finalizerName :: string where
  [go_consts]: "finalizerName = ''memgraph.base14.io/finalizer''"

datatype go_panic = NilDereference | IndexOutOfRange

section \<open>Services\<close>

text \<open>The headless and the read service are only created when missing; both bodies are this.\<close>

definition ensureService :: "'s env \<Rightarrow> MemgraphCluster \<Rightarrow> Service \<Rightarrow> ('s, go_error option) op" where
  "ensureService e cluster built =
     (case set_controller_reference e cluster (SvcMeta built) of
        Inl er \<Rightarrow> State_Monad.return (Some er)
      | Inr meta \<Rightarrow>
          let desired = built\<lparr>SvcMeta := meta\<rparr> in
          do {
            r \<leftarrow> external (get_service_op e (Name meta) (Namespace meta));
            case r of
              Inl er \<Rightarrow>
                if IsNotFound er then api_write e (CreateService desired)
                else State_Monad.return (Some er)
            | Inr _ \<Rightarrow> State_Monad.return None
          })"

definition reconcileHeadlessService :: "'s env \<Rightarrow> MemgraphCluster \<Rightarrow> ('s, go_error option) op" where
  "reconcileHeadlessService e cluster = ensureService e cluster (buildHeadlessService cluster)"

definition reconcileReadService :: "'s env \<Rightarrow> MemgraphCluster \<Rightarrow> ('s, go_error option) op" where
  "reconcileReadService e cluster = ensureService e cluster (buildReadService cluster)"

text \<open>A missing label reads as the empty string.\<close>

definition current_write_instance :: "Service \<Rightarrow> string" where
  "current_write_instance svc = (case Selector svc podNameLabel of None \<Rightarrow> [] | Some p \<Rightarrow> p)"

definition reconcileWriteService ::
  "'s env \<Rightarrow> MemgraphCluster \<Rightarrow> string \<Rightarrow> ('s, go_error option) op" where
  "reconcileWriteService e cluster writeInstance =
     (let built = buildWriteService cluster writeInstance in
      case set_controller_reference e cluster (SvcMeta built) of
        Inl er \<Rightarrow> State_Monad.return (Some er)
      | Inr meta \<Rightarrow>
          let desired = built\<lparr>SvcMeta := meta\<rparr> in
          do {
            r \<leftarrow> external (get_service_op e (Name meta) (Namespace meta));
            case r of
              Inl er \<Rightarrow>
                if IsNotFound er then api_write e (CreateService desired)
                else State_Monad.return (Some er)
            | Inr existing \<Rightarrow>
                if current_write_instance existing \<noteq> writeInstance \<and> writeInstance \<noteq> [] then do {
                  event EventNormal EventReasonUpdatedWriteService
                    (''Write service now pointing to '' @ writeInstance);
                  api_write e (UpdateService (existing\<lparr>Selector := Selector desired\<rparr>))
                }
                else State_Monad.return None
          })"

section \<open>The StatefulSet\<close>

definition set_image :: "StatefulSet \<Rightarrow> string \<Rightarrow> StatefulSet" where
  "set_image sts img =
     (case Containers (TemplateSpec sts) of
        [] \<Rightarrow> sts
      | c # cs \<Rightarrow> sts\<lparr>TemplateSpec := (TemplateSpec sts)\<lparr>Containers := c\<lparr>ContainerImage := img\<rparr> # cs\<rparr>\<rparr>)"

text \<open>The two comparisons, each with its event; they return the object and \<open>needsUpdate\<close>.\<close>

definition scale_step :: "StatefulSet \<Rightarrow> int \<Rightarrow> int \<Rightarrow> ('s, StatefulSet \<times> bool) op" where
  "scale_step existing current wanted =
     (if current \<noteq> wanted then do {
        event EventNormal EventReasonScalingStatefulSet
          (''Scaling StatefulSet '' @ Name (StsMeta existing) @ '' to '' @ Itoa wanted @ '' replicas'');
        State_Monad.return (existing\<lparr>StsReplicas := Some wanted\<rparr>, True)
      }
      else State_Monad.return (existing, False))"

definition image_step ::
  "StatefulSet \<Rightarrow> string \<Rightarrow> string \<Rightarrow> bool \<Rightarrow> ('s, StatefulSet \<times> bool) op" where
  "image_step existing existingImage desiredImage needsUpdate =
     (if existingImage \<noteq> desiredImage then do {
        event EventNormal EventReasonUpdatingImage
          (''Updating StatefulSet '' @ Name (StsMeta existing) @ '' image to '' @ desiredImage);
        State_Monad.return (set_image existing desiredImage, True)
      }
      else State_Monad.return (existing, needsUpdate))"

definition update_statefulset ::
  "'s env \<Rightarrow> StatefulSet \<Rightarrow> StatefulSet \<Rightarrow> ('s, go_panic + go_error option) op" where
  "update_statefulset e existing desired =
     (case StsReplicas existing of
        None \<Rightarrow> State_Monad.return (Inl NilDereference)
      | Some current \<Rightarrow> do {
          (existing1, needsUpdate1) \<leftarrow> scale_step existing current (the (StsReplicas desired));
          case Containers (TemplateSpec existing1) of
            [] \<Rightarrow> State_Monad.return (Inl IndexOutOfRange)
          | c # _ \<Rightarrow> do {
              (existing2, needsUpdate2) \<leftarrow> image_step existing1 (ContainerImage c)
                (ContainerImage (hd (Containers (TemplateSpec desired)))) needsUpdate1;
              if needsUpdate2 then do {
                err \<leftarrow> api_write e (UpdateStatefulSet existing2);
                State_Monad.return (Inr err)
              }
              else State_Monad.return (Inr None)
            }
        })"

definition reconcileStatefulSet ::
  "'s env \<Rightarrow> MemgraphCluster \<Rightarrow> ('s, go_panic + go_error option) op" where
  "reconcileStatefulSet e cluster =
     (let built = buildStatefulSet e cluster in
      case set_controller_reference e cluster (StsMeta built) of
        Inl er \<Rightarrow> State_Monad.return (Inr (Some er))
      | Inr meta \<Rightarrow>
          let desired = built\<lparr>StsMeta := meta\<rparr> in
          do {
            r \<leftarrow> external (get_statefulset_op e (Name meta) (Namespace meta));
            case r of
              Inl er \<Rightarrow>
                if IsNotFound er then do {
                  event EventNormal EventReasonCreatingStatefulSet
                    (''Creating StatefulSet '' @ Name meta @ '' with '' @
                     Itoa (the (StsReplicas desired)) @ '' replicas'');
                  err \<leftarrow> api_write e (CreateStatefulSet desired);
                  State_Monad.return (Inr err)
                }
                else State_Monad.return (Inr (Some er))
            | Inr existing \<Rightarrow> update_statefulset e existing desired
          })"

section \<open>Pods and the write instance\<close>

definition getClusterPods :: "'s env \<Rightarrow> MemgraphCluster \<Rightarrow> ('s, go_error + Pod list) op" where
  "getClusterPods e cluster = external (list_pods_op e (cluster_ns cluster) (labelsForCluster cluster))"

definition ready_named :: "string \<Rightarrow> Pod list \<Rightarrow> bool" where
  "ready_named n pods \<longleftrightarrow> (\<exists>pod \<in> set pods. PodName pod = n \<and> isPodReady pod)"

definition determineWriteInstance :: "MemgraphCluster \<Rightarrow> Pod list \<Rightarrow> string" where
  "determineWriteInstance cluster pods =
     (if WriteInstance (Status cluster) \<noteq> [] \<and> ready_named (WriteInstance (Status cluster)) pods
      then WriteInstance (Status cluster)
      else if preferred_main cluster \<noteq> [] \<and> ready_named (preferred_main cluster) pods
      then preferred_main cluster
      else (case find isPodReady pods of Some pod \<Rightarrow> PodName pod | None \<Rightarrow> []))"

section \<open>Status\<close>

definition conditionStatus :: "bool \<Rightarrow> string" where
  "conditionStatus ok = (if ok then ''True'' else ''False'')"

definition conditionReason :: "bool \<Rightarrow> string \<Rightarrow> string \<Rightarrow> string" where
  "conditionReason ok trueReason falseReason = (if ok then trueReason else falseReason)"

definition conditionMessage :: "bool \<Rightarrow> string \<Rightarrow> string \<Rightarrow> string" where
  "conditionMessage ok trueMsg falseMsg = (if ok then trueMsg else falseMsg)"

definition replication_healthy :: "int \<Rightarrow> int \<Rightarrow> int \<Rightarrow> bool" where
  "replication_healthy replicas registeredReplicas healthyReplicas \<longleftrightarrow>
     (let expectedReplicas = int32 (replicas - 1) in
      registeredReplicas \<ge> expectedReplicas \<and> expectedReplicas \<ge> 0 \<and>
      healthyReplicas \<ge> registeredReplicas)"

definition the_conditions ::
  "instant \<Rightarrow> string \<Rightarrow> int \<Rightarrow> int \<Rightarrow> int \<Rightarrow> int \<Rightarrow> Condition list" where
  "the_conditions t writeInstance readyCount replicas registeredReplicas healthyReplicas =
     (let mainAvailable = (writeInstance \<noteq> []);
          replicasReady = (readyCount \<ge> replicas);
          expectedReplicas = int32 (replicas - 1);
          replicationHealthy = replication_healthy replicas registeredReplicas healthyReplicas;
          ready = (mainAvailable \<and> replicasReady \<and> replicationHealthy)
      in [\<lparr>CondType = ConditionTypeMainAvailable, CondStatus = conditionStatus mainAvailable,
           LastTransitionTime = t,
           CondReason = conditionReason mainAvailable ''MainAvailable'' ''MainUnavailable'',
           CondMessage = conditionMessage mainAvailable (''Main instance: '' @ writeInstance)
             ''No main instance available''\<rparr>,
          \<lparr>CondType = ConditionTypeReplicasReady, CondStatus = conditionStatus replicasReady,
           LastTransitionTime = t,
           CondReason = conditionReason replicasReady ''AllReplicasReady'' ''ReplicasNotReady'',
           CondMessage = Itoa readyCount @ ''/'' @ Itoa replicas @ '' instances ready''\<rparr>,
          \<lparr>CondType = ConditionTypeReplicationHealthy, CondStatus = conditionStatus replicationHealthy,
           LastTransitionTime = t,
           CondReason = conditionReason replicationHealthy ''ReplicationHealthy'' ''ReplicationUnhealthy'',
           CondMessage = Itoa registeredReplicas @ ''/'' @ Itoa expectedReplicas @
             '' replicas registered with main, '' @ Itoa healthyReplicas @ ''/'' @
             Itoa registeredReplicas @ '' streaming''\<rparr>,
          \<lparr>CondType = ConditionTypeReady, CondStatus = conditionStatus ready,
           LastTransitionTime = t,
           CondReason = conditionReason ready ''ClusterReady'' ''ClusterNotReady'',
           CondMessage = conditionMessage ready ''Cluster is fully operational'' ''Cluster is not ready''\<rparr>])"

definition updateConditions ::
  "'s env \<Rightarrow> MemgraphCluster \<Rightarrow> string \<Rightarrow> int \<Rightarrow> int \<Rightarrow> int \<Rightarrow> int \<Rightarrow> ('s, MemgraphCluster) op" where
  "updateConditions e cluster writeInstance readyCount replicas registeredReplicas healthyReplicas = do {
     t \<leftarrow> now e;
     State_Monad.return (cluster\<lparr>Status := (Status cluster)\<lparr>Conditions :=
       fold (\<lambda>c cs. set_status_condition e cs c)
         (the_conditions t writeInstance readyCount replicas registeredReplicas healthyReplicas)
         (Conditions (Status cluster))\<rparr>\<rparr>)
   }"

definition ready_count :: "Pod list \<Rightarrow> int" where
  "ready_count pods = int32 (int (length (filter isPodReady pods)))"

definition phase_of :: "int \<Rightarrow> int \<Rightarrow> string" where
  "phase_of readyCount replicas =
     (if readyCount = 0 then ClusterPhasePending
      else if readyCount < replicas then ClusterPhaseInitializing
      else ClusterPhaseRunning)"

definition status_update ::
  "MemgraphCluster \<Rightarrow> Pod list \<Rightarrow> string \<Rightarrow> int \<Rightarrow> MemgraphCluster" where
  "status_update cluster pods writeInstance registeredReplicas =
     cluster\<lparr>Status := (Status cluster)\<lparr>
       Phase := phase_of (ready_count pods) (desired_replicas cluster),
       WriteInstance := writeInstance,
       ReadInstances := map PodName (filter (\<lambda>pod. isPodReady pod \<and> PodName pod \<noteq> writeInstance) pods),
       ReadyInstances := ready_count pods,
       RegisteredReplicas := registeredReplicas\<rparr>\<rparr>"

text \<open>A successful status write replaces the object by the server's answer.\<close>

definition write_status :: "'s env \<Rightarrow> MemgraphCluster \<Rightarrow> ('s, go_error option \<times> MemgraphCluster) op" where
  "write_status e cluster = do {
     r \<leftarrow> api_write_cluster e (UpdateClusterStatus cluster);
     State_Monad.return (case r of Inl er \<Rightarrow> (Some er, cluster) | Inr c \<Rightarrow> (None, c))
   }"

definition updateStatus ::
  "'s env \<Rightarrow> MemgraphCluster \<Rightarrow> Pod list \<Rightarrow> string \<Rightarrow> int \<Rightarrow> int \<Rightarrow>
   ('s, go_error option \<times> MemgraphCluster) op" where
  "updateStatus e cluster pods writeInstance registeredReplicas healthyReplicas = do {
     cluster1 \<leftarrow> updateConditions e (status_update cluster pods writeInstance registeredReplicas)
       writeInstance (ready_count pods) (desired_replicas cluster) registeredReplicas healthyReplicas;
     write_status e cluster1
   }"

section \<open>Storage metrics\<close>

type_synonym storage_infos = "StorageInfo option \<times> (string \<times> StorageInfo) list"

definition collect_pod ::
  "'s env \<Rightarrow> MemgraphCluster \<Rightarrow> string \<Rightarrow> Pod \<Rightarrow> storage_infos \<Rightarrow> ('s, storage_infos) op" where
  "collect_pod e cluster writeInstance pod acc =
     (if \<not> isPodReady pod then State_Monad.return acc
      else
        let role = (if PodName pod = writeInstance then ''main'' else ''replica'');
            (mainInfo, replicaInfos) = acc in
        do {
          r \<leftarrow> GetStorageInfo e (cluster_ns cluster) (PodName pod);
          case r of
            Inl _ \<Rightarrow> State_Monad.return acc
          | Inr info \<Rightarrow> do {
              RecordStorageInfo (cluster_name cluster) (cluster_ns cluster) (PodName pod) role (Some info);
              State_Monad.return
                (if role = ''main'' then (Some info, replicaInfos)
                 else (mainInfo, map_put (PodName pod) info replicaInfos))
            }
        })"

definition collectStorageMetrics ::
  "'s env \<Rightarrow> MemgraphCluster \<Rightarrow> Pod list \<Rightarrow> string \<Rightarrow> ('s, unit) op" where
  "collectStorageMetrics e cluster pods writeInstance = do {
     rm \<leftarrow> gets replicationManager;
     if (case rm of None \<Rightarrow> True | Some m \<Rightarrow> \<not> rm_client m) then State_Monad.return ()
     else do {
       (mainInfo, replicaInfos) \<leftarrow> for_fold (collect_pod e cluster writeInstance) pods (None, []);
       DeleteReplicationDriftMetrics (cluster_name cluster) (cluster_ns cluster);
       case mainInfo of
         None \<Rightarrow> State_Monad.return ()
       | Some main \<Rightarrow>
           for_each (\<lambda>(podName, info).
             RecordReplicationDrift (cluster_name cluster) (cluster_ns cluster) (getReplicaName podName)
               (int64 (VertexCount main - VertexCount info)) (int64 (EdgeCount main - EdgeCount info)))
             replicaInfos
     }
   }"

section \<open>Reconciling the resources\<close>

text \<open>Step 7: \<open>(registeredReplicas, healthyReplicas, replicationError)\<close>.\<close>

definition configure_step ::
  "'s env \<Rightarrow> MemgraphCluster \<Rightarrow> Pod list \<Rightarrow> string \<Rightarrow> ('s, int \<times> int \<times> go_error option) op" where
  "configure_step e cluster pods writeInstance =
     (if writeInstance \<noteq> [] \<and> length pods > 1 then do {
        err \<leftarrow> ensureReplicationManager e;
        case err of
          Some er \<Rightarrow> State_Monad.return (0, 0, Some er)
        | None \<Rightarrow> do {
            err \<leftarrow> ConfigureReplication e cluster pods writeInstance;
            case err of
              Some er \<Rightarrow> do {
                event EventWarning EventReasonReplicationError
                  (''Failed to configure replication: '' @ err_msg er);
                State_Monad.return (0, 0, Some er)
              }
            | None \<Rightarrow> do {
                r \<leftarrow> CheckReplicationHealth e cluster writeInstance;
                case r of
                  Inl _ \<Rightarrow> State_Monad.return (0, 0, None)
                | Inr (health, replicaInfos) \<Rightarrow> do {
                    RecordReplicaSet (cluster_name cluster) (cluster_ns cluster) replicaInfos;
                    State_Monad.return (TotalReplicas health, HealthyReplicas health, None)
                  }
              }
          }
      }
      else State_Monad.return (0, 0, None))"

definition requeue_after :: "MemgraphCluster \<Rightarrow> go_error option \<Rightarrow> reconcile_result" where
  "requeue_after cluster replicationError =
     \<lparr>Requeue = False, RequeueAfter =
        (if Phase (Status cluster) \<noteq> ClusterPhaseRunning then requeueAfterShort
         else if replicationError \<noteq> None then requeueAfterError
         else requeueAfterLong)\<rparr>"

type_synonym resources_outcome = "(reconcile_result \<times> go_error option) \<times> MemgraphCluster"

definition failed :: "go_error \<Rightarrow> MemgraphCluster \<Rightarrow> go_panic + resources_outcome" where
  "failed er cluster = Inr ((zero_result, Some er), cluster)"

text \<open>Steps 8 to 12: failures before the status update are only logged.\<close>

definition finish_resources ::
  "'s env \<Rightarrow> MemgraphCluster \<Rightarrow> Pod list \<Rightarrow> string \<Rightarrow> int \<Rightarrow> int \<Rightarrow> go_error option \<Rightarrow>
   ('s, go_panic + resources_outcome) op" where
  "finish_resources e cluster pods writeInstance registeredReplicas healthyReplicas replicationError = do {
     _ \<leftarrow> reconcileSnapshotCronJob e cluster;
     (_, cluster1) \<leftarrow> updateSnapshotStatus e cluster;
     (_, cluster2) \<leftarrow>
       (if Phase (Status cluster1) = ClusterPhaseRunning
        then reconcileValidation e cluster1 pods writeInstance
        else State_Monad.return (None, cluster1));
     collectStorageMetrics e cluster2 pods writeInstance;
     (err, cluster3) \<leftarrow> updateStatus e cluster2 pods writeInstance registeredReplicas healthyReplicas;
     State_Monad.return
       (case err of
          Some er \<Rightarrow> failed er cluster3
        | None \<Rightarrow> Inr ((requeue_after cluster3 replicationError, None), cluster3))
   }"

definition reconcile_members ::
  "'s env \<Rightarrow> MemgraphCluster \<Rightarrow> Pod list \<Rightarrow> ('s, go_panic + resources_outcome) op" where
  "reconcile_members e cluster pods =
     (let writeInstance = determineWriteInstance cluster pods in
      do {
        err \<leftarrow> reconcileWriteService e cluster writeInstance;
        case err of
          Some er \<Rightarrow> State_Monad.return (failed er cluster)
        | None \<Rightarrow> do {
            err \<leftarrow> reconcileReadService e cluster;
            case err of
              Some er \<Rightarrow> State_Monad.return (failed er cluster)
            | None \<Rightarrow> do {
                (registeredReplicas, healthyReplicas, replicationError) \<leftarrow>
                  configure_step e cluster pods writeInstance;
                finish_resources e cluster pods writeInstance registeredReplicas healthyReplicas
                  replicationError
              }
          }
      })"

definition reconcileResources ::
  "'s env \<Rightarrow> MemgraphCluster \<Rightarrow> ('s, go_panic + resources_outcome) op" where
  "reconcileResources e cluster = do {
     err \<leftarrow> reconcileHeadlessService e cluster;
     case err of
       Some er \<Rightarrow> State_Monad.return (failed er cluster)
     | None \<Rightarrow> do {
         r \<leftarrow> reconcileStatefulSet e cluster;
         case r of
           Inl p \<Rightarrow> State_Monad.return (Inl p)
         | Inr (Some er) \<Rightarrow> State_Monad.return (failed er cluster)
         | Inr None \<Rightarrow> do {
             pods \<leftarrow> getClusterPods e cluster;
             case pods of
               Inl er \<Rightarrow> State_Monad.return (failed er cluster)
             | Inr ps \<Rightarrow> reconcile_members e cluster ps
           }
       }
   }"

section \<open>The loop\<close>

definition emitPhaseTransitionEvents :: "MemgraphCluster \<Rightarrow> string \<Rightarrow> ('s, unit) op" where
  "emitPhaseTransitionEvents cluster previousPhase =
     (let currentPhase = Phase (Status cluster) in
      if currentPhase = previousPhase then State_Monad.return ()
      else if currentPhase = ClusterPhaseRunning then
        event EventNormal EventReasonClusterReady
          (''Cluster is ready with '' @ Itoa (ReadyInstances (Status cluster)) @ '' instances'')
      else if previousPhase = ClusterPhaseRunning \<and> currentPhase = ClusterPhaseInitializing then
        event EventWarning EventReasonClusterDegraded
          (''Cluster degraded: '' @ Itoa (ReadyInstances (Status cluster)) @ '' instances ready'')
      else State_Monad.return ())"

definition handleDeletion ::
  "'s env \<Rightarrow> MemgraphCluster \<Rightarrow> ('s, reconcile_result \<times> go_error option) op" where
  "handleDeletion e cluster =
     (if contains_finalizer e (Meta cluster) finalizerName then do {
        r \<leftarrow> api_write_cluster e
          (UpdateCluster (cluster\<lparr>Meta := remove_finalizer e (Meta cluster) finalizerName\<rparr>));
        State_Monad.return (zero_result, case r of Inl er \<Rightarrow> Some er | Inr _ \<Rightarrow> None)
      }
      else State_Monad.return (zero_result, None))"

definition record_validation :: "MemgraphCluster \<Rightarrow> ('s, unit) op" where
  "record_validation cluster =
     (case Validation (Status cluster) of
        None \<Rightarrow> State_Monad.return ()
      | Some v \<Rightarrow> do {
          RecordReplicationLag (cluster_name cluster) (cluster_ns cluster) (ReplicationLagMs v);
          (case LastConnectivityTest v of
             None \<Rightarrow> State_Monad.return ()
           | Some t \<Rightarrow> RecordValidation (cluster_name cluster) (cluster_ns cluster) (f64_of_int (Unix t))
                        (AllReplicasHealthy v));
          for_each (\<lambda>inst. RecordInstanceHealth (cluster_name cluster) (cluster_ns cluster)
            (IVName inst) (IVRole inst) (IVHealthy inst)) (Instances v)
        })"

definition record_success :: "MemgraphCluster \<Rightarrow> string \<Rightarrow> ('s, unit) op" where
  "record_success cluster previousPhase = do {
     RecordReconcileOperation (cluster_name cluster) (cluster_ns cluster) ''success'';
     RecordClusterPhase (cluster_name cluster) (cluster_ns cluster) (Phase (Status cluster));
     emitPhaseTransitionEvents cluster previousPhase;
     RecordClusterInstances (cluster_name cluster) (cluster_ns cluster)
       (ReadyInstances (Status cluster)) (desired_replicas cluster) (RegisteredReplicas (Status cluster));
     record_validation cluster;
     (case LastSnapshotTime (Status cluster) of
        None \<Rightarrow> State_Monad.return ()
      | Some t \<Rightarrow> RecordSnapshotSuccess (cluster_name cluster) (cluster_ns cluster) (f64_of_int (Unix t)))
   }"

definition reconcile_cluster ::
  "'s env \<Rightarrow> instant \<Rightarrow> MemgraphCluster \<Rightarrow> ('s, go_panic + reconcile_result \<times> go_error option) op" where
  "reconcile_cluster e startTime cluster = do {
     r \<leftarrow> reconcileResources e cluster;
     case r of
       Inl p \<Rightarrow> State_Monad.return (Inl p)
     | Inr ((result, err), cluster1) \<Rightarrow> do {
         t \<leftarrow> now e;
         RecordReconcileDuration (cluster_name cluster1) (cluster_ns cluster1)
           (Seconds (time_sub t startTime));
         case err of
           Some er \<Rightarrow> do {
             event EventWarning EventReasonReconcileError (err_msg er);
             RecordReconcileOperation (cluster_name cluster1) (cluster_ns cluster1) ''error'';
             State_Monad.return (Inr (result, Some er))
           }
         | None \<Rightarrow> do {
             record_success cluster1 (Phase (Status cluster));
             State_Monad.return (Inr (result, None))
           }
       }
   }"

definition being_deleted :: "MemgraphCluster \<Rightarrow> bool" where
  "being_deleted cluster =
     (case DeletionTimestamp (Meta cluster) of None \<Rightarrow> False | Some t \<Rightarrow> \<not> IsZero t)"

definition requeue_now :: reconcile_result where
  "requeue_now = \<lparr>Requeue = True, RequeueAfter = 0\<rparr>"

text \<open>The steps once the object was read: deletion, finalizer, first status, resources.\<close>

definition reconcile_found ::
  "'s env \<Rightarrow> instant \<Rightarrow> MemgraphCluster \<Rightarrow> ('s, go_panic + reconcile_result \<times> go_error option) op" where
  "reconcile_found e startTime cluster =
     (if being_deleted cluster then do {
        r \<leftarrow> handleDeletion e cluster;
        State_Monad.return (Inr r)
      }
      else if \<not> contains_finalizer e (Meta cluster) finalizerName then do {
        r \<leftarrow> api_write_cluster e
          (UpdateCluster (cluster\<lparr>Meta := add_finalizer e (Meta cluster) finalizerName\<rparr>));
        State_Monad.return (Inr (case r of
            Inl er \<Rightarrow> (zero_result, Some er) | Inr _ \<Rightarrow> (requeue_now, None)))
      }
      else if Phase (Status cluster) = [] then do {
        event EventNormal EventReasonClusterCreated ''Cluster created, starting initialization'';
        (err, _) \<leftarrow> write_status e (cluster\<lparr>Status := (Status cluster)\<lparr>Phase := ClusterPhasePending\<rparr>\<rparr>);
        State_Monad.return (Inr (case err of
            Some er \<Rightarrow> (zero_result, Some er) | None \<Rightarrow> (requeue_now, None)))
      }
      else reconcile_cluster e startTime cluster)"

definition Reconcile ::
  "'s env \<Rightarrow> string \<Rightarrow> string \<Rightarrow> ('s, go_panic + reconcile_result \<times> go_error option) op" where
  "Reconcile e name ns = do {
     startTime \<leftarrow> now e;
     modify (\<lambda>w. w\<lparr>metrics_set := True\<rparr>);
     r \<leftarrow> external (get_cluster_op e name ns);
     case r of
       Inl er \<Rightarrow>
         if IsNotFound er then do {
           rm \<leftarrow> gets replicationManager;
           (case rm of None \<Rightarrow> State_Monad.return () | Some _ \<Rightarrow> DeleteClusterState name ns);
           DeleteClusterMetrics name ns;
           State_Monad.return (Inr (zero_result, None))
         }
         else do {
           RecordReconcileOperation name ns ''error'';
           State_Monad.return (Inr (zero_result, Some er))
         }
     | Inr cluster \<Rightarrow> reconcile_found e startTime cluster
   }"

end
