(* ===== verification/Replication_Laws.thy ===== *)
theory Replication_Laws
  imports Replication
begin

text \<open>
  What the replication manager guarantees: which queries a configuration pass may send and to
  which pods, that a settled cluster is left alone, what happens when MAIN cannot be set, how
  the health check counts replicas and evolves the timer store, and which pod a failover picks.
\<close>

section \<open>Frames of the manager\<close>

lemma set_states_emits [rel_intros]: "state_io_rel (emits P) (set_states s)"
  by (simp add: set_states_def emits_modify)

lemma if_metrics_emits [rel_intros]:
  "state_io_rel (emits P) m \<Longrightarrow> state_io_rel (emits P) (if_metrics m)"
  unfolding if_metrics_def by (intro rel_intros)

lemma if_metrics_process [rel_intros]:
  "state_io_rel (keeps process) m \<Longrightarrow> state_io_rel (keeps process) (if_metrics m)"
  unfolding if_metrics_def by (intro rel_intros)

lemma configure_process [rel_intros]:
  "state_io_rel (keeps process) (ConfigureReplication e cluster pods wi)"
  unfolding ConfigureReplication_def ensureMainRole_def configure_pod_def ensureReplicaRole_def
    cleanupStaleReplicas_def cleanup_replica_def Let_def
  by (intro rel_intros)

section \<open>What a configuration pass may do\<close>

text \<open>The ready pods other than MAIN, and the calls a pass for MAIN \<open>wi\<close> may make.\<close>

definition followers :: "Pod list \<Rightarrow> string \<Rightarrow> Pod list" where
  "followers pods wi = filter (\<lambda>p. isPodReady p \<and> PodName p \<noteq> wi) pods"

definition replication_mode :: "MemgraphCluster \<Rightarrow> string" where
  "replication_mode cluster =
     (let m = Mode (Replication (Spec cluster)) in if m = [] then ''ASYNC'' else m)"

definition main_query :: "MemgraphCluster \<Rightarrow> Pod list \<Rightarrow> string \<Rightarrow> string \<Rightarrow> bool" where
  "main_query cluster pods wi q \<longleftrightarrow>
     q = ''SHOW REPLICATION ROLE;'' \<or> q = ''SET REPLICATION ROLE TO MAIN;'' \<or> q = ''SHOW REPLICAS;'' \<or>
     (\<exists>p \<in> set (followers pods wi).
        q = register_query (getReplicaName (PodName p)) (getPodFQDN (PodName p) cluster)
              (replication_mode cluster)) \<or>
     (\<exists>name. name \<notin> (getReplicaName \<circ> PodName) ` set (followers pods wi) \<and> q = drop_query name)"

definition follower_query :: "string \<Rightarrow> bool" where
  "follower_query q \<longleftrightarrow>
     q = ''SHOW REPLICATION ROLE;'' \<or> q = ''SET REPLICATION ROLE TO REPLICA WITH PORT 10000;''"

definition config_call :: "MemgraphCluster \<Rightarrow> Pod list \<Rightarrow> string \<Rightarrow> effect \<Rightarrow> bool" where
  "config_call cluster pods wi eff =
     (case eff of
        Exec req \<Rightarrow>
          (\<exists>q. main_query cluster pods wi q \<and> req = query_request (cluster_ns cluster) wi q) \<or>
          (\<exists>p \<in> set (followers pods wi). \<exists>q. follower_query q \<and>
             req = query_request (cluster_ns cluster) (PodName p) q)
      | Event t reason msg \<Rightarrow> t = EventNormal \<and>
          reason \<in> {EventReasonMainInstanceConfigured, EventReasonReplicaRegistered,
                     EventReasonReplicaUnregistered}
      | Metric m \<Rightarrow>
          (\<exists>name. name \<notin> (getReplicaName \<circ> PodName) ` set (followers pods wi) \<and>
             (m = DeleteLabelValues replicaDataChannelUpGauge [cluster_name cluster, cluster_ns cluster, name] \<or>
              m = DeleteLabelValues replicaBehindSecondsGauge [cluster_name cluster, cluster_ns cluster, name]))
      | Write _ \<Rightarrow> False)"

lemma ready_sorted_set: "set (getReadyPodsSorted pods) = {p \<in> set pods. isPodReady p}"
  by (auto simp: getReadyPodsSorted_def)

lemma expected_followers:
  "set (expected_replicas wi (getReadyPodsSorted pods)) =
     (getReplicaName \<circ> PodName) ` set (followers pods wi)"
  by (auto simp: expected_replicas_def followers_def ready_sorted_set)

lemma ensureMainRole_calls:
  "state_io_rel (emits (config_call cluster pods wi)) (ensureMainRole e cluster wi)"
  unfolding ensureMainRole_def
  by (intro rel_intros) (auto simp: config_call_def main_query_def role_query_def)

lemma cleanup_calls:
  assumes "names = expected_replicas wi (getReadyPodsSorted pods)"
  shows "state_io_rel (emits (config_call cluster pods wi)) (cleanup_replica e cluster wi names r)"
  unfolding cleanup_replica_def DeleteReplicaMetrics_def delete_labels_def
  by (intro rel_intros) (auto simp: assms config_call_def main_query_def expected_followers)

lemma configure_pod_calls:
  assumes "pod \<in> set (getReadyPodsSorted pods)" and "mode = replication_mode cluster"
  shows "state_io_rel (emits (config_call cluster pods wi))
           (configure_pod e cluster wi mode names pod n)"
proof (cases "PodName pod = wi")
  case True
  then show ?thesis by (simp add: configure_pod_def emits.return_rel)
next
  case False
  with assms(1) have p: "pod \<in> set (followers pods wi)"
    by (simp add: followers_def ready_sorted_set)
  show ?thesis
    unfolding configure_pod_def ensureReplicaRole_def Let_def
    by (intro rel_intros)
      (use p in \<open>auto simp: config_call_def main_query_def follower_query_def role_query_def assms(2)\<close>)
qed

lemma ConfigureReplication_calls:
  "state_io_rel (emits (config_call cluster pods wi)) (ConfigureReplication e cluster pods wi)"
  unfolding ConfigureReplication_def cleanupStaleReplicas_def Let_def
  by (intro rel_intros ensureMainRole_calls cleanup_calls configure_pod_calls)
    (auto simp: replication_mode_def config_call_def main_query_def)

text \<open>C2: Safety of a configuration pass, whatever the cluster and the pods answer: only the
  write instance is ever made MAIN, and it is never demoted; only ready pods other than it
  are made REPLICA; a replica is registered only for such a pod, under its replica name, its
  address and the mode of the spec; a replica is dropped only when no such pod carries its
  name; the events are normal ones, the only metric calls drop the series of dropped
  replicas, and nothing is written to the API server.\<close>

theorem configure_safety:
  "list_all (config_call cluster pods wi) (calls (ConfigureReplication e cluster pods wi) w)"
  unfolding list_all_iff
  by (blast intro: calls_emits [OF ConfigureReplication_calls])

section \<open>A settled cluster is left alone\<close>

definition role_query_of :: "MemgraphCluster \<Rightarrow> string \<Rightarrow> effect" where
  "role_query_of cluster pod = Exec (query_request (cluster_ns cluster) pod ''SHOW REPLICATION ROLE;'')"

definition replicas_query_of :: "MemgraphCluster \<Rightarrow> string \<Rightarrow> effect" where
  "replicas_query_of cluster pod = Exec (query_request (cluster_ns cluster) pod ''SHOW REPLICAS;'')"

text \<open>
  What Memgraph answers when replication is as the spec wants it: MAIN and REPLICA roles, and
  the registered names are the replica names of the ready followers.
\<close>

definition settled :: "'s env \<Rightarrow> MemgraphCluster \<Rightarrow> Pod list \<Rightarrow> string \<Rightarrow> bool" where
  "settled e cluster pods wi \<longleftrightarrow>
     (\<exists>out. answers e (cluster_ns cluster) wi ''SHOW REPLICATION ROLE;'' out \<and>
        role_of_output out = ''MAIN'') \<and>
     (\<forall>p \<in> set (followers pods wi).
        \<exists>out. answers e (cluster_ns cluster) (PodName p) ''SHOW REPLICATION ROLE;'' out \<and>
          role_of_output out = ''REPLICA'') \<and>
     (\<exists>out. answers e (cluster_ns cluster) wi ''SHOW REPLICAS;'' out \<and>
        RName ` set (parseShowReplicasOutput out) =
          (getReplicaName \<circ> PodName) ` set (followers pods wi))"

lemma ensureMainRole_settled:
  assumes "settled e cluster pods wi"
  shows "yields (ensureMainRole e cluster wi) [role_query_of cluster wi] None"
proof -
  obtain out where a: "answers e (cluster_ns cluster) wi ''SHOW REPLICATION ROLE;'' out"
    and m: "role_of_output out = ''MAIN''"
    using assms unfolding settled_def by blast
  show ?thesis
    unfolding ensureMainRole_def role_query_of_def
    by (rule yields_then [OF GetReplicationRole_yields [OF a]])
      (simp add: current_role_def m yields_return)
qed

lemma configure_pod_settled:
  assumes "settled e cluster pods wi" and "pod \<in> set (getReadyPodsSorted pods)"
    and "answers e (cluster_ns cluster) wi ''SHOW REPLICAS;'' out"
    and "RName ` set (parseShowReplicasOutput out) =
          (getReplicaName \<circ> PodName) ` set (followers pods wi)"
  shows "yields (configure_pod e cluster wi mode (map RName (parseShowReplicasOutput out)) pod n)
           (if PodName pod = wi then [] else [role_query_of cluster (PodName pod)])
           (if PodName pod = wi then n else int32 (n + 1))"
proof (cases "PodName pod = wi")
  case True
  then show ?thesis by (simp add: configure_pod_def yields_return)
next
  case False
  with assms(2) have p: "pod \<in> set (followers pods wi)"
    by (simp add: followers_def ready_sorted_set)
  with assms(1) obtain ro
    where a: "answers e (cluster_ns cluster) (PodName pod) ''SHOW REPLICATION ROLE;'' ro"
      and r: "role_of_output ro = ''REPLICA''"
    unfolding settled_def by blast
  have reg: "getReplicaName (PodName pod) \<in> set (map RName (parseShowReplicasOutput out))"
    using p assms(4) by auto
  have role: "yields (ensureReplicaRole e (cluster_ns cluster) (PodName pod))
      [role_query_of cluster (PodName pod)] None"
    unfolding ensureReplicaRole_def role_query_of_def
    by (rule yields_then [OF GetReplicationRole_yields [OF a]])
      (simp add: current_role_def r yields_return)
  have "yields (configure_pod e cluster wi mode (map RName (parseShowReplicasOutput out)) pod n)
      [role_query_of cluster (PodName pod)] (int32 (n + 1))"
    unfolding configure_pod_def Let_def using False reg
    by (simp del: set_map) (rule yields_then [OF role], simp add: yields_return del: set_map)
  with False show ?thesis by simp
qed

lemma concat_map_Nil: "concat (map (\<lambda>_. []) xs) = []"
  by (induction xs) auto

lemma cleanup_settled:
  assumes "RName ` set rs = (getReplicaName \<circ> PodName) ` set (followers pods wi)"
  shows "yields (cleanupStaleReplicas e cluster wi (getReadyPodsSorted pods) rs) [] ()"
proof -
  have "yields (cleanup_replica e cluster wi (expected_replicas wi (getReadyPodsSorted pods)) r) [] ()"
    if "r \<in> set rs" for r
  proof -
    have "RName r \<in> set (expected_replicas wi (getReadyPodsSorted pods))"
      unfolding expected_followers using that assms by blast
    then show ?thesis by (simp add: cleanup_replica_def yields_return)
  qed
  then have "yields (for_each (cleanup_replica e cluster wi
      (expected_replicas wi (getReadyPodsSorted pods))) rs) (concat (map (\<lambda>_. []) rs)) ()"
    by (rule yields_for_each)
  then show ?thesis by (simp add: cleanupStaleReplicas_def concat_map_Nil)
qed

lemma concat_if_map: "concat (map (\<lambda>x. if P x then [] else [f x]) xs) = map f (filter (\<lambda>x. \<not> P x) xs)"
  by (induction xs) auto

text \<open>C22: Convergence. When the write instance answers that it is MAIN, every other ready pod
  that it is a replica, and MAIN lists exactly their replica names, a configuration pass only
  asks: the role of MAIN, its list of replicas, and the role of each follower in name order.
  It changes no role, registers and drops nothing, emits no event and succeeds.\<close>

theorem configure_settled:
  assumes "settled e cluster pods wi" and "wi \<noteq> []" and "getReadyPodsSorted pods \<noteq> []"
  shows "yields (ConfigureReplication e cluster pods wi)
     ([role_query_of cluster wi, replicas_query_of cluster wi] @
      map (role_query_of cluster \<circ> PodName)
        (filter (\<lambda>p. PodName p \<noteq> wi) (getReadyPodsSorted pods)))
     None"
proof -
  obtain out where a: "answers e (cluster_ns cluster) wi ''SHOW REPLICAS;'' out"
    and n: "RName ` set (parseShowReplicasOutput out) =
      (getReplicaName \<circ> PodName) ` set (followers pods wi)"
    using assms(1) unfolding settled_def by blast
  let ?mode = "let m = Mode (Replication (Spec cluster)) in if m = [] then ''ASYNC'' else m"
  have loop: "yields (for_fold
        (configure_pod e cluster wi ?mode (map RName (parseShowReplicasOutput out)))
        (getReadyPodsSorted pods) 0)
      (map (role_query_of cluster \<circ> PodName)
        (filter (\<lambda>p. PodName p \<noteq> wi) (getReadyPodsSorted pods)))
      (fold (\<lambda>pod n. if PodName pod = wi then n else int32 (n + 1)) (getReadyPodsSorted pods) 0)"
    using yields_for_fold [OF configure_pod_settled [OF assms(1) _ a n]]
    by (simp add: concat_if_map comp_def)
  note tail = yields_then [OF loop yields_then [OF cleanup_settled [OF n] yields_return]]
  have "yields (ConfigureReplication e cluster pods wi)
     ([role_query_of cluster wi] @ [replicas_query_of cluster wi] @
      map (role_query_of cluster \<circ> PodName)
        (filter (\<lambda>p. PodName p \<noteq> wi) (getReadyPodsSorted pods)))
     None"
    unfolding ConfigureReplication_def Let_def
    using assms(2,3)
    apply (simp only: if_False length_0_conv)
    apply (rule yields_bind [OF ensureMainRole_settled [OF assms(1)]])
    apply (simp only: option.case replicas_query_of_def)
    apply (rule yields_bind [OF ShowReplicas_yields [OF a]])
    apply (simp only: sum.case)
    apply (rule tail [unfolded Let_def])
    done
  then show ?thesis by simp
qed

text \<open>Two ready pods, the second registered with the first.\<close>

definition ready_pod :: "string \<Rightarrow> Pod" where
  "ready_pod n = \<lparr>PodName = n, PodPhase = ''Running'', PodConditions = [(''Ready'', ''True'')]\<rparr>"

definition one_row :: string where
  "one_row = ''| \"mg_1\" | \"h\" | 10000 | \"async\" | \"ready\" |''"

definition settled_env :: "unit env" where
  "settled_env = quiet_env\<lparr>stream_op := \<lambda>req. State_Monad.return
     (if ExecStdin req = Some (''SHOW REPLICAS;'' @ [CHR 0x0A]) then one_row
      else if ExecPod req = ''mg-0'' then ''main'' else ''replica'', [], None)\<rparr>"

lemma one_row_names: "map RName (parseShowReplicasOutput one_row) = [''mg_1'']"
  by code_simp

lemma role_words: "role_of_output ''main'' = ''MAIN''" "role_of_output ''replica'' = ''REPLICA''"
  by code_simp+

lemma two_pods_sorted:
  "map PodName (getReadyPodsSorted [ready_pod ''mg-1'', ready_pod ''mg-0'']) = [''mg-0'', ''mg-1'']"
  by code_simp

lemma two_pods_followers:
  "map PodName (followers [ready_pod ''mg-1'', ready_pod ''mg-0''] ''mg-0'') = [''mg-1'']"
  by code_simp

lemma settled_env_answers:
  "answers settled_env ns pod q
     (if q = ''SHOW REPLICAS;'' then one_row else if pod = ''mg-0'' then ''main'' else ''replica'')"
  by (auto simp: answers_def always_def settled_env_def quiet_env_def query_request_def)

lemma settled_roles:
  "answers settled_env ns ''mg-0'' ''SHOW REPLICATION ROLE;'' ''main''"
  "answers settled_env ns ''mg-1'' ''SHOW REPLICATION ROLE;'' ''replica''"
  "answers settled_env ns ''mg-0'' ''SHOW REPLICAS;'' one_row"
  using settled_env_answers [of ns "''mg-0''" "''SHOW REPLICATION ROLE;''"]
    settled_env_answers [of ns "''mg-1''" "''SHOW REPLICATION ROLE;''"]
    settled_env_answers [of ns "''mg-0''" "''SHOW REPLICAS;''"]
  by simp_all

lemma settled_names:
  "RName ` set (parseShowReplicasOutput one_row) = {getReplicaName ''mg-1''}"
proof -
  have "getReplicaName ''mg-1'' = ''mg_1''" by code_simp
  then show ?thesis using arg_cong [OF one_row_names, of set] by (simp only: set_map) simp
qed

lemma settled_follower:
  "PodName ` set (followers [ready_pod ''mg-1'', ready_pod ''mg-0''] ''mg-0'') = {''mg-1''}"
  using arg_cong [OF two_pods_followers, of set] by (simp only: set_map) simp

lemma settled_witness:
  "settled settled_env bare_cluster [ready_pod ''mg-1'', ready_pod ''mg-0''] ''mg-0''"
  unfolding settled_def
proof (intro conjI ballI exI)
  let ?ps = "[ready_pod ''mg-1'', ready_pod ''mg-0'']"
  show "answers settled_env (cluster_ns bare_cluster) ''mg-0'' ''SHOW REPLICATION ROLE;'' ''main''"
    by (rule settled_roles)
  show "role_of_output ''main'' = ''MAIN''" by (rule role_words)
  show "role_of_output ''replica'' = ''REPLICA''" by (rule role_words)
  show "answers settled_env (cluster_ns bare_cluster) (PodName p) ''SHOW REPLICATION ROLE;'' ''replica''"
    if "p \<in> set (followers ?ps ''mg-0'')" for p
  proof -
    have "PodName p = ''mg-1''" using that settled_follower by blast
    then show ?thesis by (simp only: settled_roles)
  qed
  show "answers settled_env (cluster_ns bare_cluster) ''mg-0'' ''SHOW REPLICAS;'' one_row"
    by (rule settled_roles)
  show "RName ` set (parseShowReplicasOutput one_row) =
      (getReplicaName \<circ> PodName) ` set (followers ?ps ''mg-0'')"
    by (simp only: settled_names image_comp [symmetric] settled_follower image_insert image_empty)
qed

lemma configure_settled_witness:
  "yields (ConfigureReplication settled_env bare_cluster [ready_pod ''mg-1'', ready_pod ''mg-0''] ''mg-0'')
     [role_query_of bare_cluster ''mg-0'', replicas_query_of bare_cluster ''mg-0'',
      role_query_of bare_cluster ''mg-1'']
     None"
proof -
  let ?ps = "getReadyPodsSorted [ready_pod ''mg-1'', ready_pod ''mg-0'']"
  have "map PodName (filter (\<lambda>p. PodName p \<noteq> ''mg-0'') ?ps) = [''mg-1'']" by code_simp
  then have "map (role_query_of bare_cluster \<circ> PodName) (filter (\<lambda>p. PodName p \<noteq> ''mg-0'') ?ps) =
      [role_query_of bare_cluster ''mg-1'']"
    by (simp only: list.map_comp [symmetric] list.map)
  moreover have "?ps \<noteq> []" using two_pods_sorted by force
  ultimately show ?thesis
    using configure_settled [OF settled_witness] by (simp only: append.simps) blast
qed

section \<open>MAIN cannot be set\<close>

text \<open>The role of the pod cannot be read, or is read as something other than MAIN.\<close>

definition not_main :: "'s env \<Rightarrow> MemgraphCluster \<Rightarrow> string \<Rightarrow> bool" where
  "not_main e cluster pod \<longleftrightarrow>
     (\<exists>er. refuses e (cluster_ns cluster) pod ''SHOW REPLICATION ROLE;'' er) \<or>
     (\<exists>out. answers e (cluster_ns cluster) pod ''SHOW REPLICATION ROLE;'' out \<and>
        role_of_output out \<noteq> ''MAIN'')"

lemma not_main_yields:
  "not_main e cluster pod \<Longrightarrow> \<exists>r. current_role r \<noteq> ''MAIN'' \<and>
     yields (GetReplicationRole e (cluster_ns cluster) pod) [role_query_of cluster pod] r"
  unfolding not_main_def role_query_of_def
  by (elim disjE exE conjE)
    (rule exI, rule conjI [rotated], erule GetReplicationRole_refused GetReplicationRole_yields,
      simp add: current_role_def)+

text \<open>When the write instance is not MAIN and refuses to become it, the pass stops there: it
  has asked for the role and for the promotion, demoted, registered and dropped nothing,
  emitted no event, and returns the error with both prefixes.\<close>

theorem main_refused:
  assumes "not_main e cluster wi" and "refuses e (cluster_ns cluster) wi (role_query True) er"
    and "wi \<noteq> []" and "getReadyPodsSorted pods \<noteq> []"
  shows "yields (ConfigureReplication e cluster pods wi)
     [role_query_of cluster wi, Exec (query_request (cluster_ns cluster) wi (role_query True))]
     (Some (wrap (''failed to ensure main role on '' @ wi @ '': '')
        (wrap ''failed to set replication role: '' er)))"
proof -
  obtain r where r: "current_role r \<noteq> ''MAIN''"
      "yields (GetReplicationRole e (cluster_ns cluster) wi) [role_query_of cluster wi] r"
    using not_main_yields [OF assms(1)] by blast
  have set_role: "yields (do {
        err \<leftarrow> SetReplicationRole e (cluster_ns cluster) wi True;
        case err of Some er \<Rightarrow> State_Monad.return (Some er) | None \<Rightarrow> m })
      [Exec (query_request (cluster_ns cluster) wi (role_query True))]
      (Some (wrap ''failed to set replication role: '' er))" for m
    by (rule yields_then [OF SetReplicationRole_refused [OF assms(2)]]) (simp add: yields_return)
  have ensure: "yields (ensureMainRole e cluster wi)
      ([role_query_of cluster wi] @ [Exec (query_request (cluster_ns cluster) wi (role_query True))])
      (Some (wrap ''failed to set replication role: '' er))"
    unfolding ensureMainRole_def
    by (rule yields_bind [OF r(2)]) (simp only: r(1) if_False set_role)
  have "yields (ConfigureReplication e cluster pods wi)
      ([role_query_of cluster wi] @ [Exec (query_request (cluster_ns cluster) wi (role_query True))])
      (Some (wrap (''failed to ensure main role on '' @ wi @ '': '')
        (wrap ''failed to set replication role: '' er)))"
    unfolding ConfigureReplication_def Let_def using assms(3,4)
    apply (simp only: if_False length_0_conv)
    apply (rule yields_then [OF ensure])
    apply (simp only: option.case)
    apply (rule yields_return)
    done
  then show ?thesis by simp
qed

definition down_env :: "unit env" where
  "down_env = quiet_env\<lparr>stream_op := \<lambda>req. State_Monad.return ([], ''down'', Some (OtherError ''exit 1''))\<rparr>"

lemma down_env_refuses:
  "refuses down_env ns pod q (OtherError ''failed to execute query: exit 1, stderr: down'')"
  by (auto simp: refuses_def always_def down_env_def quiet_env_def)

lemma main_refused_witness:
  "yields (ConfigureReplication down_env bare_cluster [ready_pod ''mg-1'', ready_pod ''mg-0''] ''mg-0'')
     [role_query_of bare_cluster ''mg-0'',
      Exec (query_request (cluster_ns bare_cluster) ''mg-0'' (role_query True))]
     (Some (OtherError (''failed to ensure main role on mg-0: failed to set replication role: '' @
        ''failed to execute query: exit 1, stderr: down'')))"
proof -
  have "getReadyPodsSorted [ready_pod ''mg-1'', ready_pod ''mg-0''] \<noteq> []"
    using two_pods_sorted by force
  then show ?thesis
    using main_refused [of down_env bare_cluster "''mg-0''"
        "OtherError ''failed to execute query: exit 1, stderr: down''"]
      down_env_refuses by (simp add: not_main_def) blast
qed

section \<open>The health check\<close>

lemma manager_process: "process w' = process w \<Longrightarrow> manager w' = manager w"
  by (simp add: process_def manager_def)

lemma health_event_process [rel_intros]:
  "state_io_rel (keeps process) (health_event r cls st t thr)"
  unfolding health_event_def by (cases cls) (simp_all, (intro rel_intros)+)

lemma run_set_states:
  "run_state (set_states s) w = ((), w\<lparr>replicationManager := Some (manager w\<lparr>rm_states := s\<rparr>)\<rparr>)"
  by (simp add: set_states_def)

lemma manager_simps [simp]:
  "manager (w\<lparr>trace := tr\<rparr>) = manager w" "manager (w\<lparr>ext := x\<rparr>) = manager w"
  "manager (w\<lparr>replicationManager := Some m\<rparr>) = m"
  by (simp_all add: manager_def)

text \<open>The evolution of the timer store by one replica and by all of them.\<close>

abbreviation check_store :: "string \<Rightarrow> instant \<Rightarrow> duration \<Rightarrow> ReplicaInfo list \<Rightarrow> timer_store \<Rightarrow> timer_store" where
  "check_store k t thr \<equiv>
     store_pass stateFor putState k RName (\<lambda>r st. snd (classifyReplica r st t thr))"

text \<open>The classes of the replicas, in the order they are checked.\<close>

fun check_classes ::
  "string \<Rightarrow> instant \<Rightarrow> duration \<Rightarrow> ReplicaInfo list \<Rightarrow> timer_store \<Rightarrow> replicaClassification list" where
  "check_classes k t thr [] s = []"
| "check_classes k t thr (r # rs) s =
     fst (classifyReplica r (fst (stateFor s k (RName r))) t thr) #
     check_classes k t thr rs
       (store_step stateFor putState k RName (\<lambda>r st. snd (classifyReplica r st t thr)) r s)"

lemma store_pass_Cons:
  "store_pass get put k nm f (r # rs) s = store_pass get put k nm f rs (store_step get put k nm f r s)"
  by (simp add: store_pass_def)

lemma length_check_classes [simp]: "length (check_classes k t thr rs s) = length rs"
  by (induction rs arbitrary: s) auto

definition key_of :: "MemgraphCluster \<Rightarrow> string" where
  "key_of cluster = cluster_key (cluster_ns cluster) (cluster_name cluster)"

lemma check_replica_run:
  assumes "run_state (check_replica cluster t thr r h) w = (h', w')"
  defines "k \<equiv> key_of cluster" and "s \<equiv> rm_states (manager w)"
  shows "h' = (if isHealthy (fst (classifyReplica r (fst (stateFor s k (RName r))) t thr))
               then int32 (h + 1) else h)"
    and "rm_states (manager w') =
      store_step stateFor putState k RName (\<lambda>r st. snd (classifyReplica r st t thr)) r s"
proof -
  obtain st s1 where f: "stateFor s k (RName r) = (st, s1)" by (cases "stateFor s k (RName r)")
  obtain cls st' where c: "classifyReplica r st t thr = (cls, st')"
    by (cases "classifyReplica r st t thr")
  let ?w1 = "snd (run_state (set_states (putState s1 k (RName r) st')) w)"
  let ?rest = "do {
      if_metrics (do {
        RecordReplicaDataChannel (cluster_name cluster) (cluster_ns cluster) (RName r) (channel_up cls);
        RecordReplicaBehindSeconds (cluster_name cluster) (cluster_ns cluster) (RName r)
          (behind_seconds t st')
      });
      health_event r cls st' t thr;
      State_Monad.return (if isHealthy cls then int32 (h + 1) else h)
    }"
  have "run_state (check_replica cluster t thr r h) w = run_state ?rest ?w1"
    unfolding check_replica_def Let_def key_of_def [symmetric] k_def [symmetric]
    using f c by (simp add: s_def set_states_def)
  then have rest: "run_state ?rest ?w1 = (h', w')" using assms(1) by (simp only:)
  have "state_io_rel (keeps process) ?rest" by (intro rel_intros)
  from keepsD [OF this, of ?w1] have "manager w' = manager ?w1"
    unfolding rest by (intro manager_process) simp
  have "fst (run_state ?rest ?w1) = (if isHealthy cls then int32 (h + 1) else h)"
    by (simp split: prod.splits)
  then have h: "h' = (if isHealthy cls then int32 (h + 1) else h)"
    unfolding rest by simp
  note \<open>manager w' = manager ?w1\<close>
  moreover have "rm_states (manager ?w1) = putState s1 k (RName r) st'"
    by (simp add: set_states_def manager_def)
  ultimately show "rm_states (manager w') =
      store_step stateFor putState k RName (\<lambda>r st. snd (classifyReplica r st t thr)) r s"
    by (simp add: store_step_def f c)
  show "h' = (if isHealthy (fst (classifyReplica r (fst (stateFor s k (RName r))) t thr))
               then int32 (h + 1) else h)"
    using h by (simp add: f c)
qed

lemma check_loop_run:
  assumes "run_state (for_fold (check_replica cluster t thr) rs h) w = (h', w')"
  defines "k \<equiv> key_of cluster"
  shows "h' = fold (\<lambda>cls n. if isHealthy cls then int32 (n + 1) else n)
           (check_classes k t thr rs (rm_states (manager w))) h"
    and "rm_states (manager w') = check_store k t thr rs (rm_states (manager w))"
proof -
  have "h' = fold (\<lambda>cls n. if isHealthy cls then int32 (n + 1) else n)
           (check_classes k t thr rs (rm_states (manager w))) h \<and>
      rm_states (manager w') = check_store k t thr rs (rm_states (manager w))"
    using assms(1)
  proof (induction rs arbitrary: h w)
    case (Cons r rs)
    obtain h1 w1 where r: "run_state (check_replica cluster t thr r h) w = (h1, w1)"
      by (cases "run_state (check_replica cluster t thr r h) w")
    with Cons.prems have "run_state (for_fold (check_replica cluster t thr) rs h1) w1 = (h', w')"
      by simp
    from Cons.IH [OF this] check_replica_run [OF r] show ?case
      by (simp add: k_def store_pass_Cons)
  qed (simp add: store_pass_def)
  then show "h' = fold (\<lambda>cls n. if isHealthy cls then int32 (n + 1) else n)
           (check_classes k t thr rs (rm_states (manager w))) h"
    and "rm_states (manager w') = check_store k t thr rs (rm_states (manager w))"
    by auto
qed

lemma CheckReplicationHealth_run:
  assumes "run_state (CheckReplicationHealth e cluster wi) w = (Inr (health, rs), w')"
    and "always (now_op e) t"
  defines "k \<equiv> key_of cluster" and "thr \<equiv> behind_threshold cluster"
    and "s \<equiv> rm_states (manager w)"
  shows "rm_states (manager w') = pruneStates (check_store k t thr rs s) k (map RName rs)"
    and "TotalReplicas health = int32 (int (length rs))"
    and "HealthyReplicas health =
      fold (\<lambda>cls n. if isHealthy cls then int32 (n + 1) else n) (check_classes k t thr rs s) 0"
proof -
  have wi: "wi \<noteq> []" using assms(1) by (auto simp: CheckReplicationHealth_def)
  obtain r w1 where show_run: "run_state (ShowReplicas e (cluster_ns cluster) wi) w = (r, w1)"
    by (cases "run_state (ShowReplicas e (cluster_ns cluster) wi) w")
  then have "process w1 = process w"
    using keepsD [OF client_process(7), of e "cluster_ns cluster" wi w] by simp
  then have m1: "manager w1 = manager w" by (rule manager_process)
  obtain w2 where now_run: "run_state (now e) w1 = (t, w2)" and m2: "manager w2 = manager w1"
    using assms(2) by (auto simp: now_def run_external always_def)
  obtain h w3 where loop: "run_state (for_fold (check_replica cluster t thr) rs 0) w2 = (h, w3)"
    by (cases "run_state (for_fold (check_replica cluster t thr) rs 0) w2")
  note l = check_loop_run [OF loop, folded k_def]
  have "r = Inr rs"
    using assms(1) wi
    by (auto simp: CheckReplicationHealth_def show_run Let_def split: sum.splits prod.splits if_splits)
  with assms(1) wi have run: "TotalReplicas health = int32 (int (length rs)) \<and> HealthyReplicas health = h \<and>
      manager w' = manager w3\<lparr>rm_states := pruneStates (rm_states (manager w3)) k (map RName rs)\<rparr>"
    by (auto simp: CheckReplicationHealth_def show_run now_run Let_def loop thr_def [symmetric]
        key_of_def [symmetric] k_def [symmetric] run_set_states split: if_splits)
  then show "rm_states (manager w') = pruneStates (check_store k t thr rs s) k (map RName rs)"
    using l(2) by (simp add: m1 m2 s_def)
  show "TotalReplicas health = int32 (int (length rs))" using run by simp
  show "HealthyReplicas health =
      fold (\<lambda>cls n. if isHealthy cls then int32 (n + 1) else n) (check_classes k t thr rs s) 0"
    using run l(1) by (simp add: m1 m2 s_def)
qed

lemma healthy_fold:
  "0 \<le> n \<Longrightarrow> n + int (length cs) < 2 ^ 31 \<Longrightarrow>
   fold (\<lambda>cls n. if isHealthy cls then int32 (n + 1) else n) cs n =
     n + int (length (filter isHealthy cs))"
  by (induction cs arbitrary: n) (auto simp: int32_id is_int32_def)

text \<open>The counts of a health check. A check that succeeds reports as total the number of
  replicas MAIN listed and as healthy the number of them whose class is a healthy one, each
  classified with the timers the previous replicas of the list left; so it never reports
  more healthy replicas than replicas.\<close>

theorem health_counts:
  assumes "fst (run_state (CheckReplicationHealth e cluster wi) w) = Inr (health, rs)"
    and "always (now_op e) t" and "length rs < 2 ^ 31"
  shows "TotalReplicas health = int (length rs) \<and>
     HealthyReplicas health = int (length (filter isHealthy
       (check_classes (key_of cluster) t (behind_threshold cluster) rs (rm_states (manager w))))) \<and>
     HealthyReplicas health \<le> TotalReplicas health"
proof -
  obtain w' where run: "run_state (CheckReplicationHealth e cluster wi) w = (Inr (health, rs), w')"
    using assms(1) by (cases "run_state (CheckReplicationHealth e cluster wi) w") auto
  let ?cs = "check_classes (key_of cluster) t (behind_threshold cluster) rs (rm_states (manager w))"
  have "int (length rs) < 2 ^ 31" using assms(3) by (simp add: zless_nat_eq_int_zless)
  then have "HealthyReplicas health = int (length (filter isHealthy ?cs))"
    and "TotalReplicas health = int (length rs)"
    using CheckReplicationHealth_run(2,3) [OF run assms(2)] healthy_fold [of 0 ?cs]
    by (simp_all add: int32_id is_int32_def)
  then show ?thesis using length_filter_le [of isHealthy ?cs] by simp
qed

lemma check_run:
  "fst (run_state (CheckReplicationHealth settled_env bare_cluster ''mg-0'') (quiet_world ())) =
     Inr (\<lparr>TotalReplicas = 1, HealthyReplicas = 1\<rparr>, parseShowReplicasOutput one_row)"
  by code_simp

lemma one_row_length: "length (parseShowReplicasOutput one_row) = 1"
  using arg_cong [OF one_row_names, of length] by simp

lemma settled_clock: "always (now_op settled_env) 1"
  by (simp add: settled_env_def quiet_env_def always_def)

lemma health_counts_witness:
  "TotalReplicas \<lparr>TotalReplicas = 1, HealthyReplicas = 1\<rparr> = int (length (parseShowReplicasOutput one_row)) \<and>
   HealthyReplicas \<lparr>TotalReplicas = 1, HealthyReplicas = 1\<rparr> = int (length (filter isHealthy
     (check_classes (key_of bare_cluster) 1 (behind_threshold bare_cluster)
       (parseShowReplicasOutput one_row) (rm_states (manager (quiet_world ())))))) \<and>
   HealthyReplicas \<lparr>TotalReplicas = 1, HealthyReplicas = 1\<rparr> \<le>
     TotalReplicas \<lparr>TotalReplicas = 1, HealthyReplicas = 1\<rparr>"
  by (rule health_counts [OF check_run settled_clock]) (simp add: one_row_length)

text \<open>C10: What a health check does to the timers. After a check that listed \<open>rs\<close>, the store
  holds for this cluster exactly the listed names, each with the timers that classifying it
  produces from the ones it had (fresh timers if it had none); the timers of every other
  cluster are as before.\<close>

theorem health_timers:
  assumes "run_state (CheckReplicationHealth e cluster wi) w = (Inr (health, rs), w')"
    and "always (now_op e) t"
  shows "lookupState (rm_states (manager w')) k n =
     (if k = key_of cluster then
        (if n \<in> RName ` set rs
         then Some (fold (\<lambda>r st. snd (classifyReplica r st t (behind_threshold cluster)))
                (filter (\<lambda>r. RName r = n) rs)
                (case lookupState (rm_states (manager w)) k n of
                   None \<Rightarrow> zero_replicaState | Some st \<Rightarrow> st))
         else None)
      else lookupState (rm_states (manager w)) k n)"
  unfolding CheckReplicationHealth_run(1) [OF assms] by (simp only: ts.check_look split: if_splits) simp

lemma health_timers_witness:
  "lookupState (rm_states (manager (snd (run_state (CheckReplicationHealth settled_env bare_cluster ''mg-0'')
       (quiet_world ()))))) ''db/mg'' ''mg_1'' = Some \<lparr>behindSince = 0, channelDownSince = 1\<rparr>"
proof -
  have k: "''db/mg'' = key_of bare_cluster" by code_simp
  have "fold (\<lambda>r st. snd (classifyReplica r st 1 (behind_threshold bare_cluster)))
      (filter (\<lambda>r. RName r = ''mg_1'') (parseShowReplicasOutput one_row)) zero_replicaState =
      \<lparr>behindSince = 0, channelDownSince = 1\<rparr>"
    by code_simp
  moreover have "''mg_1'' \<in> RName ` set (parseShowReplicasOutput one_row)"
    using arg_cong [OF one_row_names, of set] by (simp only: set_map) simp
  moreover have "lookupState (rm_states (manager (quiet_world ()))) k n = None" for k n
    by (simp add: lookupState_def replicas_of_def quiet_world_def manager_def NewReplicationManager_def)
  moreover have "run_state (CheckReplicationHealth settled_env bare_cluster ''mg-0'') (quiet_world ()) =
      (Inr (\<lparr>TotalReplicas = 1, HealthyReplicas = 1\<rparr>, parseShowReplicasOutput one_row),
       snd (run_state (CheckReplicationHealth settled_env bare_cluster ''mg-0'') (quiet_world ())))"
    using check_run by (simp only: prod_eq_iff fst_conv snd_conv)
  note health_timers [OF this settled_clock, of "''db/mg''" "''mg_1''"]
  ultimately show ?thesis unfolding k by (simp only: if_True option.case simp_thms)
qed

section \<open>Deletion of a cluster's timers\<close>

lemma DeleteClusterState_effect:
  "(let w' = snd (run_state (DeleteClusterState name ns) w);
        s = rm_states (manager w); s' = rm_states (manager w') in
     lookupState s' (cluster_key ns name) n = None \<and>
     (k = cluster_key ns name \<or> s' k = s k) \<and>
     calls (DeleteClusterState name ns) w =
       (if rm_metrics (manager w)
        then concat (map (\<lambda>(r, _).
               [Metric (DeleteLabelValues replicaDataChannelUpGauge [name, ns, r]),
                Metric (DeleteLabelValues replicaBehindSecondsGauge [name, ns, r])])
             (replicas_of s (cluster_key ns name)))
        else []))"
proof -
  have one: "yields (DeleteReplicaMetrics name ns r)
      [Metric (DeleteLabelValues replicaDataChannelUpGauge [name, ns, r]),
       Metric (DeleteLabelValues replicaBehindSecondsGauge [name, ns, r])] ()" for r
    by (simp add: yields_def DeleteReplicaMetrics_def delete_labels_def)
  have all: "yields (for_each (\<lambda>(r, _). DeleteReplicaMetrics name ns r) m)
      (concat (map (\<lambda>(r, _).
               [Metric (DeleteLabelValues replicaDataChannelUpGauge [name, ns, r]),
                Metric (DeleteLabelValues replicaBehindSecondsGauge [name, ns, r])]) m)) ()"
    for m :: replica_states
    by (rule yields_for_each) (simp add: one split: prod.split)
  have keep: "state_io_rel (keeps process) (for_each (\<lambda>(r, _). DeleteReplicaMetrics name ns r) m)"
    for m :: replica_states
    by (intro rel_intros)
  have run: "trace w2 = trace w @ concat (map (\<lambda>(r, _).
               [Metric (DeleteLabelValues replicaDataChannelUpGauge [name, ns, r]),
                Metric (DeleteLabelValues replicaBehindSecondsGauge [name, ns, r])]) m) \<and>
      manager w2 = manager w"
    if "run_state (for_each (\<lambda>(r, _). DeleteReplicaMetrics name ns r) m) w = ((), w2)"
    for m :: replica_states and w2
    using that yieldsD [OF all, of m w] manager_process [OF keepsD [OF keep, of m w]] by simp
  show ?thesis
    by (auto simp: DeleteClusterState_def calls_def Let_def if_metrics_def run_set_states
        lookupState_def replicas_of_def split: option.splits prod.splits dest!: run)
qed

text \<open>Deleting the state of a cluster removes all its timers and no other cluster's, and, when
  the manager records metrics, deletes the two series of exactly the replicas it had timers
  for. With no entry for the cluster nothing happens.\<close>

lemma delete_cluster_state:
  "(let w' = snd (run_state (DeleteClusterState name ns) w);
        s = rm_states (manager w); s' = rm_states (manager w') in
     lookupState s' (cluster_key ns name) n = None \<and>
     (k = cluster_key ns name \<or> s' k = s k) \<and>
     calls (DeleteClusterState name ns) w =
       (if rm_metrics (manager w)
        then concat (map (\<lambda>(r, _).
               [Metric (DeleteLabelValues replicaDataChannelUpGauge [name, ns, r]),
                Metric (DeleteLabelValues replicaBehindSecondsGauge [name, ns, r])])
             (replicas_of s (cluster_key ns name)))
        else []))"
  by (rule DeleteClusterState_effect)

section \<open>Failover\<close>

lemma promoted_candidate:
  assumes "candidates \<noteq> []"
  shows "promoted cluster candidates \<in> PodName ` set candidates"
proof -
  have "PodName (hd candidates) \<in> PodName ` set candidates" using assms by simp
  then show ?thesis
    by (auto simp: promoted_def Let_def dest: find_SomeD split: option.splits if_splits)
qed

lemma promoted_preferred:
  assumes "preferred_main cluster \<noteq> []" and "preferred_main cluster \<in> PodName ` set candidates"
  shows "promoted cluster candidates = preferred_main cluster"
  using assms
  by (auto simp: promoted_def Let_def dest: find_SomeD find_NoneD split: option.splits)

text \<open>The failover choice. With high availability enabled and some ready pod other than the
  failed MAIN, exactly one pod is promoted, it is such a pod, and it is the preferred one if
  that is among them; the events are failure, start and completion, in this order. Without
  such a pod the failover fails with an event, and with high availability off it refuses
  without one.\<close>

theorem failover_choice:
  "(case fst (run_state (HandleMainFailover cluster pods failed) w) of
      Inl er \<Rightarrow>
        (\<not> failover_enabled cluster \<and> calls (HandleMainFailover cluster pods failed) w = []) \<or>
        (failover_enabled cluster \<and> followers pods failed = [] \<and>
         (\<exists>e1 e2 msg. calls (HandleMainFailover cluster pods failed) w =
            [e1, e2, Event EventWarning EventReasonFailoverFailed msg]))
    | Inr p \<Rightarrow>
        failover_enabled cluster \<and> p \<in> PodName ` set (followers pods failed) \<and>
        (preferred_main cluster = [] \<or> preferred_main cluster \<notin> PodName ` set (followers pods failed) \<or>
         p = preferred_main cluster) \<and>
        calls (HandleMainFailover cluster pods failed) w =
          [Event EventWarning EventReasonMainInstanceFailed (''Main instance '' @ failed @ '' has failed''),
           Event EventNormal EventReasonFailoverStarted (''Initiating failover from '' @ failed),
           Event EventNormal EventReasonFailoverCompleted (''Failover completed: '' @ p @ '' promoted to main'')])"
proof -
  have c: "failover_candidates pods failed = followers pods failed"
    by (auto simp: failover_candidates_def followers_def intro: filter_cong)
  show ?thesis
    using promoted_candidate [of "followers pods failed" cluster]
      promoted_preferred [of cluster "followers pods failed"]
    by (auto simp: HandleMainFailover_def c Let_def calls_def)
qed

definition ha_cluster :: "string \<Rightarrow> MemgraphCluster" where
  "ha_cluster main = bare_cluster\<lparr>Spec := bare_spec\<lparr>HighAvailability :=
     Some \<lparr>HAEnabled = True, FailoverTimeoutSeconds = 30, PreferredMain = main\<rparr>\<rparr>\<rparr>"

lemma failover_choice_witness:
  "fst (run_state (HandleMainFailover (ha_cluster ''mg-1'')
     [ready_pod ''mg-2'', ready_pod ''mg-1'', ready_pod ''mg-0''] ''mg-0'') (quiet_world ())) = Inr ''mg-1''"
proof -
  have choice: "fst (run_state (HandleMainFailover c ps f) w) = Inr (preferred_main c)"
    if "failover_enabled c" "preferred_main c \<noteq> []"
      "preferred_main c \<in> set (map PodName (followers ps f))" for c ps f and w :: "unit world"
    using that failover_choice [of c ps f w] by (auto split: sum.splits)
  have en: "failover_enabled (ha_cluster m)" and pr: "preferred_main (ha_cluster m) = m" for m
    by (simp_all add: failover_enabled_def preferred_main_def ha_cluster_def)
  have "map PodName (followers [ready_pod ''mg-2'', ready_pod ''mg-1'', ready_pod ''mg-0''] ''mg-0'') =
      [''mg-2'', ''mg-1'']" by code_simp
  then have "preferred_main (ha_cluster ''mg-1'') \<in>
      set (map PodName (followers [ready_pod ''mg-2'', ready_pod ''mg-1'', ready_pod ''mg-0''] ''mg-0''))"
    by (simp only: pr) simp
  from choice [OF en _ this] show ?thesis by (simp only: pr) simp
qed

end
