(* ===== verification/Reconciler_Laws.thy ===== *)
theory Reconciler_Laws
  imports Reconciler Replication_Laws
begin

text \<open>
  What the reconciler guarantees: the choice of the write instance, the reported status and
  conditions, the updates of the StatefulSet and of the write service, the requeue policy,
  the cleanup after deletion, and the invariants of every reachable state of the operator.
\<close>

section \<open>The write instance\<close>

lemma ready_named_iff: "ready_named n pods \<longleftrightarrow> n \<in> PodName ` set (filter isPodReady pods)"
  by (auto simp: ready_named_def)

text \<open>C23: The write instance is chosen so that it never moves without need: the current one stays
  as long as its pod is ready, whatever the preference says; otherwise the preferred pod is
  taken if it is ready; otherwise the first ready pod of the list. It is always the name of
  a ready pod, and empty exactly when no pod is ready.\<close>

theorem write_instance_choice:
  assumes "\<forall>pod \<in> set pods. PodName pod \<noteq> []"
  shows "(let wi = determineWriteInstance cluster pods; cur = WriteInstance (Status cluster) in
     (wi = [] \<longleftrightarrow> filter isPodReady pods = []) \<and>
     (wi = [] \<or> ready_named wi pods) \<and>
     (ready_named cur pods \<longrightarrow> wi = cur) \<and>
     (\<not> ready_named cur pods \<and> ready_named (preferred_main cluster) pods \<longrightarrow> wi = preferred_main cluster) \<and>
     (\<not> ready_named cur pods \<and> \<not> ready_named (preferred_main cluster) pods \<and> wi \<noteq> [] \<longrightarrow>
        wi = PodName (hd (filter isPodReady pods))))"
proof -
  have ne: "\<not> ready_named [] pods" using assms by (auto simp: ready_named_def)
  have first: "(case find isPodReady pods of Some pod \<Rightarrow> PodName pod | None \<Rightarrow> []) =
      (case filter isPodReady pods of [] \<Rightarrow> [] | p # _ \<Rightarrow> PodName p)"
    by (simp add: find_Some_filter split: list.splits)
  show ?thesis
  proof (cases "filter isPodReady pods")
    case Nil
    then have "\<not> ready_named n pods" for n by (simp add: ready_named_iff del: set_filter)
    then show ?thesis by (simp add: determineWriteInstance_def first Nil Let_def)
  next
    case (Cons p ps)
    have "p \<in> set (filter isPodReady pods)" unfolding Cons by simp
    then have "p \<in> set pods \<and> isPodReady p" by simp
    then have "ready_named (PodName p) pods" "PodName p \<noteq> []"
      using assms by (auto simp: ready_named_def)
    then show ?thesis using ne by (auto simp: determineWriteInstance_def first Cons Let_def)
  qed
qed

lemma write_instance_choice_witness:
  "determineWriteInstance bare_cluster [ready_pod ''mg-1'', ready_pod ''mg-0''] = ''mg-1''"
proof -
  have r: "isPodReady (ready_pod n)" for n by (simp add: isPodReady_def ready_pod_def)
  have n: "PodName (ready_pod n) = n" for n by (simp add: ready_pod_def)
  have c: "WriteInstance (Status bare_cluster) = []" "preferred_main bare_cluster = []"
    by (simp_all add: bare_cluster_def bare_status_def bare_spec_def preferred_main_def)
  have "\<forall>pod \<in> set [ready_pod ''mg-1'', ready_pod ''mg-0'']. PodName pod \<noteq> []" by (simp add: n)
  from write_instance_choice [OF this, of bare_cluster] show ?thesis
    by (simp add: Let_def c r n ready_named_def)
qed

section \<open>Status\<close>

text \<open>C25: The reported status is consistent. The phase is Pending with no ready pod, Running when at
  least the wanted number is ready, Initializing in between; the read instances are the
  ready pods other than the write instance; the write instance and the number of registered
  replicas are those of the pass; and when the write instance is one of the ready pods, the read
  instances and it make up the ready instances.\<close>

theorem status_consistent:
  assumes "distinct (map PodName pods)" and "length pods < 2 ^ 31" and "0 < desired_replicas cluster"
  shows "(let st = Status (status_update cluster pods wi registered); n = length (filter isPodReady pods) in
     Phase st = (if n = 0 then ClusterPhasePending
                 else if int n < desired_replicas cluster then ClusterPhaseInitializing
                 else ClusterPhaseRunning) \<and>
     WriteInstance st = wi \<and> RegisteredReplicas st = registered \<and>
     ReadyInstances st = int n \<and> wi \<notin> set (ReadInstances st) \<and>
     set (ReadInstances st) = PodName ` set (filter isPodReady pods) - {wi} \<and>
     (ready_named wi pods \<longrightarrow> int (length (ReadInstances st)) + 1 = ReadyInstances st))"
proof -
  let ?n = "length (filter isPodReady pods)"
  let ?rs = "filter (\<lambda>pod. isPodReady pod \<and> PodName pod \<noteq> wi) pods"
  have "?n \<le> length pods" by (rule length_filter_le)
  from this assms(2) have "?n < 2 ^ 31" by (rule le_less_trans)
  then have "int ?n < 2 ^ 31" by (simp only: of_nat_less_numeral_power_cancel_iff)
  then have r: "ready_count pods = int ?n"
    by (simp add: ready_count_def int32_id is_int32_def)
  have d: "distinct (map PodName (filter isPodReady pods))"
    using assms(1) by (simp add: distinct_map_filter)
  have s: "set (map PodName ?rs) = PodName ` set (filter isPodReady pods) - {wi}" by auto
  have l: "length (map PodName ?rs) + 1 = ?n" if "ready_named wi pods"
  proof -
    have w: "wi \<in> PodName ` set (filter isPodReady pods)" using that by (simp only: ready_named_iff)
    have "distinct (map PodName ?rs)" using assms(1) by (simp add: distinct_map_filter)
    then have "length (map PodName ?rs) = card (PodName ` set (filter isPodReady pods) - {wi})"
      using distinct_card s by metis
    also have "\<dots> + 1 = card (PodName ` set (filter isPodReady pods))"
      using w by (simp only: card.remove [of _ wi] finite_imageI finite_set add_Suc_right Nat.add_0_right One_nat_def)
    also have "\<dots> = ?n" using distinct_card [OF d] by (simp only: set_map length_map)
    finally show ?thesis .
  qed
  have st: "ReadInstances (Status (status_update cluster pods wi registered)) = map PodName ?rs"
    "ReadyInstances (Status (status_update cluster pods wi registered)) = int ?n"
    "Phase (Status (status_update cluster pods wi registered)) = phase_of (int ?n) (desired_replicas cluster)"
    "WriteInstance (Status (status_update cluster pods wi registered)) = wi"
    "RegisteredReplicas (Status (status_update cluster pods wi registered)) = registered"
    by (simp_all add: status_update_def r)
  show ?thesis
    unfolding Let_def st s
  proof (intro conjI impI)
    show "int (length (map PodName ?rs)) + 1 = int ?n" if "ready_named wi pods"
      using l [OF that] by linarith
  qed (simp_all add: phase_of_def del: set_filter)
qed

lemma status_consistent_witness:
  "(let st = Status (status_update bare_cluster [ready_pod ''mg-1'', ready_pod ''mg-0''] ''mg-0'' 1) in
     Phase st = ClusterPhaseInitializing \<and> ReadyInstances st = 2 \<and> WriteInstance st = ''mg-0'')"
proof -
  let ?ps = "[ready_pod ''mg-1'', ready_pod ''mg-0'']"
  have r: "isPodReady (ready_pod n)" for n by (simp add: isPodReady_def ready_pod_def)
  have d: "desired_replicas bare_cluster = 3"
    by (simp add: desired_replicas_def bare_cluster_def bare_spec_def Let_def)
  have "distinct (map PodName ?ps)" "length ?ps < 2 ^ 31"
    by (simp_all add: ready_pod_def)
  from status_consistent [OF this, of bare_cluster "''mg-0''" 1] show ?thesis
    by (simp add: d r Let_def)
qed

section \<open>Conditions\<close>

definition status_of :: "Condition list \<Rightarrow> string \<Rightarrow> string option" where
  "status_of cs ty = map_option CondStatus (find (\<lambda>c. CondType c = ty) cs)"

text \<open>
  What \<open>meta.SetStatusCondition\<close> documents: the condition of the given type gets the given
  status, and the conditions of other types stay.
\<close>

definition sets_conditions :: "'s env \<Rightarrow> bool" where
  "sets_conditions e \<longleftrightarrow>
     (\<forall>cs c ty. status_of (set_status_condition e cs c) ty =
        (if ty = CondType c then Some (CondStatus c) else status_of cs ty))"

lemma condition_types_distinct:
  "distinct [ConditionTypeMainAvailable, ConditionTypeReplicasReady, ConditionTypeReplicationHealthy,
     ConditionTypeReady]"
  by (simp add: go_consts)

lemma the_conditions_status:
  assumes "sets_conditions e"
  shows "status_of (fold (\<lambda>c cs. set_status_condition e cs c) (the_conditions t wi ready n reg healthy) cs) ty =
     (if ty = ConditionTypeReady then Some (conditionStatus
        (wi \<noteq> [] \<and> ready \<ge> n \<and> replication_healthy n reg healthy))
      else if ty = ConditionTypeReplicationHealthy then Some (conditionStatus (replication_healthy n reg healthy))
      else if ty = ConditionTypeReplicasReady then Some (conditionStatus (ready \<ge> n))
      else if ty = ConditionTypeMainAvailable then Some (conditionStatus (wi \<noteq> []))
      else status_of cs ty)"
  using assms by (simp add: the_conditions_def Let_def sets_conditions_def)

text \<open>C24: The conditions tell the truth. After a status update, Ready is true exactly when there is
  a write instance, at least the wanted number of pods is ready, MAIN has registered all the
  other replicas and every registered one is healthy; each of the three parts is reported
  by its own condition, and conditions of other types are kept.\<close>

theorem conditions_truthful:
  assumes "sets_conditions e" and "1 \<le> replicas" and "replicas < 2 ^ 31"
  shows "(let cs = Conditions (Status (fst (run_state
        (updateConditions e cluster wi ready replicas registered healthy) w))) in
     (status_of cs ConditionTypeReady = Some ''True'' \<longleftrightarrow>
        wi \<noteq> [] \<and> replicas \<le> ready \<and> replicas - 1 \<le> registered \<and> registered \<le> healthy) \<and>
     (status_of cs ConditionTypeMainAvailable = Some ''True'' \<longleftrightarrow> wi \<noteq> []) \<and>
     (status_of cs ConditionTypeReplicasReady = Some ''True'' \<longleftrightarrow> replicas \<le> ready) \<and>
     (status_of cs ConditionTypeReplicationHealthy = Some ''True'' \<longleftrightarrow>
        replicas - 1 \<le> registered \<and> registered \<le> healthy) \<and>
     (ty \<in> {ConditionTypeReady, ConditionTypeMainAvailable, ConditionTypeReplicasReady,
             ConditionTypeReplicationHealthy} \<or>
      status_of cs ty = status_of (Conditions (Status cluster)) ty))"
proof -
  have h: "replication_healthy replicas registered healthy \<longleftrightarrow>
      replicas - 1 \<le> registered \<and> registered \<le> healthy"
    using assms(2,3) by (auto simp: replication_healthy_def int32_id is_int32_def)
  have d: "ConditionTypeMainAvailable \<noteq> ConditionTypeReady"
    "ConditionTypeReplicasReady \<noteq> ConditionTypeReady"
    "ConditionTypeReplicationHealthy \<noteq> ConditionTypeReady"
    "ConditionTypeMainAvailable \<noteq> ConditionTypeReplicationHealthy"
    "ConditionTypeReplicasReady \<noteq> ConditionTypeReplicationHealthy"
    "ConditionTypeMainAvailable \<noteq> ConditionTypeReplicasReady"
    using condition_types_distinct by auto
  have c: "Conditions (Status (fst (run_state
        (updateConditions e cluster wi ready replicas registered healthy) w))) =
      fold (\<lambda>c cs. set_status_condition e cs c)
        (the_conditions (fst (run_state (now e) w)) wi ready replicas registered healthy)
        (Conditions (Status cluster))"
    by (simp add: updateConditions_def split: prod.splits)
  show ?thesis
    unfolding c Let_def
    by (auto simp: the_conditions_status [OF assms(1)] h conditionStatus_def d d [symmetric])
qed

lemma quiet_sets_conditions: "sets_conditions (quiet_env :: 's env)"
proof -
  have "find (\<lambda>c. CondType c = ty) (filter (\<lambda>x. CondType x \<noteq> k) cs @ [c]) =
      (if ty = k then Some c else find (\<lambda>c. CondType c = ty) cs)"
    if "CondType c = k" for ty k c and cs :: "Condition list"
    using that by (induction cs) auto
  then show ?thesis by (simp add: sets_conditions_def quiet_env_def status_of_def)
qed

lemma conditions_truthful_witness:
  "status_of (Conditions (Status (fst (run_state
     (updateConditions (quiet_env :: unit env) bare_cluster ''mg-0'' 3 3 2 1) (quiet_world ())))))
     ConditionTypeReady \<noteq> Some ''True''"
  using conditions_truthful [OF quiet_sets_conditions, of 3 bare_cluster "''mg-0''" 3 2 1 "quiet_world ()"]
  by (simp add: Let_def)

section \<open>The StatefulSet\<close>

text \<open>The object the update writes: replica count and image of the first container replaced.\<close>

definition adjusted :: "StatefulSet \<Rightarrow> int \<Rightarrow> string \<Rightarrow> StatefulSet" where
  "adjusted sts n img = set_image (sts\<lparr>StsReplicas := Some n\<rparr>) img"

definition replicas_image :: "StatefulSet \<Rightarrow> (int \<times> string) option" where
  "replicas_image sts =
     (case (StsReplicas sts, Containers (TemplateSpec sts)) of
        (Some n, c # _) \<Rightarrow> Some (n, ContainerImage c)
      | _ \<Rightarrow> None)"

lemma replicas_image_adjusted:
  "replicas_image sts \<noteq> None \<Longrightarrow> replicas_image (adjusted sts n img) = Some (n, img)"
  by (auto simp: replicas_image_def adjusted_def set_image_def split: list.splits option.splits)

lemma set_image_id:
  "replicas_image sts = Some (n, img) \<Longrightarrow> adjusted sts n img = sts"
  by (auto simp: replicas_image_def adjusted_def set_image_def split: list.splits option.splits)

definition scale_events :: "StatefulSet \<Rightarrow> int \<Rightarrow> int \<Rightarrow> effect list" where
  "scale_events sts current n =
     (if current \<noteq> n then [Event EventNormal EventReasonScalingStatefulSet
        (''Scaling StatefulSet '' @ Name (StsMeta sts) @ '' to '' @ Itoa n @ '' replicas'')] else [])"

definition image_events :: "StatefulSet \<Rightarrow> string \<Rightarrow> string \<Rightarrow> effect list" where
  "image_events sts current img =
     (if current \<noteq> img then [Event EventNormal EventReasonUpdatingImage
        (''Updating StatefulSet '' @ Name (StsMeta sts) @ '' image to '' @ img)] else [])"

lemma scale_step_yields:
  assumes "StsReplicas sts = Some k"
  shows "yields (scale_step sts k n) (scale_events sts k n) (sts\<lparr>StsReplicas := Some n\<rparr>, k \<noteq> n)"
proof -
  have "sts\<lparr>StsReplicas := Some k\<rparr> = sts" using assms by (cases sts) simp
  then show ?thesis
    by (cases "k = n") (auto simp: scale_step_def scale_events_def
        intro: yields_then [OF yields_event] yields_return)
qed

lemma image_step_yields:
  assumes "Containers (TemplateSpec sts) = c # cs" and "ContainerImage c = k"
  shows "yields (image_step sts k img b) (image_events sts k img) (set_image sts img, b \<or> k \<noteq> img)"
proof -
  have "set_image sts k = sts"
    using assms by (auto simp: set_image_def intro!: StatefulSet.equality PodSpec.equality Container.equality)
  then show ?thesis
    by (cases "k = img") (auto simp: image_step_def image_events_def
        intro: yields_then [OF yields_event] yields_return)
qed

lemma built_replicas_image:
  "replicas_image (buildStatefulSet e cluster\<lparr>StsMeta := m\<rparr>) =
     Some (desired_replicas cluster, cluster_image cluster)"
  by (simp add: replicas_image_def buildStatefulSet_def Let_def memgraph_container_def)

text \<open>C26: The StatefulSet converges on replica count and image, and on nothing else. An existing
  object with these as wanted is left alone, whatever the rest of its spec (arguments,
  resources, probes of a changed cluster spec are not propagated); otherwise one update is
  written that changes exactly these two fields, after one event per field that changed, and
  the object written needs no further update.\<close>

theorem statefulset_update:
  assumes "replicas_image existing = Some old" and "always (write_op e (UpdateStatefulSet
      (adjusted existing (desired_replicas cluster) (cluster_image cluster)))) result"
  defines "wanted \<equiv> (desired_replicas cluster, cluster_image cluster)"
    and "new \<equiv> adjusted existing (desired_replicas cluster) (cluster_image cluster)"
  shows "yields (update_statefulset e existing (buildStatefulSet e cluster\<lparr>StsMeta := m\<rparr>))
       (if old = wanted then []
        else scale_events existing (fst old) (fst wanted) @ image_events existing (snd old) (snd wanted) @
          [Write (UpdateStatefulSet new)])
       (Inr (if old = wanted then None else result)) \<and>
     replicas_image new = Some wanted"
proof
  let ?d = "buildStatefulSet e cluster\<lparr>StsMeta := m\<rparr>"
  let ?x1 = "existing\<lparr>StsReplicas := Some (fst wanted)\<rparr>"
  obtain c cs where sts: "StsReplicas existing = Some (fst old)"
      "Containers (TemplateSpec existing) = c # cs" "ContainerImage c = snd old"
    using assms(1) by (auto simp: replicas_image_def split: option.splits list.splits)
  have d: "the (StsReplicas ?d) = fst wanted"
    "ContainerImage (hd (Containers (TemplateSpec ?d))) = snd wanted"
    by (simp_all add: wanted_def buildStatefulSet_def Let_def memgraph_container_def)
  have c1: "Containers (TemplateSpec ?x1) = c # cs" using sts(2) by simp
  have n: "set_image ?x1 (snd wanted) = new" by (simp add: new_def wanted_def adjusted_def)
  have ev: "image_events ?x1 = image_events existing" by (rule ext)+ (simp add: image_events_def)
  have w: "yields (do { err \<leftarrow> api_write e (UpdateStatefulSet new); State_Monad.return (Inr err) })
      [Write (UpdateStatefulSet new)] (Inr result :: go_panic + go_error option)"
    by (rule yields_then [OF api_write_yields yields_return]) (use assms(2) in \<open>simp add: new_def\<close>)
  have t: "(fst old \<noteq> fst wanted \<or> snd old \<noteq> snd wanted) \<longleftrightarrow> old \<noteq> wanted" by (auto simp: prod_eq_iff)
  note img = image_step_yields [where b = "fst old \<noteq> fst wanted" and img = "snd wanted",
      OF c1 sts(3), unfolded ev n t]
  have fin: "yields (if old \<noteq> wanted then do {
          err \<leftarrow> api_write e (UpdateStatefulSet new); State_Monad.return (Inr err) }
        else State_Monad.return (Inr None))
      (if old = wanted then [] else [Write (UpdateStatefulSet new)])
      (Inr (if old = wanted then None else result) :: go_panic + go_error option)"
    using w by (simp add: yields_return)
  have "yields (update_statefulset e existing ?d)
      (scale_events existing (fst old) (fst wanted) @ image_events existing (snd old) (snd wanted) @
       (if old = wanted then [] else [Write (UpdateStatefulSet new)]))
      (Inr (if old = wanted then None else result))"
    unfolding update_statefulset_def sts(1) option.case d
    by (rule yields_bind [OF scale_step_yields [OF sts(1)]], unfold prod.case c1 list.case sts(3))
      (rule yields_bind [OF img], unfold prod.case, rule fin)
  then show "yields (update_statefulset e existing ?d)
       (if old = wanted then []
        else scale_events existing (fst old) (fst wanted) @ image_events existing (snd old) (snd wanted) @
          [Write (UpdateStatefulSet new)])
       (Inr (if old = wanted then None else result))"
    by (cases "old = wanted") (simp_all add: scale_events_def image_events_def)
  show "replicas_image new = Some wanted"
    using replicas_image_adjusted [of existing] assms(1) by (simp add: new_def wanted_def)
qed

lemma statefulset_update_witness:
  "yields (update_statefulset (quiet_env :: unit env)
       (buildStatefulSet (quiet_env :: unit env) bare_cluster\<lparr>StsReplicas := Some 5\<rparr>)
       (buildStatefulSet (quiet_env :: unit env) bare_cluster\<lparr>StsMeta := mk_meta ''mg'' ''db'' Map.empty\<rparr>))
     (scale_events (buildStatefulSet (quiet_env :: unit env) bare_cluster\<lparr>StsReplicas := Some 5\<rparr>) 5 3 @
      [Write (UpdateStatefulSet (adjusted
        (buildStatefulSet (quiet_env :: unit env) bare_cluster\<lparr>StsReplicas := Some 5\<rparr>) 3
        defaultMemgraphImage))])
     (Inr None)"
proof -
  let ?x = "buildStatefulSet (quiet_env :: unit env) bare_cluster\<lparr>StsReplicas := Some 5\<rparr>"
  have n: "desired_replicas bare_cluster = 3" "cluster_image bare_cluster = defaultMemgraphImage"
    by (simp_all add: desired_replicas_def cluster_image_def bare_cluster_def bare_spec_def Let_def)
  have "replicas_image ?x = Some (5, defaultMemgraphImage)"
    by (simp add: replicas_image_def buildStatefulSet_def Let_def memgraph_container_def n)
  moreover have "always (write_op (quiet_env :: unit env) c) None" for c
    by (simp add: quiet_env_def always_def)
  ultimately show ?thesis
    using statefulset_update [of ?x "(5, defaultMemgraphImage)" "quiet_env :: unit env" bare_cluster None
        "mk_meta ''mg'' ''db'' Map.empty"]
    by (simp add: n image_events_def)
qed

text \<open>C27: The update dereferences the replica count and the first container of the object it read.
  It panics exactly when the object has no replica count or no container; the objects the
  operator itself creates have both.\<close>

theorem statefulset_panics:
  "((\<exists>p. fst (run_state (update_statefulset e existing desired) w) = Inl p) \<longleftrightarrow>
     StsReplicas existing = None \<or> Containers (TemplateSpec existing) = []) \<and>
   replicas_image (buildStatefulSet e cluster) \<noteq> None"
proof
  have s: "Containers (TemplateSpec (fst (fst (run_state (scale_step x a b) w)))) =
      Containers (TemplateSpec x)" for x a b and w :: "'a world"
    by (simp add: scale_step_def)
  show "(\<exists>p. fst (run_state (update_statefulset e existing desired) w) = Inl p) \<longleftrightarrow>
     StsReplicas existing = None \<or> Containers (TemplateSpec existing) = []"
    using s [of existing _ _ w]
    by (auto simp: update_statefulset_def split: option.splits list.splits prod.splits)
      (metis fst_conv list.distinct(1))+
  show "replicas_image (buildStatefulSet e cluster) \<noteq> None"
    using built_replicas_image [where e = e and cluster = cluster and
        m = "StsMeta (buildStatefulSet e cluster)"] by simp
qed

section \<open>Scheduling\<close>

lemma finish_requeues:
  "fst (run_state (finish_resources e cluster pods wi r h er) w) = Inr ((res, None), c) \<Longrightarrow>
   RequeueAfter res = (if Phase (Status c) = ClusterPhaseRunning then requeueAfterLong else requeueAfterShort)"
  by (auto simp: finish_resources_def failed_def requeue_after_def requeueAfterLong_def
      requeueAfterError_def split: option.splits prod.splits if_splits)

lemma reconcileResources_requeues:
  "fst (run_state (reconcileResources e cluster) w) = Inr ((res, None), c) \<Longrightarrow>
   RequeueAfter res = (if Phase (Status c) = ClusterPhaseRunning then requeueAfterLong else requeueAfterShort)"
  by (auto simp: reconcileResources_def reconcile_members_def failed_def Let_def
      split: option.splits prod.splits if_splits sum.splits
      dest!: finish_requeues [of _ _ _ _ _ _ _ _ res c])

text \<open>C28: The operator keeps watching. A reconcile of a live object that returns no error is always
  scheduled again: at once after the finalizer or the first status was written, else after
  10 or 30 seconds.\<close>

theorem reconcile_rescheduled:
  assumes "fst (run_state (reconcile_found e t0 cluster) w) = Inr (res, None)"
    and "\<not> being_deleted cluster"
  shows "Requeue res \<or> RequeueAfter res = 10 * Second \<or> RequeueAfter res = 30 * Second"
proof -
  have r: "RequeueAfter res = (if Phase (Status c) = ClusterPhaseRunning then 30 * Second else 10 * Second)"
    if "run_state (reconcileResources e cluster) w = (Inr ((res, None), c), w')" for c w'
    using reconcileResources_requeues [of e cluster w res c] that
    by (simp add: requeueAfterLong_def requeueAfterShort_def)
  show ?thesis
    using assms
    by (auto simp: reconcile_found_def reconcile_cluster_def write_status_def requeue_now_def
        split: sum.splits prod.splits if_splits option.splits dest!: r)
qed

text \<open>An API server that accepts every write of a cluster.\<close>

definition echo_env :: "unit env" where
  "echo_env = quiet_env\<lparr>write_cluster_op := \<lambda>_. State_Monad.return (Inr bare_cluster)\<rparr>"

lemma bare_not_deleted: "\<not> being_deleted bare_cluster"
  by (simp add: being_deleted_def bare_cluster_def mk_meta_def)

lemma bare_unmarked: "\<not> contains_finalizer echo_env (Meta bare_cluster) finalizerName"
  by (simp add: bare_cluster_def mk_meta_def echo_env_def quiet_env_def)

lemma bare_run:
  "fst (run_state (reconcile_found echo_env 0 bare_cluster) (quiet_world ())) = Inr (requeue_now, None)"
  using bare_not_deleted bare_unmarked
  by (simp add: reconcile_found_def api_write_cluster_def run_external echo_env_def)

lemma reconcile_rescheduled_witness:
  "Requeue requeue_now \<or> RequeueAfter requeue_now = 10 * Second \<or> RequeueAfter requeue_now = 30 * Second"
  by (rule reconcile_rescheduled [OF bare_run bare_not_deleted])

section \<open>Gates of the lifecycle\<close>

lemma api_write_cluster_yields:
  "always (write_cluster_op e c) r \<Longrightarrow> yields (api_write_cluster e c) [Write c] r"
  unfolding api_write_cluster_def using yields_bind [OF yields_emit yields_external] by fastforce

lemma deletion_yields:
  assumes "\<forall>c. always (write_cluster_op e c) r"
  shows "yields (handleDeletion e cluster)
    (if contains_finalizer e (Meta cluster) finalizerName
     then [Write (UpdateCluster (cluster\<lparr>Meta := remove_finalizer e (Meta cluster) finalizerName\<rparr>))] else [])
    (zero_result, if contains_finalizer e (Meta cluster) finalizerName
       then (case r of Inl er \<Rightarrow> Some er | Inr _ \<Rightarrow> None) else None)"
proof -
  have w: "yields (api_write_cluster e c) [Write c] r" for c
    using assms by (simp add: api_write_cluster_yields)
  show ?thesis
    unfolding handleDeletion_def
    by (cases "contains_finalizer e (Meta cluster) finalizerName")
      (simp_all, rule yields_then [OF w yields_return], rule yields_return)
qed

lemma write_status_yields:
  assumes "\<forall>c. always (write_cluster_op e c) r"
  shows "yields (write_status e c) [Write (UpdateClusterStatus c)]
    (case r of Inl er \<Rightarrow> (Some er, c) | Inr c' \<Rightarrow> (None, c'))"
  unfolding write_status_def
  using assms by (intro yields_then [OF api_write_cluster_yields yields_return]) simp

text \<open>The gates before any resource is touched. A cluster being deleted only loses its
  finalizer, when it has it, and its resources are never reconciled; a new cluster first
  gets the finalizer and nothing else, then its first status with the creation event and
  nothing else. The error of the write is returned.\<close>

theorem lifecycle_gates:
  fixes e :: "'s env" and cluster :: MemgraphCluster
  assumes "\<forall>c. always (write_cluster_op e c) r"
  defines "result \<equiv> (case r of Inl er \<Rightarrow> Some er | Inr _ \<Rightarrow> None)"
    and "live \<equiv> \<not> being_deleted cluster"
    and "marked \<equiv> contains_finalizer e (Meta cluster) finalizerName"
  shows "(\<not> live \<longrightarrow> yields (reconcile_found e t0 cluster)
       (if marked then [Write (UpdateCluster (cluster\<lparr>Meta := remove_finalizer e (Meta cluster) finalizerName\<rparr>))]
        else [])
       (Inr (zero_result, if marked then result else None))) \<and>
     (live \<and> \<not> marked \<longrightarrow> yields (reconcile_found e t0 cluster)
       [Write (UpdateCluster (cluster\<lparr>Meta := add_finalizer e (Meta cluster) finalizerName\<rparr>))]
       (Inr (if result = None then requeue_now else zero_result, result))) \<and>
     (live \<and> marked \<and> Phase (Status cluster) = [] \<longrightarrow> yields (reconcile_found e t0 cluster)
       [Event EventNormal EventReasonClusterCreated ''Cluster created, starting initialization'',
        Write (UpdateClusterStatus (cluster\<lparr>Status := (Status cluster)\<lparr>Phase := ClusterPhasePending\<rparr>\<rparr>))]
       (Inr (if result = None then requeue_now else zero_result, result)))"
proof -
  have w: "yields (api_write_cluster e c) [Write c] r" for c
    using assms(1) by (simp add: api_write_cluster_yields)
  let ?c = "cluster\<lparr>Status := (Status cluster)\<lparr>Phase := ClusterPhasePending\<rparr>\<rparr>"
  let ?created = "Event EventNormal EventReasonClusterCreated ''Cluster created, starting initialization''"
  have "yields (reconcile_found e t0 cluster)
       ([?created] @ [Write (UpdateClusterStatus ?c)])
       (Inr (if result = None then requeue_now else zero_result, result))"
    if "live" "marked" "Phase (Status cluster) = []"
  proof -
    have b: "being_deleted cluster = False" "contains_finalizer e (Meta cluster) finalizerName = True"
      using that by (simp_all add: live_def marked_def)
    show ?thesis
      unfolding reconcile_found_def b that(3) if_False simp_thms if_True result_def
      by (rule yields_bind [OF yields_event], rule yields_then [OF write_status_yields [OF assms(1)]])
        (cases r; simp add: yields_return)
  qed
  moreover have "yields (reconcile_found e t0 cluster)
       [Write (UpdateCluster (cluster\<lparr>Meta := add_finalizer e (Meta cluster) finalizerName\<rparr>))]
       (Inr (if result = None then requeue_now else zero_result, result))" if "live" "\<not> marked"
  proof -
    have b: "being_deleted cluster = False" "contains_finalizer e (Meta cluster) finalizerName = False"
      using that by (simp_all add: live_def marked_def)
    show ?thesis
      unfolding reconcile_found_def b if_False simp_thms if_True result_def
      by (rule yields_then [OF w]) (cases r; simp add: yields_return)
  qed
  moreover have "yields (reconcile_found e t0 cluster)
       (if marked then [Write (UpdateCluster (cluster\<lparr>Meta := remove_finalizer e (Meta cluster) finalizerName\<rparr>))]
        else [])
       (Inr (zero_result, if marked then result else None))" if "\<not> live"
  proof -
    have b: "being_deleted cluster = True" using that by (simp add: live_def)
    show ?thesis
      unfolding reconcile_found_def b if_True marked_def result_def
      by (rule yields_then [OF deletion_yields [OF assms(1)]]) (rule yields_return)
  qed
  ultimately show ?thesis by auto
qed

lemma lifecycle_gates_witness:
  "yields (reconcile_found echo_env 0 bare_cluster)
     [Write (UpdateCluster (bare_cluster\<lparr>Meta := add_finalizer echo_env (Meta bare_cluster) finalizerName\<rparr>))]
     (Inr (requeue_now, None))"
proof -
  have w: "\<forall>c. always (write_cluster_op echo_env c) (Inr bare_cluster)"
    by (simp add: always_def echo_env_def)
  show ?thesis using lifecycle_gates [OF w, of bare_cluster 0] bare_not_deleted bare_unmarked by simp
qed

end
