(* ===== verification/Reconciler_Safety.thy ===== *)
theory Reconciler_Safety
  imports Reconciler_Laws
begin

text \<open>
  Safety of whole reconcile passes, whatever the outside answers: which pods queries are sent
  to, that every metric call is well-formed and about the cluster, what the cleanup of a
  deleted cluster removes, and the invariants of every state the operator can reach.
\<close>

section \<open>The cluster object keeps its identity\<close>

lemma updateSnapshotStatus_meta:
  "run_state (updateSnapshotStatus e cluster) w = ((err, c), w') \<Longrightarrow> Meta c = Meta cluster"
  by (auto simp: updateSnapshotStatus_def split: prod.splits sum.splits option.splits)

lemma run_validation_meta:
  "run_state (run_validation e cluster pods wi) w = ((err, c), w') \<Longrightarrow> Meta c = Meta cluster"
  by (auto simp: run_validation_def UpdateValidationStatus_def Let_def split: prod.splits option.splits)

lemma reconcileValidation_meta:
  "run_state (reconcileValidation e cluster pods wi) w = ((err, c), w') \<Longrightarrow> Meta c = Meta cluster"
  by (auto simp: reconcileValidation_def dest: run_validation_meta split: prod.splits option.splits if_splits)

lemma updateConditions_meta:
  "run_state (updateConditions e cluster wi a b c d) w = (c', w') \<Longrightarrow> Meta c' = Meta cluster"
  by (auto simp: updateConditions_def split: prod.splits)

section \<open>Queries\<close>

text \<open>
  Every query goes to the Memgraph container of a ready pod of the list, and a promotion only
  to the chosen write instance.
\<close>

definition member_call :: "string \<Rightarrow> Pod list \<Rightarrow> string \<Rightarrow> effect \<Rightarrow> bool" where
  "member_call ns pods wi eff =
     (case eff of
        Exec req \<Rightarrow>
          ExecNamespace req = ns \<and> ExecContainer req = ''memgraph'' \<and> ready_named (ExecPod req) pods \<and>
          (ExecStdin req = Some (role_query True @ [CHR 0x0A]) \<longrightarrow> ExecPod req = wi) \<and>
          (ExecStdin req = Some (role_query False @ [CHR 0x0A]) \<longrightarrow> ExecPod req \<noteq> wi)
      | _ \<Rightarrow> True)"

lemma queries_differ:
  "role_query True \<noteq> role_query False"
  "''SHOW REPLICATION ROLE;'' \<noteq> role_query b" "''SHOW REPLICAS;'' \<noteq> role_query b"
  "''RETURN 1;'' \<noteq> role_query b" "''SHOW STORAGE INFO;'' \<noteq> role_query b"
  "read_query \<noteq> role_query b" "cleanup_query \<noteq> role_query b"
  by (simp_all add: role_query_def read_query_def cleanup_query_def)

lemma drop_differs: "drop_query n \<noteq> role_query b"
  by (simp add: drop_query_def role_query_def)

lemma register_differs: "register_query n h m \<noteq> role_query b"
  by (simp add: register_query_def role_query_def)

lemma write_differs: "write_query v \<noteq> role_query b"
  by (simp add: write_query_def role_query_def)

lemmas query_distinct = queries_differ queries_differ(2-) [symmetric] drop_differs register_differs write_differs

lemma member_query:
  assumes "ready_named pod pods" and "q = role_query True \<longrightarrow> pod = wi" and "q = role_query False \<longrightarrow> pod \<noteq> wi"
  shows "member_call ns pods wi (Exec (query_request ns pod q))"
  using assms by (simp add: member_call_def query_request_def)

lemma follower_ready: "p \<in> set (followers pods wi) \<Longrightarrow> ready_named (PodName p) pods \<and> PodName p \<noteq> wi"
  by (auto simp: followers_def ready_named_def)

lemma config_member:
  assumes "ready_named wi pods" and "config_call cluster pods wi eff"
  shows "member_call (cluster_ns cluster) pods wi eff"
proof (cases eff)
  case (Exec req)
  have set_role: "''SET REPLICATION ROLE TO MAIN;'' = role_query True"
    "''SET REPLICATION ROLE TO REPLICA WITH PORT 10000;'' = role_query False"
    by (simp_all add: role_query_def)
  from assms(2) consider
      q where "main_query cluster pods wi q" "req = query_request (cluster_ns cluster) wi q"
    | p q where "p \<in> set (followers pods wi)" "follower_query q"
        "req = query_request (cluster_ns cluster) (PodName p) q"
    unfolding config_call_def Exec effect.case by blast
  then show ?thesis
  proof cases
    case 1
    then show ?thesis
      unfolding Exec main_query_def set_role
      using assms(1) query_distinct
      by (auto intro!: member_query)
  next
    case 2
    then show ?thesis
      unfolding Exec follower_query_def set_role
      using follower_ready [OF 2(1)] query_distinct
      by (auto intro!: member_query)
  qed
qed (simp_all add: member_call_def)

lemma probe_member:
  assumes "pod \<in> set pods"
  shows "state_io_rel (emits (member_call (cluster_ns cluster) pods wi)) (probe_replica e cluster wi v t0 ts pod m)"
  unfolding probe_replica_def Let_def
  by (intro rel_intros ExecuteQuery_emits member_query)
    (use assms query_distinct in \<open>auto simp: ready_named_def\<close>)

lemma lag_member:
  assumes "ready_named wi pods"
  shows "state_io_rel (emits (member_call (cluster_ns cluster) pods wi)) (testReplicationLag e cluster pods wi)"
  unfolding testReplicationLag_def Let_def
  by (intro rel_intros ExecuteQuery_emits member_query probe_member assms)
    (use query_distinct in auto)

lemma ping_member:
  assumes "pod \<in> set pods"
  shows "state_io_rel (emits (member_call (cluster_ns cluster) pods wi)) (ping_instance e cluster wi pod r)"
  unfolding ping_instance_def Let_def
  by (intro rel_intros member_query) (use assms query_distinct in \<open>auto simp: ready_named_def\<close>)

lemma events_member: "state_io_rel (emits (member_call ns pods wi)) (validation_events r)"
  unfolding validation_events_def by (intro rel_intros) (simp_all add: member_call_def)

lemma validation_member:
  assumes "wi \<noteq> [] \<Longrightarrow> ready_named wi pods"
  shows "state_io_rel (emits (member_call (cluster_ns cluster) pods wi)) (reconcileValidation e cluster pods wi)"
  unfolding reconcileValidation_def run_validation_def RunValidation_def UpdateValidationStatus_def Let_def
  by (intro rel_intros ping_member lag_member events_member assms) auto

lemma recorder_member:
  "state_io_rel (emits (metric_call cl ns)) m \<Longrightarrow> state_io_rel (emits (member_call ns' pods wi)) m"
  by (erule emits_mono) (auto simp: member_call_def dest: metric_calls_only)

lemma health_member:
  assumes "ready_named wi pods"
  shows "state_io_rel (emits (member_call (cluster_ns cluster) pods wi)) (CheckReplicationHealth e cluster wi)"
proof -
  have ev: "state_io_rel (emits (member_call ns pods wi)) (health_event r c st t thr)" for ns r c st t thr
    unfolding health_event_def by (cases c) (simp_all, (intro rel_intros; simp add: member_call_def)+)
  show ?thesis
    unfolding CheckReplicationHealth_def check_replica_def Let_def
    by (intro rel_intros ev recorder_member [OF recorder_metric_calls(17)]
        recorder_member [OF recorder_metric_calls(18)] member_query assms)
      (use query_distinct in \<open>auto simp: member_call_def\<close>)
qed

lemma ConfigureReplication_member:
  "ready_named wi pods \<Longrightarrow>
   state_io_rel (emits (member_call (cluster_ns cluster) pods wi)) (ConfigureReplication e cluster pods wi)"
  by (rule emits_mono [OF ConfigureReplication_calls]) (rule config_member)

lemma configure_member:
  assumes "wi \<noteq> [] \<Longrightarrow> ready_named wi pods"
  shows "state_io_rel (emits (member_call (cluster_ns cluster) pods wi)) (configure_step e cluster pods wi)"
  unfolding configure_step_def
  by (intro rel_intros ConfigureReplication_member health_member
      recorder_member [OF RecordReplicaSet_calls] assms)
    (auto simp: member_call_def)

lemma api_write_member: "state_io_rel (emits (member_call ns pods wi)) (api_write e c)"
  unfolding api_write_def by (intro rel_intros) (simp add: member_call_def)

lemma services_member:
  "state_io_rel (emits (member_call ns pods wi)) (reconcileWriteService e cluster wi')"
  "state_io_rel (emits (member_call ns pods wi)) (reconcileReadService e cluster)"
  unfolding reconcileWriteService_def reconcileReadService_def ensureService_def Let_def
  by (intro rel_intros api_write_member; simp add: member_call_def)+

lemma snapshot_member:
  "state_io_rel (emits (member_call ns pods wi)) (reconcileSnapshotCronJob e cluster)"
  "state_io_rel (emits (member_call ns pods wi)) (updateSnapshotStatus e cluster)"
  unfolding reconcileSnapshotCronJob_def deleteSnapshotCronJob_def updateSnapshotStatus_def Let_def
  by (intro rel_intros api_write_member; simp add: member_call_def)+

lemma storage_member:
  "state_io_rel (emits (member_call (cluster_ns cluster) pods wi)) (collectStorageMetrics e cluster pods wi)"
  unfolding collectStorageMetrics_def collect_pod_def Let_def
  by (intro rel_intros recorder_member [OF recorder_metric_calls(14)]
      recorder_member [OF recorder_metric_calls(6)] recorder_member [OF recorder_metric_calls(5)] member_query)
    (use query_distinct in \<open>auto simp: ready_named_def\<close>)

lemma status_member:
  "state_io_rel (emits (member_call ns pods wi)) (updateStatus e cluster pods wi' r h)"
  unfolding updateStatus_def updateConditions_def write_status_def api_write_cluster_def
  by (intro rel_intros) (simp add: member_call_def)

text \<open>Sequencing after an operation that returns the object with its identity unchanged.\<close>

lemma bind_same_meta:
  assumes "state_io_rel (emits P) m"
    and "\<And>w err c w'. run_state m w = ((err, c), w') \<Longrightarrow> Meta c = Meta cluster"
    and "\<And>err c. Meta c = Meta cluster \<Longrightarrow> state_io_rel (emits P) (f err c)"
  shows "state_io_rel (emits P) (do { (err, c) \<leftarrow> m; f err c })"
proof (rule emits.bind_rel_run [OF assms(1)])
  fix x w w' assume "run_state m w = (x, w')"
  then show "state_io_rel (emits P) (case x of (err, c) \<Rightarrow> f err c)"
    using assms(2,3) by (cases x) auto
qed

lemma finish_member:
  assumes "wi \<noteq> [] \<Longrightarrow> ready_named wi pods"
  shows "state_io_rel (emits (member_call (cluster_ns cluster) pods wi))
    (finish_resources e cluster pods wi r h er)"
proof -
  let ?R = "emits (member_call (cluster_ns cluster) pods wi)"
  have v: "state_io_rel ?R (if Phase (Status c) = ClusterPhaseRunning then reconcileValidation e c pods wi
      else State_Monad.return (None, c))" if "Meta c = Meta cluster" for c
    by (rule if_rel, rule validation_member [OF assms, where cluster = c, unfolded that])
      (assumption, rule emits.return_rel)
  have vm: "Meta c' = Meta cluster"
    if "run_state (if Phase (Status c) = ClusterPhaseRunning then reconcileValidation e c pods wi
      else State_Monad.return (None, c)) w = ((err, c'), w')" "Meta c = Meta cluster" for c err c' w w'
    using that by (auto dest: reconcileValidation_meta split: if_splits)
  have s: "state_io_rel ?R (collectStorageMetrics e c pods wi)" if "Meta c = Meta cluster" for c
    by (rule storage_member [where cluster = c, unfolded that])
  show ?thesis
    unfolding finish_resources_def
    apply (rule emits.bind_rel [OF snapshot_member(1)])
    apply (rule bind_same_meta [OF snapshot_member(2)], erule updateSnapshotStatus_meta)
    apply (rule bind_same_meta [OF v], assumption, erule vm, assumption)
    apply (rule emits.bind_rel [OF s], assumption)
    apply (intro rel_intros status_member)
    done
qed

text \<open>C4: Who is talked to. In a reconcile pass over a list of pods every query, of whatever part of
  the operator, is sent to the Memgraph container of a ready pod of that list in the
  namespace of the cluster; only the chosen write instance is ever promoted to MAIN, and it
  is never made a replica.\<close>

theorem queries_safe:
  "list_all (member_call (cluster_ns cluster) pods (determineWriteInstance cluster pods))
     (calls (reconcile_members e cluster pods) w)"
proof -
  let ?wi = "determineWriteInstance cluster pods"
  have r: "?wi \<noteq> [] \<Longrightarrow> ready_named ?wi pods"
    by (auto simp: determineWriteInstance_def ready_named_def dest: find_SomeD split: option.splits if_splits)
  have "state_io_rel (emits (member_call (cluster_ns cluster) pods ?wi)) (reconcile_members e cluster pods)"
    unfolding reconcile_members_def Let_def
    by (intro rel_intros services_member configure_member finish_member r)
  then show ?thesis unfolding list_all_iff by (blast intro: calls_emits)
qed

section \<open>Metrics\<close>

definition metrics_ok :: "string \<Rightarrow> string \<Rightarrow> effect \<Rightarrow> bool" where
  "metrics_ok name ns eff = (case eff of Metric m \<Rightarrow> call_ok name ns m | _ \<Rightarrow> True)"

text \<open>
  What the API server keeps: an object read under a name has that name, and the answer to a
  write is the object written, so name and namespace do not change.
\<close>

definition same_id :: "MemgraphCluster \<Rightarrow> MemgraphCluster \<Rightarrow> bool" where
  "same_id c c' \<longleftrightarrow> cluster_name c' = cluster_name c \<and> cluster_ns c' = cluster_ns c"

definition names_stable :: "'s env \<Rightarrow> bool" where
  "names_stable e \<longleftrightarrow>
     (\<forall>name ns s c. fst (run_state (get_cluster_op e name ns) s) = Inr c \<longrightarrow>
        cluster_name c = name \<and> cluster_ns c = ns) \<and>
     (\<forall>c s c'. fst (run_state (write_cluster_op e (UpdateClusterStatus c)) s) = Inr c' \<longrightarrow> same_id c c')"

lemma same_id_refl [simp]: "same_id c c"
  by (simp add: same_id_def)

lemma same_id_meta: "Meta c' = Meta c \<Longrightarrow> same_id c c'"
  by (simp add: same_id_def)

lemma updateStatus_id:
  assumes "names_stable e" and "run_state (updateStatus e cluster pods wi r h) w = ((err, c), w')"
  shows "same_id cluster c"
proof -
  have w: "same_id c1 c2" if "run_state (write_status e c1) w1 = ((er, c2), w2)" for c1 c2 w1 w2 er
    using that assms(1)
    by (auto simp: write_status_def api_write_cluster_def run_external names_stable_def
        split: prod.splits sum.splits)
  from assms(2) obtain c1 w1 where
      "run_state (updateConditions e (status_update cluster pods wi r) wi (ready_count pods)
         (desired_replicas cluster) r h) w = (c1, w1)" "run_state (write_status e c1) w1 = ((err, c), w')"
    by (auto simp: updateStatus_def split: prod.splits)
  from updateConditions_meta [OF this(1)] w [OF this(2)] show ?thesis
    by (simp add: same_id_def status_update_def)
qed

lemma finish_id:
  assumes "names_stable e" and "run_state (finish_resources e cluster pods wi r h er) w = (Inr (ro, c), w')"
  shows "same_id cluster c"
proof -
  from assms(2) obtain err c1 c2 w1 w2 w3 w4 err2 err3 where
      s: "run_state (updateSnapshotStatus e cluster) w1 = ((err, c1), w2)" and
      v: "run_state (if Phase (Status c1) = ClusterPhaseRunning then reconcileValidation e c1 pods wi
        else State_Monad.return (None, c1)) w2 = ((err2, c2), w3)" and
      u: "run_state (updateStatus e c2 pods wi r h) w4 = ((err3, c), w')"
    by (auto simp: finish_resources_def failed_def split: prod.splits option.splits)
  have "Meta c1 = Meta cluster" by (rule updateSnapshotStatus_meta [OF s])
  moreover have "Meta c2 = Meta c1"
    using v by (auto dest: reconcileValidation_meta split: if_splits)
  ultimately show ?thesis using updateStatus_id [OF assms(1) u] by (simp add: same_id_def)
qed

lemma reconcileResources_id:
  assumes "names_stable e" and "run_state (reconcileResources e cluster) w = (Inr (ro, c), w')"
  shows "same_id cluster c"
  using assms(2)
  by (auto simp: reconcileResources_def reconcile_members_def failed_def Let_def
      dest: finish_id [OF assms(1)] split: prod.splits option.splits sum.splits)

lemma recorder_ok:
  "state_io_rel (emits (metric_call cl ns)) m \<Longrightarrow> state_io_rel (emits (metrics_ok cl ns)) m"
  by (erule emits_mono) (auto simp: metrics_ok_def metric_call_def split: effect.splits)

lemmas recorders_ok [rel_intros] = recorder_metric_calls [THEN recorder_ok] RecordReplicaSet_calls [THEN recorder_ok]

lemma other_ok [simp]:
  "metrics_ok cl ns (Exec r)" "metrics_ok cl ns (Event t rs msg)" "metrics_ok cl ns (Write c)"
  by (simp_all add: metrics_ok_def)

lemma ConfigureReplication_ok [rel_intros]:
  "state_io_rel (emits (metrics_ok (cluster_name cluster) (cluster_ns cluster)))
     (ConfigureReplication e cluster pods wi)"
  by (rule emits_mono [OF ConfigureReplication_calls [where pods = pods]])
    (auto simp: metrics_ok_def config_call_def vector_registered vector_arity split: effect.splits)

lemma CheckReplicationHealth_ok [rel_intros]:
  "state_io_rel (emits (metrics_ok (cluster_name cluster) (cluster_ns cluster)))
     (CheckReplicationHealth e cluster wi)"
proof -
  have "state_io_rel (emits (metrics_ok cl ns)) (health_event r c st t thr)" for cl ns r c st t thr
    unfolding health_event_def by (cases c) (simp_all, (intro rel_intros; simp)+)
  then show ?thesis
    unfolding CheckReplicationHealth_def check_replica_def Let_def by (intro rel_intros) simp_all
qed

lemma reconcileValidation_ok [rel_intros]:
  "state_io_rel (emits (metrics_ok cl ns)) (reconcileValidation e cluster pods wi)"
  by (rule emits_mono [OF reconcileValidation_calls [where pods = pods]])
    (auto simp: metrics_ok_def validation_call_def split: effect.splits)

lemma writes_ok [rel_intros]:
  "state_io_rel (emits (metrics_ok cl ns)) (api_write e c)"
  "state_io_rel (emits (metrics_ok cl ns)) (api_write_cluster e c)"
  unfolding api_write_def api_write_cluster_def by (intro rel_intros; simp)+

lemma services_ok [rel_intros]:
  "state_io_rel (emits (metrics_ok cl ns)) (reconcileHeadlessService e cluster)"
  "state_io_rel (emits (metrics_ok cl ns)) (reconcileReadService e cluster)"
  "state_io_rel (emits (metrics_ok cl ns)) (reconcileWriteService e cluster wi)"
  unfolding reconcileHeadlessService_def reconcileReadService_def reconcileWriteService_def
    ensureService_def Let_def
  by (intro rel_intros; simp)+

lemma update_statefulset_ok [rel_intros]:
  "state_io_rel (emits (metrics_ok cl ns)) (update_statefulset e existing desired)"
  unfolding update_statefulset_def scale_step_def image_step_def
  by (intro rel_intros) simp_all

lemma reconcileStatefulSet_ok [rel_intros]:
  "state_io_rel (emits (metrics_ok cl ns)) (reconcileStatefulSet e cluster)"
  unfolding reconcileStatefulSet_def Let_def by (intro rel_intros) simp

lemma objects_ok [rel_intros]:
  "state_io_rel (emits (metrics_ok cl ns)) (reconcileSnapshotCronJob e cluster)"
  "state_io_rel (emits (metrics_ok cl ns)) (updateSnapshotStatus e cluster)"
  "state_io_rel (emits (metrics_ok cl ns)) (getClusterPods e cluster)"
  "state_io_rel (emits (metrics_ok cl ns)) (updateStatus e cluster pods wi r h)"
  "state_io_rel (emits (metrics_ok cl ns)) (emitPhaseTransitionEvents cluster phase)"
  unfolding reconcileSnapshotCronJob_def deleteSnapshotCronJob_def updateSnapshotStatus_def
    getClusterPods_def updateStatus_def updateConditions_def write_status_def
    emitPhaseTransitionEvents_def Let_def
  by (intro rel_intros; simp)+

lemma collectStorageMetrics_ok:
  "state_io_rel (emits (metrics_ok (cluster_name cluster) (cluster_ns cluster)))
     (collectStorageMetrics e cluster pods wi)"
  unfolding collectStorageMetrics_def collect_pod_def Let_def by (intro rel_intros) simp_all

lemma finish_ok:
  "state_io_rel (emits (metrics_ok (cluster_name cluster) (cluster_ns cluster)))
     (finish_resources e cluster pods wi r h er)"
proof -
  let ?R = "emits (metrics_ok (cluster_name cluster) (cluster_ns cluster))"
  have v: "state_io_rel ?R (if Phase (Status c) = ClusterPhaseRunning then reconcileValidation e c pods wi
      else State_Monad.return (None, c))" for c
    by (intro rel_intros)
  have vm: "Meta c' = Meta cluster"
    if "run_state (if Phase (Status c) = ClusterPhaseRunning then reconcileValidation e c pods wi
      else State_Monad.return (None, c)) w = ((err, c'), w')" "Meta c = Meta cluster" for c err c' w w'
    using that by (auto dest: reconcileValidation_meta split: if_splits)
  have s: "state_io_rel ?R (collectStorageMetrics e c pods wi)" if "Meta c = Meta cluster" for c
    by (rule collectStorageMetrics_ok [where cluster = c, unfolded that])
  show ?thesis
    unfolding finish_resources_def
    apply (rule emits.bind_rel [OF objects_ok(1)])
    apply (rule bind_same_meta [OF objects_ok(2)], erule updateSnapshotStatus_meta)
    apply (rule bind_same_meta [OF v], erule vm, assumption)
    apply (rule emits.bind_rel [OF s], assumption)
    apply (intro rel_intros)
    done
qed

lemma reconcileResources_ok:
  "state_io_rel (emits (metrics_ok (cluster_name cluster) (cluster_ns cluster))) (reconcileResources e cluster)"
  unfolding reconcileResources_def reconcile_members_def configure_step_def Let_def
  by (intro rel_intros finish_ok) simp_all

lemma record_success_ok:
  "state_io_rel (emits (metrics_ok (cluster_name cluster) (cluster_ns cluster))) (record_success cluster phase)"
  unfolding record_success_def record_validation_def by (intro rel_intros)

lemma reconcile_cluster_ok:
  assumes "names_stable e"
  shows "state_io_rel (emits (metrics_ok (cluster_name cluster) (cluster_ns cluster)))
    (reconcile_cluster e t0 cluster)"
  unfolding reconcile_cluster_def
proof (rule emits.bind_rel_run [OF reconcileResources_ok])
  let ?R = "emits (metrics_ok (cluster_name cluster) (cluster_ns cluster))"
  fix x w w' assume run: "run_state (reconcileResources e cluster) w = (x, w')"
  show "state_io_rel ?R (case x of
       Inl p \<Rightarrow> State_Monad.return (Inl p)
     | Inr ((result, err), cluster1) \<Rightarrow> do {
         t \<leftarrow> now e;
         RecordReconcileDuration (cluster_name cluster1) (cluster_ns cluster1) (Seconds (time_sub t t0));
         case err of
           Some er \<Rightarrow> do {
             event EventWarning EventReasonReconcileError (err_msg er);
             RecordReconcileOperation (cluster_name cluster1) (cluster_ns cluster1) ''error'';
             State_Monad.return (Inr (result, Some er))
           }
         | None \<Rightarrow> do {
             record_success cluster1 (Phase (Status cluster));
             State_Monad.return (Inr (result, None))
           }
       })"
  proof (cases x)
    case (Inr y)
    obtain ro c where y: "y = (ro, c)" by (cases y)
    then have "cluster_name cluster = cluster_name c" "cluster_ns cluster = cluster_ns c"
      using reconcileResources_id [OF assms] run Inr by (auto simp: same_id_def)
    then show ?thesis
      unfolding Inr y sum.case prod.case by (simp, intro rel_intros record_success_ok) simp_all
  qed (simp add: emits.return_rel)
qed

lemma Reconcile_ok:
  assumes "names_stable e"
  shows "state_io_rel (emits (metrics_ok name ns)) (Reconcile e name ns)"
proof -
  have found: "state_io_rel (emits (metrics_ok (cluster_name c) (cluster_ns c))) (reconcile_found e t0 c)" for t0 c
    unfolding reconcile_found_def handleDeletion_def write_status_def
    by (intro rel_intros reconcile_cluster_ok assms) simp_all
  have del: "state_io_rel (emits (metrics_ok name ns)) (DeleteClusterState name ns)"
    unfolding DeleteClusterState_def by (intro rel_intros)
  have get: "cluster_name c = name \<and> cluster_ns c = ns"
    if "run_state (external (get_cluster_op e name ns)) w = (Inr c, w')" for c and w w' :: "'a world"
    using that assms by (auto simp: run_external names_stable_def)
  have after: "state_io_rel (emits (metrics_ok name ns)) (case r of
       Inl er \<Rightarrow>
         if IsNotFound er then do {
           rm \<leftarrow> gets replicationManager;
           (case rm of None \<Rightarrow> State_Monad.return () | Some _ \<Rightarrow> DeleteClusterState name ns);
           DeleteClusterMetrics name ns;
           State_Monad.return (Inr (zero_result, None))
         }
         else do {
           RecordReconcileOperation name ns ''error'';
           State_Monad.return (Inr (zero_result, Some er))
         }
     | Inr cluster \<Rightarrow> reconcile_found e t0 cluster)"
    if "run_state (external (get_cluster_op e name ns)) w = (r, w')" for r t0 and w w' :: "'a world"
  proof (cases r)
    case (Inl er)
    then show ?thesis by (simp, intro conjI impI rel_intros del)
  next
    case (Inr c)
    with that get have "cluster_name c = name" "cluster_ns c = ns" by blast+
    then show ?thesis using found [of c t0] Inr by simp
  qed
  show ?thesis
    unfolding Reconcile_def
    by (intro emits.bind_rel emits_now emits_modify emits.bind_rel_run [OF emits_external] after) simp_all
qed

text \<open>C29: No metric call of the operator can panic or leak. In a whole reconcile of a cluster every
  call of the Prometheus library is on a registered vector, passes as many label values as
  the vector has labels (a wrong number would panic), and carries the name and namespace of
  that cluster, so no pass touches the series of another one.\<close>

theorem metrics_wellformed:
  assumes "names_stable e"
  shows "list_all (metrics_ok name ns) (calls (Reconcile e name ns) w)"
  unfolding list_all_iff by (blast intro: calls_emits [OF Reconcile_ok [OF assms]])

lemma metrics_wellformed_witness:
  "list_all (metrics_ok ''mg'' ''db'') (calls (Reconcile (quiet_env :: unit env) ''mg'' ''db'') (quiet_world ()))"
  by (rule metrics_wellformed) (auto simp: names_stable_def quiet_env_def)

section \<open>Cleanup of a deleted cluster\<close>

text \<open>The vectors that keep their series when a cluster is deleted: counters, the histogram, and
  all storage gauges.\<close>

definition kept_vectors :: "metric list" where
  "kept_vectors = [reconcileOperationsTotal, reconcileDurationHistogram, snapshotOperationsTotal,
     failoverEventsTotal, storageVertexCountGauge, storageEdgeCountGauge, storageAverageDegreeGauge,
     storageMemoryResGauge, storagePeakMemoryResGauge, storageDiskUsageGauge, storageMemoryTrackedGauge,
     storageAllocationLimitGauge, storageUnreleasedDeltaObjectsGauge]"

lemma vectors_partition:
  "set registered_metrics = set cluster_vectors \<union> set swept_vectors \<union> set kept_vectors"
  by (simp add: registered_metrics_def cluster_vectors_def swept_vectors_def kept_vectors_def) blast

lemma kept_disjoint: "set kept_vectors \<inter> (set cluster_vectors \<union> set swept_vectors) = {}"
  by (simp add: cluster_vectors_def swept_vectors_def kept_vectors_def metric_vectors storage_vectors)

lemma DeleteClusterMetrics_yields:
  "yields (DeleteClusterMetrics name ns)
     (map (\<lambda>m. Metric (DeleteLabelValues m [name, ns])) cluster_vectors @
      map (\<lambda>m. Metric (DeletePartialMatch m [(''cluster'', name), (''namespace'', ns)])) swept_vectors) ()"
proof -
  have "yields (for_each (delete_labels [name, ns]) ms) (map (\<lambda>m. Metric (DeleteLabelValues m [name, ns])) ms) ()"
    for ms
    using yields_for_each [of ms "delete_labels [name, ns]" "\<lambda>m. [Metric (DeleteLabelValues m [name, ns])]"]
    by (simp add: delete_labels_def yields_metric)
  moreover have "yields (for_each (delete_partial name ns) ms)
      (map (\<lambda>m. Metric (DeletePartialMatch m [(''cluster'', name), (''namespace'', ns)])) ms) ()" for ms
    using yields_for_each [of ms "delete_partial name ns"
        "\<lambda>m. [Metric (DeletePartialMatch m [(''cluster'', name), (''namespace'', ns)])]"]
    by (simp add: delete_partial_def yields_metric)
  ultimately show ?thesis unfolding DeleteClusterMetrics_def by (rule yields_bind)
qed

definition sweep :: "string \<Rightarrow> string \<Rightarrow> effect list" where
  "sweep name ns =
     map (\<lambda>m. Metric (DeleteLabelValues m [name, ns])) cluster_vectors @
     map (\<lambda>m. Metric (DeletePartialMatch m [(''cluster'', name), (''namespace'', ns)])) swept_vectors"

lemma sweep_calls: "list_all (metric_call name ns) (sweep name ns)"
proof -
  have "list_all (metric_call name ns) (calls (DeleteClusterMetrics name ns) w)" for w :: "'s world"
    unfolding list_all_iff by (blast intro: calls_emits [OF recorder_metric_calls(16)])
  then show ?thesis
    using yields_calls [OF DeleteClusterMetrics_yields] unfolding sweep_def by metis
qed

lemma sweep_covers:
  assumes "\<forall>d \<in> set drops. \<exists>r. d = Metric (DeleteLabelValues replicaDataChannelUpGauge [name, ns, r]) \<or>
      d = Metric (DeleteLabelValues replicaBehindSecondsGauge [name, ns, r])"
    and "m \<in> set registered_metrics"
  shows "((\<exists>ls. Metric (DeleteLabelValues m ls) \<in> set (drops @ sweep name ns)) \<or>
     (\<exists>ls. Metric (DeletePartialMatch m ls) \<in> set (drops @ sweep name ns))) = (m \<notin> set kept_vectors)"
proof -
  have "replicaDataChannelUpGauge \<in> set swept_vectors" "replicaBehindSecondsGauge \<in> set swept_vectors"
    by (simp_all add: swept_vectors_def)
  then have "(\<exists>ls. Metric (DeleteLabelValues m ls) \<in> set (drops @ sweep name ns)) \<or>
      (\<exists>ls. Metric (DeletePartialMatch m ls) \<in> set (drops @ sweep name ns)) \<longleftrightarrow>
      m \<in> set cluster_vectors \<or> m \<in> set swept_vectors"
    using assms(1) by (fastforce simp: sweep_def)
  then show ?thesis using assms(2) vectors_partition kept_disjoint by blast
qed

definition forget_cluster :: "string \<Rightarrow> string \<Rightarrow> ('s, go_panic + reconcile_result \<times> go_error option) op" where
  "forget_cluster name ns = do {
     rm \<leftarrow> gets replicationManager;
     (case rm of None \<Rightarrow> State_Monad.return () | Some _ \<Rightarrow> DeleteClusterState name ns);
     DeleteClusterMetrics name ns;
     State_Monad.return (Inr (zero_result, None))
   }"

lemma forget_cluster_run:
  "\<exists>w'. run_state (forget_cluster name ns) w = (Inr (zero_result, None), w') \<and>
     lookupState (rm_states (manager w')) (cluster_key ns name) n = None \<and>
     (k = cluster_key ns name \<or> rm_states (manager w') k = rm_states (manager w) k) \<and>
     (\<exists>drops. trace w' = trace w @ drops @ sweep name ns \<and>
      (\<forall>d \<in> set drops. \<exists>r. d = Metric (DeleteLabelValues replicaDataChannelUpGauge [name, ns, r]) \<or>
        d = Metric (DeleteLabelValues replicaBehindSecondsGauge [name, ns, r])))"
proof -
  define m :: "('a, unit) op" where "m = (case replicationManager w of
      None \<Rightarrow> State_Monad.return () | Some _ \<Rightarrow> DeleteClusterState name ns)"
  obtain w2 where m: "run_state m w = ((), w2)" by (cases "run_state m w") auto
  obtain w3 where d: "run_state (DeleteClusterMetrics name ns) w2 = ((), w3)"
    by (cases "run_state (DeleteClusterMetrics name ns) w2") auto
  have d3: "trace w3 = trace w2 @ sweep name ns" "manager w3 = manager w2"
    using yieldsD [OF DeleteClusterMetrics_yields, of name ns w2] d
      manager_process [OF keepsD [OF recorder_process(16), of name ns w2]]
    by (simp_all add: sweep_def)
  have "lookupState (rm_states (manager w2)) (cluster_key ns name) n = None \<and>
     (k = cluster_key ns name \<or> rm_states (manager w2) k = rm_states (manager w) k) \<and>
     (\<exists>drops. trace w2 = trace w @ drops \<and>
      (\<forall>d \<in> set drops. \<exists>r. d = Metric (DeleteLabelValues replicaDataChannelUpGauge [name, ns, r]) \<or>
        d = Metric (DeleteLabelValues replicaBehindSecondsGauge [name, ns, r])))"
  proof (cases "replicationManager w")
    case None
    then have "w2 = w" using m by (simp add: m_def)
    then show ?thesis
      by (simp add: None manager_def NewReplicationManager_def lookupState_def replicas_of_def)
  next
    case (Some rm)
    then have r: "run_state (DeleteClusterState name ns) w = ((), w2)" using m by (simp add: m_def)
    have "state_io_rel (emits (\<lambda>_. True)) (DeleteClusterState name ns)"
      unfolding DeleteClusterState_def
      by (intro rel_intros recorder_metric_calls(19) [THEN emits_mono]) simp
    from calls_appends [OF this, of w]
    have "trace w2 = trace w @ calls (DeleteClusterState name ns) w" by (simp add: r)
    then show ?thesis
      using DeleteClusterState_effect [of name ns w n k]
      by (auto simp: Let_def r split: if_splits)
  qed
  then show ?thesis
    unfolding forget_cluster_def using m d d3
    by (auto simp: m_def intro!: exI [of _ w3])
qed

text \<open>C30: When the object is gone the operator forgets the cluster: the timers of its replicas are
  dropped and those of other clusters kept, no query and no API write is made, and for every
  registered vector the series of the cluster are deleted, except for the counters, the
  reconcile histogram and the nine storage gauges, which are left behind.\<close>

theorem missing_cluster_cleanup:
  assumes "always (get_cluster_op e name ns) (Inl er)" and "IsNotFound er" and "always (now_op e) t"
  shows "(let tr = calls (Reconcile e name ns) w; w' = snd (run_state (Reconcile e name ns) w) in
     fst (run_state (Reconcile e name ns) w) = Inr (zero_result, None) \<and>
     lookupState (rm_states (manager w')) (cluster_key ns name) n = None \<and>
     (k = cluster_key ns name \<or> rm_states (manager w') k = rm_states (manager w) k) \<and>
     list_all (metric_call name ns) tr \<and>
     (m \<in> set registered_metrics \<longrightarrow>
        ((\<exists>ls. Metric (DeleteLabelValues m ls) \<in> set tr) \<or>
         (\<exists>ls. Metric (DeletePartialMatch m ls) \<in> set tr) \<longleftrightarrow> m \<notin> set kept_vectors)))"
proof -
  define w1 where "w1 = w\<lparr>metrics_set := True, ext := snd (run_state (get_cluster_op e name ns)
      (snd (run_state (now_op e) (ext w))))\<rparr>"
  have w1: "manager w1 = manager w" "trace w1 = trace w" by (simp_all add: w1_def manager_def)
  have run: "run_state (Reconcile e name ns) w = run_state (forget_cluster name ns) w1"
    using assms
    by (simp add: Reconcile_def now_def run_external always_def forget_cluster_def w1_def)
  obtain w' where f: "run_state (forget_cluster name ns) w1 = (Inr (zero_result, None), w')"
    and st: "lookupState (rm_states (manager w')) (cluster_key ns name) n = None"
      "k = cluster_key ns name \<or> rm_states (manager w') k = rm_states (manager w1) k"
    and tr: "\<exists>drops. trace w' = trace w1 @ drops @ sweep name ns \<and>
      (\<forall>d \<in> set drops. \<exists>r. d = Metric (DeleteLabelValues replicaDataChannelUpGauge [name, ns, r]) \<or>
        d = Metric (DeleteLabelValues replicaBehindSecondsGauge [name, ns, r]))"
    using forget_cluster_run [of name ns w1 n k] by blast
  from tr obtain drops where c: "calls (Reconcile e name ns) w = drops @ sweep name ns"
    and d: "\<forall>d \<in> set drops. \<exists>r. d = Metric (DeleteLabelValues replicaDataChannelUpGauge [name, ns, r]) \<or>
        d = Metric (DeleteLabelValues replicaBehindSecondsGauge [name, ns, r])"
    by (auto simp: calls_def run f w1)
  have "list_all (metric_call name ns) (drops @ sweep name ns)"
    using d sweep_calls [of name ns] by (auto simp: list_all_iff vector_registered vector_arity)
  moreover have "((\<exists>ls. Metric (DeleteLabelValues m ls) \<in> set (drops @ sweep name ns)) \<or>
      (\<exists>ls. Metric (DeletePartialMatch m ls) \<in> set (drops @ sweep name ns))) = (m \<notin> set kept_vectors)"
    if "m \<in> set registered_metrics"
    using sweep_covers [OF d that] .
  ultimately show ?thesis
    unfolding Let_def c using st by (simp add: run f w1)
qed

lemma missing_cluster_cleanup_witness:
  "fst (run_state (Reconcile (quiet_env :: unit env) ''mg'' ''db'') (quiet_world ())) = Inr (zero_result, None) \<and>
   \<not> (\<exists>ls. Metric (DeletePartialMatch storageVertexCountGauge ls) \<in>
        set (calls (Reconcile (quiet_env :: unit env) ''mg'' ''db'') (quiet_world ())))"
proof -
  have "always (get_cluster_op (quiet_env :: unit env) ''mg'' ''db'') (Inl (NotFound ''cluster''))"
    "always (now_op (quiet_env :: unit env)) 1"
    by (simp_all add: quiet_env_def always_def)
  note c = missing_cluster_cleanup [OF this(1) _ this(2), where m = storageVertexCountGauge and
      w = "quiet_world ()" and n = "[]" and k = "cluster_key ''db'' ''mg''"]
  have "storageVertexCountGauge \<in> set kept_vectors" by (simp add: kept_vectors_def)
  then show ?thesis using c by (simp add: Let_def vector_registered)
qed

section \<open>Reachable states\<close>

text \<open>
  The operator starts without a manager; it runs reconcile passes, one at a time, for any
  cluster, and the outside world changes in between.
\<close>

inductive reachable :: "'s env \<Rightarrow> 's world \<Rightarrow> bool" for e where
  start: "replicationManager w = None \<Longrightarrow> reachable e w"
| pass: "reachable e w \<Longrightarrow> reachable e (snd (run_state (Reconcile e name ns) w))"
| outside: "reachable e w \<Longrightarrow> reachable e (w\<lparr>ext := s\<rparr>)"

definition manager_ok :: "'s world \<Rightarrow> bool" where
  "manager_ok w \<longleftrightarrow>
     (case replicationManager w of
        None \<Rightarrow> True
      | Some rm \<Rightarrow> rm_client rm \<and> rm_metrics rm \<and> store_ok (rm_states rm))"

text \<open>During a pass the metrics recorder exists; the manager it creates is wired to it.\<close>

definition pass_ok :: "'s world \<Rightarrow> bool" where
  "pass_ok w \<longleftrightarrow> metrics_set w \<and> manager_ok w"

definition pass_managed :: "'s world \<Rightarrow> bool" where
  "pass_managed w \<longleftrightarrow> pass_ok w \<and> replicationManager w \<noteq> None"

lemma pass_ok_process: "process w' = process w \<Longrightarrow> pass_ok w \<Longrightarrow> pass_ok w'"
  by (simp add: process_def pass_ok_def manager_ok_def)

lemma pass_managed_process: "process w' = process w \<Longrightarrow> pass_managed w \<Longrightarrow> pass_managed w'"
  by (simp add: process_def pass_managed_def pass_ok_def manager_ok_def)

lemma keeps_pass: "state_io_rel (keeps process) m \<Longrightarrow> state_io_rel (preserves pass_ok) m"
  by (rule preserves_keeps [OF _ pass_ok_process])

lemma keeps_managed: "state_io_rel (keeps process) m \<Longrightarrow> ensures pass_managed m (\<lambda>_. pass_managed)"
  unfolding ensures_preserves by (rule preserves_keeps [OF _ pass_managed_process])

lemma process_rules [rel_intros]:
  "state_io_rel (keeps process) (api_write e c)"
  "state_io_rel (keeps process) (api_write_cluster e c')"
  "state_io_rel (keeps process) (reconcileHeadlessService e cluster)"
  "state_io_rel (keeps process) (reconcileReadService e cluster)"
  "state_io_rel (keeps process) (reconcileWriteService e cluster wi)"
  "state_io_rel (keeps process) (update_statefulset e existing desired)"
  "state_io_rel (keeps process) (reconcileStatefulSet e cluster)"
  "state_io_rel (keeps process) (reconcileSnapshotCronJob e cluster)"
  "state_io_rel (keeps process) (updateSnapshotStatus e cluster)"
  "state_io_rel (keeps process) (getClusterPods e cluster)"
  "state_io_rel (keeps process) (updateStatus e cluster pods wi r h)"
  "state_io_rel (keeps process) (emitPhaseTransitionEvents cluster phase)"
  "state_io_rel (keeps process) (collectStorageMetrics e cluster pods wi)"
  "state_io_rel (keeps process) (RunValidation e cluster pods wi)"
  "state_io_rel (keeps process) (UpdateValidationStatus e cluster res)"
  "state_io_rel (keeps process) (validation_events res)"
  "state_io_rel (keeps process) (record_success cluster phase)"
  "state_io_rel (keeps process) (handleDeletion e cluster)"
  "state_io_rel (keeps process) (write_status e cluster)"
  unfolding api_write_def api_write_cluster_def reconcileHeadlessService_def reconcileReadService_def
    reconcileWriteService_def ensureService_def update_statefulset_def scale_step_def image_step_def
    reconcileStatefulSet_def reconcileSnapshotCronJob_def deleteSnapshotCronJob_def
    updateSnapshotStatus_def getClusterPods_def updateStatus_def updateConditions_def write_status_def
    emitPhaseTransitionEvents_def collectStorageMetrics_def collect_pod_def RunValidation_def
    ping_instance_def testReplicationLag_def probe_replica_def UpdateValidationStatus_def
    validation_events_def record_success_def record_validation_def handleDeletion_def Let_def
  by (intro rel_intros ExecuteQuery_process)+

lemma set_states_managed:
  "store_ok s \<Longrightarrow> ensures pass_managed (set_states s) (\<lambda>_. pass_managed)"
  by (auto simp: ensures_def run_set_states pass_managed_def pass_ok_def manager_ok_def manager_def)

text \<open>Reading the store in a managed state yields a well-formed one.\<close>

lemma read_store:
  assumes "\<And>s. store_ok s \<Longrightarrow> ensures pass_managed (f s) Q"
  shows "ensures pass_managed (do { s \<leftarrow> gets (\<lambda>w. rm_states (manager w)); f s }) Q"
proof (rule ensures_bind [where Q = "\<lambda>s w. store_ok s \<and> pass_managed w"])
  show "ensures pass_managed (gets (\<lambda>w. rm_states (manager w))) (\<lambda>s w. store_ok s \<and> pass_managed w)"
    by (auto simp: ensures_def pass_managed_def pass_ok_def manager_ok_def manager_def)
  show "ensures (\<lambda>w. store_ok s \<and> pass_managed w) (f s) Q" for s
    using assms [of s] by (auto simp: ensures_def)
qed

lemma check_replica_managed:
  "ensures pass_managed (check_replica cluster t thr r h) (\<lambda>_. pass_managed)"
  unfolding check_replica_def Let_def
proof (rule read_store)
  fix s assume s: "store_ok s"
  let ?k = "cluster_key (cluster_ns cluster) (cluster_name cluster)"
  obtain st s1 where f: "stateFor s ?k (RName r) = (st, s1)" by (cases "stateFor s ?k (RName r)")
  obtain cls st' where c: "classifyReplica r st t thr = (cls, st')" by (cases "classifyReplica r st t thr")
  have "store_ok (putState s1 ?k (RName r) st')"
    using putState_ok [OF stateFor_ok [OF s, of ?k "RName r"], of st' ?k "RName r"]
      classifyReplica_exclusive [of r st t thr] by (simp add: f c)
  note put = set_states_managed [OF this]
  show "ensures pass_managed (case stateFor s ?k (RName r) of (st, states1) \<Rightarrow>
      (case classifyReplica r st t thr of (class, st') \<Rightarrow> do {
        set_states (putState states1 ?k (RName r) st');
        if_metrics (do {
          RecordReplicaDataChannel (cluster_name cluster) (cluster_ns cluster) (RName r) (channel_up class);
          RecordReplicaBehindSeconds (cluster_name cluster) (cluster_ns cluster) (RName r)
            (behind_seconds t st')
        });
        health_event r class st' t thr;
        State_Monad.return (if isHealthy class then int32 (h + 1) else h) })) (\<lambda>_. pass_managed)"
    unfolding f c prod.case
    by (rule ensures_bind [OF put]) (rule keeps_managed, intro rel_intros)
qed

lemma CheckReplicationHealth_managed:
  "ensures pass_managed (CheckReplicationHealth e cluster wi) (\<lambda>_. pass_managed)"
proof -
  have fin: "ensures pass_managed (do {
      set_states (pruneStates s k names); m; State_Monad.return x }) (\<lambda>_. pass_managed)"
    if "store_ok s" "state_io_rel (keeps process) m" for s k names x and m :: "('a, unit) op"
    by (rule ensures_bind [OF set_states_managed [OF pruneStates_ok [OF that(1)]]])
      (rule keeps_managed, intro rel_intros that(2))
  have ev: "state_io_rel (keeps process) (if b then event t rs msg else State_Monad.return ())" for b t rs msg
    by (intro rel_intros)
  show ?thesis
    unfolding CheckReplicationHealth_def Let_def
    apply (cases "wi = []")
    apply (simp add: ensures_return)
    apply (simp only: if_False)
    apply (rule ensures_bind [OF keeps_managed [OF client_process(7)]])
    subgoal for r
      apply (cases r)
      apply (simp add: ensures_return)
      apply (simp only: sum.case)
      apply (rule ensures_bind [OF keeps_managed [OF process_now]])
      apply (rule ensures_bind [OF ensures_fold [OF check_replica_managed]])
      apply (rule read_store)
      apply (rule fin, assumption, rule ev)
      done
    done
qed

lemma ensureReplicationManager_ensures:
  "ensures pass_ok (ensureReplicationManager e)
     (\<lambda>err w. pass_ok w \<and> (err = None \<longrightarrow> pass_managed w))"
  by (auto simp: ensures_def ensureReplicationManager_def NewClient_def pass_ok_def pass_managed_def manager_ok_def
      run_external SetMetricsRecorder_def NewReplicationManager_def store_ok_empty
      split: option.splits if_splits prod.splits)

lemma managed_pass: "ensures pass_managed m (\<lambda>_. pass_managed) \<Longrightarrow> ensures pass_managed m (\<lambda>_. pass_ok)"
  by (erule ensures_weaken) (auto simp: pass_managed_def)

lemma with_manager:
  assumes "\<And>er. state_io_rel (preserves pass_ok) (f er)" and "ensures pass_managed m (\<lambda>_. pass_managed)"
  shows "state_io_rel (preserves pass_ok)
    (do { err \<leftarrow> ensureReplicationManager e; case err of Some er \<Rightarrow> f er | None \<Rightarrow> m })"
  unfolding ensures_preserves [symmetric]
proof (rule ensures_bind [OF ensureReplicationManager_ensures])
  fix err
  have f: "ensures pass_ok (f er) (\<lambda>_. pass_ok)" for er using assms(1) by (simp add: ensures_preserves)
  show "ensures (\<lambda>w. pass_ok w \<and> (err = None \<longrightarrow> pass_managed w))
      (case err of Some er \<Rightarrow> f er | None \<Rightarrow> m) (\<lambda>_. pass_ok)"
    by (cases err) (auto intro: ensures_weaken [OF managed_pass [OF assms(2)]] ensures_weaken [OF f])
qed

lemma configure_step_pass: "state_io_rel (preserves pass_ok) (configure_step e cluster pods wi)"
proof -
  have rest: "ensures pass_managed (do {
      r \<leftarrow> CheckReplicationHealth e cluster wi;
      case r of
        Inl _ \<Rightarrow> State_Monad.return (0, 0, None)
      | Inr (health, replicaInfos) \<Rightarrow> do {
          RecordReplicaSet (cluster_name cluster) (cluster_ns cluster) replicaInfos;
          State_Monad.return (TotalReplicas health, HealthyReplicas health, None)
        } }) (\<lambda>_. pass_managed)"
    by (rule ensures_bind [OF CheckReplicationHealth_managed], rule keeps_managed, intro rel_intros)
  show ?thesis
    unfolding configure_step_def
  proof (intro if_rel with_manager preserves.return_rel)
    show "ensures pass_managed (do {
        err \<leftarrow> ConfigureReplication e cluster pods wi;
        case err of
          Some er \<Rightarrow> do {
            event EventWarning EventReasonReplicationError
              (''Failed to configure replication: '' @ err_msg er);
            State_Monad.return (0, 0, Some er)
          }
        | None \<Rightarrow> do {
            r \<leftarrow> CheckReplicationHealth e cluster wi;
            case r of
              Inl _ \<Rightarrow> State_Monad.return (0, 0, None)
            | Inr (health, replicaInfos) \<Rightarrow> do {
                RecordReplicaSet (cluster_name cluster) (cluster_ns cluster) replicaInfos;
                State_Monad.return (TotalReplicas health, HealthyReplicas health, None)
              }
          } }) (\<lambda>_. pass_managed)"
    proof (rule ensures_bind [OF keeps_managed [OF configure_process]])
      fix err
      have "state_io_rel (keeps process) (do {
          event EventWarning EventReasonReplicationError (''Failed to configure replication: '' @ err_msg er);
          State_Monad.return (0 :: int, 0 :: int, Some er) })" for er
        by (intro rel_intros)
      from keeps_managed [OF this] rest
      show "ensures pass_managed (case err of
          Some er \<Rightarrow> do {
            event EventWarning EventReasonReplicationError
              (''Failed to configure replication: '' @ err_msg er);
            State_Monad.return (0, 0, Some er)
          }
        | None \<Rightarrow> do {
            r \<leftarrow> CheckReplicationHealth e cluster wi;
            case r of
              Inl _ \<Rightarrow> State_Monad.return (0, 0, None)
            | Inr (health, replicaInfos) \<Rightarrow> do {
                RecordReplicaSet (cluster_name cluster) (cluster_ns cluster) replicaInfos;
                State_Monad.return (TotalReplicas health, HealthyReplicas health, None)
              }
          }) (\<lambda>_. pass_managed)"
        by (cases err) simp_all
    qed
  qed
qed

lemma validation_pass: "state_io_rel (preserves pass_ok) (reconcileValidation e cluster pods wi)"
proof -
  have "ensures pass_managed (do {
      result \<leftarrow> RunValidation e c pods wi;
      cluster1 \<leftarrow> UpdateValidationStatus e c result;
      validation_events result;
      State_Monad.return (None, cluster1) }) (\<lambda>_. pass_managed)" for c
    by (rule keeps_managed) (intro rel_intros)
  then have rv: "state_io_rel (preserves pass_ok) (run_validation e c pods wi)" for c
    unfolding run_validation_def by (intro with_manager preserves.return_rel)
  show ?thesis
    unfolding reconcileValidation_def
    by (intro if_rel case_option_rel preserves.rules keeps_pass [OF process_now] rv)
qed

lemma resources_pass: "state_io_rel (preserves pass_ok) (reconcileResources e cluster)"
  unfolding reconcileResources_def reconcile_members_def finish_resources_def Let_def
  by (intro case_sum_rel case_option_rel case_prod_rel if_rel preserves.rules configure_step_pass
      validation_pass keeps_pass process_rules)

lemma found_pass: "state_io_rel (preserves pass_ok) (reconcile_found e t0 cluster)"
  unfolding reconcile_found_def reconcile_cluster_def
  by (intro if_rel case_sum_rel case_option_rel case_prod_rel preserves.rules resources_pass keeps_pass
      process_rules process_emit process_now recorder_process)

lemma delete_state_pass: "state_io_rel (preserves pass_ok) (DeleteClusterState name ns)"
proof -
  have managed: "ensures pass_managed (DeleteClusterState name ns) (\<lambda>_. pass_managed)"
    unfolding DeleteClusterState_def
  proof (rule read_store)
    fix s assume s: "store_ok s"
    have "ensures pass_managed (do {
        if_metrics (for_each (\<lambda>(n, _). DeleteReplicaMetrics name ns n) m);
        set_states (s(cluster_key ns name := None)) }) (\<lambda>_. pass_managed)" for m :: replica_states
      by (rule ensures_bind [OF keeps_managed set_states_managed [OF remove_ok [OF s]]]) (intro rel_intros)
    then show "ensures pass_managed (case s (cluster_key ns name) of
        None \<Rightarrow> State_Monad.return ()
      | Some m \<Rightarrow> do {
          if_metrics (for_each (\<lambda>(n, _). DeleteReplicaMetrics name ns n) m);
          set_states (s(cluster_key ns name := None)) }) (\<lambda>_. pass_managed)"
      by (cases "s (cluster_key ns name)") (auto intro: ensures_return)
  qed
  have none: "run_state (DeleteClusterState name ns) w = ((), w)" if "replicationManager w = None"
    for w :: "'a world"
    using that by (simp add: DeleteClusterState_def manager_def NewReplicationManager_def)
  show ?thesis
    unfolding state_io_rel_def preserves_def
  proof (intro allI impI)
    fix w :: "'a world" assume w: "pass_ok w"
    show "pass_ok (snd (run_state (DeleteClusterState name ns) w))"
    proof (cases "replicationManager w")
      case (Some rm)
      with w have "pass_managed w" by (simp add: pass_managed_def)
      with managed have "pass_managed (snd (run_state (DeleteClusterState name ns) w))"
        unfolding ensures_def by (metis surj_pair snd_conv)
      then show ?thesis by (simp add: pass_managed_def)
    qed (simp add: none w)
  qed
qed

lemma Reconcile_manager_ok: "manager_ok w \<Longrightarrow> manager_ok (snd (run_state (Reconcile e name ns) w))"
proof -
  assume "manager_ok w"
  have rest: "state_io_rel (preserves pass_ok) (do {
      r \<leftarrow> external (get_cluster_op e name ns);
      case r of
        Inl er \<Rightarrow>
          if IsNotFound er then do {
            rm \<leftarrow> gets replicationManager;
            (case rm of None \<Rightarrow> State_Monad.return () | Some _ \<Rightarrow> DeleteClusterState name ns);
            DeleteClusterMetrics name ns;
            State_Monad.return (Inr (zero_result, None))
          }
          else do {
            RecordReconcileOperation name ns ''error'';
            State_Monad.return (Inr (zero_result, Some er))
          }
      | Inr cluster \<Rightarrow> reconcile_found e t0 cluster })" for t0
    by (intro if_rel case_sum_rel case_option_rel preserves.rules delete_state_pass found_pass
        keeps_pass [OF process_external] keeps_pass [OF recorder_process(16)]
        keeps_pass [OF recorder_process(8)])
  have "pass_ok (w\<lparr>ext := s, metrics_set := True\<rparr>)" for s
    using \<open>manager_ok w\<close> by (simp add: pass_ok_def manager_ok_def)
  from preservesD [OF rest this] show ?thesis
    by (simp add: Reconcile_def now_def run_external pass_ok_def)
qed

text \<open>C9: In every state the operator can reach, by any sequence of reconcile passes of any
  clusters and whatever the outside answers in between, the replication manager, once it
  exists, has its client and its metrics recorder, no replica has two timer entries, and no
  replica has both timers running.\<close>

theorem reachable_manager_ok:
  assumes "reachable e w"
  shows "manager_ok w"
  using assms
proof induction
  case (start w)
  then show ?case by (simp add: manager_ok_def)
next
  case (pass w name ns)
  show ?case by (rule Reconcile_manager_ok [OF pass.IH])
next
  case (outside w s)
  then show ?case by (simp add: manager_ok_def)
qed

lemma reachable_manager_ok_witness:
  "manager_ok (snd (run_state (Reconcile (quiet_env :: unit env) ''mg'' ''db'') (quiet_world ())))"
  by (rule reachable_manager_ok, rule reachable.pass, rule reachable.start)
    (simp add: quiet_world_def)

end
