(* ===== verification/Quiescence.thy ===== *)
theory Quiescence
  imports Reconciler_Safety
begin

text \<open>
  A reconcile pass over a cluster whose objects are as wanted: it writes the status and nothing
  else, so no watch of an owned object wakes it up again. The writes of a trace are the API calls
  in it that change an object.
\<close>

section \<open>Writes\<close>

primrec writes :: "effect list \<Rightarrow> api_write list" where
  "writes [] = []"
| "writes (eff # tr) = (case eff of Write c \<Rightarrow> c # writes tr | _ \<Rightarrow> writes tr)"

lemma writes_append: "writes (a @ b) = writes a @ writes b"
  by (induction a) (auto split: effect.splits)

definition no_write :: "effect \<Rightarrow> bool" where
  "no_write eff = (case eff of Write _ \<Rightarrow> False | _ \<Rightarrow> True)"

lemma no_write_simps [simp]:
  "no_write (Exec r)" "no_write (Event t rs msg)" "no_write (Metric m)" "\<not> no_write (Write c)"
  by (simp_all add: no_write_def)

lemma writes_Nil: "\<forall>eff \<in> set tr. no_write eff \<Longrightarrow> writes tr = []"
  by (induction tr) (auto simp: no_write_def split: effect.splits)

definition wrote :: "api_write list \<Rightarrow> 's world \<Rightarrow> bool" where
  "wrote cs w \<longleftrightarrow> writes (trace w) = cs"

lemma quiet_wrote:
  assumes "state_io_rel (emits no_write) m"
  shows "ensures (wrote cs) m (\<lambda>_. wrote cs)"
  unfolding ensures_def wrote_def
  using emitsD [OF assms] by (metis append_Nil2 snd_conv writes_Nil writes_append)

lemma yields_wrote:
  assumes "yields m [] x"
  shows "ensures (wrote cs) m (\<lambda>y w. y = x \<and> wrote cs w)"
  using yieldsD [OF assms] unfolding ensures_def wrote_def by (metis append_Nil2 fst_conv snd_conv)

section \<open>What never writes\<close>

lemma recorder_quiet: "state_io_rel (emits (metric_call cl ns)) m \<Longrightarrow> state_io_rel (emits no_write) m"
  by (erule emits_mono) (auto simp: no_write_def metric_call_def split: effect.splits)

lemmas recorders_quiet [rel_intros] =
  recorder_metric_calls [THEN recorder_quiet] RecordReplicaSet_calls [THEN recorder_quiet]

lemma ConfigureReplication_quiet [rel_intros]:
  "state_io_rel (emits no_write) (ConfigureReplication e cluster pods wi)"
  by (rule emits_mono [OF ConfigureReplication_calls [where pods = pods]])
    (auto simp: no_write_def config_call_def split: effect.splits)

lemma CheckReplicationHealth_quiet [rel_intros]:
  "state_io_rel (emits no_write) (CheckReplicationHealth e cluster wi)"
proof -
  have "state_io_rel (emits no_write) (health_event r c st t thr)" for r c st t thr
    unfolding health_event_def by (cases c) (simp_all, (intro rel_intros; simp)+)
  then show ?thesis
    unfolding CheckReplicationHealth_def check_replica_def Let_def by (intro rel_intros) simp_all
qed

lemma reconcileValidation_quiet [rel_intros]:
  "state_io_rel (emits no_write) (reconcileValidation e cluster pods wi)"
  by (rule emits_mono [OF reconcileValidation_calls [where pods = pods]])
    (auto simp: no_write_def validation_call_def split: effect.splits)

lemma others_quiet [rel_intros]:
  "state_io_rel (emits no_write) (updateSnapshotStatus e cluster)"
  "state_io_rel (emits no_write) (getClusterPods e cluster)"
  "state_io_rel (emits no_write) (updateConditions e cluster wi a b c d)"
  "state_io_rel (emits no_write) (collectStorageMetrics e cluster pods wi)"
  "state_io_rel (emits no_write) (configure_step e cluster pods wi)"
  "state_io_rel (emits no_write) (record_success cluster phase)"
  unfolding updateSnapshotStatus_def getClusterPods_def updateConditions_def collectStorageMetrics_def
    collect_pod_def configure_step_def record_success_def record_validation_def
    emitPhaseTransitionEvents_def Let_def
  by (intro rel_intros; simp)+

section \<open>Objects in sync\<close>

text \<open>The API server holds the object under the name and namespace the operator computes.\<close>

definition held ::
  "'s env \<Rightarrow> MemgraphCluster \<Rightarrow> ObjectMeta \<Rightarrow>
   (string \<Rightarrow> string \<Rightarrow> ('s, go_error + 'o) state) \<Rightarrow> 'o \<Rightarrow> bool" where
  "held e cluster built get x \<longleftrightarrow>
     (\<exists>meta. set_controller_reference e cluster built = Inr meta \<and>
        always (get (Name meta) (Namespace meta)) (Inr x))"

definition cronjob_settled :: "'s env \<Rightarrow> MemgraphCluster \<Rightarrow> bool" where
  "cronjob_settled e cluster \<longleftrightarrow>
     (if IsEnabled (Snapshot (Spec cluster))
      then deep_equal_ok e \<and>
        (\<exists>x. held e cluster (CronMeta (buildSnapshotCronJob cluster)) (get_cronjob_op e) x \<and>
           agrees x (buildSnapshotCronJob cluster))
      else (\<exists>er. IsNotFound er \<and>
        always (get_cronjob_op e (snapshot_name cluster) (cluster_ns cluster)) (Inl er)))"

definition in_sync :: "'s env \<Rightarrow> MemgraphCluster \<Rightarrow> Pod list \<Rightarrow> bool" where
  "in_sync e cluster pods \<longleftrightarrow>
     (\<exists>s. held e cluster (SvcMeta (buildHeadlessService cluster)) (get_service_op e) s) \<and>
     (\<exists>s. held e cluster (SvcMeta (buildReadService cluster)) (get_service_op e) s) \<and>
     (\<exists>s. held e cluster (SvcMeta (buildWriteService cluster (determineWriteInstance cluster pods)))
            (get_service_op e) s \<and>
          current_write_instance s = determineWriteInstance cluster pods) \<and>
     (\<exists>s. held e cluster (StsMeta (buildStatefulSet e cluster)) (get_statefulset_op e) s \<and>
          replicas_image s = Some (desired_replicas cluster, cluster_image cluster)) \<and>
     cronjob_settled e cluster \<and>
     always (list_pods_op e (cluster_ns cluster) (labelsForCluster cluster)) (Inr pods)"

lemma ensureService_held:
  assumes "held e cluster (SvcMeta built) (get_service_op e) s"
  shows "yields (ensureService e cluster built) [] None"
proof -
  obtain meta where m: "set_controller_reference e cluster (SvcMeta built) = Inr meta"
    and g: "always (get_service_op e (Name meta) (Namespace meta)) (Inr s)"
    using assms unfolding held_def by blast
  show ?thesis
    unfolding ensureService_def m sum.case Let_def
    by (rule yields_then [OF yields_external [OF g]]) (simp add: yields_return)
qed

lemma reconcileWriteService_held:
  assumes "held e cluster (SvcMeta (buildWriteService cluster wi)) (get_service_op e) s"
    and "current_write_instance s = wi"
  shows "yields (reconcileWriteService e cluster wi) [] None"
proof -
  obtain meta where m: "set_controller_reference e cluster (SvcMeta (buildWriteService cluster wi)) = Inr meta"
    and g: "always (get_service_op e (Name meta) (Namespace meta)) (Inr s)"
    using assms(1) unfolding held_def by blast
  show ?thesis
    unfolding reconcileWriteService_def Let_def m sum.case
    by (rule yields_then [OF yields_external [OF g]]) (simp add: assms(2) yields_return)
qed

lemma update_statefulset_settled:
  assumes "replicas_image s = Some (desired_replicas cluster, cluster_image cluster)"
  shows "yields (update_statefulset e s (buildStatefulSet e' cluster\<lparr>StsMeta := m\<rparr>)) [] (Inr None)"
proof -
  let ?d = "buildStatefulSet e' cluster\<lparr>StsMeta := m\<rparr>"
  obtain c cs where s: "StsReplicas s = Some (desired_replicas cluster)"
      "Containers (TemplateSpec s) = c # cs" "ContainerImage c = cluster_image cluster"
    using assms by (auto simp: replicas_image_def split: option.splits list.splits)
  have d: "the (StsReplicas ?d) = desired_replicas cluster"
    "ContainerImage (hd (Containers (TemplateSpec ?d))) = cluster_image cluster"
    by (simp_all add: buildStatefulSet_def Let_def memgraph_container_def)
  show ?thesis
    unfolding update_statefulset_def s(1) option.case d scale_step_def image_step_def
    by (simp add: s yields_return)
qed

lemma reconcileStatefulSet_settled:
  assumes "held e cluster (StsMeta (buildStatefulSet e cluster)) (get_statefulset_op e) s"
    and "replicas_image s = Some (desired_replicas cluster, cluster_image cluster)"
  shows "yields (reconcileStatefulSet e cluster) [] (Inr None)"
proof -
  obtain meta where m: "set_controller_reference e cluster (StsMeta (buildStatefulSet e cluster)) = Inr meta"
    and g: "always (get_statefulset_op e (Name meta) (Namespace meta)) (Inr s)"
    using assms(1) unfolding held_def by blast
  show ?thesis
    unfolding reconcileStatefulSet_def Let_def m sum.case
    by (rule yields_then [OF yields_external [OF g]])
      (simp only: sum.case update_statefulset_settled [OF assms(2)])
qed

lemma cronjob_quiet:
  assumes "cronjob_settled e cluster"
  shows "yields (reconcileSnapshotCronJob e cluster) [] None"
proof (cases "IsEnabled (Snapshot (Spec cluster))")
  case True
  with assms show ?thesis
    unfolding cronjob_settled_def held_def by (auto intro: cronjob_in_sync)
next
  case False
  with assms obtain er where er: "IsNotFound er"
    "always (get_cronjob_op e (snapshot_name cluster) (cluster_ns cluster)) (Inl er)"
    unfolding cronjob_settled_def by auto
  have "yields (deleteSnapshotCronJob e cluster) [] None"
    unfolding deleteSnapshotCronJob_def
    by (rule yields_then [OF yields_external [OF er(2)]]) (simp add: er(1) yields_return)
  with False show ?thesis by (simp add: reconcileSnapshotCronJob_def)
qed

section \<open>A pass\<close>

text \<open>The object keeps its metadata and its spec; only the status is the operator's.\<close>

definition same_object :: "MemgraphCluster \<Rightarrow> MemgraphCluster \<Rightarrow> bool" where
  "same_object c c' \<longleftrightarrow> Meta c' = Meta c \<and> Spec c' = Spec c"

lemma same_object_refl [simp]: "same_object c c"
  by (simp add: same_object_def)

lemma same_object_trans: "same_object a b \<Longrightarrow> same_object b c \<Longrightarrow> same_object a c"
  by (simp add: same_object_def)

lemma same_object_status: "same_object c (c\<lparr>Status := st\<rparr>)"
  by (simp add: same_object_def)

lemma snapshot_status_same: "same_object cluster (snd (fst (run_state (updateSnapshotStatus e cluster) w)))"
  by (auto simp: updateSnapshotStatus_def same_object_def split: prod.splits sum.splits option.splits)

lemma run_validation_same: "same_object cluster (snd (fst (run_state (run_validation e cluster pods wi) w)))"
  by (auto simp: run_validation_def UpdateValidationStatus_def Let_def same_object_def
      split: prod.splits option.splits)

lemma validation_same: "same_object cluster (snd (fst (run_state (reconcileValidation e cluster pods wi) w)))"
  using run_validation_same [of cluster e pods wi]
  by (auto simp: reconcileValidation_def split: prod.splits option.splits)

lemma conditions_same: "same_object cluster (fst (run_state (updateConditions e cluster wi a b c d) w))"
  by (auto simp: updateConditions_def same_object_def split: prod.splits)

text \<open>Sequencing after an operation that writes nothing.\<close>

lemma wrote_then:
  assumes "yields m [] x" and "ensures (wrote cs) (f x) Q"
  shows "ensures (wrote cs) (State_Monad.bind m f) Q"
  using assms(2) by (intro ensures_bind [OF yields_wrote [OF assms(1)]]) (auto simp: ensures_def)

lemma wrote_bind:
  assumes "state_io_rel (emits no_write) m" and "\<And>w. S (fst (run_state m w))"
    and "\<And>x. S x \<Longrightarrow> ensures (wrote cs) (f x) Q"
  shows "ensures (wrote cs) (State_Monad.bind m f) Q"
proof (rule ensures_bind [where Q = "\<lambda>x w. S x \<and> wrote cs w"])
  show "ensures (wrote cs) m (\<lambda>x w. S x \<and> wrote cs w)"
    using quiet_wrote [OF assms(1), of cs] assms(2) unfolding ensures_def by (metis fst_conv)
  show "ensures (\<lambda>w. S x \<and> wrote cs w) (f x) Q" for x
    using assms(3) [of x] by (auto simp: ensures_def)
qed

lemma wrote_quiet_bind:
  "state_io_rel (emits no_write) m \<Longrightarrow> (\<And>x. ensures (wrote cs) (f x) Q) \<Longrightarrow>
   ensures (wrote cs) (State_Monad.bind m f) Q"
  by (rule wrote_bind [where S = "\<lambda>_. True"]) auto

text \<open>After the writes \<open>cs\<close>, one status was written, of an object with the property \<open>G\<close>.\<close>

definition wrote_status :: "(MemgraphCluster \<Rightarrow> bool) \<Rightarrow> api_write list \<Rightarrow> 's world \<Rightarrow> bool" where
  "wrote_status G cs w \<longleftrightarrow> (\<exists>c. G c \<and> wrote (cs @ [UpdateClusterStatus c]) w)"

lemma wrote_status_quiet:
  "state_io_rel (emits no_write) m \<Longrightarrow> ensures (wrote_status G cs) m (\<lambda>_. wrote_status G cs)"
  using quiet_wrote unfolding wrote_status_def ensures_def by blast

lemma write_status_wrote:
  assumes "G c"
  shows "ensures (wrote cs) (write_status e c) (\<lambda>_. wrote_status G cs)"
proof -
  have "ensures (wrote cs) (api_write_cluster e (UpdateClusterStatus c))
      (\<lambda>_. wrote (cs @ [UpdateClusterStatus c]))"
    by (auto simp: api_write_cluster_def ensures_def wrote_def run_external writes_append)
  then show ?thesis
    unfolding write_status_def
    by (rule ensures_bind) (use assms in \<open>auto simp: wrote_status_def ensures_def\<close>)
qed

lemma updateStatus_wrote:
  assumes "\<And>w. G (fst (run_state (updateConditions e (status_update c pods wi r) wi (ready_count pods)
    (desired_replicas c) r h) w))"
  shows "ensures (wrote cs) (updateStatus e c pods wi r h) (\<lambda>_. wrote_status G cs)"
  unfolding updateStatus_def
  by (rule wrote_bind [where S = G, OF others_quiet(3)]) (rule assms, rule write_status_wrote)

lemma status_update_same: "same_object c (status_update c pods wi r)"
  by (simp add: status_update_def same_object_status)

text \<open>
  What the pass reports: with the counts the replication step returns, the status written for the
  object has the property \<open>G\<close>.
\<close>

definition status_with ::
  "'s env \<Rightarrow> MemgraphCluster \<Rightarrow> Pod list \<Rightarrow> (MemgraphCluster \<Rightarrow> bool) \<Rightarrow>
   int \<times> int \<times> go_error option \<Rightarrow> bool" where
  "status_with e cluster pods G x \<longleftrightarrow>
     (\<forall>c cs. same_object cluster c \<longrightarrow>
        ensures (wrote cs) (updateStatus e c pods (determineWriteInstance cluster pods) (fst x) (fst (snd x)))
          (\<lambda>_. wrote_status G cs))"

definition reports :: "'s env \<Rightarrow> MemgraphCluster \<Rightarrow> Pod list \<Rightarrow> (MemgraphCluster \<Rightarrow> bool) \<Rightarrow> bool" where
  "reports e cluster pods G \<longleftrightarrow>
     (\<forall>w. status_with e cluster pods G
        (fst (run_state (configure_step e cluster pods (determineWriteInstance cluster pods)) w)))"

lemma reports_same: "reports e cluster pods (same_object cluster)"
  unfolding reports_def status_with_def
  by (intro allI impI updateStatus_wrote)
    (blast intro: same_object_trans status_update_same conditions_same)

lemma finish_wrote:
  assumes "cronjob_settled e cluster" and "status_with e cluster pods G (r, h, er)"
  shows "ensures (wrote cs)
    (finish_resources e cluster pods (determineWriteInstance cluster pods) r h er)
    (\<lambda>x w. \<not> isl x \<and> wrote_status G cs w)"
proof -
  let ?wi = "determineWriteInstance cluster pods"
  let ?last = "\<lambda>c. do {
      (err, cluster3) \<leftarrow> updateStatus e c pods ?wi r h;
      State_Monad.return (case err of
          Some er' \<Rightarrow> failed er' cluster3
        | None \<Rightarrow> Inr ((requeue_after cluster3 er, None), cluster3)) }"
  let ?tail = "\<lambda>c. do { collectStorageMetrics e c pods ?wi; ?last c }"
  let ?validate = "\<lambda>c. if Phase (Status c) = ClusterPhaseRunning then reconcileValidation e c pods ?wi
      else State_Monad.return (None, c)"
  let ?Q = "\<lambda>(x :: go_panic + resources_outcome) w. \<not> isl x \<and> wrote_status G cs w"
  have last: "ensures (wrote cs) (?last c) ?Q" if "same_object cluster c" for c
    by (rule ensures_bind [where Q = "\<lambda>_. wrote_status G cs"])
      (use assms(2) that in \<open>simp add: status_with_def\<close>,
        auto intro!: ensures_return simp: failed_def split: prod.splits option.splits)
  have tail: "ensures (wrote cs) (case y of (_, c) \<Rightarrow> ?tail c) ?Q" if "same_object cluster (snd y)"
    for y :: "go_error option \<times> MemgraphCluster"
    using that wrote_quiet_bind [OF others_quiet(4) last] by (cases y) simp
  have validated: "same_object cluster (snd (fst (run_state (?validate c) w)))"
    if "same_object cluster c" for c w
    using same_object_trans [OF that validation_same, of e pods ?wi w] that by simp
  have quiet: "state_io_rel (emits no_write) (?validate c)" for c
    by (intro rel_intros)
  have mid: "ensures (wrote cs) (case x of (_, c) \<Rightarrow> do { (_, c) \<leftarrow> ?validate c; ?tail c }) ?Q"
    if "same_object cluster (snd x)" for x :: "go_error option \<times> MemgraphCluster"
  proof -
    have "ensures (wrote cs) (do { (_, c) \<leftarrow> ?validate (snd x); ?tail c }) ?Q"
      by (rule wrote_bind [OF quiet, where S = "\<lambda>y. same_object cluster (snd y)"])
        (rule validated [OF that], rule tail)
    then show ?thesis by (cases x) (simp only: prod.case snd_conv)
  qed
  show ?thesis
    unfolding finish_resources_def
    by (rule wrote_then [OF cronjob_quiet [OF assms(1)]],
        rule wrote_bind [OF others_quiet(1), where S = "\<lambda>x. same_object cluster (snd x)"],
        rule snapshot_status_same, rule mid)
qed

lemma members_wrote:
  assumes "in_sync e cluster pods" and "reports e cluster pods G"
  shows "ensures (wrote cs) (reconcile_members e cluster pods)
    (\<lambda>x w. \<not> isl x \<and> wrote_status G cs w)"
proof -
  let ?wi = "determineWriteInstance cluster pods"
  obtain s where s: "held e cluster (SvcMeta (buildWriteService cluster ?wi)) (get_service_op e) s"
    "current_write_instance s = ?wi" using assms(1) unfolding in_sync_def by blast
  obtain r where r: "held e cluster (SvcMeta (buildReadService cluster)) (get_service_op e) r"
    using assms(1) unfolding in_sync_def by blast
  have cj: "cronjob_settled e cluster" using assms(1) unfolding in_sync_def by blast
  have rest: "ensures (wrote cs) (do {
      (registeredReplicas, healthyReplicas, replicationError) \<leftarrow> configure_step e cluster pods ?wi;
      finish_resources e cluster pods ?wi registeredReplicas healthyReplicas replicationError })
      (\<lambda>x w. \<not> isl x \<and> wrote_status G cs w)"
    by (rule wrote_bind [OF others_quiet(5), where S = "status_with e cluster pods G"])
      (use assms(2) in \<open>simp add: reports_def\<close>, auto split: prod.splits intro: finish_wrote [OF cj])
  show ?thesis
    unfolding reconcile_members_def Let_def
    apply (rule wrote_then [OF reconcileWriteService_held [OF s]], unfold option.case)
    apply (rule wrote_then [OF ensureService_held [OF r, folded reconcileReadService_def]], unfold option.case)
    apply (rule rest)
    done
qed

lemma resources_wrote:
  assumes "in_sync e cluster pods" and "reports e cluster pods G"
  shows "ensures (wrote cs) (reconcileResources e cluster)
    (\<lambda>x w. \<not> isl x \<and> wrote_status G cs w)"
proof -
  obtain h where h: "held e cluster (SvcMeta (buildHeadlessService cluster)) (get_service_op e) h"
    using assms(1) unfolding in_sync_def by blast
  obtain s where s: "held e cluster (StsMeta (buildStatefulSet e cluster)) (get_statefulset_op e) s"
    "replicas_image s = Some (desired_replicas cluster, cluster_image cluster)"
    using assms(1) unfolding in_sync_def by blast
  have p: "yields (getClusterPods e cluster) [] (Inr pods)"
    using assms(1) unfolding in_sync_def getClusterPods_def by (blast intro: yields_external)
  show ?thesis
    unfolding reconcileResources_def
    apply (rule wrote_then [OF ensureService_held [OF h, folded reconcileHeadlessService_def]], unfold option.case)
    apply (rule wrote_then [OF reconcileStatefulSet_settled [OF s]], unfold sum.case option.case)
    apply (rule wrote_then [OF p], unfold sum.case)
    apply (rule members_wrote [OF assms])
    done
qed

lemma ensures_after:
  "(\<And>x. ensures (\<lambda>_. True) (f x) Q) \<Longrightarrow> ensures (\<lambda>_. True) (State_Monad.bind m f) Q"
  by (rule ensures_bind [where Q = "\<lambda>_ _. True"]) (simp_all add: ensures_def)

lemma reconcile_cluster_wrote:
  assumes "in_sync e cluster pods" and "reports e cluster pods G"
  shows "ensures (wrote cs) (reconcile_cluster e t0 cluster)
    (\<lambda>x w. \<not> isl x \<and> wrote_status G cs w)"
  unfolding reconcile_cluster_def
proof (rule ensures_bind [OF resources_wrote [OF assms]])
  fix x :: "go_panic + resources_outcome"
  let ?rest = "\<lambda>result err (cluster1 :: MemgraphCluster). do {
      t \<leftarrow> now e;
      RecordReconcileDuration (cluster_name cluster1) (cluster_ns cluster1) (Seconds (time_sub t t0));
      case err of
        Some er \<Rightarrow> do {
          event EventWarning EventReasonReconcileError (err_msg er);
          RecordReconcileOperation (cluster_name cluster1) (cluster_ns cluster1) ''error'';
          State_Monad.return (Inr (result, Some er))
        }
      | None \<Rightarrow> do {
          record_success cluster1 (Phase (Status cluster));
          State_Monad.return (Inr (result, None))
        } }"
  have quiet: "state_io_rel (emits no_write) (?rest result err c)"
    for result :: reconcile_result and err c
    by (intro rel_intros) simp
  have "ensures (\<lambda>_. True) (?rest result err c) (\<lambda>x _. \<not> isl x)"
    for result :: reconcile_result and err c
    by (cases err; hypsubst; unfold option.case; intro ensures_after ensures_return; simp)
  with wrote_status_quiet [OF quiet] have "ensures (wrote_status G cs) (?rest result err c)
      (\<lambda>x w. \<not> isl x \<and> wrote_status G cs w)" for result :: reconcile_result and err c
    unfolding ensures_def by blast
  note rest = this
  show "ensures (\<lambda>w. \<not> isl x \<and> wrote_status G cs w) (case x of
       Inl p \<Rightarrow> State_Monad.return (Inl p)
     | Inr ((result, err), cluster1) \<Rightarrow> ?rest result err cluster1)
    (\<lambda>x w. \<not> isl x \<and> wrote_status G cs w)"
  proof (cases x)
    case (Inl p)
    then show ?thesis by (simp add: ensures_def)
  next
    case (Inr y)
    obtain result err c where y: "y = ((result, err), c)" by (metis surj_pair)
    show ?thesis
      unfolding Inr y sum.case prod.case by (rule ensures_weaken [OF rest]) simp_all
  qed
qed

lemma pass_wrote:
  assumes "always (get_cluster_op e name ns) (Inr cluster)" and "\<not> being_deleted cluster"
    and "contains_finalizer e (Meta cluster) finalizerName" and "Phase (Status cluster) \<noteq> []"
    and "in_sync e cluster pods" and "reports e cluster pods G"
  shows "\<not> isl (fst (run_state (Reconcile e name ns) w)) \<and>
    (\<exists>c. writes (trace (snd (run_state (Reconcile e name ns) w))) =
       writes (trace w) @ [UpdateClusterStatus c] \<and> G c)"
proof -
  let ?cs = "writes (trace w)" and ?Q = "\<lambda>x w'. \<not> isl x \<and> wrote_status G (writes (trace w)) w'"
  have found: "ensures (wrote ?cs) (reconcile_found e t0 cluster) ?Q" for t0
    unfolding reconcile_found_def using reconcile_cluster_wrote [OF assms(5,6)] assms(2-4) by simp
  have marked: "ensures (wrote ?cs) (modify (\<lambda>w. w\<lparr>metrics_set := True\<rparr>)) (\<lambda>_. wrote ?cs)"
    by (simp add: ensures_def wrote_def)
  have "ensures (wrote ?cs) (Reconcile e name ns) ?Q"
    unfolding Reconcile_def
    apply (rule wrote_quiet_bind [OF emits_now])
    apply (rule ensures_bind [OF marked])
    apply (rule wrote_then [OF yields_external [OF assms(1)]], unfold sum.case)
    apply (rule found)
    done
  from ensuresD [OF this, of w] show ?thesis by (auto simp: wrote_def wrote_status_def)
qed

text \<open>C8: A pass over a cluster in sync is quiet. When the services, the StatefulSet and the CronJob
  are as wanted, a reconcile of a live, initialised cluster does not panic and makes exactly
  one API write, whatever Memgraph answers and whatever state the operator is in: the status of
  that very object, its metadata and spec untouched. None of the objects the operator owns is
  written.\<close>

theorem pass_quiescent:
  assumes "always (get_cluster_op e name ns) (Inr cluster)" and "\<not> being_deleted cluster"
    and "contains_finalizer e (Meta cluster) finalizerName" and "Phase (Status cluster) \<noteq> []"
    and "in_sync e cluster pods"
  shows "\<not> isl (fst (run_state (Reconcile e name ns) w)) \<and>
    (\<exists>c. writes (trace (snd (run_state (Reconcile e name ns) w))) =
       writes (trace w) @ [UpdateClusterStatus c] \<and> same_object cluster c)"
  by (rule pass_wrote [OF assms reports_same])

definition running_cluster :: MemgraphCluster where
  "running_cluster = bare_cluster\<lparr>Meta := (Meta bare_cluster)\<lparr>Finalizers := [finalizerName]\<rparr>,
     Status := (Status bare_cluster)\<lparr>Phase := ClusterPhaseRunning, WriteInstance := ''mg-0''\<rparr>\<rparr>"

definition running_pods :: "Pod list" where
  "running_pods = [ready_pod ''mg-0'', ready_pod ''mg-1'', ready_pod ''mg-2'']"

definition running_env :: "unit env" where
  "running_env = quiet_env\<lparr>
     get_cluster_op := \<lambda>_ _. State_Monad.return (Inr running_cluster),
     get_service_op := \<lambda>_ _. State_Monad.return (Inr (buildWriteService running_cluster ''mg-0'')),
     get_statefulset_op := \<lambda>_ _. State_Monad.return (Inr (buildStatefulSet (quiet_env :: unit env) running_cluster)),
     get_cronjob_op := \<lambda>_ _. State_Monad.return (Inr (buildSnapshotCronJob running_cluster)),
     list_pods_op := \<lambda>_ _. State_Monad.return (Inr running_pods)\<rparr>"

lemma running_write_instance: "determineWriteInstance running_cluster running_pods = ''mg-0''"
  by (simp add: determineWriteInstance_def running_cluster_def running_pods_def ready_named_def
      ready_pod_def isPodReady_def)

lemma running_in_sync: "in_sync running_env running_cluster running_pods"
proof -
  have "agrees (buildSnapshotCronJob running_cluster) (buildSnapshotCronJob running_cluster)"
    by (simp add: agrees_def)
  moreover have "deep_equal_ok running_env" by (simp add: deep_equal_ok_def running_env_def quiet_env_def)
  moreover have "current_write_instance (buildWriteService running_cluster ''mg-0'') = ''mg-0''"
    by (simp add: current_write_instance_def buildWriteService_def)
  moreover have "replicas_image (buildStatefulSet (quiet_env :: unit env) running_cluster) =
      Some (desired_replicas running_cluster, cluster_image running_cluster)"
    by (simp add: replicas_image_def buildStatefulSet_def Let_def memgraph_container_def)
  moreover have "IsEnabled (Snapshot (Spec running_cluster))"
    by (simp add: IsEnabled_def running_cluster_def bare_cluster_def bare_spec_def)
  ultimately show ?thesis
    unfolding in_sync_def cronjob_settled_def held_def running_write_instance
    by (auto simp: running_env_def quiet_env_def always_def)
qed

lemma pass_quiescent_witness:
  "\<exists>c. writes (trace (snd (run_state (Reconcile running_env ''mg'' ''db'') (quiet_world ())))) =
     [UpdateClusterStatus c] \<and> same_object running_cluster c"
proof -
  have "always (get_cluster_op running_env ''mg'' ''db'') (Inr running_cluster)"
    by (simp add: running_env_def quiet_env_def always_def)
  moreover have "\<not> being_deleted running_cluster" "Phase (Status running_cluster) \<noteq> []"
    "contains_finalizer running_env (Meta running_cluster) finalizerName"
    by (simp_all add: being_deleted_def running_cluster_def bare_cluster_def mk_meta_def
        running_env_def quiet_env_def go_consts)
  ultimately show ?thesis
    using pass_quiescent [of running_env "''mg''" "''db''" running_cluster running_pods "quiet_world ()"]
      running_in_sync by (simp add: quiet_world_def)
qed

end
