(* ===== verification/Api_Server.thy ===== *)
theory Api_Server
  imports Quiescence
begin

text \<open>
  The Kubernetes API server as the operator sees it: the objects it holds by namespace and name,
  and what its documentation says of reads and writes, as laws over a view of the outside state.
  The server may default fields of an object it stores; what it must keep is what the operator
  compares later. Admission of a write that the laws do not cover (creating an object that
  exists, updating one that does not) is left open.
\<close>

section \<open>What the server holds\<close>

type_synonym object_key = "string \<times> string"

definition meta_key :: "ObjectMeta \<Rightarrow> object_key" where
  "meta_key m = (Namespace m, Name m)"

record api_view =
  held_clusters :: "object_key \<rightharpoonup> MemgraphCluster"
  held_services :: "object_key \<rightharpoonup> Service"
  held_statefulsets :: "object_key \<rightharpoonup> StatefulSet"
  held_cronjobs :: "object_key \<rightharpoonup> CronJob"

text \<open>How the server shows itself in the outside state, and the objects it stores for those sent.\<close>

record 's api =
  view_of :: "'s \<Rightarrow> api_view"
  stored_service :: "Service \<Rightarrow> Service"
  stored_statefulset :: "StatefulSet \<Rightarrow> StatefulSet"
  stored_cronjob :: "CronJob \<Rightarrow> CronJob"

text \<open>
  The effect of a write. A write of the object leaves the status alone, a write of the status
  leaves the rest alone: the status is a sub-resource.
\<close>

fun put_write :: "'s api \<Rightarrow> api_write \<Rightarrow> api_view \<Rightarrow> api_view" where
  "put_write A (CreateService x) v =
     v\<lparr>held_services := (held_services v)(meta_key (SvcMeta x) \<mapsto> stored_service A x)\<rparr>"
| "put_write A (UpdateService x) v =
     v\<lparr>held_services := (held_services v)(meta_key (SvcMeta x) \<mapsto> stored_service A x)\<rparr>"
| "put_write A (CreateStatefulSet x) v =
     v\<lparr>held_statefulsets := (held_statefulsets v)(meta_key (StsMeta x) \<mapsto> stored_statefulset A x)\<rparr>"
| "put_write A (UpdateStatefulSet x) v =
     v\<lparr>held_statefulsets := (held_statefulsets v)(meta_key (StsMeta x) \<mapsto> stored_statefulset A x)\<rparr>"
| "put_write A (CreateCronJob x) v =
     v\<lparr>held_cronjobs := (held_cronjobs v)(meta_key (CronMeta x) \<mapsto> stored_cronjob A x)\<rparr>"
| "put_write A (UpdateCronJob x) v =
     v\<lparr>held_cronjobs := (held_cronjobs v)(meta_key (CronMeta x) \<mapsto> stored_cronjob A x)\<rparr>"
| "put_write A (DeleteCronJob x) v =
     v\<lparr>held_cronjobs := (held_cronjobs v)(meta_key (CronMeta x) := None)\<rparr>"
| "put_write A (UpdateCluster c) v =
     v\<lparr>held_clusters := (held_clusters v)(meta_key (Meta c) :=
       map_option (\<lambda>old. c\<lparr>Status := Status old\<rparr>) (held_clusters v (meta_key (Meta c))))\<rparr>"
| "put_write A (UpdateClusterStatus c) v =
     v\<lparr>held_clusters := (held_clusters v)(meta_key (Meta c) :=
       map_option (\<lambda>old. old\<lparr>Status := Status c\<rparr>) (held_clusters v (meta_key (Meta c))))\<rparr>"

definition put_writes :: "'s api \<Rightarrow> api_write list \<Rightarrow> api_view \<Rightarrow> api_view" where
  "put_writes A cs v = fold (put_write A) cs v"

lemma put_writes_simps [simp]:
  "put_writes A [] v = v"
  "put_writes A (c # cs) v = put_writes A cs (put_write A c v)"
  "put_writes A (cs @ ds) v = put_writes A ds (put_writes A cs v)"
  by (simp_all add: put_writes_def)

text \<open>The writes the laws speak of: to be admitted, a StatefulSet has a replica count and a container.\<close>

fun accepted :: "api_write \<Rightarrow> api_view \<Rightarrow> bool" where
  "accepted (CreateService x) v \<longleftrightarrow> held_services v (meta_key (SvcMeta x)) = None"
| "accepted (UpdateService x) v \<longleftrightarrow> held_services v (meta_key (SvcMeta x)) \<noteq> None"
| "accepted (CreateStatefulSet x) v \<longleftrightarrow>
     held_statefulsets v (meta_key (StsMeta x)) = None \<and> replicas_image x \<noteq> None"
| "accepted (UpdateStatefulSet x) v \<longleftrightarrow>
     held_statefulsets v (meta_key (StsMeta x)) \<noteq> None \<and> replicas_image x \<noteq> None"
| "accepted (CreateCronJob x) v \<longleftrightarrow> held_cronjobs v (meta_key (CronMeta x)) = None"
| "accepted (UpdateCronJob x) v \<longleftrightarrow> held_cronjobs v (meta_key (CronMeta x)) \<noteq> None"
| "accepted (DeleteCronJob x) v \<longleftrightarrow> held_cronjobs v (meta_key (CronMeta x)) \<noteq> None"
| "accepted (UpdateCluster c) v \<longleftrightarrow>
     held_clusters v (meta_key (Meta c)) \<noteq> None \<and> DeletionTimestamp (Meta c) = None"
| "accepted (UpdateClusterStatus c) v \<longleftrightarrow> held_clusters v (meta_key (Meta c)) \<noteq> None"

definition cluster_write :: "api_write \<Rightarrow> bool" where
  "cluster_write c = (case c of UpdateCluster _ \<Rightarrow> True | UpdateClusterStatus _ \<Rightarrow> True | _ \<Rightarrow> False)"

definition written_key :: "api_write \<Rightarrow> object_key" where
  "written_key c = (case c of UpdateCluster x \<Rightarrow> meta_key (Meta x) | UpdateClusterStatus x \<Rightarrow> meta_key (Meta x)
     | _ \<Rightarrow> ([], []))"

text \<open>
  Every object is held under its own namespace and name, and a StatefulSet has a replica count
  (the server defaults it) and a container (it validates that).
\<close>

definition valid_view :: "api_view \<Rightarrow> bool" where
  "valid_view v \<longleftrightarrow>
     (\<forall>k c. held_clusters v k = Some c \<longrightarrow> meta_key (Meta c) = k) \<and>
     (\<forall>k x. held_services v k = Some x \<longrightarrow> meta_key (SvcMeta x) = k) \<and>
     (\<forall>k x. held_statefulsets v k = Some x \<longrightarrow> meta_key (StsMeta x) = k \<and> replicas_image x \<noteq> None) \<and>
     (\<forall>k x. held_cronjobs v k = Some x \<longrightarrow> meta_key (CronMeta x) = k)"

section \<open>The laws\<close>

definition leaves_view :: "('s \<Rightarrow> 'v) \<Rightarrow> ('s, 'a) state \<Rightarrow> bool" where
  "leaves_view view m \<longleftrightarrow> (\<forall>s. view (snd (run_state m s)) = view s)"

definition reads :: "('s \<Rightarrow> api_view) \<Rightarrow> ('s, go_error + 'o) state \<Rightarrow> (api_view \<Rightarrow> 'o option) \<Rightarrow> bool" where
  "reads view m obj \<longleftrightarrow> leaves_view view m \<and>
     (\<forall>s. case obj (view s) of
        Some x \<Rightarrow> fst (run_state m s) = Inr x
      | None \<Rightarrow> (\<exists>er. IsNotFound er \<and> fst (run_state m s) = Inl er))"

definition server_laws :: "'s env \<Rightarrow> 's api \<Rightarrow> bool" where
  "server_laws e A \<longleftrightarrow>
     (\<forall>s. valid_view (view_of A s)) \<and>
     (\<forall>n ns. reads (view_of A) (get_cluster_op e n ns) (\<lambda>v. held_clusters v (ns, n))) \<and>
     (\<forall>n ns. reads (view_of A) (get_service_op e n ns) (\<lambda>v. held_services v (ns, n))) \<and>
     (\<forall>n ns. reads (view_of A) (get_statefulset_op e n ns) (\<lambda>v. held_statefulsets v (ns, n))) \<and>
     (\<forall>n ns. reads (view_of A) (get_cronjob_op e n ns) (\<lambda>v. held_cronjobs v (ns, n))) \<and>
     (\<forall>c s. \<not> cluster_write c \<longrightarrow> accepted c (view_of A s) \<longrightarrow>
        fst (run_state (write_op e c) s) = None \<and>
        view_of A (snd (run_state (write_op e c) s)) = put_write A c (view_of A s)) \<and>
     (\<forall>c s. cluster_write c \<longrightarrow> accepted c (view_of A s) \<longrightarrow>
        view_of A (snd (run_state (write_cluster_op e c) s)) = put_write A c (view_of A s) \<and>
        (\<exists>x. held_clusters (put_write A c (view_of A s)) (written_key c) = Some x \<and>
           fst (run_state (write_cluster_op e c) s) = Inr x))"

text \<open>What storing an object keeps of it.\<close>

definition storage_laws :: "'s api \<Rightarrow> bool" where
  "storage_laws A \<longleftrightarrow>
     (\<forall>x. meta_key (SvcMeta (stored_service A x)) = meta_key (SvcMeta x) \<and>
        Selector (stored_service A x) = Selector x) \<and>
     (\<forall>x. meta_key (StsMeta (stored_statefulset A x)) = meta_key (StsMeta x) \<and>
        (replicas_image x \<noteq> None \<longrightarrow> replicas_image (stored_statefulset A x) = replicas_image x)) \<and>
     (\<forall>x. meta_key (CronMeta (stored_cronjob A x)) = meta_key (CronMeta x)) \<and>
     (\<forall>x. CronConcurrencyPolicy (CronSpec x) \<noteq> [] \<longrightarrow> agrees (stored_cronjob A x) x)"

text \<open>A write whose StatefulSet has a replica count and a container keeps the view valid.\<close>

lemma valid_put:
  assumes "storage_laws A" and "valid_view v"
    and "\<And>x. c = CreateStatefulSet x \<or> c = UpdateStatefulSet x \<Longrightarrow> replicas_image x \<noteq> None"
  shows "valid_view (put_write A c v)"
  using assms by (cases c) (auto simp: valid_view_def storage_laws_def simp del: split_paired_All split: if_splits)

text \<open>Everything else the operator asks of the outside leaves the objects alone.\<close>

definition others_leave :: "'s env \<Rightarrow> ('s \<Rightarrow> 'v) \<Rightarrow> bool" where
  "others_leave e view \<longleftrightarrow>
     leaves_view view (now_op e) \<and> leaves_view view (new_client_op e) \<and>
     (\<forall>r. leaves_view view (new_executor_op e r)) \<and> (\<forall>r. leaves_view view (stream_op e r)) \<and>
     (\<forall>ns ls. leaves_view view (list_pods_op e ns ls)) \<and>
     (\<forall>ns ls. leaves_view view (list_jobs_op e ns ls))"

text \<open>The helpers of the client libraries, on the objects the operator builds.\<close>

definition helper_laws :: "'s env \<Rightarrow> bool" where
  "helper_laws e \<longleftrightarrow> deep_equal_ok e \<and>
     (\<forall>c m. OwnerReferences m = [] \<longrightarrow>
        (\<exists>m'. set_controller_reference e c m = Inr m' \<and> meta_key m' = meta_key m)) \<and>
     (\<forall>m f. contains_finalizer e (add_finalizer e m f) f \<and> meta_key (add_finalizer e m f) = meta_key m \<and>
        DeletionTimestamp (add_finalizer e m f) = DeletionTimestamp m)"

definition api_laws :: "'s env \<Rightarrow> 's api \<Rightarrow> bool" where
  "api_laws e A \<longleftrightarrow> server_laws e A \<and> storage_laws A \<and> others_leave e (view_of A) \<and> helper_laws e"

section \<open>Operations that leave the objects alone\<close>

definition outside :: "('s \<Rightarrow> 'v) \<Rightarrow> 's world \<Rightarrow> 'v" where
  "outside view w = view (ext w)"

lemma outside_external:
  "leaves_view view m \<Longrightarrow> state_io_rel (keeps (outside view)) (external m)"
  by (simp add: state_io_rel_def keeps_def outside_def leaves_view_def run_external)

lemma outside_emit [rel_intros]:
  "state_io_rel (keeps (outside view)) (emit eff)"
  "state_io_rel (keeps (outside view)) (event t r m)"
  "state_io_rel (keeps (outside view)) (metric c)"
  by (simp_all add: state_io_rel_def keeps_def outside_def)

lemma outside_set_states [rel_intros]: "state_io_rel (keeps (outside view)) (set_states s)"
  by (simp add: state_io_rel_def keeps_def outside_def run_set_states)

lemma outside_others [rel_intros]:
  assumes "others_leave e view"
  shows "state_io_rel (keeps (outside view)) (now e)"
    and "state_io_rel (keeps (outside view)) (external (new_client_op e))"
    and "state_io_rel (keeps (outside view)) (external (new_executor_op e r))"
    and "state_io_rel (keeps (outside view)) (external (stream_op e r))"
    and "state_io_rel (keeps (outside view)) (external (list_pods_op e ns ls))"
    and "state_io_rel (keeps (outside view)) (external (list_jobs_op e ns ls))"
  using assms by (simp_all add: others_leave_def now_def outside_external)

lemma outside_query:
  "others_leave e view \<Longrightarrow> state_io_rel (keeps (outside view)) (ExecuteQuery e ns pod q)"
  unfolding ExecuteQuery_def execInPod_def Let_def by (intro rel_intros)

lemma outside_client [rel_intros]:
  assumes o: "others_leave e view"
  shows "state_io_rel (keeps (outside view)) (SetReplicationRole e ns pod b)"
    and "state_io_rel (keeps (outside view)) (RegisterReplica e ns pod name host mode)"
    and "state_io_rel (keeps (outside view)) (UnregisterReplica e ns pod name)"
    and "state_io_rel (keeps (outside view)) (Ping e ns pod)"
    and "state_io_rel (keeps (outside view)) (GetReplicationRole e ns pod)"
    and "state_io_rel (keeps (outside view)) (ShowReplicas e ns pod)"
    and "state_io_rel (keeps (outside view)) (GetStorageInfo e ns pod)"
  unfolding client_defs GetStorageInfo_def by (intro rel_intros outside_query [OF o] o)+

lemma outside_recorders [rel_intros]:
  "state_io_rel (keeps (outside view)) (set_gauge m ls x)"
  "state_io_rel (keeps (outside view)) (delete_labels ls m)"
  "state_io_rel (keeps (outside view)) (delete_partial cl ns m)"
  "state_io_rel (keeps (outside view)) (RecordClusterPhase cl ns phase)"
  "state_io_rel (keeps (outside view)) (RecordClusterInstances cl ns a b c)"
  "state_io_rel (keeps (outside view)) (RecordReplicationLag cl ns lag)"
  "state_io_rel (keeps (outside view)) (RecordReplicationDrift cl ns y i j)"
  "state_io_rel (keeps (outside view)) (DeleteReplicationDriftMetrics cl ns)"
  "state_io_rel (keeps (outside view)) (RecordInstanceHealth cl ns inst role h)"
  "state_io_rel (keeps (outside view)) (RecordReconcileOperation cl ns result)"
  "state_io_rel (keeps (outside view)) (RecordReconcileDuration cl ns d)"
  "state_io_rel (keeps (outside view)) (RecordSnapshotSuccess cl ns d)"
  "state_io_rel (keeps (outside view)) (RecordValidation cl ns d p)"
  "state_io_rel (keeps (outside view)) (RecordStorageInfo cl ns inst role si)"
  "state_io_rel (keeps (outside view)) (RecordReplicaDataChannel cl ns y up)"
  "state_io_rel (keeps (outside view)) (RecordReplicaBehindSeconds cl ns y d)"
  "state_io_rel (keeps (outside view)) (DeleteReplicaMetrics cl ns y)"
  "state_io_rel (keeps (outside view)) (record_replica cl ns r k)"
  "state_io_rel (keeps (outside view)) (RecordReplicaSet cl ns replicas)"
  unfolding recorder_primitives recorder_defs RecordReplicaSet_def by (intro rel_intros)+

lemma outside_health_event [rel_intros]:
  "state_io_rel (keeps (outside view)) (health_event r cls st t thr)"
  unfolding health_event_def by (cases cls) (simp_all, (intro rel_intros)+)

lemma outside_manager [rel_intros]:
  assumes o: "others_leave e view"
  shows "state_io_rel (keeps (outside view)) (ensureReplicationManager e)"
    and "state_io_rel (keeps (outside view)) (ConfigureReplication e cluster pods wi)"
    and "state_io_rel (keeps (outside view)) (CheckReplicationHealth e cluster wi)"
  unfolding ensureReplicationManager_def NewClient_def ConfigureReplication_def ensureMainRole_def
    configure_pod_def ensureReplicaRole_def cleanupStaleReplicas_def cleanup_replica_def
    if_metrics_def CheckReplicationHealth_def check_replica_def Let_def
  by (intro rel_intros o; simp add: state_io_rel_def keeps_def outside_def)+

lemma outside_validation [rel_intros]:
  assumes o: "others_leave e view"
  shows "state_io_rel (keeps (outside view)) (reconcileValidation e cluster pods wi)"
  unfolding reconcileValidation_def run_validation_def RunValidation_def ping_instance_def
    testReplicationLag_def probe_replica_def UpdateValidationStatus_def validation_events_def Let_def
  by (intro rel_intros outside_query [OF o] o outside_manager)+

lemma outside_record_success [rel_intros]:
  "state_io_rel (keeps (outside view)) (record_success cluster phase)"
  unfolding record_success_def record_validation_def emitPhaseTransitionEvents_def Let_def
  by (intro rel_intros)

lemma outside_steps [rel_intros]:
  assumes o: "others_leave e view"
  shows "state_io_rel (keeps (outside view)) (configure_step e cluster pods wi)"
    and "state_io_rel (keeps (outside view)) (updateSnapshotStatus e cluster)"
    and "state_io_rel (keeps (outside view)) (updateConditions e cluster wi a b c d)"
    and "state_io_rel (keeps (outside view)) (collectStorageMetrics e cluster pods wi)"
    and "state_io_rel (keeps (outside view)) (getClusterPods e cluster)"
  unfolding configure_step_def updateSnapshotStatus_def updateConditions_def collectStorageMetrics_def
    collect_pod_def getClusterPods_def Let_def
  by (intro rel_intros o)+

end
