(* ===== verification/Repair.thy ===== *)
theory Repair
  imports Api_Server
begin

text \<open>
  What a pass does to the objects of a cluster. On an API server that behaves as documented the
  pass is a function of the objects the server holds: \<open>object_writes\<close> computes the writes, and
  the detailed operations are shown to make exactly these, followed by one write of the status.
  One pass repairs whatever is missing or drifted, and the next finds nothing to do.
\<close>

section \<open>The writes as a function of what is held\<close>

definition owned_meta :: "'s env \<Rightarrow> MemgraphCluster \<Rightarrow> ObjectMeta \<Rightarrow> ObjectMeta" where
  "owned_meta e cluster m =
     (case set_controller_reference e cluster m of Inr m' \<Rightarrow> m' | Inl _ \<Rightarrow> m)"

definition service_writes :: "'s env \<Rightarrow> MemgraphCluster \<Rightarrow> Service \<Rightarrow> api_view \<Rightarrow> api_write list" where
  "service_writes e cluster built v =
     (case held_services v (meta_key (SvcMeta built)) of
        None \<Rightarrow> [CreateService (built\<lparr>SvcMeta := owned_meta e cluster (SvcMeta built)\<rparr>)]
      | Some _ \<Rightarrow> [])"

definition write_service_writes ::
    "'s env \<Rightarrow> MemgraphCluster \<Rightarrow> string \<Rightarrow> api_view \<Rightarrow> api_write list" where
  "write_service_writes e cluster wi v =
     (let built = buildWriteService cluster wi in
      case held_services v (meta_key (SvcMeta built)) of
        None \<Rightarrow> [CreateService (built\<lparr>SvcMeta := owned_meta e cluster (SvcMeta built)\<rparr>)]
      | Some x \<Rightarrow>
          if current_write_instance x \<noteq> wi \<and> wi \<noteq> []
          then [UpdateService (x\<lparr>Selector := Selector built\<rparr>)] else [])"

definition statefulset_writes :: "'s env \<Rightarrow> MemgraphCluster \<Rightarrow> api_view \<Rightarrow> api_write list" where
  "statefulset_writes e cluster v =
     (let built = buildStatefulSet e cluster in
      case held_statefulsets v (meta_key (StsMeta built)) of
        None \<Rightarrow> [CreateStatefulSet (built\<lparr>StsMeta := owned_meta e cluster (StsMeta built)\<rparr>)]
      | Some x \<Rightarrow>
          if replicas_image x = Some (desired_replicas cluster, cluster_image cluster) then []
          else [UpdateStatefulSet (set_image (x\<lparr>StsReplicas := Some (desired_replicas cluster)\<rparr>)
                  (cluster_image cluster))])"

definition cronjob_writes :: "'s env \<Rightarrow> MemgraphCluster \<Rightarrow> api_view \<Rightarrow> api_write list" where
  "cronjob_writes e cluster v =
     (let built = buildSnapshotCronJob cluster in
      if IsEnabled (Snapshot (Spec cluster)) then
        (case held_cronjobs v (meta_key (CronMeta built)) of
           None \<Rightarrow> [CreateCronJob (built\<lparr>CronMeta := owned_meta e cluster (CronMeta built)\<rparr>)]
         | Some x \<Rightarrow>
             if snapshotCronJobNeedsUpdate e x built
             then [UpdateCronJob (x\<lparr>CronSpec := CronSpec built\<rparr>)] else [])
      else
        (case held_cronjobs v (cluster_ns cluster, snapshot_name cluster) of
           None \<Rightarrow> [] | Some x \<Rightarrow> [DeleteCronJob x]))"

definition object_writes ::
    "'s env \<Rightarrow> 's api \<Rightarrow> MemgraphCluster \<Rightarrow> Pod list \<Rightarrow> api_view \<Rightarrow> api_write list" where
  "object_writes e A cluster pods v =
     (let ws1 = service_writes e cluster (buildHeadlessService cluster) v;
          v1 = put_writes A ws1 v;
          ws2 = statefulset_writes e cluster v1;
          v2 = put_writes A ws2 v1;
          ws3 = write_service_writes e cluster (determineWriteInstance cluster pods) v2;
          v3 = put_writes A ws3 v2;
          ws4 = service_writes e cluster (buildReadService cluster) v3;
          v4 = put_writes A ws4 v3;
          ws5 = cronjob_writes e cluster v4
      in ws1 @ ws2 @ ws3 @ ws4 @ ws5)"

section \<open>Assertions on the writes and the objects\<close>

definition stands :: "'s api \<Rightarrow> api_write list \<Rightarrow> api_view \<Rightarrow> 's world \<Rightarrow> bool" where
  "stands A cs v w \<longleftrightarrow> writes (trace w) = cs \<and> view_of A (ext w) = v"

abbreviation makes ::
    "'s api \<Rightarrow> ('s, 'a) op \<Rightarrow> 'a \<Rightarrow> (api_view \<Rightarrow> api_write list) \<Rightarrow> api_view \<Rightarrow> bool" where
  "makes A m x ws v \<equiv> (\<forall>cs. ensures (stands A cs v) m
     (\<lambda>r w. r = x \<and> stands A (cs @ ws v) (put_writes A (ws v) v) w))"

lemma stands_quiet:
  assumes "state_io_rel (emits no_write) m" and "state_io_rel (keeps (outside (view_of A))) m"
  shows "ensures (stands A cs v) m (\<lambda>_. stands A cs v)"
  unfolding ensures_def
proof (intro allI impI)
  fix w x w' assume "stands A cs v w" and r: "run_state m w = (x, w')"
  then show "stands A cs v w'"
    using emitsD [OF assms(1), of w] keepsD [OF assms(2), of w]
    by (auto simp: stands_def writes_append writes_Nil outside_def)
qed

lemma stands_quiet_bind:
  assumes "state_io_rel (emits no_write) m" and "state_io_rel (keeps (outside (view_of A))) m"
    and "\<And>w. S (fst (run_state m w))" and "\<And>x. S x \<Longrightarrow> ensures (stands A cs v) (f x) Q"
  shows "ensures (stands A cs v) (State_Monad.bind m f) Q"
proof (rule ensures_bind [where Q = "\<lambda>x w. S x \<and> stands A cs v w"])
  show "ensures (stands A cs v) m (\<lambda>x w. S x \<and> stands A cs v w)"
    using stands_quiet [OF assms(1,2), of cs v] assms(3) unfolding ensures_def by (metis fst_conv)
  show "ensures (\<lambda>w. S x \<and> stands A cs v w) (f x) Q" for x
    using assms(4) [of x] by (auto simp: ensures_def)
qed

lemma ensures_pure:
  "(b \<Longrightarrow> ensures P m Q) \<Longrightarrow> ensures (\<lambda>w. b \<and> P w) m Q"
  by (auto simp: ensures_def)

lemma stands_write:
  assumes "server_laws e A" and "\<not> cluster_write c" and "accepted c v"
  shows "ensures (stands A cs v) (api_write e c)
    (\<lambda>r w. r = None \<and> stands A (cs @ [c]) (put_write A c v) w)"
proof -
  have w: "fst (run_state (write_op e c) s) = None \<and>
      view_of A (snd (run_state (write_op e c) s)) = put_write A c (view_of A s)"
    if "view_of A s = v" for s
    using assms that unfolding server_laws_def by blast
  show ?thesis
    using w by (auto simp: ensures_def stands_def api_write_def run_external writes_append)
qed

lemma stands_read:
  assumes "reads (view_of A) m obj"
  shows "ensures (stands A cs v) (external m)
    (\<lambda>r w. (case obj v of Some x \<Rightarrow> r = Inr x | None \<Rightarrow> (\<exists>er. IsNotFound er \<and> r = Inl er)) \<and>
      stands A cs v w)"
proof -
  have answer: "case obj v of Some x \<Rightarrow> fst (run_state m s) = Inr x
      | None \<Rightarrow> \<exists>er. IsNotFound er \<and> fst (run_state m s) = Inl er"
    and left: "view_of A (snd (run_state m s)) = v" if "view_of A s = v" for s
    using assms that unfolding reads_def leaves_view_def by blast+
  show ?thesis
    unfolding ensures_def stands_def run_external using answer left
    by (auto split: option.splits)
qed

lemma server_reads:
  assumes "server_laws e A"
  shows "reads (view_of A) (get_cluster_op e n ns) (\<lambda>v. held_clusters v (ns, n))"
    and "reads (view_of A) (get_service_op e n ns) (\<lambda>v. held_services v (ns, n))"
    and "reads (view_of A) (get_statefulset_op e n ns) (\<lambda>v. held_statefulsets v (ns, n))"
    and "reads (view_of A) (get_cronjob_op e n ns) (\<lambda>v. held_cronjobs v (ns, n))"
  using assms by (simp_all add: server_laws_def)

lemma stands_valid:
  assumes "server_laws e A" and "valid_view v \<Longrightarrow> ensures (stands A cs v) m Q"
  shows "ensures (stands A cs v) m Q"
proof (cases "valid_view v")
  case False
  moreover have "valid_view (view_of A s)" for s using assms(1) by (simp add: server_laws_def)
  ultimately show ?thesis by (auto simp: ensures_def stands_def)
qed (rule assms(2))

text \<open>A read is followed by the branch for what is held.\<close>

lemma stands_read_bind:
  assumes "reads (view_of A) m obj"
    and "\<And>x. obj v = Some x \<Longrightarrow> ensures (stands A cs v) (f (Inr x)) Q"
    and "\<And>er. obj v = None \<Longrightarrow> IsNotFound er \<Longrightarrow> ensures (stands A cs v) (f (Inl er)) Q"
  shows "ensures (stands A cs v) (State_Monad.bind (external m) f) Q"
proof (rule ensures_bind [OF stands_read [OF assms(1)]])
  fix r
  show "ensures (\<lambda>w. (case obj v of Some x \<Rightarrow> r = Inr x | None \<Rightarrow> (\<exists>er. IsNotFound er \<and> r = Inl er)) \<and>
      stands A cs v w) (f r) Q"
    by (rule ensures_pure) (use assms(2,3) in \<open>auto split: option.splits\<close>)
qed

lemma owned:
  assumes "helper_laws e" and "OwnerReferences m = []"
  shows "set_controller_reference e cluster m = Inr (owned_meta e cluster m)"
    and "meta_key (owned_meta e cluster m) = meta_key m"
  using assms unfolding helper_laws_def owned_meta_def by (metis sum.case(2))+

lemma built_unowned [simp]:
  "OwnerReferences (SvcMeta (buildHeadlessService cluster)) = []"
  "OwnerReferences (SvcMeta (buildReadService cluster)) = []"
  "OwnerReferences (SvcMeta (buildWriteService cluster wi)) = []"
  "OwnerReferences (StsMeta (buildStatefulSet e cluster)) = []"
  "OwnerReferences (CronMeta (buildSnapshotCronJob cluster)) = []"
  by (simp_all add: buildHeadlessService_def buildReadService_def buildWriteService_def
      buildStatefulSet_def buildSnapshotCronJob_def mk_meta_def Let_def)

section \<open>The operations make these writes\<close>

lemma key_split: "(Namespace m, Name m) = meta_key m"
  by (simp add: meta_key_def)

lemma ensureService_makes:
  assumes "server_laws e A" and "helper_laws e" and "OwnerReferences (SvcMeta built) = []"
  shows "makes A (ensureService e cluster built) None (service_writes e cluster built) v"
proof
  fix cs
  let ?m = "owned_meta e cluster (SvcMeta built)"
  let ?c = "CreateService (built\<lparr>SvcMeta := ?m\<rparr>)"
  note o = owned [OF assms(2,3), of cluster]
  have "accepted ?c v" if "held_services v (meta_key (SvcMeta built)) = None"
    using that by (simp add: o)
  note create = stands_write [OF assms(1) _ this]
  show "ensures (stands A cs v) (ensureService e cluster built)
    (\<lambda>r w. r = None \<and> stands A (cs @ service_writes e cluster built v)
      (put_writes A (service_writes e cluster built v) v) w)"
    unfolding ensureService_def o(1) sum.case Let_def
    by (rule stands_read_bind [OF server_reads(2) [OF assms(1)]])
      (use create in \<open>auto simp: key_split o(2) service_writes_def cluster_write_def intro: ensures_return\<close>)
qed

lemma reconcileWriteService_makes:
  assumes "server_laws e A" and "helper_laws e"
  shows "makes A (reconcileWriteService e cluster wi) None (write_service_writes e cluster wi) v"
proof
  fix cs
  let ?built = "buildWriteService cluster wi"
  let ?m = "owned_meta e cluster (SvcMeta ?built)"
  note o = owned [OF assms(2), of "SvcMeta ?built" cluster, simplified]
  have "accepted (CreateService (?built\<lparr>SvcMeta := ?m\<rparr>)) v"
    if "held_services v (meta_key (SvcMeta ?built)) = None"
    using that by (simp add: o)
  note create = stands_write [OF assms(1) _ this]
  show "ensures (stands A cs v) (reconcileWriteService e cluster wi)
    (\<lambda>r w. r = None \<and> stands A (cs @ write_service_writes e cluster wi v)
      (put_writes A (write_service_writes e cluster wi v) v) w)"
    unfolding reconcileWriteService_def o(1) sum.case Let_def
  proof (rule stands_valid [OF assms(1)],
      rule stands_read_bind [OF server_reads(2) [OF assms(1)]], unfold sum.case key_split o(2))
    show "ensures (stands A cs v)
       (if IsNotFound er then api_write e (CreateService (?built\<lparr>SvcMeta := ?m\<rparr>))
        else State_Monad.return (Some er))
       (\<lambda>r w. r = None \<and> stands A (cs @ write_service_writes e cluster wi v)
         (put_writes A (write_service_writes e cluster wi v) v) w)"
      if "held_services v (meta_key (SvcMeta ?built)) = None" "IsNotFound er" for er
      using that create [of cs] by (simp add: write_service_writes_def cluster_write_def Let_def)
    fix x assume x: "held_services v (meta_key (SvcMeta ?built)) = Some x" and k: "valid_view v"
    let ?c = "UpdateService (x\<lparr>Selector := Selector (?built\<lparr>SvcMeta := ?m\<rparr>)\<rparr>)"
    have "meta_key (SvcMeta x) = meta_key (SvcMeta ?built)" using k x unfolding valid_view_def by blast
    then have a: "accepted ?c v" using x by simp
    show "ensures (stands A cs v)
       (if current_write_instance x \<noteq> wi \<and> wi \<noteq> [] then do {
          event EventNormal EventReasonUpdatedWriteService (''Write service now pointing to '' @ wi);
          api_write e ?c }
        else State_Monad.return None)
       (\<lambda>r w. r = None \<and> stands A (cs @ write_service_writes e cluster wi v)
         (put_writes A (write_service_writes e cluster wi v) v) w)"
      using x stands_write [OF assms(1) _ a]
      by (auto simp: write_service_writes_def cluster_write_def Let_def intro: ensures_return
          intro!: ensures_bind [OF stands_quiet] rel_intros)
  qed
qed

lemma replicas_image_built:
  "replicas_image (buildStatefulSet e cluster\<lparr>StsMeta := m\<rparr>) =
     Some (desired_replicas cluster, cluster_image cluster)"
  by (simp add: replicas_image_def buildStatefulSet_def Let_def memgraph_container_def)

lemma replicas_image_set:
  "replicas_image x \<noteq> None \<Longrightarrow> replicas_image (set_image (x\<lparr>StsReplicas := Some n\<rparr>) i) = Some (n, i)"
  by (auto simp: replicas_image_def set_image_def split: option.splits list.splits)

lemma replicas_imageE:
  assumes "replicas_image x \<noteq> None"
  obtains n c cs where "StsReplicas x = Some n" and "Containers (TemplateSpec x) = c # cs"
    and "replicas_image x = Some (n, ContainerImage c)"
  using assms by (auto simp: replicas_image_def split: option.splits list.splits)

lemma set_image_same:
  "Containers (TemplateSpec x) = c # cs \<Longrightarrow> set_image x (ContainerImage c) = x"
  by (simp add: set_image_def)

lemma same_replicas: "StsReplicas x = Some n \<Longrightarrow> x\<lparr>StsReplicas := Some n\<rparr> = x"
  by (cases x) simp

lemma desired_statefulset:
  "the (StsReplicas (buildStatefulSet e cluster\<lparr>StsMeta := m\<rparr>)) = desired_replicas cluster"
  "ContainerImage (hd (Containers (TemplateSpec (buildStatefulSet e cluster\<lparr>StsMeta := m\<rparr>)))) =
     cluster_image cluster"
  by (simp_all add: buildStatefulSet_def Let_def memgraph_container_def)

lemma update_statefulset_makes:
  assumes "server_laws e A" and "replicas_image x \<noteq> None"
    and a: "\<And>y. StsMeta y = StsMeta x \<Longrightarrow> replicas_image y \<noteq> None \<Longrightarrow> accepted (UpdateStatefulSet y) v"
  shows "makes A (update_statefulset e x (buildStatefulSet e cluster\<lparr>StsMeta := m\<rparr>)) (Inr None)
    (\<lambda>_. if replicas_image x = Some (desired_replicas cluster, cluster_image cluster) then []
      else [UpdateStatefulSet (set_image (x\<lparr>StsReplicas := Some (desired_replicas cluster)\<rparr>)
              (cluster_image cluster))]) v"
proof
  fix cs
  let ?n = "desired_replicas cluster" and ?i = "cluster_image cluster"
  let ?y = "set_image (x\<lparr>StsReplicas := Some ?n\<rparr>) ?i"
  obtain n c ds where x: "StsReplicas x = Some n" "Containers (TemplateSpec x) = c # ds"
    "replicas_image x = Some (n, ContainerImage c)" using assms(2) by (rule replicas_imageE)
  have y: "StsMeta ?y = StsMeta x" by (simp add: set_image_def split: list.splits)
  have y': "replicas_image ?y \<noteq> None" using assms(2) by (simp add: replicas_image_set)
  note sent = stands_write [OF assms(1) _ a [OF y y'], of cs, simplified cluster_write_def, simplified]
  define Q :: "go_panic + go_error option \<Rightarrow> 'a world \<Rightarrow> bool" where
    "Q = (\<lambda>r w. r = Inr None \<and> stands A (cs @ [UpdateStatefulSet ?y]) (put_writes A [UpdateStatefulSet ?y] v) w)"
  have update: "ensures (stands A cs v) (do { err \<leftarrow> api_write e (UpdateStatefulSet z);
      State_Monad.return (Inr err) }) Q" if "z = ?y" for z
    unfolding that Q_def by (rule ensures_bind [OF sent], rule ensures_pure) (auto intro: ensures_return)
  have img: "set_image (x\<lparr>StsReplicas := Some ?n\<rparr>) ?i = x\<lparr>StsReplicas := Some ?n\<rparr>" if "ContainerImage c = ?i"
    using x(2) that set_image_same [of "x\<lparr>StsReplicas := Some ?n\<rparr>" c ds] by simp
  note ev = ensures_bind [OF stands_quiet [OF emits_event outside_emit(2)]]
  let ?m = "update_statefulset e x (buildStatefulSet e cluster\<lparr>StsMeta := m\<rparr>)"
  have "ensures (stands A cs v) ?m Q" if "\<not> (n = ?n \<and> ContainerImage c = ?i)"
  proof (cases "n = ?n")
    case True
    then have "set_image x ?i = ?y" using same_replicas [OF x(1)] by simp
    with True that x(2) show ?thesis
      unfolding update_statefulset_def x(1) option.case desired_statefulset scale_step_def image_step_def
      by (auto intro!: ev update)
  next
    case False
    with x(2) img show ?thesis
      unfolding update_statefulset_def x(1) option.case desired_statefulset scale_step_def image_step_def
      by (auto intro!: ev update)
  qed
  moreover have "ensures (stands A cs v) ?m (\<lambda>r w. r = Inr None \<and> stands A cs v w)"
    if "n = ?n \<and> ContainerImage c = ?i"
    using that x(2)
    unfolding update_statefulset_def x(1) option.case desired_statefulset scale_step_def image_step_def
    by (auto intro: ensures_return)
  ultimately show "ensures (stands A cs v) ?m
    (\<lambda>r w. r = Inr None \<and> stands A (cs @ (if replicas_image x = Some (?n, ?i) then []
        else [UpdateStatefulSet ?y])) (put_writes A (if replicas_image x = Some (?n, ?i) then []
        else [UpdateStatefulSet ?y]) v) w)"
    by (simp add: x(3) Q_def)
qed

lemma reconcileStatefulSet_makes:
  assumes "server_laws e A" and "helper_laws e"
  shows "makes A (reconcileStatefulSet e cluster) (Inr None) (statefulset_writes e cluster) v"
proof
  fix cs
  let ?built = "buildStatefulSet e cluster"
  let ?m = "owned_meta e cluster (StsMeta ?built)"
  let ?Q = "\<lambda>(r :: go_panic + go_error option) w. r = Inr None \<and>
    stands A (cs @ statefulset_writes e cluster v) (put_writes A (statefulset_writes e cluster v) v) w"
  note o = owned [OF assms(2), of "StsMeta ?built" cluster, simplified]
  show "ensures (stands A cs v) (reconcileStatefulSet e cluster) ?Q"
    unfolding reconcileStatefulSet_def o(1) sum.case Let_def
  proof (rule stands_valid [OF assms(1)],
      rule stands_read_bind [OF server_reads(3) [OF assms(1)]], unfold sum.case key_split o(2))
    fix x assume x: "held_statefulsets v (meta_key (StsMeta ?built)) = Some x" and "valid_view v"
    then have k: "meta_key (StsMeta x) = meta_key (StsMeta ?built)" and i: "replicas_image x \<noteq> None"
      unfolding valid_view_def by blast+
    have "accepted (UpdateStatefulSet y) v" if "StsMeta y = StsMeta x" "replicas_image y \<noteq> None" for y
      using that k x by simp
    from update_statefulset_makes [OF assms(1) i this]
    show "ensures (stands A cs v) (update_statefulset e x (?built\<lparr>StsMeta := ?m\<rparr>)) ?Q"
      by (simp add: statefulset_writes_def Let_def x)
  next
    fix er assume n: "held_statefulsets v (meta_key (StsMeta ?built)) = None" and "IsNotFound er"
    let ?c = "CreateStatefulSet (?built\<lparr>StsMeta := ?m\<rparr>)"
    have "accepted ?c v" using n by (simp add: o replicas_image_built)
    note sent = stands_write [OF assms(1) _ this, of cs, simplified cluster_write_def, simplified]
    show "ensures (stands A cs v) (if IsNotFound er then do {
          event EventNormal EventReasonCreatingStatefulSet
            (''Creating StatefulSet '' @ Name ?m @ '' with '' @
             Itoa (the (StsReplicas (?built\<lparr>StsMeta := ?m\<rparr>))) @ '' replicas'');
          err \<leftarrow> api_write e ?c;
          State_Monad.return (Inr err) }
        else State_Monad.return (Inr (Some er))) ?Q"
      using \<open>IsNotFound er\<close> n sent
      by (auto simp: statefulset_writes_def Let_def intro!: ensures_return ensures_pure
          ensures_bind [OF stands_quiet [OF emits_event outside_emit(2)]] ensures_bind [OF sent])
  qed
qed

lemma sent_event:
  assumes "server_laws e A" and "\<not> cluster_write c" and "accepted c v"
  shows "ensures (stands A cs v) (do {
      err \<leftarrow> api_write e c;
      case err of Some er \<Rightarrow> State_Monad.return (Some er)
      | None \<Rightarrow> do { event t r m; State_Monad.return None } })
    (\<lambda>r w. r = None \<and> stands A (cs @ [c]) (put_writes A [c] v) w)"
  by (rule ensures_bind [OF stands_write [OF assms]], rule ensures_pure)
    (auto intro!: ensures_return ensures_bind [OF stands_quiet [OF emits_event outside_emit(2)]])

lemma update_ignores_meta:
  "snapshotCronJobNeedsUpdate e x (y\<lparr>CronMeta := m\<rparr>) = snapshotCronJobNeedsUpdate e x y"
  by (simp add: snapshotCronJobNeedsUpdate_def)

lemma reconcileSnapshotCronJob_makes:
  assumes "server_laws e A" and "helper_laws e"
  shows "makes A (reconcileSnapshotCronJob e cluster) None (cronjob_writes e cluster) v"
proof
  fix cs
  let ?built = "buildSnapshotCronJob cluster"
  let ?m = "owned_meta e cluster (CronMeta ?built)"
  let ?Q = "\<lambda>r w. r = None \<and>
    stands A (cs @ cronjob_writes e cluster v) (put_writes A (cronjob_writes e cluster v) v) w"
  note o = owned [OF assms(2), of "CronMeta ?built" cluster, simplified]
  show "ensures (stands A cs v) (reconcileSnapshotCronJob e cluster) ?Q"
  proof (cases "IsEnabled (Snapshot (Spec cluster))")
    case True
    show ?thesis
      unfolding reconcileSnapshotCronJob_def o(1) sum.case Let_def
      apply (simp only: True simp_thms if_False)
    proof (rule stands_valid [OF assms(1)],
        rule stands_read_bind [OF server_reads(4) [OF assms(1)]], unfold sum.case key_split o(2))
      fix x assume x: "held_cronjobs v (meta_key (CronMeta ?built)) = Some x" and "valid_view v"
      then have "meta_key (CronMeta x) = meta_key (CronMeta ?built)"
        unfolding valid_view_def by blast
      then have "accepted (UpdateCronJob (x\<lparr>CronSpec := CronSpec (?built\<lparr>CronMeta := ?m\<rparr>)\<rparr>)) v"
        using x by simp
      note sent = sent_event [OF assms(1) _ this, of cs, simplified cluster_write_def, simplified]
      show "ensures (stands A cs v)
        (if snapshotCronJobNeedsUpdate e x (?built\<lparr>CronMeta := ?m\<rparr>) then do {
           err \<leftarrow> api_write e (UpdateCronJob (x\<lparr>CronSpec := CronSpec (?built\<lparr>CronMeta := ?m\<rparr>)\<rparr>));
           case err of Some er \<Rightarrow> State_Monad.return (Some er)
           | None \<Rightarrow> do {
               event EventNormal EventReasonSnapshotCronJobUpdated
                 (''Snapshot schedule updated to: '' @ CronSchedule (CronSpec (?built\<lparr>CronMeta := ?m\<rparr>)));
               State_Monad.return None } }
         else State_Monad.return None) ?Q"
        using sent x True
        by (auto simp: cronjob_writes_def Let_def update_ignores_meta intro: ensures_return)
    next
      fix er assume n: "held_cronjobs v (meta_key (CronMeta ?built)) = None" and "IsNotFound er"
      have "accepted (CreateCronJob (?built\<lparr>CronMeta := ?m\<rparr>)) v" using n by (simp add: o)
      note sent = sent_event [OF assms(1) _ this, of cs, simplified cluster_write_def, simplified]
      show "ensures (stands A cs v) (if IsNotFound er then do {
           err \<leftarrow> api_write e (CreateCronJob (?built\<lparr>CronMeta := ?m\<rparr>));
           case err of Some er \<Rightarrow> State_Monad.return (Some er)
           | None \<Rightarrow> do {
               event EventNormal EventReasonSnapshotCronJobCreated
                 (''Snapshot CronJob created with schedule: '' @ Schedule (Snapshot (Spec cluster)));
               State_Monad.return None } }
         else State_Monad.return (Some er)) ?Q"
        using sent n True \<open>IsNotFound er\<close> by (simp add: cronjob_writes_def Let_def)
    qed
  next
    case False
    show ?thesis
      unfolding reconcileSnapshotCronJob_def deleteSnapshotCronJob_def
      apply (simp only: False simp_thms if_True)
    proof (rule stands_valid [OF assms(1)],
        rule stands_read_bind [OF server_reads(4) [OF assms(1)]], unfold sum.case)
      fix x assume x: "held_cronjobs v (cluster_ns cluster, snapshot_name cluster) = Some x" and "valid_view v"
      then have "meta_key (CronMeta x) = (cluster_ns cluster, snapshot_name cluster)"
        unfolding valid_view_def by blast
      then have "accepted (DeleteCronJob x) v" using x by simp
      from stands_write [OF assms(1) _ this] False x
      show "ensures (stands A cs v) (api_write e (DeleteCronJob x)) ?Q"
        by (simp add: cronjob_writes_def Let_def cluster_write_def)
    next
      fix er assume "held_cronjobs v (cluster_ns cluster, snapshot_name cluster) = None" and "IsNotFound er"
      with False show "ensures (stands A cs v) (State_Monad.return (if IsNotFound er then None else Some er)) ?Q"
        by (auto simp: cronjob_writes_def Let_def intro: ensures_return)
    qed
  qed
qed

section \<open>What the writes leave held\<close>

lemma object_writes_clusters:
  "held_clusters (put_writes A (service_writes e cluster built v) u) = held_clusters u"
  "held_clusters (put_writes A (statefulset_writes e cluster v) u) = held_clusters u"
  "held_clusters (put_writes A (write_service_writes e cluster wi v) u) = held_clusters u"
  "held_clusters (put_writes A (cronjob_writes e cluster v) u) = held_clusters u"
  by (simp_all add: service_writes_def statefulset_writes_def write_service_writes_def
      cronjob_writes_def Let_def split: option.splits)

text \<open>Afterwards the StatefulSet is held with the wanted replicas and image.\<close>

definition scaled :: "'s env \<Rightarrow> MemgraphCluster \<Rightarrow> api_view \<Rightarrow> bool" where
  "scaled e cluster v \<longleftrightarrow>
     (\<exists>x. held_statefulsets v (meta_key (StsMeta (buildStatefulSet e cluster))) = Some x \<and>
        replicas_image x = Some (desired_replicas cluster, cluster_image cluster))"

lemma statefulset_scaled:
  assumes "storage_laws A" and "helper_laws e" and "valid_view v"
  shows "scaled e cluster (put_writes A (statefulset_writes e cluster v) v)"
proof -
  let ?built = "buildStatefulSet e cluster"
  note o = owned [OF assms(2), of "StsMeta ?built" cluster, simplified]
  have stored: "replicas_image x \<noteq> None \<Longrightarrow> replicas_image (stored_statefulset A x) = replicas_image x" for x
    using assms(1) by (simp add: storage_laws_def)
  show ?thesis
  proof (cases "held_statefulsets v (meta_key (StsMeta ?built))")
    case None
    then show ?thesis
      by (simp add: scaled_def statefulset_writes_def Let_def o stored replicas_image_built)
  next
    case (Some x)
    then have "meta_key (StsMeta x) = meta_key (StsMeta ?built)" "replicas_image x \<noteq> None"
      using assms(3) unfolding valid_view_def by blast+
    moreover have "StsMeta (set_image y i) = StsMeta y" for y i
      by (simp add: set_image_def split: list.splits)
    ultimately show ?thesis
      using Some by (simp add: scaled_def statefulset_writes_def Let_def stored replicas_image_set)
  qed
qed

section \<open>A whole pass\<close>

text \<open>The pods of the StatefulSet, once it is held with the wanted replicas and image.\<close>

definition serves_pods :: "'s env \<Rightarrow> 's api \<Rightarrow> MemgraphCluster \<Rightarrow> Pod list \<Rightarrow> bool" where
  "serves_pods e A cluster pods \<longleftrightarrow>
     (\<forall>s. scaled e cluster (view_of A s) \<longrightarrow>
        fst (run_state (list_pods_op e (cluster_ns cluster) (labelsForCluster cluster)) s) = Inr pods)"

text \<open>After the writes \<open>cs\<close> the status of the object was written, with the property \<open>G\<close>.\<close>

definition finished ::
    "'s api \<Rightarrow> (MemgraphCluster \<Rightarrow> bool) \<Rightarrow> api_write list \<Rightarrow> api_view \<Rightarrow> 's world \<Rightarrow> bool" where
  "finished A G cs v w \<longleftrightarrow>
     (\<exists>c. G c \<and> stands A (cs @ [UpdateClusterStatus c]) (put_write A (UpdateClusterStatus c) v) w)"

lemma finished_quiet:
  assumes "state_io_rel (emits no_write) m" and "state_io_rel (keeps (outside (view_of A))) m"
  shows "ensures (finished A G cs v) m (\<lambda>_. finished A G cs v)"
  using stands_quiet [OF assms] unfolding finished_def ensures_def by blast

lemma write_status_finished:
  assumes "server_laws e A" and "G c" and "held_clusters v (meta_key (Meta c)) \<noteq> None"
  shows "ensures (stands A cs v) (write_status e c) (\<lambda>r w. fst r = None \<and> finished A G cs v w)"
proof -
  let ?c = "UpdateClusterStatus c"
  have law: "view_of A (snd (run_state (write_cluster_op e ?c) s)) = put_write A ?c v \<and>
      (\<exists>x. fst (run_state (write_cluster_op e ?c) s) = Inr x)" if "view_of A s = v" for s
  proof -
    have "cluster_write ?c" "accepted ?c (view_of A s)"
      using assms(3) that by (simp_all add: cluster_write_def)
    with assms(1) that show ?thesis unfolding server_laws_def by blast
  qed
  have "ensures (stands A cs v) (api_write_cluster e ?c)
      (\<lambda>r w. \<not> isl r \<and> stands A (cs @ [?c]) (put_write A ?c v) w)"
    unfolding ensures_def stands_def api_write_cluster_def
    using law by (auto simp: run_external writes_append) (metis isl_def sum.disc(2) sum.exhaust)+
  then show ?thesis
    unfolding write_status_def
    by (rule ensures_bind) (use assms(2) in \<open>auto simp: finished_def ensures_def split: sum.splits\<close>)
qed

text \<open>What is reported when the replication step returned \<open>x\<close>.\<close>

definition reported ::
    "'s env \<Rightarrow> MemgraphCluster \<Rightarrow> Pod list \<Rightarrow> (MemgraphCluster \<Rightarrow> bool) \<Rightarrow>
     int \<times> int \<times> go_error option \<Rightarrow> bool" where
  "reported e cluster pods G x \<longleftrightarrow>
     (\<forall>c w. same_object cluster c \<longrightarrow>
        G (fst (run_state (updateConditions e
          (status_update c pods (determineWriteInstance cluster pods) (fst x))
          (determineWriteInstance cluster pods) (ready_count pods) (desired_replicas c) (fst x)
          (fst (snd x))) w)))"

definition reporting :: "'s env \<Rightarrow> MemgraphCluster \<Rightarrow> Pod list \<Rightarrow> (MemgraphCluster \<Rightarrow> bool) \<Rightarrow> bool" where
  "reporting e cluster pods G \<longleftrightarrow>
     (\<forall>w. reported e cluster pods G
        (fst (run_state (configure_step e cluster pods (determineWriteInstance cluster pods)) w)))"

lemma reporting_same: "reporting e cluster pods (same_object cluster)"
  unfolding reporting_def reported_def
  by (blast intro: same_object_trans status_update_same conditions_same)

lemma updateStatus_finished:
  assumes "api_laws e A" and "reported e cluster pods G (r, h, er)" and "same_object cluster c"
    and "held_clusters v (meta_key (Meta cluster)) \<noteq> None"
  shows "ensures (stands A cs v) (updateStatus e c pods (determineWriteInstance cluster pods) r h)
    (\<lambda>x w. fst x = None \<and> finished A G cs v w)"
proof -
  have laws: "server_laws e A" "others_leave e (view_of A)" using assms(1) by (simp_all add: api_laws_def)
  show ?thesis
    unfolding updateStatus_def
  proof (rule stands_quiet_bind [where S = "\<lambda>c'. G c' \<and> Meta c' = Meta cluster"])
    show "state_io_rel (emits no_write) (updateConditions e c' wi a b k l)" for c' wi a b k l
      by (rule others_quiet)
    show "state_io_rel (keeps (outside (view_of A))) (updateConditions e c' wi a b k l)" for c' wi a b k l
      by (rule outside_steps [OF laws(2)])
    let ?u = "updateConditions e (status_update c pods (determineWriteInstance cluster pods) r)
      (determineWriteInstance cluster pods) (ready_count pods) (desired_replicas c) r h"
    have "G (fst (run_state ?u w))" for w
      using assms(2,3) unfolding reported_def by simp
    moreover have "Meta (fst (run_state ?u w)) = Meta cluster" for w
      using conditions_same [of "status_update c pods (determineWriteInstance cluster pods) r"]
        status_update_same assms(3) unfolding same_object_def by metis
    ultimately show "G (fst (run_state ?u w)) \<and> Meta (fst (run_state ?u w)) = Meta cluster" for w
      by blast
    show "ensures (stands A cs v) (write_status e c') (\<lambda>x w. fst x = None \<and> finished A G cs v w)"
      if "G c' \<and> Meta c' = Meta cluster" for c'
      using that assms(4) by (intro write_status_finished [OF laws(1)]) auto
  qed
qed

text \<open>A step with known writes, and the rest of the block.\<close>

lemma makes_bind:
  assumes "makes A m x ws v" and "ensures (stands A (cs @ ws v) (put_writes A (ws v) v)) (f x) Q"
  shows "ensures (stands A cs v) (State_Monad.bind m f) Q"
  by (rule ensures_bind [OF assms(1) [rule_format]], rule ensures_pure) (use assms(2) in simp)

lemma quiet_bind:
  assumes "state_io_rel (emits no_write) m" and "state_io_rel (keeps (outside (view_of A))) m"
    and "\<And>x. ensures (stands A cs v) (f x) Q"
  shows "ensures (stands A cs v) (State_Monad.bind m f) Q"
  using assms by (intro stands_quiet_bind [where S = "\<lambda>_. True"]) auto

text \<open>The pass succeeded, and asks to be run again after a while, not at once.\<close>

definition scheduled :: "reconcile_result \<Rightarrow> bool" where
  "scheduled res \<longleftrightarrow> \<not> Requeue res \<and> 0 < RequeueAfter res"

lemma requeue_scheduled [simp]: "scheduled (requeue_after c er)"
  by (simp add: scheduled_def requeue_after_def go_consts duration_units)

definition succeeds :: "go_panic + resources_outcome \<Rightarrow> bool" where
  "succeeds x \<longleftrightarrow> (\<exists>res c. x = Inr ((res, None), c) \<and> scheduled res)"

lemma finish_resources_finished:
  assumes laws: "api_laws e A" and rep: "reported e cluster pods G (r, h, er)"
    and held: "held_clusters v (meta_key (Meta cluster)) \<noteq> None"
  shows "ensures (stands A cs v)
    (finish_resources e cluster pods (determineWriteInstance cluster pods) r h er)
    (\<lambda>x w. succeeds x \<and>
      finished A G (cs @ cronjob_writes e cluster v) (put_writes A (cronjob_writes e cluster v) v) w)"
proof -
  let ?wi = "determineWriteInstance cluster pods"
  let ?cs = "cs @ cronjob_writes e cluster v" and ?v = "put_writes A (cronjob_writes e cluster v) v"
  let ?Q = "\<lambda>x w. succeeds x \<and> finished A G ?cs ?v w"
  have srv: "server_laws e A" and hlp: "helper_laws e" and oth: "others_leave e (view_of A)"
    using laws by (simp_all add: api_laws_def)
  let ?last = "\<lambda>c. do {
      (err, cluster3) \<leftarrow> updateStatus e c pods ?wi r h;
      State_Monad.return (case err of
          Some er' \<Rightarrow> failed er' cluster3
        | None \<Rightarrow> Inr ((requeue_after cluster3 er, None), cluster3)) }"
  let ?tail = "\<lambda>c. do { collectStorageMetrics e c pods ?wi; ?last c }"
  let ?validate = "\<lambda>c. if Phase (Status c) = ClusterPhaseRunning then reconcileValidation e c pods ?wi
      else State_Monad.return (None, c)"
  have held': "held_clusters ?v (meta_key (Meta cluster)) \<noteq> None"
    using held by (simp add: object_writes_clusters)
  have last: "ensures (stands A ?cs ?v) (?last c) ?Q" if "same_object cluster c" for c
    by (rule ensures_bind [OF updateStatus_finished [OF laws rep that held']])
      (auto simp: ensures_def succeeds_def split: prod.splits)
  have tail: "ensures (stands A ?cs ?v) (case y of (_, c) \<Rightarrow> ?tail c) ?Q" if "same_object cluster (snd y)"
    for y :: "go_error option \<times> MemgraphCluster"
    using that quiet_bind [OF others_quiet(4) outside_steps(4) [OF oth] last] by (cases y) simp
  have validated: "same_object cluster (snd (fst (run_state (?validate c) w)))"
    if "same_object cluster c" for c w
    using same_object_trans [OF that validation_same, of e pods ?wi w] that by simp
  have quiet: "state_io_rel (emits no_write) (?validate c)" for c
    by (intro rel_intros)
  have leave: "state_io_rel (keeps (outside (view_of A))) (?validate c)" for c
    by (intro rel_intros oth)
  have mid: "ensures (stands A ?cs ?v) (case x of (_, c) \<Rightarrow> do { (_, c) \<leftarrow> ?validate c; ?tail c }) ?Q"
    if "same_object cluster (snd x)" for x :: "go_error option \<times> MemgraphCluster"
  proof -
    have "ensures (stands A ?cs ?v) (do { (_, c) \<leftarrow> ?validate (snd x); ?tail c }) ?Q"
      by (rule stands_quiet_bind [OF quiet leave, where S = "\<lambda>y. same_object cluster (snd y)"])
        (rule validated [OF that], rule tail)
    then show ?thesis by (cases x) (simp only: prod.case snd_conv)
  qed
  show ?thesis
    unfolding finish_resources_def
    by (rule makes_bind [OF reconcileSnapshotCronJob_makes [OF srv hlp]],
        rule stands_quiet_bind [OF others_quiet(1) outside_steps(2) [OF oth],
          where S = "\<lambda>x. same_object cluster (snd x)"],
        rule snapshot_status_same, rule mid)
qed

lemma members_finished:
  assumes laws: "api_laws e A" and rep: "reporting e cluster pods G"
    and held: "held_clusters v (meta_key (Meta cluster)) \<noteq> None"
  defines "ws3 \<equiv> write_service_writes e cluster (determineWriteInstance cluster pods) v"
  defines "v3 \<equiv> put_writes A ws3 v"
  defines "ws4 \<equiv> service_writes e cluster (buildReadService cluster) v3"
  defines "v4 \<equiv> put_writes A ws4 v3"
  defines "ws5 \<equiv> cronjob_writes e cluster v4"
  shows "ensures (stands A cs v) (reconcile_members e cluster pods)
    (\<lambda>x w. succeeds x \<and> finished A G (((cs @ ws3) @ ws4) @ ws5) (put_writes A ws5 v4) w)"
proof -
  let ?wi = "determineWriteInstance cluster pods"
  have srv: "server_laws e A" and hlp: "helper_laws e" and oth: "others_leave e (view_of A)"
    using laws by (simp_all add: api_laws_def)
  have held4: "held_clusters v4 (meta_key (Meta cluster)) \<noteq> None"
    using held by (simp add: v4_def v3_def ws4_def ws3_def object_writes_clusters)
  have read: "makes A (reconcileReadService e cluster) None
      (service_writes e cluster (buildReadService cluster)) v3"
    unfolding reconcileReadService_def by (rule ensureService_makes [OF srv hlp]) simp
  have rest: "ensures (stands A ((cs @ ws3) @ ws4) v4) (do {
      (registeredReplicas, healthyReplicas, replicationError) \<leftarrow> configure_step e cluster pods ?wi;
      finish_resources e cluster pods ?wi registeredReplicas healthyReplicas replicationError })
    (\<lambda>x w. succeeds x \<and> finished A G (((cs @ ws3) @ ws4) @ ws5) (put_writes A ws5 v4) w)"
    by (rule stands_quiet_bind [OF others_quiet(5) outside_steps(1) [OF oth],
          where S = "reported e cluster pods G"])
      (use rep in \<open>simp add: reporting_def\<close>,
        unfold ws5_def, split prod.split, intro allI impI, split prod.split, intro allI impI,
        rule finish_resources_finished [OF laws _ held4], simp)
  show ?thesis
    unfolding reconcile_members_def Let_def
    apply (rule makes_bind [OF reconcileWriteService_makes [OF srv hlp]], unfold option.case)
    apply (fold ws3_def, fold v3_def)
    apply (rule makes_bind [where ws = "service_writes e cluster (buildReadService cluster)" and v = v3, OF read], unfold option.case)
    apply (fold ws4_def, fold v4_def)
    apply (rule rest)
    done
qed

lemma resources_finished:
  assumes laws: "api_laws e A" and rep: "reporting e cluster pods G"
    and held: "held_clusters v (meta_key (Meta cluster)) \<noteq> None"
    and pods: "serves_pods e A cluster pods"
  shows "ensures (stands A cs v) (reconcileResources e cluster)
    (\<lambda>x w. succeeds x \<and> finished A G (cs @ object_writes e A cluster pods v)
      (put_writes A (object_writes e A cluster pods v) v) w)"
proof (rule stands_valid)
  show srv: "server_laws e A" using laws by (simp add: api_laws_def)
  have hlp: "helper_laws e" and oth: "others_leave e (view_of A)" and sto: "storage_laws A"
    using laws by (simp_all add: api_laws_def)
  define ws1 where "ws1 = service_writes e cluster (buildHeadlessService cluster) v"
  define v1 where "v1 = put_writes A ws1 v"
  define ws2 where "ws2 = statefulset_writes e cluster v1"
  define v2 where "v2 = put_writes A ws2 v1"
  have head: "makes A (reconcileHeadlessService e cluster) None
      (service_writes e cluster (buildHeadlessService cluster)) v"
    unfolding reconcileHeadlessService_def by (rule ensureService_makes [OF srv hlp]) simp
  have held2: "held_clusters v2 (meta_key (Meta cluster)) \<noteq> None"
    using held by (simp add: v2_def v1_def ws2_def ws1_def object_writes_clusters)
  let ?Q = "\<lambda>x w. succeeds x \<and> finished A G (cs @ object_writes e A cluster pods v)
      (put_writes A (object_writes e A cluster pods v) v) w"
  note members = members_finished [OF laws rep held2, of "(cs @ ws1) @ ws2"]
  have members: "ensures (stands A ((cs @ ws1) @ ws2) v2) (reconcile_members e cluster pods) ?Q"
    by (rule ensures_weaken [OF members])
      (simp_all add: object_writes_def Let_def flip: ws1_def v1_def ws2_def v2_def)
  assume "valid_view v"
  have scaled: "scaled e cluster v2" if "valid_view v1"
    using statefulset_scaled [OF sto hlp that] by (simp add: v2_def ws2_def)
  have listed: "ensures (stands A ((cs @ ws1) @ ws2) v2) (do {
      pods \<leftarrow> getClusterPods e cluster;
      case pods of
        Inl er \<Rightarrow> State_Monad.return (failed er cluster)
      | Inr ps \<Rightarrow> reconcile_members e cluster ps }) ?Q" if v1: "valid_view v1"
  proof (rule ensures_bind [where Q = "\<lambda>x w. x = Inr pods \<and> stands A ((cs @ ws1) @ ws2) v2 w"])
    have "fst (run_state (getClusterPods e cluster) w) = Inr pods" if "stands A c v2 w" for c w
      using pods scaled [OF v1] that by (simp add: getClusterPods_def serves_pods_def stands_def run_external)
    then show "ensures (stands A ((cs @ ws1) @ ws2) v2) (getClusterPods e cluster)
        (\<lambda>x w. x = Inr pods \<and> stands A ((cs @ ws1) @ ws2) v2 w)"
      using stands_quiet [OF others_quiet(2) outside_steps(5) [OF oth], of "(cs @ ws1) @ ws2" v2]
      unfolding ensures_def by (metis fst_conv)
    show "ensures (\<lambda>w. x = Inr pods \<and> stands A ((cs @ ws1) @ ws2) v2 w) (case x of
        Inl er \<Rightarrow> State_Monad.return (failed er cluster)
      | Inr ps \<Rightarrow> reconcile_members e cluster ps) ?Q" for x
      by (rule ensures_pure) (simp only: sum.case members)
  qed
  show "ensures (stands A cs v) (reconcileResources e cluster) ?Q"
    unfolding reconcileResources_def
    apply (rule makes_bind [where ws = "service_writes e cluster (buildHeadlessService cluster)" and v = v, OF head], unfold option.case, fold ws1_def, fold v1_def)
    apply (rule stands_valid [OF srv])
    apply (rule makes_bind [OF reconcileStatefulSet_makes [OF srv hlp]], unfold sum.case option.case)
    apply (fold ws2_def, fold v2_def)
    apply (rule listed)
    apply assumption
    done
qed

lemma reconcile_cluster_finished:
  assumes laws: "api_laws e A" and "reporting e cluster pods G"
    and "held_clusters v (meta_key (Meta cluster)) \<noteq> None" and "serves_pods e A cluster pods"
  shows "ensures (stands A cs v) (reconcile_cluster e t0 cluster)
    (\<lambda>x w. (\<exists>res. x = Inr (res, None) \<and> scheduled res) \<and> finished A G (cs @ object_writes e A cluster pods v)
      (put_writes A (object_writes e A cluster pods v) v) w)"
  unfolding reconcile_cluster_def
proof (rule ensures_bind [OF resources_finished [OF assms]], rule ensures_pure)
  have oth: "others_leave e (view_of A)" using laws by (simp add: api_laws_def)
  let ?F = "finished A G (cs @ object_writes e A cluster pods v)
      (put_writes A (object_writes e A cluster pods v) v)"
  fix x assume "succeeds x"
  then obtain res c where x: "x = Inr ((res, None), c)" and res: "scheduled res"
    unfolding succeeds_def by blast
  let ?rest = "do {
      t \<leftarrow> now e;
      RecordReconcileDuration (cluster_name c) (cluster_ns c) (Seconds (time_sub t t0));
      record_success c (Phase (Status cluster));
      State_Monad.return (Inr (res, None)) }"
  have "state_io_rel (emits no_write) ?rest" and "state_io_rel (keeps (outside (view_of A))) ?rest"
    by (intro rel_intros oth)+
  from finished_quiet [OF this] have "ensures ?F ?rest (\<lambda>_. ?F)" .
  moreover have "ensures (\<lambda>_. True) ?rest (\<lambda>x _. \<exists>res. x = Inr (res, None) \<and> scheduled res)"
    by (intro ensures_after ensures_return) (simp add: res)
  ultimately show "ensures ?F (case x of
      Inl p \<Rightarrow> State_Monad.return (Inl p)
    | Inr ((result, err), cluster1) \<Rightarrow> do {
        t \<leftarrow> now e;
        RecordReconcileDuration (cluster_name cluster1) (cluster_ns cluster1)
          (Seconds (time_sub t t0));
        case err of
          Some er \<Rightarrow> do {
            event EventWarning EventReasonReconcileError (err_msg er);
            RecordReconcileOperation (cluster_name cluster1) (cluster_ns cluster1) ''error'';
            State_Monad.return (Inr (result, Some er))
          }
        | None \<Rightarrow> do {
            record_success cluster1 (Phase (Status cluster));
            State_Monad.return (Inr (result, None))
          }
      }) (\<lambda>x w. (\<exists>res. x = Inr (res, None) \<and> scheduled res) \<and> ?F w)"
    unfolding x sum.case prod.case option.case ensures_def by blast
qed

text \<open>The live, initialised object of the pass.\<close>

definition live :: "'s env \<Rightarrow> MemgraphCluster \<Rightarrow> bool" where
  "live e cluster \<longleftrightarrow> \<not> being_deleted cluster \<and>
     contains_finalizer e (Meta cluster) finalizerName \<and> Phase (Status cluster) \<noteq> []"

lemma Reconcile_stands:
  assumes laws: "api_laws e A" and held: "held_clusters v (ns, name) = Some cluster"
    and found: "\<And>t0. ensures (stands A cs v) (reconcile_found e t0 cluster) Q"
  shows "ensures (stands A cs v) (Reconcile e name ns) Q"
proof -
  have srv: "server_laws e A" and oth: "others_leave e (view_of A)"
    using laws by (simp_all add: api_laws_def)
  have marked: "ensures (stands A cs v) (modify (\<lambda>w. w\<lparr>metrics_set := True\<rparr>)) (\<lambda>_. stands A cs v)"
    by (simp add: ensures_def stands_def)
  show ?thesis
    unfolding Reconcile_def
    apply (rule quiet_bind [OF emits_now outside_others(1) [OF oth]])
    apply (rule ensures_bind [OF marked])
    apply (rule stands_read_bind [OF server_reads(1) [OF srv]])
    using held found by simp_all
qed

lemma pass_finished:
  assumes "api_laws e A" and "reporting e cluster pods G" and "serves_pods e A cluster pods"
    and "held_clusters v (ns, name) = Some cluster" and "live e cluster"
  shows "ensures (stands A cs v) (Reconcile e name ns)
    (\<lambda>x w. (\<exists>res. x = Inr (res, None) \<and> scheduled res) \<and> finished A G (cs @ object_writes e A cluster pods v)
      (put_writes A (object_writes e A cluster pods v) v) w)"
proof (rule stands_valid)
  show "server_laws e A" using assms(1) by (simp add: api_laws_def)
  assume "valid_view v"
  then have "meta_key (Meta cluster) = (ns, name)" using assms(4) unfolding valid_view_def by blast
  then have "held_clusters v (meta_key (Meta cluster)) \<noteq> None" using assms(4) by simp
  note pass = reconcile_cluster_finished [OF assms(1,2) this assms(3)]
  show "ensures (stands A cs v) (Reconcile e name ns)
    (\<lambda>x w. (\<exists>res. x = Inr (res, None) \<and> scheduled res) \<and> finished A G (cs @ object_writes e A cluster pods v)
      (put_writes A (object_writes e A cluster pods v) v) w)"
    by (rule Reconcile_stands [OF assms(1,4)])
      (use assms(5) pass in \<open>simp add: reconcile_found_def live_def\<close>)
qed

end
