(* ===== verification/Replica_View.thy ===== *)
theory Replica_View
  imports Classifier Client
begin

text \<open>
  What the operator sees of the registered replicas: the table of \<open>SHOW REPLICAS\<close> as mgconsole
  prints it and the \<open>ReplicaInfo\<close> values that reach the health checks, in both table formats the
  client reads, and how the summary of the client agrees with the classifier.
\<close>

section \<open>The printed table\<close>

text \<open>
  What MAIN knows of one registered replica. The printed row has its name, its socket address,
  its mode, an unused column and the map of its databases; every cell is padded to the width of
  its column.
\<close>

record registration =
  reg_name :: string
  reg_host :: string
  reg_port :: int
  reg_mode :: string
  reg_info :: data_info

definition quoted :: "string \<Rightarrow> string" where
  "quoted s = CHR 0x22 # s @ [CHR 0x22]"

definition info_literal :: "data_info \<Rightarrow> string" where
  "info_literal m = (if m = [] then ''{}'' else map_literal m)"

definition reg_addr :: "registration \<Rightarrow> string" where
  "reg_addr g = reg_host g @ CHR '':'' # Itoa (reg_port g)"

definition reg_cells :: "registration \<Rightarrow> string list" where
  "reg_cells g = [quoted (reg_name g), quoted (reg_addr g), quoted (reg_mode g), ''Null'',
     info_literal (reg_info g)]"

fun row_tail :: "(nat \<times> string) list \<Rightarrow> string" where
  "row_tail [] = []"
| "row_tail ((n, c) # cs) = CHR '' '' # c @ replicate n (CHR '' '') @ CHR ''|'' # row_tail cs"

definition table_row :: "nat list \<Rightarrow> string list \<Rightarrow> string" where
  "table_row ws cells = CHR ''|'' # row_tail (zip ws cells)"

definition border :: "nat \<Rightarrow> string" where
  "border n = CHR ''+'' # replicate n (CHR ''-'') @ ''+''"

definition header_cells :: "string list" where
  "header_cells = [''name'', ''socket_address'', ''sync_mode'', ''system_info'', ''data_info'']"

text \<open>A row with its paddings; the table is the header and the rows between borders.\<close>

definition replicas_table :: "nat \<Rightarrow> nat list \<Rightarrow> (nat list \<times> registration) list \<Rightarrow> string" where
  "replicas_table n ws rows = join_with (CHR 0x0A)
     ([border n, table_row ws header_cells, border n]
      @ map (\<lambda>(ws, g). table_row ws (reg_cells g)) rows @ [border n, []])"

text \<open>The value the client is meant to make of a registration.\<close>

definition registered :: "registration \<Rightarrow> ReplicaInfo" where
  "registered g = (case summarizeDataInfo (reg_info g) of (behind, status, ts) \<Rightarrow>
     \<lparr>RName = reg_name g, SocketAddress = reg_addr g, RHost = reg_host g, RPort = reg_port g,
      SyncMode = reg_mode g, DataInfo = reg_info g, RBehind = behind, RStatus = status,
      RTimestamp = ts\<rparr>)"

text \<open>
  Names, modes and hosts are made of letters, digits, hyphens, underscores and, in hosts, dots;
  a mode starts with a letter.
\<close>

definition host_char :: "char \<Rightarrow> bool" where
  "host_char c \<longleftrightarrow> key_char c \<or> c = CHR ''.''"

definition printable_reg :: "registration \<Rightarrow> bool" where
  "printable_reg g \<longleftrightarrow> bare_key (reg_name g) \<and> reg_name g \<noteq> ''name'' \<and>
     list_all host_char (reg_host g) \<and> is_int64 (reg_port g) \<and>
     bare_key (reg_mode g) \<and> printable_info (reg_info g)"

section \<open>Reading the table back\<close>

definition safe_char :: "char \<Rightarrow> bool" where
  "safe_char c \<longleftrightarrow> c \<noteq> CHR ''|'' \<and> c \<noteq> CHR 0x0A"

lemma key_char_codes: "key_char c \<Longrightarrow> (of_char c :: int) = 45 \<or> (of_char c :: int) = 95 \<or>
    48 \<le> (of_char c :: int) \<and> (of_char c :: int) \<le> 57 \<or>
    65 \<le> (of_char c :: int) \<and> (of_char c :: int) \<le> 90 \<or>
    97 \<le> (of_char c :: int) \<and> (of_char c :: int) \<le> 122"
  by (elim disjE | simp add: key_char_def key_start_def is_letter_def is_digit_def Let_def)+

lemma key_safe:
  assumes "key_char c"
  shows "safe_char c" and "c \<noteq> CHR 0x22" and "c \<noteq> CHR '':''" and "\<not> is_space c"
proof -
  note k = key_char_codes [OF assms]
  show "c \<noteq> CHR 0x22" and "c \<noteq> CHR '':''" using k by fastforce+
  have "c \<noteq> CHR ''|''" and "c \<noteq> CHR 0x0A" using k by fastforce+
  then show "safe_char c" by (simp add: safe_char_def)
  have "c \<noteq> CHR 0x09" and "c \<noteq> CHR 0x0B" and "c \<noteq> CHR 0x0C" and "c \<noteq> CHR 0x0D" and "c \<noteq> CHR '' ''"
    using k by fastforce+
  then show "\<not> is_space c" using \<open>c \<noteq> CHR 0x0A\<close> by (simp add: is_space_def)
qed

lemma host_safe:
  assumes "host_char c"
  shows "safe_char c" and "c \<noteq> CHR 0x22" and "c \<noteq> CHR '':''" and "\<not> is_space c"
  using assms key_safe [of c] unfolding host_char_def by (auto simp: safe_char_def is_space_def)

lemma Itoa_safe: "c \<in> set (Itoa n) \<Longrightarrow> safe_char c \<and> c \<noteq> CHR 0x22 \<and> c \<noteq> CHR '':''"
  by (auto dest!: Itoa_chars simp: is_digit_def safe_char_def)

lemma key_start_char: "key_start c \<Longrightarrow> key_char c"
  by (simp add: key_char_def)

lemma bare_key_chars: "bare_key s \<Longrightarrow> list_all key_char s \<and> s \<noteq> []"
  unfolding bare_key_def by (cases s) (simp_all add: key_start_char)

lemma TrimQuotes_quoted:
  assumes "CHR 0x22 \<notin> set s"
  shows "TrimQuotes (quoted s) = s"
proof (cases "s = []")
  case True
  then show ?thesis by (simp add: TrimQuotes_def TrimChar_def TrimFunc_def quoted_def)
next
  case False
  then have "dropWhile (\<lambda>x. x = CHR 0x22) (s @ [CHR 0x22]) = s @ [CHR 0x22]"
    using assms False by (cases s) auto
  moreover have "dropWhile (\<lambda>x. x = CHR 0x22) (rev s) = rev s"
    using assms False by (intro dropWhile_id) (metis hd_in_set set_rev rev_is_Nil_conv)
  ultimately show ?thesis
    by (simp add: TrimQuotes_def TrimChar_def TrimFunc_def quoted_def)
qed

lemma TrimSpace_pad:
  assumes "c \<noteq> []" and "\<not> is_space (hd c)" and "\<not> is_space (last c)"
  shows "TrimSpace (CHR '' '' # c @ replicate n (CHR '' '')) = c"
proof -
  have sp: "is_space (CHR '' '')" by (simp add: is_space_def)
  have "dropWhile is_space (CHR '' '' # c @ replicate n (CHR '' '')) = c @ replicate n (CHR '' '')"
    using assms sp by (cases c) auto
  moreover have "dropWhile is_space (rev (c @ replicate n (CHR '' ''))) = rev c"
    using assms sp by (simp add: dropWhile_append dropWhile_id hd_rev)
  ultimately show ?thesis by (simp add: TrimSpace_def TrimFunc_def)
qed

lemma Split_row:
  "\<forall>(n, c) \<in> set cs. list_all safe_char c \<Longrightarrow>
   Split (CHR ''|'') (row_tail cs) = map (\<lambda>(n, c). CHR '' '' # c @ replicate n (CHR '' '')) cs @ [[]]"
proof (induction cs)
  case (Cons p cs)
  obtain n c where p: "p = (n, c)" by (cases p)
  with Cons.prems have "CHR ''|'' \<notin> set (CHR '' '' # c @ replicate n (CHR '' ''))"
    by (auto simp: list_all_iff safe_char_def)
  then have "Split (CHR ''|'') ((CHR '' '' # c @ replicate n (CHR '' '')) @ CHR ''|'' # row_tail cs) =
      (CHR '' '' # c @ replicate n (CHR '' '')) # Split (CHR ''|'') (row_tail cs)"
    by (rule Split_append)
  with Cons p show ?case by simp
qed simp

definition trimmed_cell :: "string \<Rightarrow> bool" where
  "trimmed_cell c \<longleftrightarrow> c \<noteq> [] \<and> \<not> is_space (hd c) \<and> \<not> is_space (last c) \<and> list_all safe_char c"

lemma row_last: "cs \<noteq> [] \<Longrightarrow> last (row_tail cs) = CHR ''|'' \<and> row_tail cs \<noteq> []"
  by (induction cs rule: row_tail.induct) (auto, case_tac cs, auto)

lemma parse_row:
  assumes "length ws = 5" and "length cells = 5" and "list_all trimmed_cell cells"
  shows "parse_replica_line (table_row ws cells) = parse_replica_cols cells"
proof -
  let ?cs = "zip ws cells"
  have ne: "?cs \<noteq> []" using assms by auto
  have cs: "\<forall>(n, c) \<in> set ?cs. list_all safe_char c"
    using assms(3) by (auto simp: list_all_iff trimmed_cell_def dest: set_zip_rightD)
  have "TrimSpace (table_row ws cells) = table_row ws cells"
    unfolding TrimSpace_def table_row_def
    by (rule TrimFunc_id) (use row_last [OF ne] in \<open>simp add: is_space_def\<close>)
  moreover have "Split (CHR ''|'') (table_row ws cells) =
      [] # map (\<lambda>(n, c). CHR '' '' # c @ replicate n (CHR '' '')) ?cs @ [[]]"
    by (simp add: table_row_def Split_row [OF cs])
  moreover have "map TrimSpace (map (\<lambda>(n, c). CHR '' '' # c @ replicate n (CHR '' '')) ?cs) = map snd ?cs"
    using assms(3) by (auto simp: list_all_iff trimmed_cell_def intro!: TrimSpace_pad dest: set_zip_rightD)
  moreover have "map snd ?cs = cells" using assms by simp
  ultimately show ?thesis using assms
    by (simp add: parse_replica_line_def Let_def table_row_def HasPrefix_def butlast_append)
qed


lemma border_none: "parse_replica_line (border n) = None"
proof -
  have "TrimSpace (border n) = border n"
    unfolding TrimSpace_def by (rule TrimFunc_id) (simp add: border_def is_space_def)
  then show ?thesis by (simp add: parse_replica_line_def Let_def HasPrefix_def border_def)
qed

lemma parse_header_cols: "parse_replica_cols header_cells = None"
  by (simp add: parse_replica_cols_def header_cells_def Let_def TrimQuotes_def TrimChar_def
      TrimFunc_def)

lemma key_start_codes: "key_start c \<Longrightarrow> \<not> is_digit c \<and> c \<notin> {CHR ''-'', CHR ''+''}"
proof -
  assume "key_start c"
  then have "(of_char c :: int) = 95 \<or> 65 \<le> (of_char c :: int)"
    by (elim disjE | simp add: key_start_def is_letter_def Let_def)+
  then show ?thesis by (auto simp: is_digit_def)
qed

lemma letters_not_int: "key_start c \<Longrightarrow> Atoi (c # cs) = (0, Some ErrSyntax)"
  using key_start_codes [of c] by (simp add: Atoi_def ParseInt_def ParseUint_def)

lemma bare_key_not_int: "bare_key s \<Longrightarrow> Atoi s = (0, Some ErrSyntax)"
  by (cases s) (simp_all add: bare_key_def letters_not_int)

lemma no_quotes:
  "list_all key_char s \<Longrightarrow> CHR 0x22 \<notin> set s"
  "list_all host_char h \<Longrightarrow> CHR 0x22 \<notin> set h \<and> CHR '':'' \<notin> set h"
  using key_safe(2) host_safe(2,3) by (fastforce simp: list_all_iff)+

lemma parse_info_literal: "printable_info m \<Longrightarrow> parseDataInfo (info_literal m) = m"
proof (cases "m = []")
  case True
  then show ?thesis
    by (simp add: info_literal_def parseDataInfo_def TrimSpace_def TrimQuotes_def TrimChar_def
        TrimFunc_def is_space_def)
qed (simp add: info_literal_def parse_map_literal)

lemma Cut_addr: "CHR '':'' \<notin> set h \<Longrightarrow> Cut (CHR '':'') (h @ CHR '':'' # p) = (h, p, True)"
proof -
  assume "CHR '':'' \<notin> set h"
  then have "takeWhile (\<lambda>c. c \<noteq> CHR '':'') (h @ CHR '':'' # p) = h"
    and "dropWhile (\<lambda>c. c \<noteq> CHR '':'') (h @ CHR '':'' # p) = CHR '':'' # p"
    by (auto simp: takeWhile_append dropWhile_append)
  then show ?thesis by (simp add: Cut_def)
qed

lemma parse_reg_cols:
  assumes "printable_reg g"
  shows "parse_replica_cols (reg_cells g) = Some (registered g)"
proof -
  have name: "list_all key_char (reg_name g)" "reg_name g \<noteq> []" "reg_name g \<noteq> ''name''"
    and mode: "bare_key (reg_mode g)" "list_all key_char (reg_mode g)"
    and host: "list_all host_char (reg_host g)"
    and port: "Atoi (Itoa (reg_port g)) = (reg_port g, None)"
    and info: "parseDataInfo (info_literal (reg_info g)) = reg_info g"
    using assms bare_key_chars
    by (simp_all add: printable_reg_def ParseInt_Itoa Atoi_def parse_info_literal)
  have "CHR 0x22 \<notin> set (reg_addr g)"
    using no_quotes(2) [OF host] Itoa_safe [of "CHR 0x22" "reg_port g"] by (auto simp: reg_addr_def)
  then have trim: "TrimQuotes (quoted (reg_addr g)) = reg_addr g"
      "TrimQuotes (quoted (reg_name g)) = reg_name g" "TrimQuotes (quoted (reg_mode g)) = reg_mode g"
    using no_quotes(1) name(1) mode(2) by (simp_all add: TrimQuotes_quoted)
  have cut: "Cut (CHR '':'') (reg_addr g) = (reg_host g, Itoa (reg_port g), True)"
    using no_quotes(2) [OF host] by (simp add: reg_addr_def Cut_addr)
  show ?thesis
    unfolding parse_replica_cols_def reg_cells_def registered_def Let_def
    by (simp add: trim name(2,3) bare_key_not_int [OF mode(1)] cut port info split: prod.split)
qed

lemma literal_chars:
  assumes "list_all (\<lambda>(k, db). bare_key k \<and> list_all is_letter (DBStatus db)) m"
  shows "list_all safe_char (dbs_literal m)"
proof -
  have "list_all safe_char (db_literal p)"
    if "bare_key (fst p)" and "list_all is_letter (DBStatus (snd p))" for p
  proof -
    have "list_all safe_char (fst p)"
      using bare_key_chars [OF that(1)] key_safe(1) by (auto simp: list_all_iff)
    moreover have "list_all safe_char (DBStatus (snd p))"
      using that(2) key_safe(1) by (auto simp: list_all_iff key_char_def key_start_def)
    moreover have "list_all safe_char (Itoa i)" for i
      using Itoa_safe by (auto simp: list_all_iff)
    ultimately show ?thesis by (simp add: db_literal_def safe_char_def)
  qed
  with assms show ?thesis
    by (induction m rule: dbs_literal.induct) (auto simp: safe_char_def)
qed

lemma info_trimmed:
  assumes "printable_info m"
  shows "trimmed_cell (info_literal m)"
proof (cases "m = []")
  case True
  then show ?thesis by (simp add: trimmed_cell_def info_literal_def safe_char_def is_space_def)
next
  case False
  from assms have "list_all (\<lambda>(k, db). bare_key k \<and> list_all is_letter (DBStatus db)) m"
    by (auto simp: printable_info_def list_all_iff)
  with False show ?thesis
    using dbs_literal_last [OF False] literal_chars [of m]
    by (simp add: trimmed_cell_def info_literal_def map_literal_def safe_char_def is_space_def)
qed

lemma quoted_trimmed: "list_all safe_char s \<Longrightarrow> trimmed_cell (quoted s)"
  by (simp add: trimmed_cell_def quoted_def is_space_def safe_char_def)

lemma reg_cells_trimmed:
  assumes "printable_reg g"
  shows "list_all trimmed_cell (reg_cells g)"
proof -
  have "list_all key_char (reg_name g)" "list_all key_char (reg_mode g)"
    and host: "list_all host_char (reg_host g)" and info: "printable_info (reg_info g)"
    using assms bare_key_chars by (auto simp: printable_reg_def)
  then have "list_all safe_char (reg_name g)" "list_all safe_char (reg_mode g)"
    using key_safe(1) by (auto simp: list_all_iff)
  moreover have "list_all safe_char (reg_host g)" "list_all safe_char (Itoa (reg_port g))"
    using host host_safe(1) Itoa_safe by (simp_all add: list_all_iff)
  then have "list_all safe_char (reg_addr g)"
    by (simp add: reg_addr_def safe_char_def [of "CHR '':''"])
  moreover have "trimmed_cell ''Null''"
    by (simp add: trimmed_cell_def is_space_def safe_char_def)
  ultimately show ?thesis by (simp add: reg_cells_def quoted_trimmed info_trimmed info)
qed

lemma header_trimmed: "list_all trimmed_cell header_cells"
  by (simp add: trimmed_cell_def header_cells_def is_space_def safe_char_def)

lemma row_no_newline:
  assumes "list_all trimmed_cell cells"
  shows "CHR 0x0A \<notin> set (table_row ws cells)"
proof -
  have "CHR 0x0A \<notin> set (row_tail cs)" if "\<forall>(n, c) \<in> set cs. list_all safe_char c" for cs
    using that by (induction cs rule: row_tail.induct) (auto simp: list_all_iff safe_char_def)
  moreover have "\<forall>(n, c) \<in> set (zip ws cells). list_all safe_char c"
    using assms by (auto simp: list_all_iff trimmed_cell_def dest: set_zip_rightD)
  ultimately show ?thesis by (simp add: table_row_def)
qed

lemma rows_parsed:
  "list_all (\<lambda>(ps, g). length ps = 5 \<and> printable_reg g) rows \<Longrightarrow>
   List.map_filter parse_replica_line (map (\<lambda>(ws, g). table_row ws (reg_cells g)) rows) =
     map (registered \<circ> snd) rows"
proof (induction rows)
  case (Cons r rows)
  obtain ps g where r: "r = (ps, g)" by (cases r)
  with Cons.prems have g: "length ps = 5" "printable_reg g" by auto
  have "length (reg_cells g) = 5" by (simp add: reg_cells_def)
  with g have "parse_replica_line (table_row ps (reg_cells g)) = Some (registered g)"
    by (simp only: parse_row reg_cells_trimmed parse_reg_cols)
  with Cons r show ?case by (simp add: List.map_filter_simps)
qed (simp add: List.map_filter_simps)

lemma table_parsed:
  assumes "length ws = 5" and "list_all (\<lambda>(ps, g). length ps = 5 \<and> printable_reg g) rows"
  shows "parseShowReplicasOutput (replicas_table n ws rows) = map (registered \<circ> snd) rows"
proof -
  let ?lines = "[border n, table_row ws header_cells, border n]
      @ map (\<lambda>(ws, g). table_row ws (reg_cells g)) rows @ [border n, []]"
  have rows: "length ps = 5 \<and> printable_reg g" if "(ps, g) \<in> set rows" for ps g
    using assms(2) that by (auto simp: list_all_iff)
  have b: "CHR 0x0A \<notin> set (border n)" by (auto simp: border_def)
  have "\<forall>l \<in> set ?lines. CHR 0x0A \<notin> set l"
    using b rows row_no_newline header_trimmed reg_cells_trimmed by auto
  then have split: "Split (CHR 0x0A) (replicas_table n ws rows) = ?lines"
    unfolding replicas_table_def by (intro Split_join) auto
  have "length header_cells = 5" by (simp add: header_cells_def)
  then have h: "parse_replica_line (table_row ws header_cells) = None"
    using assms(1) header_trimmed by (simp only: parse_row parse_header_cols)
  have e: "parse_replica_line [] = None" by (simp add: parse_replica_line_def TrimSpace_def TrimFunc_def)
  have "List.map_filter parse_replica_line (map (\<lambda>(ws, g). table_row ws (reg_cells g)) rows) =
      map (registered \<circ> snd) rows"
    using assms(2) by (rule rows_parsed)
  then show ?thesis
    by (simp add: parseShowReplicasOutput_def split border_none h e List.map_filter_def)
qed

text \<open>C11: What MAIN prints is what the operator reads. The table of any list of registrations, in
  any padding, parses to exactly these registrations in their order, with host, port, mode and
  databases, and with the summary of the databases; a registration without databases keeps
  none.\<close>

theorem replicas_table_parsed:
  assumes "length ws = 5" and "list_all (\<lambda>(ps, g). length ps = 5 \<and> printable_reg g) rows"
  shows "parseShowReplicasOutput (replicas_table n ws rows) = map (registered \<circ> snd) rows"
  by (rule table_parsed [OF assms])

definition sample_rows :: "(nat list \<times> registration) list" where
  "sample_rows =
     [([1, 2, 0, 1, 0], \<lparr>reg_name = ''mg_1'', reg_host = ''mg-1.mg-hl.db'', reg_port = 10000,
         reg_mode = ''strict_sync'',
         reg_info = [(''memgraph'', \<lparr>Behind = -1, DBStatus = ''ready'', Timestamp = 42\<rparr>),
                     (''db2'', \<lparr>Behind = 7, DBStatus = ''recovery'', Timestamp = 3\<rparr>)]\<rparr>),
      ([0, 0, 0, 0, 9], \<lparr>reg_name = ''mg_2'', reg_host = ''10.0.0.7'', reg_port = 10000,
         reg_mode = ''async'', reg_info = []\<rparr>)]"

lemma sample_rows_printable: "list_all (\<lambda>(ps, g). length ps = 5 \<and> printable_reg g) sample_rows"
  by code_simp

lemma replicas_table_parsed_witness:
  "parseShowReplicasOutput (replicas_table 60 [0, 0, 0, 0, 0] sample_rows) =
     map (registered \<circ> snd) sample_rows"
  by (rule replicas_table_parsed [OF _ sample_rows_printable]) simp

section \<open>The legacy table\<close>

text \<open>A row of the legacy table has an integer in its third column.\<close>

definition legacy_row :: "string list \<Rightarrow> bool" where
  "legacy_row cols \<longleftrightarrow> snd (Atoi (TrimQuotes (cols ! 2))) = None"

lemma legacy_row_silent:
  "parse_replica_cols cols = Some r \<Longrightarrow> legacy_row cols \<Longrightarrow>
   silent r \<and> RStatus r = TrimQuotes (cols ! 4)"
  by (auto simp: parse_replica_cols_def legacy_row_def silent_def Let_def split: if_splits prod.splits
      option.splits)

text \<open>Replicas listed in the legacy table are condemned. Such a row carries a status of its
  own, but never databases, so a replica seen through legacy rows only, whatever status they
  print (\<open>ready\<close> too), is classified as data-channel-down and unhealthy as soon as the grace
  period has passed since it was first seen, and as transient before.\<close>

theorem legacy_rows_condemned:
  assumes "\<forall>(r, t) \<in> set ((r0, t0) # obs). \<exists>cols. legacy_row cols \<and> parse_replica_cols cols = Some r"
    and "legacy_row cols" and "parse_replica_cols cols = Some r" and "t0 \<noteq> 0"
  shows "(let c = fst (classifyReplica r (run_checks thr ((r0, t0) # obs) zero_replicaState) t thr) in
     RStatus r = TrimQuotes (cols ! 4) \<and>
     (if time_sub t t0 > channelDownGracePeriod then c = classificationDataChannelDown \<and> \<not> isHealthy c
      else c = classificationTransient))"
proof -
  have "silent r0" and obs: "\<forall>(r, t) \<in> set obs. silent r"
    using assms(1) legacy_row_silent by auto
  then have "channelDownSince (snd (classifyReplica r0 zero_replicaState t0 thr)) = t0"
    by (intro silent_starts) (simp_all add: zero_replicaState_def)
  then have "channelDownSince (run_checks thr ((r0, t0) # obs) zero_replicaState) = t0"
    using obs assms(4) by (simp add: run_checks_Cons silent_run)
  then show ?thesis
    using legacy_row_silent [OF assms(3,2)] assms(4) by (simp add: Let_def silent_def classifyReplica_empty)
qed

definition legacy_cols :: "string list" where
  "legacy_cols = [''mg_1'', ''mg-1.mg-hl.db'', ''10000'', ''async'', ''ready'']"

definition legacy_replica :: ReplicaInfo where
  "legacy_replica = the (parse_replica_cols legacy_cols)"

lemma legacy_sample: "legacy_row legacy_cols" "parse_replica_cols legacy_cols = Some legacy_replica"
  by code_simp+

lemma legacy_rows_condemned_witness:
  "(let c = fst (classifyReplica legacy_replica
        (run_checks 5 ((legacy_replica, 100) # [(legacy_replica, 200)]) zero_replicaState)
        (101 + 30 * Second) 5) in
     RStatus legacy_replica = TrimQuotes (legacy_cols ! 4) \<and>
     (if time_sub (101 + 30 * Second) 100 > channelDownGracePeriod
      then c = classificationDataChannelDown \<and> \<not> isHealthy c else c = classificationTransient))"
  by (rule legacy_rows_condemned) (use legacy_sample in auto)

section \<open>Iteration order and the two notions of health\<close>

text \<open>C21: The iteration order of the \<open>data_info\<close> map is immaterial to the operator. However Go
  orders the map, the summary reports the largest lag, the worst status (unknown ones counting
  as invalid) and the latest timestamp, and the classifier, whose two loops may even see two
  different orders, gives the same class and timers.\<close>

theorem map_order_irrelevant:
  assumes "mset m1 = mset (DataInfo r)" and "mset m2 = mset (DataInfo r)" and "DataInfo r \<noteq> []"
  shows "summarizeDataInfo m1 =
      (let dbs = snd ` set (DataInfo r) in
       (Max (Behind ` dbs), status_of_rank (Max (db_rank ` dbs)), max 0 (Max (Timestamp ` dbs)))) \<and>
     classify_dbs (map snd m1) (map snd m2) (st\<lparr>channelDownSince := 0\<rparr>) t thr =
      classifyReplica r st t thr"
proof
  have "set m1 = set (DataInfo r)" "m1 \<noteq> []"
    using assms(1,3) mset_eq_setD by (blast, fastforce)
  then show "summarizeDataInfo m1 =
      (let dbs = snd ` set (DataInfo r) in
       (Max (Behind ` dbs), status_of_rank (Max (db_rank ` dbs)), max 0 (Max (Timestamp ` dbs))))"
    using summarizeDataInfo_max [of m1] by simp
  show "classify_dbs (map snd m1) (map snd m2) (st\<lparr>channelDownSince := 0\<rparr>) t thr =
      classifyReplica r st t thr"
    using assms by (intro classify_order_independent) simp_all
qed

lemma map_order_irrelevant_witness:
  "(let r = sample_replica [(''a'', sample_db 0 ''ready''), (''b'', sample_db 3 ''odd'')];
        m = [(''b'', sample_db 3 ''odd''), (''a'', sample_db 0 ''ready'')] in
     summarizeDataInfo m = (let dbs = snd ` set (DataInfo r) in
       (Max (Behind ` dbs), status_of_rank (Max (db_rank ` dbs)), max 0 (Max (Timestamp ` dbs)))) \<and>
     classify_dbs (map snd m) (map snd (DataInfo r)) (zero_replicaState\<lparr>channelDownSince := 0\<rparr>) 5 7 =
       classifyReplica r zero_replicaState 5 7)"
  unfolding Let_def
  by (rule map_order_irrelevant [unfolded Let_def]) (simp_all add: sample_replica_def)

lemma parsed_status:
  "parse_replica_cols cols = Some r \<Longrightarrow> \<not> legacy_row cols \<Longrightarrow>
   RStatus r = fst (snd (summarizeDataInfo (DataInfo r)))"
  by (auto simp: parse_replica_cols_def legacy_row_def Let_def split: if_splits prod.splits option.splits)

text \<open>The status of a database as the summary reads it: it trims quotes but no white space.\<close>

definition plain_status :: "ReplicaDBInfo \<Rightarrow> string" where
  "plain_status db = ToLower (TrimQuotes (DBStatus db))"

lemma db_rank_le_1:
  "db_rank db \<le> 1 \<longleftrightarrow> plain_status db = ReplicaStatusReady \<or> plain_status db = ReplicaStatusReplicating"
  by (auto simp: db_rank_def plain_status_def statusRank_def rank_of_simps [unfolded go_consts] go_consts)

lemma dropWhile_snoc: "\<not> p c \<Longrightarrow> dropWhile p (xs @ [c]) = dropWhile p xs @ [c]"
  by (induction xs) auto

lemma TrimFunc_hd:
  assumes "s \<noteq> []" and "\<not> p (hd s)"
  shows "TrimFunc p s \<noteq> [] \<and> hd (TrimFunc p s) = hd s"
proof -
  obtain c cs where s: "s = c # cs" using assms(1) by (cases s) auto
  then have c: "\<not> p c" using assms(2) by simp
  then have "dropWhile p (rev cs @ [c]) = dropWhile p (rev cs) @ [c]"
    by (simp add: dropWhile_snoc)
  then show ?thesis using c by (simp add: TrimFunc_def s)
qed

lemma TrimFunc_last:
  assumes "TrimFunc p s \<noteq> []" and "\<not> p (last s)"
  shows "last (TrimFunc p s) = last s"
proof -
  have d: "dropWhile p s \<noteq> []"
  proof
    assume "dropWhile p s = []"
    then have "TrimFunc p s = []" by (simp only: TrimFunc_def rev.simps dropWhile.simps)
    with assms(1) show False by simp
  qed
  then have "last (dropWhile p s) = last s"
    by (metis last_append takeWhile_dropWhile_id)
  then have "\<not> p (hd (rev (dropWhile p s)))" using assms(2) d by (simp add: hd_rev)
  then have "dropWhile p (rev (dropWhile p s)) = rev (dropWhile p s)" by (simp add: dropWhile_id)
  then show ?thesis using \<open>last (dropWhile p s) = last s\<close> by (simp add: TrimFunc_def)
qed

text \<open>A status the summary knows has no white space around it, so the classifier reads it alike.\<close>

lemma plain_status_trimmed:
  assumes "plain_status db = ReplicaStatusReady \<or> plain_status db = ReplicaStatusReplicating"
  shows "TrimSpace (DBStatus db) = DBStatus db"
proof -
  let ?s = "DBStatus db" and ?t = "TrimQuotes (DBStatus db)"
  have ends: "?t \<noteq> [] \<and> hd (ToLower ?t) = CHR ''r'' \<and> last (ToLower ?t) \<in> {CHR ''y'', CHR ''g''}"
    using assms by (auto simp: plain_status_def go_consts ToLower_def)
  then have low: "to_lower_char (hd ?t) = CHR ''r''" "to_lower_char (last ?t) \<in> {CHR ''y'', CHR ''g''}"
    by (auto simp: ToLower_def hd_map last_map)
  have sp: "to_lower_char c = c" if "is_space c" for c
    using that by (auto simp: is_space_def to_lower_char_def)
  have q: "c \<noteq> CHR 0x22" if "is_space c" for c using that by (auto simp: is_space_def)
  have ne: "?s \<noteq> []" using ends by (auto simp: TrimQuotes_def TrimChar_def TrimFunc_def)
  have "\<not> is_space (hd ?s)"
  proof
    assume h: "is_space (hd ?s)"
    then have "hd ?t = hd ?s"
      using TrimFunc_hd [OF ne, of "\<lambda>x. x = CHR 0x22"] q by (simp add: TrimQuotes_def TrimChar_def)
    then show False using low(1) sp [OF h] h by (simp add: is_space_def)
  qed
  moreover have "\<not> is_space (last ?s)"
  proof
    assume h: "is_space (last ?s)"
    then have "last ?t = last ?s"
      using TrimFunc_last [of "\<lambda>x. x = CHR 0x22" ?s] q ends by (simp add: TrimQuotes_def TrimChar_def)
    then show False using low(2) sp [OF h] h by (auto simp: is_space_def)
  qed
  ultimately show ?thesis unfolding TrimSpace_def by (intro TrimFunc_id) simp
qed

lemma status_of_rank_healthy:
  "0 \<le> k \<Longrightarrow> status_of_rank k = ReplicaStatusReady \<or> status_of_rank k = ReplicaStatusReplicating \<longleftrightarrow> k \<le> 1"
  by (auto simp: status_of_rank_def go_consts)

lemma IsHealthy_streaming:
  assumes "RStatus r = fst (snd (summarizeDataInfo (DataInfo r)))"
  shows "IsHealthy r \<longleftrightarrow> \<not> silent r \<and> (\<forall>db \<in> snd ` set (DataInfo r).
     plain_status db = ReplicaStatusReady \<or> plain_status db = ReplicaStatusReplicating)"
proof (cases "DataInfo r = []")
  case True
  then show ?thesis
    using assms by (simp add: IsHealthy_def silent_def summarizeDataInfo_def go_consts)
next
  case False
  let ?D = "snd ` set (DataInfo r)" and ?k = "Max (db_rank ` snd ` set (DataInfo r))"
  have "?D \<noteq> {}" using False by simp
  then have le: "?k \<le> 1 \<longleftrightarrow> (\<forall>db \<in> ?D. db_rank db \<le> 1)" by (subst Max_le_iff) auto
  have "0 \<le> ?k" using False db_rank_range by (subst Max_ge_iff) auto
  moreover have "RStatus r = status_of_rank ?k"
    using assms summarizeDataInfo_max [OF False] by (simp add: Let_def)
  ultimately have "IsHealthy r \<longleftrightarrow> ?k \<le> 1"
    using status_of_rank_healthy [of ?k] by (simp add: IsHealthy_def)
  then show ?thesis
    using False unfolding le db_rank_le_1 by (simp add: silent_def)
qed

text \<open>The two notions for the rows of the current table.\<close>

lemma current_health_notions:
  fixes r st t thr
  assumes "RStatus r = fst (snd (summarizeDataInfo (DataInfo r)))"
  defines "c \<equiv> fst (classifyReplica r st t thr)" and "dbs \<equiv> snd ` set (DataInfo r)"
  shows "IsHealthy r \<Longrightarrow> \<not> isHealthy c \<Longrightarrow> c = classificationBehindTooLong"
    and "isHealthy c \<Longrightarrow> \<not> IsHealthy r \<Longrightarrow> c = classificationTransient \<or>
      (\<exists>db \<in> dbs. dbStatus db = ReplicaStatusRecovery \<or> TrimSpace (DBStatus db) \<noteq> DBStatus db)"
proof -
  note h = IsHealthy_streaming [OF assms(1), folded dbs_def]
  have plain: "dbStatus db = plain_status db" if "TrimSpace (DBStatus db) = DBStatus db" for db
    using that by (simp add: dbStatus_def plain_status_def)
  then have known: "dbStatus db = ReplicaStatusReady \<or> dbStatus db = ReplicaStatusReplicating"
    if "plain_status db = ReplicaStatusReady \<or> plain_status db = ReplicaStatusReplicating" for db
    using plain_status_trimmed [OF that] that by simp
  have policy: "\<not> silent r \<Longrightarrow> c = fst (set_policy dbs (st\<lparr>channelDownSince := 0\<rparr>) t thr)"
    by (simp add: silent_def classifyReplica_nonempty c_def dbs_def)
  have "IsHealthy r \<Longrightarrow> \<not> any_invalid dbs \<and> \<not> any_unknown dbs"
    using h known by (fastforce simp: any_invalid_def any_unknown_def known_good_def go_consts)
  then show "IsHealthy r \<Longrightarrow> \<not> isHealthy c \<Longrightarrow> c = classificationBehindTooLong"
    using h policy by (auto simp: set_policy_def split: if_splits)
  assume c: "isHealthy c" and r: "\<not> IsHealthy r"
  show "c = classificationTransient \<or>
      (\<exists>db \<in> dbs. dbStatus db = ReplicaStatusRecovery \<or> TrimSpace (DBStatus db) \<noteq> DBStatus db)"
  proof (cases "silent r")
    case True
    with c show ?thesis by (auto simp: silent_def classifyReplica_empty c_def Let_def)
  next
    case False
    then have "\<not> any_unknown dbs" using c policy by (auto simp: set_policy_def split: if_splits)
    moreover obtain db where "db \<in> dbs"
      "\<not> (plain_status db = ReplicaStatusReady \<or> plain_status db = ReplicaStatusReplicating)"
      using h r False by blast
    ultimately show ?thesis using plain [of db] by (auto simp: any_unknown_def known_good_def)
  qed
qed

text \<open>C20: The operator has two notions of a healthy replica, the one of the metrics
  (\<open>IsHealthy\<close>, from the summary) and the one that is counted (the class). For a replica read
  from a row of the current table the metric says healthy exactly when databases are reported
  and each is ready or replicating; for one read from a row of the legacy table, exactly when the
  printed status is ready or replicating. Where only the metric says healthy, a database has
  lagged for too long, or the row is a legacy one past the grace period; where only the count
  does, the replica is within its grace period, or a database is recovering or has white space
  around its status, which only the classifier trims.\<close>

theorem health_notions:
  assumes "parse_replica_cols cols = Some r"
  shows "(let c = fst (classifyReplica r st t thr); dbs = snd ` set (DataInfo r) in
     (IsHealthy r \<longleftrightarrow>
        (if legacy_row cols
         then TrimQuotes (cols ! 4) \<in> {ReplicaStatusReady, ReplicaStatusReplicating}
         else \<not> silent r \<and> (\<forall>db \<in> dbs.
           plain_status db = ReplicaStatusReady \<or> plain_status db = ReplicaStatusReplicating))) \<and>
     (IsHealthy r \<and> \<not> isHealthy c \<longrightarrow>
        c = (if legacy_row cols then classificationDataChannelDown else classificationBehindTooLong)) \<and>
     (isHealthy c \<and> \<not> IsHealthy r \<longrightarrow> c = classificationTransient \<or>
        (\<exists>db \<in> dbs. dbStatus db = ReplicaStatusRecovery \<or> TrimSpace (DBStatus db) \<noteq> DBStatus db)))"
proof (cases "legacy_row cols")
  case True
  from legacy_row_silent [OF assms True]
  have "silent r" and "RStatus r = TrimQuotes (cols ! 4)" by simp_all
  then show ?thesis
    using True by (auto simp: IsHealthy_def silent_def classifyReplica_empty Let_def)
next
  case False
  note status = parsed_status [OF assms False]
  show ?thesis
    unfolding Let_def if_not_P [OF False]
    using IsHealthy_streaming [OF status] current_health_notions [OF status] by blast
qed

definition streaming_reg :: registration where
  "streaming_reg = \<lparr>reg_name = ''mg_1'', reg_host = ''mg-1.mg-hl.db'', reg_port = 10000,
     reg_mode = ''async'',
     reg_info = [(''memgraph'', \<lparr>Behind = 0, DBStatus = ''recovery'', Timestamp = 2\<rparr>)]\<rparr>"

lemma streaming_printable: "printable_reg streaming_reg"
  by code_simp

lemma reg_not_legacy: "printable_reg g \<Longrightarrow> \<not> legacy_row (reg_cells g)"
  using bare_key_chars bare_key_not_int
  by (simp add: legacy_row_def reg_cells_def printable_reg_def TrimQuotes_quoted no_quotes)

lemma registered_DataInfo: "DataInfo (registered g) = reg_info g"
  by (simp add: registered_def split: prod.splits)

lemma health_notions_witness:
  "IsHealthy legacy_replica \<and>
   fst (classifyReplica legacy_replica (zero_replicaState\<lparr>channelDownSince := 100\<rparr>) (101 + 30 * Second) 5) =
     classificationDataChannelDown \<and>
   \<not> IsHealthy (registered streaming_reg) \<and>
   (\<exists>db \<in> snd ` set (DataInfo (registered streaming_reg)). dbStatus db = ReplicaStatusRecovery)"
proof -
  let ?st = "zero_replicaState\<lparr>channelDownSince := 100\<rparr>" and ?g = "registered streaming_reg"
  note legacy = health_notions [OF legacy_sample(2), of ?st "101 + 30 * Second" 5, unfolded Let_def
    if_P [OF legacy_sample(1)]]
  have "TrimQuotes (legacy_cols ! 4) = ReplicaStatusReady" by code_simp
  then have h: "IsHealthy legacy_replica" using legacy by simp
  have "\<not> isHealthy (fst (classifyReplica legacy_replica ?st (101 + 30 * Second) 5))" by code_simp
  with legacy h have c: "fst (classifyReplica legacy_replica ?st (101 + 30 * Second) 5) =
      classificationDataChannelDown" by blast
  note current = health_notions [OF parse_reg_cols [OF streaming_printable], of zero_replicaState 7 5,
    unfolded Let_def if_not_P [OF reg_not_legacy [OF streaming_printable]]]
  have "\<not> (\<forall>db \<in> snd ` set (DataInfo ?g).
      plain_status db = ReplicaStatusReady \<or> plain_status db = ReplicaStatusReplicating)"
    unfolding registered_DataInfo by code_simp
  then have g: "\<not> IsHealthy ?g" using current by blast
  have "\<exists>db \<in> snd ` set (DataInfo ?g). dbStatus db = ReplicaStatusRecovery"
    unfolding registered_DataInfo by code_simp
  with h c g show ?thesis by blast
qed

end
