(* ===== verification/Convergence.thy ===== *)
theory Convergence
  imports Replica_View Replication_Laws
begin

text \<open>
  What a configuration pass achieves. Memgraph is not part of this repository: the laws below
  state what its documentation says of the six commands the operator sends, over a view of the
  outside state that holds the role of every instance and the replicas registered with it. With
  them one pass of \<open>ConfigureReplication\<close> reaches the wanted replication from any view, and the
  next one changes nothing.
\<close>

section \<open>What Memgraph documents\<close>

text \<open>Which instances are MAIN, and the names of the replicas each has registered.\<close>

record memgraph_view =
  mg_main :: "string \<Rightarrow> bool"
  mg_regs :: "string \<Rightarrow> string set"

text \<open>A change of role forgets the registrations; setting the role an instance has does nothing.\<close>

definition set_role :: "string \<Rightarrow> bool \<Rightarrow> memgraph_view \<Rightarrow> memgraph_view" where
  "set_role p b v = (if mg_main v p = b then v
     else v\<lparr>mg_main := (mg_main v)(p := b), mg_regs := (mg_regs v)(p := {})\<rparr>)"

definition set_regs :: "string \<Rightarrow> string set \<Rightarrow> memgraph_view \<Rightarrow> memgraph_view" where
  "set_regs p ns v = v\<lparr>mg_regs := (mg_regs v)(p := ns)\<rparr>"

text \<open>
  A query whose exec stream succeeds from every outside state with the view \<open>v\<close>, printing an
  output of the given kind and leading to the view \<open>v'\<close>. Opening a stream has no effect.
\<close>

definition replies ::
  "'s env \<Rightarrow> ('s \<Rightarrow> memgraph_view) \<Rightarrow> exec_request \<Rightarrow> memgraph_view \<Rightarrow> (string \<Rightarrow> bool) \<Rightarrow>
   memgraph_view \<Rightarrow> bool" where
  "replies e view req v R v' \<longleftrightarrow>
     (\<forall>s. view s = v \<longrightarrow>
        (\<exists>out se s'. run_state (stream_op e req) s = ((out, se, None), s') \<and> R out \<and> view s' = v'))"

definition opens :: "'s env \<Rightarrow> ('s \<Rightarrow> memgraph_view) \<Rightarrow> bool" where
  "opens e view \<longleftrightarrow>
     (\<forall>req s. \<exists>s'. run_state (new_executor_op e req) s = (None, s') \<and> view s' = view s)"

definition role_word :: "bool \<Rightarrow> string" where
  "role_word b = (if b then ''MAIN'' else ''REPLICA'')"

text \<open>The table printed for an instance lists each of its registrations once.\<close>

definition lists_names :: "string set \<Rightarrow> string \<Rightarrow> bool" where
  "lists_names names out \<longleftrightarrow>
     (\<exists>n ws rows. out = replicas_table n ws rows \<and> length ws = 5 \<and>
        list_all (\<lambda>(ps, g). length ps = 5 \<and> printable_reg g) rows \<and>
        distinct (map (reg_name \<circ> snd) rows) \<and> set (map (reg_name \<circ> snd) rows) = names)"

text \<open>
  The laws for the instances \<open>P\<close>. A registration is only promised to succeed on a MAIN, for an
  instance that is a replica and whose name is not in use; a drop on a MAIN, for a name in use.
\<close>

definition memgraph_laws ::
  "'s env \<Rightarrow> ('s \<Rightarrow> memgraph_view) \<Rightarrow> MemgraphCluster \<Rightarrow> string set \<Rightarrow> bool" where
  "memgraph_laws e view cluster P \<longleftrightarrow>
     opens e view \<and>
     (\<forall>p \<in> P. \<forall>v. let ask = query_request (cluster_ns cluster) p in
        replies e view (ask ''SHOW REPLICATION ROLE;'') v
          (\<lambda>out. role_of_output out = role_word (mg_main v p)) v \<and>
        (\<forall>b. replies e view (ask (role_query b)) v (\<lambda>_. True) (set_role p b v)) \<and>
        (mg_main v p \<longrightarrow>
           replies e view (ask ''SHOW REPLICAS;'') v (lists_names (mg_regs v p)) v \<and>
           (\<forall>f \<in> P. f \<noteq> p \<and> \<not> mg_main v f \<and> getReplicaName f \<notin> mg_regs v p \<longrightarrow>
              replies e view (ask (register_query (getReplicaName f) (getPodFQDN f cluster)
                (replication_mode cluster))) v (\<lambda>_. True)
                (set_regs p (insert (getReplicaName f) (mg_regs v p)) v)) \<and>
           (\<forall>n \<in> mg_regs v p. replies e view (ask (drop_query n)) v (\<lambda>_. True)
              (set_regs p (mg_regs v p - {n}) v))))"

section \<open>Queries against the view\<close>

text \<open>The outside shows \<open>v\<close>, and since the trace was \<open>T\<close> only calls in \<open>A\<close> were made.\<close>

definition seen ::
  "('s \<Rightarrow> memgraph_view) \<Rightarrow> effect list \<Rightarrow> (effect \<Rightarrow> bool) \<Rightarrow> memgraph_view \<Rightarrow> 's world \<Rightarrow> bool" where
  "seen view T A v w \<longleftrightarrow>
     view (ext w) = v \<and> (\<exists>tr. trace w = T @ tr \<and> (\<forall>eff \<in> set tr. A eff))"

lemma seen_emits:
  assumes "state_io_rel (keeps ext) m" and "state_io_rel (emits A) m"
  shows "ensures (seen view T A v) m (\<lambda>_. seen view T A v)"
  unfolding ensures_def
proof (intro allI impI)
  fix w x w' assume "seen view T A v w" and r: "run_state m w = (x, w')"
  then obtain tr where w: "view (ext w) = v" "trace w = T @ tr" "\<forall>eff \<in> set tr. A eff"
    by (auto simp: seen_def)
  from emitsD [OF assms(2), of w] r obtain tr' where
    "trace w' = trace w @ tr'" "\<forall>eff \<in> set tr'. A eff" by auto
  with w have "trace w' = T @ (tr @ tr')" "\<forall>eff \<in> set (tr @ tr'). A eff" by auto
  moreover have "view (ext w') = v" using keepsD [OF assms(1), of w] r w(1) by simp
  ultimately show "seen view T A v w'" unfolding seen_def by blast
qed

lemma event_seen: "A (Event t r m) \<Longrightarrow> ensures (seen view T A v) (event t r m) (\<lambda>_. seen view T A v)"
  by (rule seen_emits) (simp add: state_io_rel_def keeps_def, rule emits_event)

lemma ExecuteQuery_seen:
  assumes "opens e view" and "replies e view (query_request ns p q) v R v'"
    and "A (Exec (query_request ns p q))"
  shows "ensures (seen view T A v) (ExecuteQuery e ns p q)
    (\<lambda>r w. (\<exists>out. r = Inr out \<and> R out) \<and> seen view T A v' w)"
  unfolding ensures_def
proof (intro allI impI)
  fix w r w' assume here: "seen view T A v w" and run: "run_state (ExecuteQuery e ns p q) w = (r, w')"
  from assms(1) obtain s1 where s1: "run_state (new_executor_op e (query_request ns p q)) (ext w) = (None, s1)"
    "view s1 = view (ext w)" unfolding opens_def by blast
  with here have "view s1 = v" by (simp add: seen_def)
  with assms(2) obtain out se s2 where s2: "run_state (stream_op e (query_request ns p q)) s1 = ((out, se, None), s2)"
    "R out" "view s2 = v'" unfolding replies_def by blast
  have "r = Inr out" "w' = w\<lparr>trace := trace w @ [Exec (query_request ns p q)], ext := s2\<rparr>"
    using run s1(1) s2(1)
    by (auto simp: ExecuteQuery_def execInPod_def Let_def run_external query_request_def)
  with here s2 assms(3) show "(\<exists>out. r = Inr out \<and> R out) \<and> seen view T A v' w'"
    by (auto simp: seen_def)
qed


text \<open>The calls that only ask.\<close>

definition ask_of :: "MemgraphCluster \<Rightarrow> string \<Rightarrow> string \<Rightarrow> effect" where
  "ask_of cluster p q = Exec (query_request (cluster_ns cluster) p q)"

lemma law_role:
  assumes "memgraph_laws e view cluster P" and "p \<in> P"
    and "A (ask_of cluster p ''SHOW REPLICATION ROLE;'')"
  shows "ensures (seen view T A v) (GetReplicationRole e (cluster_ns cluster) p)
    (\<lambda>r w. current_role r = role_word (mg_main v p) \<and> seen view T A v w)"
proof -
  have "ensures (seen view T A v) (ExecuteQuery e (cluster_ns cluster) p ''SHOW REPLICATION ROLE;'')
    (\<lambda>r w. (\<exists>out. r = Inr out \<and> role_of_output out = role_word (mg_main v p)) \<and> seen view T A v w)"
    using assms by (intro ExecuteQuery_seen) (auto simp: memgraph_laws_def Let_def ask_of_def)
  then show ?thesis
    unfolding GetReplicationRole_def
    by (rule ensures_bind) (auto intro!: ensures_return simp: current_role_def)
qed

lemma law_set_role:
  assumes "memgraph_laws e view cluster P" and "p \<in> P" and "A (ask_of cluster p (role_query b))"
  shows "ensures (seen view T A v) (SetReplicationRole e (cluster_ns cluster) p b)
    (\<lambda>r w. r = None \<and> seen view T A (set_role p b v) w)"
proof -
  have "ensures (seen view T A v) (ExecuteQuery e (cluster_ns cluster) p (role_query b))
    (\<lambda>r w. (\<exists>out. r = Inr out \<and> True) \<and> seen view T A (set_role p b v) w)"
    using assms by (intro ExecuteQuery_seen) (auto simp: memgraph_laws_def Let_def ask_of_def)
  then show ?thesis
    unfolding SetReplicationRole_def by (rule ensures_bind) (auto intro!: ensures_return)
qed

lemma law_show_replicas:
  assumes "memgraph_laws e view cluster P" and "p \<in> P" and "mg_main v p"
    and "A (ask_of cluster p ''SHOW REPLICAS;'')"
  shows "ensures (seen view T A v) (ShowReplicas e (cluster_ns cluster) p)
    (\<lambda>r w. (\<exists>rs. r = Inr rs \<and> distinct (map RName rs) \<and> set (map RName rs) = mg_regs v p) \<and>
      seen view T A v w)"
proof -
  have "ensures (seen view T A v) (ExecuteQuery e (cluster_ns cluster) p ''SHOW REPLICAS;'')
    (\<lambda>r w. (\<exists>out. r = Inr out \<and> lists_names (mg_regs v p) out) \<and> seen view T A v w)"
    using assms by (intro ExecuteQuery_seen) (auto simp: memgraph_laws_def Let_def ask_of_def)
  moreover have "distinct (map RName (parseShowReplicasOutput out)) \<and>
      set (map RName (parseShowReplicasOutput out)) = mg_regs v p"
    if names: "lists_names (mg_regs v p) out" for out
  proof -
    from names obtain n ws rows where out: "out = replicas_table n ws rows" "length ws = 5"
      "list_all (\<lambda>(ps, g). length ps = 5 \<and> printable_reg g) rows"
      and d: "distinct (map (reg_name \<circ> snd) rows)" "set (map (reg_name \<circ> snd) rows) = mg_regs v p"
      unfolding lists_names_def by blast
    have "RName (registered g) = reg_name g" for g
      by (simp add: registered_def split: prod.splits)
    then have "map RName (parseShowReplicasOutput out) = map (reg_name \<circ> snd) rows"
      unfolding out(1) table_parsed [OF out(2,3)] by simp
    with d show ?thesis by simp
  qed
  ultimately show ?thesis
    unfolding ShowReplicas_def by (elim ensures_bind) (auto intro!: ensures_return)
qed

lemma law_register:
  assumes "memgraph_laws e view cluster P" and "p \<in> P" and "f \<in> P" and "f \<noteq> p"
    and "mg_main v p" and "\<not> mg_main v f" and "getReplicaName f \<notin> mg_regs v p"
    and "A (ask_of cluster p (register_query (getReplicaName f) (getPodFQDN f cluster)
      (replication_mode cluster)))"
  shows "ensures (seen view T A v)
    (RegisterReplica e (cluster_ns cluster) p (getReplicaName f) (getPodFQDN f cluster)
      (replication_mode cluster))
    (\<lambda>r w. r = None \<and> seen view T A (set_regs p (insert (getReplicaName f) (mg_regs v p)) v) w)"
proof -
  have "ensures (seen view T A v) (ExecuteQuery e (cluster_ns cluster) p
      (register_query (getReplicaName f) (getPodFQDN f cluster) (replication_mode cluster)))
    (\<lambda>r w. (\<exists>out. r = Inr out \<and> True) \<and>
      seen view T A (set_regs p (insert (getReplicaName f) (mg_regs v p)) v) w)"
    using assms by (intro ExecuteQuery_seen) (auto simp: memgraph_laws_def Let_def ask_of_def)
  then show ?thesis
    unfolding RegisterReplica_def by (rule ensures_bind) (auto intro!: ensures_return)
qed

lemma law_drop:
  assumes "memgraph_laws e view cluster P" and "p \<in> P" and "mg_main v p" and "n \<in> mg_regs v p"
    and "A (ask_of cluster p (drop_query n))"
  shows "ensures (seen view T A v) (UnregisterReplica e (cluster_ns cluster) p n)
    (\<lambda>r w. r = None \<and> seen view T A (set_regs p (mg_regs v p - {n}) v) w)"
proof -
  have "ensures (seen view T A v) (ExecuteQuery e (cluster_ns cluster) p (drop_query n))
    (\<lambda>r w. (\<exists>out. r = Inr out \<and> True) \<and> seen view T A (set_regs p (mg_regs v p - {n}) v) w)"
    using assms by (intro ExecuteQuery_seen) (auto simp: memgraph_laws_def Let_def ask_of_def)
  then show ?thesis
    unfolding UnregisterReplica_def by (rule ensures_bind) (auto intro!: ensures_return)
qed

section \<open>The steps of a pass\<close>

lemma role_words_differ:
  "role_word b = ''MAIN'' \<longleftrightarrow> b" "role_word b = ''REPLICA'' \<longleftrightarrow> \<not> b"
  "''MAIN'' = role_word b \<longleftrightarrow> b" "''REPLICA'' = role_word b \<longleftrightarrow> \<not> b"
  by (simp_all add: role_word_def)

lemma set_role_same: "mg_main v p = b \<Longrightarrow> set_role p b v = v"
  by (simp add: set_role_def)

lemma ensureMainRole_seen:
  assumes "memgraph_laws e view cluster P" and "p \<in> P"
    and "A (ask_of cluster p ''SHOW REPLICATION ROLE;'')"
    and "\<not> mg_main v p \<Longrightarrow> A (ask_of cluster p (role_query True)) \<and>
           (\<forall>m. A (Event EventNormal EventReasonMainInstanceConfigured m))"
  shows "ensures (seen view T A v) (ensureMainRole e cluster p)
    (\<lambda>r w. r = None \<and> seen view T A (set_role p True v) w)"
  unfolding ensureMainRole_def
proof (rule ensures_bind [OF law_role [where A = A, OF assms(1-3)]])
  fix r
  let ?set = "do {
      err \<leftarrow> SetReplicationRole e (cluster_ns cluster) p True;
      case err of
        Some er \<Rightarrow> State_Monad.return (Some er)
      | None \<Rightarrow> do {
          event EventNormal EventReasonMainInstanceConfigured (''Instance '' @ p @ '' configured as MAIN'');
          State_Monad.return None
        }
    }"
  have "ensures (seen view T A v) ?set (\<lambda>r w. r = None \<and> seen view T A (set_role p True v) w)"
    if m: "\<not> mg_main v p"
  proof (rule ensures_bind [OF law_set_role [OF assms(1,2)]])
    show "A (ask_of cluster p (role_query True))" using assms(4) [OF m] by simp
    fix err
    have "ensures (seen view T A (set_role p True v)) (do {
        event EventNormal EventReasonMainInstanceConfigured (''Instance '' @ p @ '' configured as MAIN'');
        State_Monad.return None }) (\<lambda>r w. r = None \<and> seen view T A (set_role p True v) w)"
      using assms(4) [OF m] by (intro ensures_bind [OF event_seen] ensures_return) auto
    then show "ensures (\<lambda>w. err = None \<and> seen view T A (set_role p True v) w)
      (case err of
        Some er \<Rightarrow> State_Monad.return (Some er)
      | None \<Rightarrow> do {
          event EventNormal EventReasonMainInstanceConfigured (''Instance '' @ p @ '' configured as MAIN'');
          State_Monad.return None
        }) (\<lambda>r w. r = None \<and> seen view T A (set_role p True v) w)"
      by (cases err) (auto simp: ensures_def)
  qed
  then show "ensures (\<lambda>w. current_role r = role_word (mg_main v p) \<and> seen view T A v w)
    (if current_role r = ''MAIN'' then State_Monad.return None else ?set)
    (\<lambda>r w. r = None \<and> seen view T A (set_role p True v) w)"
    by (cases "current_role r = ''MAIN''")
      (auto simp: role_words_differ set_role_same ensures_def)
qed

lemma ensureReplicaRole_seen:
  assumes "memgraph_laws e view cluster P" and "p \<in> P"
    and "A (ask_of cluster p ''SHOW REPLICATION ROLE;'')"
    and "mg_main v p \<Longrightarrow> A (ask_of cluster p (role_query False))"
  shows "ensures (seen view T A v) (ensureReplicaRole e (cluster_ns cluster) p)
    (\<lambda>r w. r = None \<and> seen view T A (set_role p False v) w)"
  unfolding ensureReplicaRole_def
proof (rule ensures_bind [OF law_role [where A = A, OF assms(1-3)]])
  fix r
  show "ensures (\<lambda>w. current_role r = role_word (mg_main v p) \<and> seen view T A v w)
    (if current_role r = ''REPLICA'' then State_Monad.return None
     else SetReplicationRole e (cluster_ns cluster) p False)
    (\<lambda>r w. r = None \<and> seen view T A (set_role p False v) w)"
    using law_set_role [where A = A and b = False and T = T and v = v, OF assms(1,2)] assms(4)
    by (cases "current_role r = ''REPLICA''")
      (auto simp: role_words_differ set_role_same ensures_def)
qed

text \<open>What the loop body makes of the view: the follower is a replica and registered.\<close>

definition joined :: "string \<Rightarrow> string list \<Rightarrow> string \<Rightarrow> memgraph_view \<Rightarrow> memgraph_view" where
  "joined wi names f v =
     (let v1 = set_role f False v; n = getReplicaName f in
      if n \<in> set names then v1 else set_regs wi (insert n (mg_regs v1 wi)) v1)"

lemma configure_pod_seen:
  assumes laws: "memgraph_laws e view cluster P" and P: "wi \<in> P" "PodName pod \<in> P" and "PodName pod \<noteq> wi"
    and main: "mg_main v wi"
    and new: "getReplicaName (PodName pod) \<notin> set names \<Longrightarrow> getReplicaName (PodName pod) \<notin> mg_regs v wi"
    and asks: "A (ask_of cluster (PodName pod) ''SHOW REPLICATION ROLE;'')"
    and demote: "mg_main v (PodName pod) \<Longrightarrow> A (ask_of cluster (PodName pod) (role_query False))"
    and register: "getReplicaName (PodName pod) \<notin> set names \<Longrightarrow>
      A (ask_of cluster wi (register_query (getReplicaName (PodName pod)) (getPodFQDN (PodName pod) cluster)
         (replication_mode cluster))) \<and> (\<forall>m. A (Event EventNormal EventReasonReplicaRegistered m))"
  shows "ensures (seen view T A v)
    (configure_pod e cluster wi (replication_mode cluster) names pod k)
    (\<lambda>_. seen view T A (joined wi names (PodName pod) v))"
proof -
  let ?f = "PodName pod" and ?n = "getReplicaName (PodName pod)"
  let ?v1 = "set_role (PodName pod) False v"
  let ?event = "\<lambda>err. case err of
      Some _ \<Rightarrow> State_Monad.return k
    | None \<Rightarrow> do {
        event EventNormal EventReasonReplicaRegistered
          (''Replica '' @ ?n @ '' registered with main '' @ wi);
        State_Monad.return (int32 (k + 1))
      }"
  have v1: "mg_main ?v1 wi" "\<not> mg_main ?v1 ?f" "mg_regs ?v1 wi = mg_regs v wi"
    using assms(4) main by (auto simp: set_role_def)
  have reg: "ensures (seen view T A ?v1) (do {
        err \<leftarrow> RegisterReplica e (cluster_ns cluster) wi ?n (getPodFQDN ?f cluster) (replication_mode cluster);
        ?event err }) (\<lambda>_. seen view T A (set_regs wi (insert ?n (mg_regs ?v1 wi)) ?v1))"
    if n: "?n \<notin> set names"
  proof (rule ensures_bind [OF law_register [OF laws P assms(4) v1(1,2)]])
    show "?n \<notin> mg_regs ?v1 wi" using new [OF n] v1(3) by simp
    show "A (ask_of cluster wi (register_query ?n (getPodFQDN ?f cluster) (replication_mode cluster)))"
      using register [OF n] by simp
    fix err
    have "ensures (seen view T A v') (do {
        event EventNormal EventReasonReplicaRegistered (''Replica '' @ ?n @ '' registered with main '' @ wi);
        State_Monad.return (int32 (k + 1)) }) (\<lambda>_. seen view T A v')" for v'
      using register [OF n] by (intro ensures_bind [OF event_seen] ensures_return) auto
    then show "ensures (\<lambda>w. err = None \<and> seen view T A (set_regs wi (insert ?n (mg_regs ?v1 wi)) ?v1) w)
      (?event err) (\<lambda>_. seen view T A (set_regs wi (insert ?n (mg_regs ?v1 wi)) ?v1))"
      by (cases err) (auto simp: ensures_def)
  qed
  note role = ensureReplicaRole_seen [where A = A, OF laws P(2) asks demote]
  show ?thesis
    unfolding configure_pod_def Let_def using assms(4)
    apply (simp only: if_False)
    apply (rule ensures_bind [OF role], assumption)
    subgoal for err
      using reg by (cases err; cases "?n \<in> set names") (auto simp: ensures_def joined_def Let_def)
    done
qed

section \<open>The loops\<close>

lemma ensures_ex:
  "(\<And>v. I v \<Longrightarrow> ensures (P v) m Q) \<Longrightarrow> ensures (\<lambda>w. \<exists>v. P v w \<and> I v) m Q"
  unfolding ensures_def by blast

text \<open>The followers \<open>D\<close> have been configured.\<close>

definition progress :: "string \<Rightarrow> string list \<Rightarrow> string set \<Rightarrow> memgraph_view \<Rightarrow> bool" where
  "progress wi names D v \<longleftrightarrow>
     mg_main v wi \<and> (\<forall>f \<in> D. \<not> mg_main v f) \<and> mg_regs v wi = set names \<union> getReplicaName ` D"

lemma joined_progress:
  "progress wi names D v \<Longrightarrow> f \<noteq> wi \<Longrightarrow> progress wi names (insert f D) (joined wi names f v)"
  by (auto simp: progress_def joined_def set_role_def set_regs_def Let_def)

lemma configure_loop_seen:
  assumes "memgraph_laws e view cluster P" and "wi \<in> P" and "inj_on getReplicaName P"
    and "PodName ` set pods \<subseteq> P" and "distinct (map PodName pods)" and "D \<subseteq> P"
    and "D \<inter> PodName ` set pods = {}"
  shows "ensures (\<lambda>w. \<exists>v. seen view T (\<lambda>_. True) v w \<and> progress wi names D v)
    (for_fold (configure_pod e cluster wi (replication_mode cluster) names) pods k)
    (\<lambda>_ w. \<exists>v. seen view T (\<lambda>_. True) v w \<and> progress wi names (D \<union> (PodName ` set pods - {wi})) v)"
  using assms(4-)
proof (induction pods arbitrary: D k)
  case Nil
  then show ?case by (auto simp: ensures_def)
next
  case (Cons pod pods)
  let ?D = "if PodName pod = wi then D else insert (PodName pod) D"
  have body: "ensures (\<lambda>w. \<exists>v. seen view T (\<lambda>_. True) v w \<and> progress wi names D v)
      (configure_pod e cluster wi (replication_mode cluster) names pod k)
      (\<lambda>_ w. \<exists>v. seen view T (\<lambda>_. True) v w \<and> progress wi names ?D v)"
  proof (cases "PodName pod = wi")
    case True
    then show ?thesis by (auto simp: configure_pod_def ensures_def)
  next
    case False
    show ?thesis
    proof (rule ensures_ex)
      fix v assume v: "progress wi names D v"
      have "getReplicaName (PodName pod) \<notin> getReplicaName ` D"
        using Cons.prems assms(3) by (auto simp: inj_on_def)
      with v have new: "getReplicaName (PodName pod) \<notin> set names \<Longrightarrow>
          getReplicaName (PodName pod) \<notin> mg_regs v wi" by (simp add: progress_def)
      have "ensures (seen view T (\<lambda>_. True) v)
        (configure_pod e cluster wi (replication_mode cluster) names pod k)
        (\<lambda>_. seen view T (\<lambda>_. True) (joined wi names (PodName pod) v))"
        using assms(1,2) False Cons.prems(1) v new
        by (intro configure_pod_seen) (auto simp: progress_def)
      then show "ensures (seen view T (\<lambda>_. True) v)
        (configure_pod e cluster wi (replication_mode cluster) names pod k)
        (\<lambda>_ w. \<exists>v. seen view T (\<lambda>_. True) v w \<and> progress wi names ?D v)"
        using joined_progress [OF v False] False by (elim ensures_weaken) auto
    qed
  qed
  have D: "?D \<union> (PodName ` set pods - {wi}) = D \<union> (PodName ` set (pod # pods) - {wi})" by auto
  show ?case
    unfolding for_fold.simps
    apply (rule ensures_bind [OF body])
    apply (rule Cons.IH [of ?D, unfolded D])
    using Cons.prems by auto
qed

lemma ext_kept [rel_intros]:
  "state_io_rel (keeps ext) (event t r m)" "state_io_rel (keeps ext) (metric c)"
  by (simp_all add: state_io_rel_def keeps_def)

lemma cleanup_replica_seen:
  assumes "memgraph_laws e view cluster P" and "wi \<in> P" and "mg_main v wi"
    and "RName r \<notin> set names \<Longrightarrow> RName r \<in> mg_regs v wi"
  shows "ensures (seen view T (\<lambda>_. True) v) (cleanup_replica e cluster wi names r)
    (\<lambda>_. seen view T (\<lambda>_. True)
       (if RName r \<in> set names then v else set_regs wi (mg_regs v wi - {RName r}) v))"
proof (cases "RName r \<in> set names")
  case True
  then show ?thesis by (auto simp: cleanup_replica_def ensures_def)
next
  case False
  let ?v = "set_regs wi (mg_regs v wi - {RName r}) v"
  have "ensures (seen view T (\<lambda>_. True) ?v) (do {
      event EventNormal EventReasonReplicaUnregistered m;
      if_metrics (DeleteReplicaMetrics (cluster_name cluster) (cluster_ns cluster) (RName r)) })
    (\<lambda>_. seen view T (\<lambda>_. True) ?v)" for m
    unfolding if_metrics_def DeleteReplicaMetrics_def delete_labels_def
    by (rule seen_emits; intro rel_intros TrueI)
  then have "ensures (\<lambda>w. err = None \<and> seen view T (\<lambda>_. True) ?v w) (case err of
        Some _ \<Rightarrow> State_Monad.return ()
      | None \<Rightarrow> do {
          event EventNormal EventReasonReplicaUnregistered m;
          if_metrics (DeleteReplicaMetrics (cluster_name cluster) (cluster_ns cluster) (RName r)) })
    (\<lambda>_. seen view T (\<lambda>_. True) ?v)" for err :: "go_error option" and m
    by (cases err) (auto simp: ensures_def)
  note rest = this
  show ?thesis
    unfolding cleanup_replica_def if_not_P [OF False]
    by (rule ensures_bind [OF law_drop [where A = "\<lambda>_. True", OF assms(1-3) assms(4) [OF False] TrueI]])
      (rule rest)
qed

text \<open>The registrations left are the expected ones and those still to be looked at.\<close>

lemma cleanup_loop_seen:
  assumes "memgraph_laws e view cluster P" and "wi \<in> P" and "distinct (map RName rs)"
  shows "ensures (\<lambda>w. \<exists>v. seen view T (\<lambda>_. True) v w \<and>
      (mg_main v = m \<and> m wi \<and> mg_regs v wi = set names \<union> set (map RName rs)))
    (for_each (cleanup_replica e cluster wi names) rs)
    (\<lambda>_ w. \<exists>v. seen view T (\<lambda>_. True) v w \<and> (mg_main v = m \<and> mg_regs v wi = set names))"
  using assms(3)
proof (induction rs)
  case Nil
  then show ?case by (auto simp: ensures_def)
next
  case (Cons r rs)
  have body: "ensures (\<lambda>w. \<exists>v. seen view T (\<lambda>_. True) v w \<and>
      (mg_main v = m \<and> m wi \<and> mg_regs v wi = set names \<union> set (map RName (r # rs))))
    (cleanup_replica e cluster wi names r)
    (\<lambda>_ w. \<exists>v. seen view T (\<lambda>_. True) v w \<and>
      (mg_main v = m \<and> m wi \<and> mg_regs v wi = set names \<union> set (map RName rs)))"
  proof (rule ensures_ex)
    fix v :: memgraph_view assume v: "mg_main v = m \<and> m wi \<and> mg_regs v wi = set names \<union> set (map RName (r # rs))"
    let ?v = "if RName r \<in> set names then v else set_regs wi (mg_regs v wi - {RName r}) v"
    have "mg_main ?v = m" "mg_regs ?v wi = set names \<union> set (map RName rs)"
      using v Cons.prems by (auto simp: set_regs_def)
    moreover have "ensures (seen view T (\<lambda>_. True) v) (cleanup_replica e cluster wi names r)
        (\<lambda>_. seen view T (\<lambda>_. True) ?v)"
      using assms(1,2) v by (intro cleanup_replica_seen) auto
    ultimately show "ensures (seen view T (\<lambda>_. True) v) (cleanup_replica e cluster wi names r)
      (\<lambda>_ w. \<exists>v. seen view T (\<lambda>_. True) v w \<and>
        (mg_main v = m \<and> m wi \<and> mg_regs v wi = set names \<union> set (map RName rs)))"
      using v by (elim ensures_weaken) blast+
  qed
  show ?case
    unfolding for_each.simps
    using Cons by (intro ensures_bind [OF body]) simp
qed

section \<open>Whole passes\<close>

lemma configure_steps:
  assumes "wi \<noteq> []" and "getReadyPodsSorted pods \<noteq> []"
    and main: "ensures Pstart (ensureMainRole e cluster wi) (\<lambda>r w. r = None \<and> Pmain w)"
    and show_replicas: "ensures Pmain (ShowReplicas e (cluster_ns cluster) wi)
      (\<lambda>r w. (\<exists>rs. r = Inr rs \<and> R rs) \<and> Pmain w)"
    and loop: "\<And>rs. R rs \<Longrightarrow> ensures Pmain
      (for_fold (configure_pod e cluster wi (replication_mode cluster) (map RName rs))
         (getReadyPodsSorted pods) 0) (\<lambda>_. Ploop rs)"
    and cleanup: "\<And>rs. R rs \<Longrightarrow> ensures (Ploop rs)
      (cleanupStaleReplicas e cluster wi (getReadyPodsSorted pods) rs) (\<lambda>_. Pend)"
  shows "ensures Pstart (ConfigureReplication e cluster pods wi) (\<lambda>r w. r = None \<and> Pend w)"
proof -
  let ?loop = "\<lambda>rs. do {
      _ \<leftarrow> for_fold (configure_pod e cluster wi (replication_mode cluster) (map RName rs))
        (getReadyPodsSorted pods) 0;
      cleanupStaleReplicas e cluster wi (getReadyPodsSorted pods) rs;
      State_Monad.return None }"
  let ?rest = "\<lambda>r. ?loop (case r of Inl _ \<Rightarrow> [] | Inr rs \<Rightarrow> rs)"
  have loops: "ensures Pmain (?loop rs) (\<lambda>r w. r = None \<and> Pend w)" if "R rs" for rs
    by (rule ensures_bind [OF loop [OF that]], rule ensures_bind [OF cleanup [OF that]])
      (simp add: ensures_return)
  have rest: "ensures (\<lambda>w. (\<exists>rs. r = Inr rs \<and> R rs) \<and> Pmain w) (?rest r) (\<lambda>r w. r = None \<and> Pend w)" for r
    using loops by (cases r) (auto simp: ensures_def)
  have "ensures (\<lambda>w. err = None \<and> Pmain w) (case err of
        Some er \<Rightarrow> State_Monad.return
          (Some (wrap (''failed to ensure main role on '' @ wi @ '': '') er))
      | None \<Rightarrow> do { r \<leftarrow> ShowReplicas e (cluster_ns cluster) wi; ?rest r })
      (\<lambda>r w. r = None \<and> Pend w)" for err
    using ensures_bind [OF show_replicas rest] by (cases err) (auto simp: ensures_def)
  note pass = ensures_bind [OF main this]
  show ?thesis
    unfolding ConfigureReplication_def Let_def using assms(1,2)
    by (simp only: if_False length_0_conv) (rule pass [unfolded replication_mode_def Let_def])
qed

text \<open>The replication the spec asks for, and the calls that only ask.\<close>

definition wanted :: "Pod list \<Rightarrow> string \<Rightarrow> memgraph_view \<Rightarrow> bool" where
  "wanted pods wi v \<longleftrightarrow>
     mg_main v wi \<and> (\<forall>p \<in> set (followers pods wi). \<not> mg_main v (PodName p)) \<and>
     mg_regs v wi = (getReplicaName \<circ> PodName) ` set (followers pods wi)"

definition asks :: "MemgraphCluster \<Rightarrow> effect \<Rightarrow> bool" where
  "asks cluster eff \<longleftrightarrow>
     (\<exists>p. eff = ask_of cluster p ''SHOW REPLICATION ROLE;'' \<or> eff = ask_of cluster p ''SHOW REPLICAS;'')"

definition ready_names :: "Pod list \<Rightarrow> string set" where
  "ready_names pods = PodName ` set (filter isPodReady pods)"

definition dns_names :: "Pod list \<Rightarrow> bool" where
  "dns_names pods \<longleftrightarrow> distinct (map PodName pods) \<and>
     (\<forall>p \<in> set pods. PodName p \<noteq> [] \<and> CHR ''_'' \<notin> set (PodName p))"

lemma dns_names_inj: "dns_names pods \<Longrightarrow> inj_on getReplicaName (ready_names pods)"
  by (auto simp: dns_names_def ready_names_def inj_on_def intro: getReplicaName_inj)

lemma dns_names_sorted: "dns_names pods \<Longrightarrow> distinct (map PodName (getReadyPodsSorted pods))"
  by (simp add: dns_names_def getReadyPodsSorted_def distinct_map sorted_filter)
    (auto simp: distinct_map inj_on_def)

lemma sorted_names: "PodName ` set (getReadyPodsSorted pods) = ready_names pods"
  by (auto simp: ready_sorted_set ready_names_def)

lemma follower_names: "PodName ` set (followers pods wi) = ready_names pods - {wi}"
  by (auto simp: followers_def ready_names_def)

lemma expected_names:
  "set (expected_replicas wi (getReadyPodsSorted pods)) = getReplicaName ` (ready_names pods - {wi})"
  by (simp add: expected_followers follower_names [symmetric] image_comp)

lemma wanted_iff:
  "wanted pods wi v \<longleftrightarrow> mg_main v wi \<and> (\<forall>f \<in> ready_names pods - {wi}. \<not> mg_main v f) \<and>
     mg_regs v wi = getReplicaName ` (ready_names pods - {wi})"
  unfolding wanted_def by (simp add: follower_names [symmetric] image_comp)

lemma configure_reaches:
  assumes laws: "memgraph_laws e view cluster (ready_names pods)" and wi: "wi \<in> ready_names pods"
    and names: "dns_names pods"
  shows "ensures (seen view T (\<lambda>_. True) v) (ConfigureReplication e cluster pods wi)
    (\<lambda>r w. r = None \<and> (\<exists>v. seen view T (\<lambda>_. True) v w \<and> wanted pods wi v))"
proof (rule configure_steps [where
      Pmain = "seen view T (\<lambda>_. True) (set_role wi True v)" and
      R = "\<lambda>rs :: ReplicaInfo list. distinct (map RName rs) \<and> set (map RName rs) = mg_regs (set_role wi True v) wi" and
      Ploop = "\<lambda>rs w. \<exists>v. seen view T (\<lambda>_. True) v w \<and> progress wi (map RName rs) (ready_names pods - {wi}) v"])
  let ?v = "set_role wi True v" and ?sorted = "getReadyPodsSorted pods"
  have main: "mg_main ?v wi" by (simp add: set_role_def)
  show "wi \<noteq> []" using wi names by (auto simp: ready_names_def dns_names_def)
  show "?sorted \<noteq> []" using wi sorted_names [of pods] by auto
  show "ensures (seen view T (\<lambda>_. True) v) (ensureMainRole e cluster wi)
      (\<lambda>r w. r = None \<and> seen view T (\<lambda>_. True) ?v w)"
    using laws wi by (rule ensureMainRole_seen) simp_all
  show "ensures (seen view T (\<lambda>_. True) ?v) (ShowReplicas e (cluster_ns cluster) wi)
      (\<lambda>r w. (\<exists>rs. r = Inr rs \<and> distinct (map RName rs) \<and> set (map RName rs) = mg_regs ?v wi) \<and>
        seen view T (\<lambda>_. True) ?v w)"
    using laws wi main by (rule law_show_replicas) simp
  fix rs :: "ReplicaInfo list" assume rs: "distinct (map RName rs) \<and> set (map RName rs) = mg_regs ?v wi"
  have "progress wi (map RName rs) {} ?v" using rs main by (simp add: progress_def)
  moreover have "ensures (\<lambda>w. \<exists>v. seen view T (\<lambda>_. True) v w \<and> progress wi (map RName rs) {} v)
      (for_fold (configure_pod e cluster wi (replication_mode cluster) (map RName rs)) ?sorted 0)
      (\<lambda>_ w. \<exists>v. seen view T (\<lambda>_. True) v w \<and>
        progress wi (map RName rs) ({} \<union> (PodName ` set ?sorted - {wi})) v)"
    using laws wi dns_names_inj [OF names] _ dns_names_sorted [OF names]
    by (rule configure_loop_seen) (simp_all add: sorted_names)
  ultimately show "ensures (seen view T (\<lambda>_. True) ?v)
      (for_fold (configure_pod e cluster wi (replication_mode cluster) (map RName rs)) ?sorted 0)
      (\<lambda>_ w. \<exists>v. seen view T (\<lambda>_. True) v w \<and> progress wi (map RName rs) (ready_names pods - {wi}) v)"
    unfolding sorted_names Un_empty_left by (elim ensures_weaken) blast+
  show "ensures (\<lambda>w. \<exists>v. seen view T (\<lambda>_. True) v w \<and>
        progress wi (map RName rs) (ready_names pods - {wi}) v)
      (cleanupStaleReplicas e cluster wi ?sorted rs)
      (\<lambda>_ w. \<exists>v. seen view T (\<lambda>_. True) v w \<and> wanted pods wi v)"
  proof (rule ensures_ex)
    fix v assume v: "progress wi (map RName rs) (ready_names pods - {wi}) v"
    have loop: "ensures (\<lambda>w. \<exists>v'. seen view T (\<lambda>_. True) v' w \<and> (mg_main v' = mg_main v \<and>
          mg_main v wi \<and> mg_regs v' wi = set (expected_replicas wi ?sorted) \<union> set (map RName rs)))
        (for_each (cleanup_replica e cluster wi (expected_replicas wi ?sorted)) rs)
        (\<lambda>_ w. \<exists>v'. seen view T (\<lambda>_. True) v' w \<and>
          (mg_main v' = mg_main v \<and> mg_regs v' wi = set (expected_replicas wi ?sorted)))"
      using laws wi rs by (intro cleanup_loop_seen) auto
    have "mg_regs v wi = set (expected_replicas wi ?sorted) \<union> set (map RName rs)" "mg_main v wi"
      "\<forall>f \<in> ready_names pods - {wi}. \<not> mg_main v f"
      using v by (auto simp: progress_def expected_names)
    then show "ensures (seen view T (\<lambda>_. True) v) (cleanupStaleReplicas e cluster wi ?sorted rs)
        (\<lambda>_ w. \<exists>v. seen view T (\<lambda>_. True) v w \<and> wanted pods wi v)"
      unfolding cleanupStaleReplicas_def wanted_iff
      by (intro ensures_weaken [OF loop]) (auto simp: expected_names)
  qed
qed

lemma configure_keeps:
  assumes laws: "memgraph_laws e view cluster (ready_names pods)" and wi: "wi \<in> ready_names pods"
    and names: "dns_names pods" and v: "wanted pods wi v"
  shows "ensures (seen view T (asks cluster) v) (ConfigureReplication e cluster pods wi)
    (\<lambda>r w. r = None \<and> seen view T (asks cluster) v w)"
proof (rule configure_steps [where Pmain = "seen view T (asks cluster) v" and
      R = "\<lambda>rs :: ReplicaInfo list. distinct (map RName rs) \<and> set (map RName rs) = mg_regs v wi" and
      Ploop = "\<lambda>_. seen view T (asks cluster) v"])
  let ?sorted = "getReadyPodsSorted pods"
  note w = v [unfolded wanted_iff]
  show "wi \<noteq> []" using wi names by (auto simp: ready_names_def dns_names_def)
  show "?sorted \<noteq> []" using wi sorted_names [of pods] by auto
  have "ensures (seen view T (asks cluster) v) (ensureMainRole e cluster wi)
      (\<lambda>r w. r = None \<and> seen view T (asks cluster) (set_role wi True v) w)"
    using laws wi w by (intro ensureMainRole_seen) (auto simp: asks_def)
  then show "ensures (seen view T (asks cluster) v) (ensureMainRole e cluster wi)
      (\<lambda>r w. r = None \<and> seen view T (asks cluster) v w)" using w by (simp add: set_role_same)
  show "ensures (seen view T (asks cluster) v) (ShowReplicas e (cluster_ns cluster) wi)
      (\<lambda>r w. (\<exists>rs. r = Inr rs \<and> distinct (map RName rs) \<and> set (map RName rs) = mg_regs v wi) \<and>
        seen view T (asks cluster) v w)"
    using laws wi w by (intro law_show_replicas) (auto simp: asks_def)
  fix rs :: "ReplicaInfo list" assume rs: "distinct (map RName rs) \<and> set (map RName rs) = mg_regs v wi"
  have "ensures (seen view T (asks cluster) v)
      (configure_pod e cluster wi (replication_mode cluster) (map RName rs) pod k)
      (\<lambda>_. seen view T (asks cluster) v)" if "pod \<in> set ?sorted" for pod k
  proof (cases "PodName pod = wi")
    case True
    then show ?thesis by (auto simp: configure_pod_def ensures_def)
  next
    case False
    have f: "PodName pod \<in> ready_names pods - {wi}" using that False sorted_names [of pods] by auto
    then have n: "getReplicaName (PodName pod) \<in> set (map RName rs)" using w rs by auto
    have "ensures (seen view T (asks cluster) v)
        (configure_pod e cluster wi (replication_mode cluster) (map RName rs) pod k)
        (\<lambda>_. seen view T (asks cluster) (joined wi (map RName rs) (PodName pod) v))"
      using laws wi f w n by (intro configure_pod_seen) (auto simp: asks_def)
    then show ?thesis using f w n by (simp add: joined_def set_role_same Let_def del: set_map)
  qed
  then show "ensures (seen view T (asks cluster) v)
      (for_fold (configure_pod e cluster wi (replication_mode cluster) (map RName rs)) ?sorted 0)
      (\<lambda>_. seen view T (asks cluster) v)"
    by (rule ensures_fold)
  have "cleanup_replica e cluster wi (expected_replicas wi ?sorted) r = State_Monad.return ()"
    if "r \<in> set rs" for r
    using that rs w by (simp add: cleanup_replica_def expected_names) (metis image_eqI)
  then show "ensures (seen view T (asks cluster) v) (cleanupStaleReplicas e cluster wi ?sorted rs)
      (\<lambda>_. seen view T (asks cluster) v)"
    unfolding cleanupStaleReplicas_def by (intro ensures_each) (simp add: ensures_return)
qed

text \<open>C5: A configuration pass converges. When Memgraph behaves as documented on the ready pods,
  one pass leads from any roles and registrations to the wanted ones: the write instance is
  MAIN, every other ready pod is a replica, and exactly their names are registered with the
  write instance. It succeeds, and so does the next pass, which only asks for roles and for the
  list of replicas and leaves everything as it is.\<close>

theorem configure_converges:
  fixes e :: "'s env" and view cluster pods wi and w :: "'s world"
  assumes "memgraph_laws e view cluster (ready_names pods)" and "wi \<in> ready_names pods"
    and "dns_names pods"
  defines "m \<equiv> ConfigureReplication e cluster pods wi"
  defines "w1 \<equiv> snd (run_state m w)"
  shows "fst (run_state m w) = None \<and> wanted pods wi (view (ext w1)) \<and>
    fst (run_state m w1) = None \<and> view (ext (snd (run_state m w1))) = view (ext w1) \<and>
    list_all (asks cluster) (calls m w1)"
proof -
  have "seen view (trace w) (\<lambda>_. True) (view (ext w)) w" by (simp add: seen_def)
  from ensuresD [OF configure_reaches [OF assms(1-3)] this]
  have first: "fst (run_state m w) = None \<and> wanted pods wi (view (ext w1))"
    by (auto simp: m_def w1_def seen_def)
  have "seen view (trace w1) (asks cluster) (view (ext w1)) w1" by (simp add: seen_def)
  from ensuresD [OF configure_keeps [OF assms(1-3)] this] first
  have "fst (run_state m w1) = None \<and>
      seen view (trace w1) (asks cluster) (view (ext w1)) (snd (run_state m w1))"
    by (simp add: m_def)
  with first show ?thesis by (auto simp: seen_def calls_def list_all_iff)
qed

text \<open>
  A small Memgraph that keeps the laws on two pods: the state has the roles and, for every
  instance, the names registered with it.
\<close>

type_synonym small_state = "(string \<Rightarrow> bool) \<times> (string \<Rightarrow> string list)"

definition small_reg :: "string \<Rightarrow> registration" where
  "small_reg n = \<lparr>reg_name = n, reg_host = ''10.0.0.1'', reg_port = 10000, reg_mode = ''async'',
     reg_info = [(''memgraph'', \<lparr>Behind = 0, DBStatus = ''ready'', Timestamp = 42\<rparr>)]\<rparr>"

definition small_names :: "string list \<Rightarrow> string list" where
  "small_names ns = filter (\<lambda>n. printable_reg (small_reg n)) (remdups ns)"

definition small_view :: "small_state \<Rightarrow> memgraph_view" where
  "small_view s = \<lparr>mg_main = fst s, mg_regs = (\<lambda>p. set (small_names (snd s p)))\<rparr>"

definition small_register :: "string \<Rightarrow> string" where
  "small_register f = register_query (getReplicaName f) (getPodFQDN f bare_cluster)
     (replication_mode bare_cluster)"

definition small_answer :: "string \<Rightarrow> string \<Rightarrow> small_state \<Rightarrow> string \<times> small_state" where
  "small_answer p q s = (case s of (ms, rs) \<Rightarrow>
     if q = ''SHOW REPLICATION ROLE;'' then (if ms p then ''main'' else ''replica'', s)
     else if q = role_query True then ([], if ms p then s else (ms(p := True), rs(p := [])))
     else if q = role_query False then ([], if ms p then (ms(p := False), rs(p := [])) else s)
     else if q = ''SHOW REPLICAS;'' then
       (replicas_table 9 [0, 0, 0, 0, 0]
          (map (\<lambda>n. ([0, 0, 0, 0, 0], small_reg n)) (small_names (rs p))), s)
     else if q = small_register ''mg-0'' then ([], (ms, rs(p := ''mg_0'' # rs p)))
     else if q = small_register ''mg-1'' then ([], (ms, rs(p := ''mg_1'' # rs p)))
     else ([], (ms, rs(p := filter (\<lambda>n. q \<noteq> drop_query n) (rs p)))))"

definition small_env :: "small_state env" where
  "small_env = quiet_env\<lparr>stream_op := \<lambda>req. State (\<lambda>s.
     case small_answer (ExecPod req) (butlast (the (ExecStdin req))) s of
       (out, s') \<Rightarrow> ((out, [], None), s'))\<rparr>"

lemma small_replies:
  assumes "\<And>s. small_view s = v \<Longrightarrow> R (fst (small_answer p q s)) \<and> small_view (snd (small_answer p q s)) = v'"
  shows "replies small_env small_view (query_request ns p q) v R v'"
  unfolding replies_def
proof (intro allI impI)
  fix s assume "small_view s = v"
  from assms [OF this] show "\<exists>out se s'. run_state (stream_op small_env (query_request ns p q)) s =
      ((out, se, None), s') \<and> R out \<and> small_view s' = v'"
    by (cases "small_answer p q s") (simp add: small_env_def query_request_def)
qed

lemma small_queries:
  "small_register ''mg-0'' \<noteq> small_register ''mg-1''" "prefix ''R'' (small_register f)"
  by code_simp (simp add: small_register_def register_query_def)

lemma small_distinct:
  "''SHOW REPLICAS;'' \<noteq> ''SHOW REPLICATION ROLE;''" "''SHOW REPLICAS;'' \<noteq> role_query b"
  "role_query b \<noteq> ''SHOW REPLICATION ROLE;''" "role_query True \<noteq> role_query False"
  "role_query False \<noteq> role_query True"
  "small_register f \<noteq> ''SHOW REPLICAS;''" "small_register f \<noteq> ''SHOW REPLICATION ROLE;''"
  "small_register f \<noteq> role_query b" "drop_query n \<noteq> ''SHOW REPLICAS;''"
  "drop_query n \<noteq> ''SHOW REPLICATION ROLE;''" "drop_query n \<noteq> role_query b"
  "drop_query n \<noteq> small_register f" "drop_query n = drop_query n' \<longleftrightarrow> n = n'"
  using small_queries(2) [of f] by (auto simp: role_query_def drop_query_def prefix_def)

lemma small_printable: "printable_reg (small_reg ''mg_0'')" "printable_reg (small_reg ''mg_1'')"
  by code_simp+

lemma small_replica_names: "getReplicaName ''mg-0'' = ''mg_0''" "getReplicaName ''mg-1'' = ''mg_1''"
  by code_simp+

lemma small_lists: "lists_names (set (small_names ns)) (replicas_table 9 [0, 0, 0, 0, 0]
    (map (\<lambda>n. ([0, 0, 0, 0, 0], small_reg n)) (small_names ns)))"
  unfolding lists_names_def
proof (intro exI conjI)
  have n: "map (reg_name \<circ> snd) (map (\<lambda>n. ([0, 0, 0, 0, 0], small_reg n)) xs) = xs" for xs
    by (induction xs) (simp_all add: small_reg_def)
  show "distinct (map (reg_name \<circ> snd) (map (\<lambda>n. ([0, 0, 0, 0, 0], small_reg n)) (small_names ns)))"
    unfolding n by (simp add: small_names_def)
  show "set (map (reg_name \<circ> snd) (map (\<lambda>n. ([0, 0, 0, 0, 0], small_reg n)) (small_names ns))) =
      set (small_names ns)"
    unfolding n by simp
qed (auto simp: small_names_def list_all_iff)

lemma small_laws: "memgraph_laws small_env small_view bare_cluster {''mg-0'', ''mg-1''}"
  unfolding memgraph_laws_def Let_def
proof (intro conjI ballI allI impI)
  show "opens small_env small_view"
    by (simp add: opens_def small_env_def quiet_env_def)
  fix p v assume "p \<in> {''mg-0'', ''mg-1''}"
  show "replies small_env small_view (query_request (cluster_ns bare_cluster) p ''SHOW REPLICATION ROLE;'')
      v (\<lambda>out. role_of_output out = role_word (mg_main v p)) v"
    by (rule small_replies) (auto simp: small_answer_def small_view_def role_words role_word_def)
  show "replies small_env small_view (query_request (cluster_ns bare_cluster) p (role_query b))
      v (\<lambda>_. True) (set_role p b v)" for b
    by (rule small_replies, cases b)
      (auto simp: small_answer_def small_distinct small_view_def set_role_def small_names_def
        fun_eq_iff)
  assume "mg_main v p"
  show "replies small_env small_view (query_request (cluster_ns bare_cluster) p ''SHOW REPLICAS;'')
      v (lists_names (mg_regs v p)) v"
    by (rule small_replies)
      (auto simp: small_answer_def small_distinct small_view_def small_lists simp del: set_map)
  show "replies small_env small_view (query_request (cluster_ns bare_cluster) p (drop_query n))
      v (\<lambda>_. True) (set_regs p (mg_regs v p - {n}) v)" for n
    by (rule small_replies)
      (auto simp: small_answer_def small_distinct small_view_def set_regs_def small_names_def
        fun_eq_iff)
  fix f assume "f \<in> {''mg-0'', ''mg-1''}"
  then have "replies small_env small_view
      (query_request (cluster_ns bare_cluster) p (small_register f))
      v (\<lambda>_. True) (set_regs p (insert (getReplicaName f) (mg_regs v p)) v)"
    by (intro small_replies, elim insertE emptyE)
      (auto simp: small_answer_def small_distinct small_queries(1) small_queries(1) [symmetric]
        small_view_def set_regs_def small_names_def small_replica_names small_printable fun_eq_iff)
  then show "replies small_env small_view
      (query_request (cluster_ns bare_cluster) p (register_query (getReplicaName f)
         (getPodFQDN f bare_cluster) (replication_mode bare_cluster)))
      v (\<lambda>_. True) (set_regs p (insert (getReplicaName f) (mg_regs v p)) v)"
    by (simp add: small_register_def)
qed

definition small_pods :: "Pod list" where
  "small_pods = [ready_pod ''mg-1'', ready_pod ''mg-0'']"

text \<open>Both instances believe to be MAIN, and a replica that no longer exists is registered.\<close>

definition small_start :: "small_state world" where
  "small_start = quiet_world ((\<lambda>_. True), (\<lambda>_. [''mg_7'']))"

lemma configure_converges_witness:
  "let m = ConfigureReplication small_env bare_cluster small_pods ''mg-0'';
       w1 = snd (run_state m small_start)
   in fst (run_state m small_start) = None \<and>
      wanted small_pods ''mg-0'' (small_view (ext w1)) \<and>
      fst (run_state m w1) = None \<and> small_view (ext (snd (run_state m w1))) = small_view (ext w1) \<and>
      list_all (asks bare_cluster) (calls m w1)"
proof -
  have ready: "ready_names small_pods = {''mg-0'', ''mg-1''}" by code_simp
  have "dns_names small_pods" by code_simp
  from configure_converges [of small_env small_view bare_cluster small_pods "''mg-0''" small_start,
      unfolded ready, OF small_laws _ this]
  show ?thesis unfolding Let_def by blast
qed

end
