(* ===== verification/Ready.thy ===== *)
theory Ready
  imports Quiescence Convergence
begin

text \<open>
  The reconciler and Memgraph together: a pass over a cluster whose objects are in sync and whose
  pods are all ready, on a Memgraph that behaves as documented and whose replicas stream, ends by
  reporting the cluster ready, whatever roles and registrations it started from.
\<close>

section \<open>Streaming replicas\<close>

text \<open>
  The table printed by a MAIN whose replicas stream: every row has databases, none of them behind
  and each in a known state.
\<close>

definition streaming_info :: "data_info \<Rightarrow> bool" where
  "streaming_info m \<longleftrightarrow> m \<noteq> [] \<and> (\<forall>db \<in> snd ` set m. known_good (dbStatus db) \<and> Behind db \<le> 0)"

definition lists_streaming :: "string set \<Rightarrow> string \<Rightarrow> bool" where
  "lists_streaming names out \<longleftrightarrow>
     (\<exists>n ws rows. out = replicas_table n ws rows \<and> length ws = 5 \<and>
        list_all (\<lambda>(ps, g). length ps = 5 \<and> printable_reg g \<and> streaming_info (reg_info g)) rows \<and>
        distinct (map (reg_name \<circ> snd) rows) \<and> set (map (reg_name \<circ> snd) rows) = names)"

definition streams ::
  "'s env \<Rightarrow> ('s \<Rightarrow> memgraph_view) \<Rightarrow> MemgraphCluster \<Rightarrow> string set \<Rightarrow> bool" where
  "streams e view cluster P \<longleftrightarrow>
     (\<forall>p \<in> P. \<forall>v. mg_main v p \<longrightarrow>
        replies e view (query_request (cluster_ns cluster) p ''SHOW REPLICAS;'') v
          (lists_streaming (mg_regs v p)) v)"

definition good_replica :: "ReplicaInfo \<Rightarrow> bool" where
  "good_replica r \<longleftrightarrow> streaming_info (DataInfo r)"

lemma good_replica_healthy: "good_replica r \<Longrightarrow> isHealthy (fst (classifyReplica r st t thr))"
proof -
  assume "good_replica r"
  then have "DataInfo r \<noteq> []" and "\<not> any_invalid (snd ` set (DataInfo r))"
    and "\<not> any_behind (snd ` set (DataInfo r))" and "\<not> any_unknown (snd ` set (DataInfo r))"
    by (auto simp: good_replica_def streaming_info_def any_invalid_def any_behind_def any_unknown_def
        known_good_def go_consts)
  then show ?thesis by (simp add: classifyReplica_nonempty set_policy_def)
qed

lemma lists_streaming_parsed:
  assumes "lists_streaming names out"
  shows "int (length (parseShowReplicasOutput out)) = int (card names) \<and>
    (\<forall>r \<in> set (parseShowReplicasOutput out). good_replica r)"
proof -
  from assms obtain n ws rows where out: "out = replicas_table n ws rows" "length ws = 5"
    and rows: "list_all (\<lambda>(ps, g). length ps = 5 \<and> printable_reg g \<and> streaming_info (reg_info g)) rows"
    and d: "distinct (map (reg_name \<circ> snd) rows)" "set (map (reg_name \<circ> snd) rows) = names"
    unfolding lists_streaming_def by blast
  have "list_all (\<lambda>(ps, g). length ps = 5 \<and> printable_reg g) rows"
    using rows by (auto simp: list_all_iff)
  from table_parsed [OF out(2) this] have p: "parseShowReplicasOutput out = map (registered \<circ> snd) rows"
    by (simp only: out(1))
  have "good_replica (registered g)" if "(ps, g) \<in> set rows" for ps g
    using rows that by (auto simp: list_all_iff good_replica_def registered_def split: prod.splits)
  moreover have "length rows = card names" using distinct_card [OF d(1)] d(2) by simp
  ultimately show ?thesis by (auto simp: p)
qed

section \<open>The counts\<close>

text \<open>A check of streaming replicas counts every one of them as healthy.\<close>

lemma check_good:
  assumes "good_replica r"
  shows "ensures (\<lambda>_. True) (check_replica cluster t thr r h) (\<lambda>h' _. h' = int32 (h + 1))"
  unfolding ensures_def
  using check_replica_run(1) good_replica_healthy [OF assms] by fastforce

lemma check_all_good:
  assumes "\<forall>r \<in> set rs. good_replica r" and "0 \<le> h" and "h + int (length rs) < 2 ^ 31"
  shows "ensures (\<lambda>_. True) (for_fold (check_replica cluster t thr) rs h :: ('s, int) op)
    (\<lambda>h' _. h' = h + int (length rs))"
  using assms
proof (induction rs arbitrary: h)
  case Nil
  then show ?case by (simp add: ensures_def)
next
  case (Cons r rs)
  have i: "int32 (h + 1) = h + 1" using Cons.prems(2,3) by (simp add: int32_id is_int32_def)
  have rest: "ensures (\<lambda>_. True) (for_fold (check_replica cluster t thr) rs (h + 1) :: ('s, int) op)
      (\<lambda>h' _. h' = h + int (length (r # rs)))"
    using Cons.IH [of "h + 1"] Cons.prems by (simp add: add.assoc)
  have first: "ensures (\<lambda>_. True) (check_replica cluster t thr r h :: ('s, int) op) (\<lambda>h' _. h' = h + 1)"
    using check_good [of r cluster t thr h] Cons.prems(1) by (simp add: i)
  show ?case
    unfolding for_fold.simps
    by (rule ensures_bind [OF first]) (use rest in \<open>auto simp: ensures_def\<close>)
qed

lemma law_show_streaming:
  assumes "memgraph_laws e view cluster P" and "streams e view cluster P" and "p \<in> P" and "mg_main v p"
  shows "ensures (seen view T (\<lambda>_. True) v) (ShowReplicas e (cluster_ns cluster) p)
    (\<lambda>r _. \<exists>rs. r = Inr rs \<and> int (length rs) = int (card (mg_regs v p)) \<and> (\<forall>r \<in> set rs. good_replica r))"
proof -
  have "ensures (seen view T (\<lambda>_. True) v) (ExecuteQuery e (cluster_ns cluster) p ''SHOW REPLICAS;'')
    (\<lambda>r w. (\<exists>out. r = Inr out \<and> lists_streaming (mg_regs v p) out) \<and> seen view T (\<lambda>_. True) v w)"
    using assms by (intro ExecuteQuery_seen) (auto simp: memgraph_laws_def streams_def)
  then show ?thesis
    unfolding ShowReplicas_def
    by (rule ensures_bind) (auto intro!: ensures_return dest: lists_streaming_parsed)
qed

lemma health_check_good:
  assumes "memgraph_laws e view cluster P" and "streams e view cluster P" and "p \<in> P" and "mg_main v p"
    and "p \<noteq> []" and "int (card (mg_regs v p)) < 2 ^ 31"
  defines "n \<equiv> int (card (mg_regs v p))"
  shows "ensures (seen view T (\<lambda>_. True) v) (CheckReplicationHealth e cluster p)
    (\<lambda>r _. \<exists>rs. r = Inr (\<lparr>TotalReplicas = n, HealthyReplicas = n\<rparr>, rs))"
proof -
  let ?R = "\<lambda>rs. int (length rs) = n \<and> (\<forall>r \<in> set rs. good_replica r)"
  let ?k = "cluster_key (cluster_ns cluster) (cluster_name cluster)"
  let ?rest = "\<lambda>(replicas :: ReplicaInfo list). do {
      tnow \<leftarrow> now e;
      healthy \<leftarrow> for_fold (check_replica cluster tnow (behind_threshold cluster)) replicas 0;
      states \<leftarrow> gets (\<lambda>w. rm_states (manager w));
      set_states (pruneStates states ?k (map RName replicas));
      (if healthy = int32 (int (length replicas)) \<and> int32 (int (length replicas)) > 0
       then event EventNormal EventReasonReplicationHealthy
         (''All '' @ Itoa (int32 (int (length replicas))) @ '' replicas are healthy'')
       else State_Monad.return ());
      State_Monad.return
        (Inr (\<lparr>TotalReplicas = int32 (int (length replicas)), HealthyReplicas = healthy\<rparr>, replicas)) }"
  have rest: "ensures (\<lambda>_. True) (?rest rs) (\<lambda>r _. \<exists>rs. r = Inr (\<lparr>TotalReplicas = n, HealthyReplicas = n\<rparr>, rs))"
    if rs: "?R rs" for rs
  proof -
    have t: "int32 (int (length rs)) = n" using rs assms(6) by (simp add: n_def int32_id is_int32_def)
    have loop: "ensures (\<lambda>_. True) (for_fold (check_replica cluster t (behind_threshold cluster)) rs 0)
        (\<lambda>h _. h = n)" for t
      using check_all_good [of rs 0] rs assms(6) by (simp add: n_def)
    have tail: "ensures (\<lambda>_. h = n) (do {
        states \<leftarrow> gets (\<lambda>w. rm_states (manager w));
        set_states (pruneStates states ?k (map RName rs));
        m; State_Monad.return (Inr (\<lparr>TotalReplicas = n, HealthyReplicas = h\<rparr>, rs)) })
      (\<lambda>r _. \<exists>rs. r = Inr (\<lparr>TotalReplicas = n, HealthyReplicas = n\<rparr>, rs))" for h and m :: "('a, unit) op"
      by (cases "h = n") (simp_all add: ensures_def split: prod.splits)
    show ?thesis
      unfolding t
      by (rule ensures_after, rule ensures_bind [OF loop], rule tail)
  qed
  show ?thesis
    unfolding CheckReplicationHealth_def Let_def if_not_P [OF assms(5)]
  proof (rule ensures_bind [OF law_show_streaming [OF assms(1-4)]])
    fix r
    let ?case = "case r of Inl er \<Rightarrow> State_Monad.return (Inl (wrap ''failed to show replicas: '' er))
      | Inr replicas \<Rightarrow> ?rest replicas"
    show "ensures (\<lambda>_. \<exists>rs. r = Inr rs \<and> int (length rs) = int (card (mg_regs v p)) \<and>
        (\<forall>r \<in> set rs. good_replica r)) ?case
      (\<lambda>r _. \<exists>rs. r = Inr (\<lparr>TotalReplicas = n, HealthyReplicas = n\<rparr>, rs))"
    proof (cases "\<exists>rs. r = Inr rs \<and> ?R rs")
      case True
      then obtain rs where "r = Inr rs" and "?R rs" by blast
      show ?thesis
        unfolding \<open>r = Inr rs\<close> sum.case
        by (rule ensures_weaken [OF rest [OF \<open>?R rs\<close>]]) (simp, assumption)
    next
      case False
      then show ?thesis by (auto simp: ensures_def n_def)
    qed
  qed
qed

lemma ensures_seen:
  "(\<And>T v. ensures (seen view T (\<lambda>_. True) v) m Q) \<Longrightarrow> ensures (\<lambda>_. True) m Q"
  unfolding ensures_def seen_def by blast

lemma manager_created:
  assumes "rest_config_set e" and "always (new_client_op e) None"
  shows "ensures (\<lambda>_. True) (ensureReplicationManager e) (\<lambda>r _. r = None)"
  using assms
  by (auto simp: ensures_def ensureReplicationManager_def NewClient_def run_external always_def split: option.splits prod.splits)

lemma wanted_count:
  assumes "wanted pods wi v" and "wi \<in> ready_names pods" and "dns_names pods"
    and "\<forall>p \<in> set pods. isPodReady p"
  shows "int (card (mg_regs v wi)) = int (length pods) - 1"
proof -
  have "card (ready_names pods) = length pods"
    using assms(3,4) distinct_card [of "map PodName pods"]
    by (simp add: ready_names_def dns_names_def filter_True)
  moreover have "card (mg_regs v wi) = card (ready_names pods - {wi})"
    using assms(1) inj_on_subset [OF dns_names_inj [OF assms(3)], of "ready_names pods - {wi}"]
    by (simp add: wanted_iff card_image)
  moreover have "card (ready_names pods) > 0"
    using assms(2) by (auto simp: ready_names_def card_gt_0_iff)
  ultimately show ?thesis using assms(2) by (cases pods) simp_all
qed

text \<open>The replication step of a pass counts every follower as registered and healthy.\<close>

lemma configure_step_counts:
  assumes laws: "memgraph_laws e view cluster (ready_names pods)"
    and streams: "streams e view cluster (ready_names pods)"
    and manager: "rest_config_set e" "always (new_client_op e) None"
    and wi: "wi \<in> ready_names pods" and names: "dns_names pods"
    and ready: "\<forall>p \<in> set pods. isPodReady p" and size: "length pods < 2 ^ 31"
  defines "n \<equiv> int (length pods) - 1"
  shows "ensures (\<lambda>_. True) (configure_step e cluster pods wi) (\<lambda>x _. fst x = n \<and> fst (snd x) = n)"
proof (cases "length pods > 1")
  case False
  then have "length pods = 1"
    using wi by (cases pods) (auto simp: ready_names_def)
  then show ?thesis by (simp add: configure_step_def n_def ensures_def)
next
  case True
  have nonempty: "wi \<noteq> []" using wi names by (auto simp: ready_names_def dns_names_def)
  have small: "n < 2 ^ 31" using size by (simp add: n_def)
  let ?Q = "\<lambda>(x :: int \<times> int \<times> go_error option) _. fst x = n \<and> fst (snd x) = n"
  let ?tail = "\<lambda>r. case r of
      Inl _ \<Rightarrow> State_Monad.return (0, 0, None)
    | Inr (health, replicaInfos) \<Rightarrow> do {
        RecordReplicaSet (cluster_name cluster) (cluster_ns cluster) replicaInfos;
        State_Monad.return (TotalReplicas health, HealthyReplicas health, None)
      }"
  have checked: "ensures (\<lambda>w. \<exists>v. seen view T (\<lambda>_. True) v w \<and> wanted pods wi v)
      (do { r \<leftarrow> CheckReplicationHealth e cluster wi; ?tail r }) ?Q" for T
  proof (rule ensures_ex)
    fix v assume v: "wanted pods wi v"
    then have count: "int (card (mg_regs v wi)) = n" and main: "mg_main v wi"
      using wanted_count [OF v wi names ready] by (simp_all add: n_def wanted_def)
    show "ensures (seen view T (\<lambda>_. True) v)
        (do { r \<leftarrow> CheckReplicationHealth e cluster wi; ?tail r }) ?Q"
    proof (rule ensures_bind [OF health_check_good [OF laws streams wi main nonempty]])
      show "int (card (mg_regs v wi)) < 2 ^ 31" using small by (simp only: count)
      fix r
      show "ensures (\<lambda>_. \<exists>rs. r = Inr (\<lparr>TotalReplicas = int (card (mg_regs v wi)),
          HealthyReplicas = int (card (mg_regs v wi))\<rparr>, rs)) (?tail r) ?Q"
        unfolding count by (auto simp: ensures_def split: prod.splits)
    qed
  qed
  have configured: "ensures (\<lambda>_. True) (do {
      err \<leftarrow> ConfigureReplication e cluster pods wi;
      case err of
        Some er \<Rightarrow> do {
          event EventWarning EventReasonReplicationError (''Failed to configure replication: '' @ err_msg er);
          State_Monad.return (0, 0, Some er)
        }
      | None \<Rightarrow> do { r \<leftarrow> CheckReplicationHealth e cluster wi; ?tail r } }) ?Q"
  proof (rule ensures_seen, rule ensures_bind [OF configure_reaches [OF laws wi names]])
    fix T v and err :: "go_error option"
    show "ensures (\<lambda>w. err = None \<and> (\<exists>v. seen view T (\<lambda>_. True) v w \<and> wanted pods wi v))
      (case err of
        Some er \<Rightarrow> do {
          event EventWarning EventReasonReplicationError (''Failed to configure replication: '' @ err_msg er);
          State_Monad.return (0, 0, Some er)
        }
      | None \<Rightarrow> do { r \<leftarrow> CheckReplicationHealth e cluster wi; ?tail r }) ?Q"
    proof (cases err)
      case None
      show ?thesis unfolding None option.case by (rule ensures_weaken [OF checked]) simp_all
    qed (simp add: ensures_def)
  qed
  have "length pods > 1 = True" "(wi \<noteq> []) = True" using True nonempty by simp_all
  note go = this
  show ?thesis
    unfolding configure_step_def go simp_thms if_True
  proof (rule ensures_bind [OF manager_created [OF manager]])
    fix err :: "go_error option"
    show "ensures (\<lambda>_. err = None) (case err of
        Some er \<Rightarrow> State_Monad.return (0, 0, Some er)
      | None \<Rightarrow> do {
          err \<leftarrow> ConfigureReplication e cluster pods wi;
          case err of
            Some er \<Rightarrow> do {
              event EventWarning EventReasonReplicationError (''Failed to configure replication: '' @ err_msg er);
              State_Monad.return (0, 0, Some er)
            }
          | None \<Rightarrow> do { r \<leftarrow> CheckReplicationHealth e cluster wi; ?tail r } }) ?Q"
    proof (cases err)
      case None
      show ?thesis unfolding None option.case by (rule ensures_weaken [OF configured]) simp_all
    qed (simp add: ensures_def)
  qed
qed

section \<open>The report\<close>

definition reported_ready :: "MemgraphCluster \<Rightarrow> Pod list \<Rightarrow> MemgraphCluster \<Rightarrow> bool" where
  "reported_ready cluster pods c \<longleftrightarrow>
     same_object cluster c \<and> Phase (Status c) = ClusterPhaseRunning \<and>
     WriteInstance (Status c) = determineWriteInstance cluster pods \<and>
     ReadyInstances (Status c) = int (length pods) \<and>
     RegisteredReplicas (Status c) = int (length pods) - 1 \<and>
     (\<forall>ty \<in> {ConditionTypeReady, ConditionTypeMainAvailable, ConditionTypeReplicasReady,
               ConditionTypeReplicationHealthy}. status_of (Conditions (Status c)) ty = Some ''True'')"

lemma write_instance_ready:
  assumes "pods \<noteq> []" and "\<forall>p \<in> set pods. isPodReady p"
  shows "determineWriteInstance cluster pods \<in> ready_names pods"
proof -
  have "find isPodReady pods = Some (hd pods)" using assms by (cases pods) auto
  then show ?thesis
    using assms by (auto simp: determineWriteInstance_def ready_named_def ready_names_def
        image_iff intro: sym)
qed

lemma conditions_reported:
  assumes "sets_conditions e" and "same_object cluster c" and "\<forall>p \<in> set pods. isPodReady p"
    and "desired_replicas cluster = int (length pods)" and "pods \<noteq> []" and "length pods < 2 ^ 31"
    and "determineWriteInstance cluster pods \<noteq> []"
  defines "n \<equiv> int (length pods) - 1" and "wi \<equiv> determineWriteInstance cluster pods"
  shows "reported_ready cluster pods (fst (run_state (updateConditions e (status_update c pods wi n) wi
    (ready_count pods) (desired_replicas c) n n) w))"
proof -
  let ?N = "int (length pods)"
  have N: "0 < ?N" "?N < 2 ^ 31" using assms(5,6) by simp_all
  have d: "desired_replicas c = ?N"
    using assms(2,4) by (simp add: desired_replicas_def same_object_def)
  have r: "ready_count pods = ?N"
    using assms(3) N by (simp add: ready_count_def filter_True int32_id is_int32_def)
  have h: "replication_healthy ?N n n"
    using N by (simp add: replication_healthy_def n_def int32_id is_int32_def)
  have run: "fst (run_state (updateConditions e x wi a b k l) w) =
      x\<lparr>Status := (Status x)\<lparr>Conditions := fold (\<lambda>c cs. set_status_condition e cs c)
        (the_conditions (fst (run_state (now e) w)) wi a b k l) (Conditions (Status x))\<rparr>\<rparr>" for x a b k l
    by (simp add: updateConditions_def split: prod.splits)
  show ?thesis
    using assms(2,7) N
    by (auto simp: run reported_ready_def same_object_def status_update_def d r h phase_of_def
        the_conditions_status [OF assms(1)] conditionStatus_def wi_def [symmetric] n_def [symmetric])
qed

text \<open>C7: A healthy cluster is reported ready. On a Memgraph that behaves as documented and whose
  replicas stream, a pass over a live cluster whose objects are in sync and whose pods, as many
  as the spec wants, are all ready ends by writing the status Running with all four conditions
  true, every follower counted as registered, and the chosen write instance - from whatever
  roles, registrations and timers it started.\<close>

theorem healthy_cluster_ready:
  assumes "always (get_cluster_op e name ns) (Inr cluster)" and "\<not> being_deleted cluster"
    and "contains_finalizer e (Meta cluster) finalizerName" and "Phase (Status cluster) \<noteq> []"
    and "in_sync e cluster pods"
    and "memgraph_laws e view cluster (ready_names pods)" and "streams e view cluster (ready_names pods)"
    and "rest_config_set e" and "always (new_client_op e) None" and "sets_conditions e"
    and "dns_names pods" and "\<forall>p \<in> set pods. isPodReady p" and "pods \<noteq> []"
    and "desired_replicas cluster = int (length pods)" and "length pods < 2 ^ 31"
  shows "\<exists>c. writes (trace (snd (run_state (Reconcile e name ns) w))) =
    writes (trace w) @ [UpdateClusterStatus c] \<and> reported_ready cluster pods c"
proof -
  let ?wi = "determineWriteInstance cluster pods"
  have wi: "?wi \<in> ready_names pods" by (rule write_instance_ready [OF assms(13,12)])
  then have "?wi \<noteq> []" using assms(11) by (auto simp: ready_names_def dns_names_def)
  note report = conditions_reported [OF assms(10) _ assms(12,14,13,15) this]
  have "status_with e cluster pods (reported_ready cluster pods)
      (fst (run_state (configure_step e cluster pods ?wi) w))" for w
    using ensuresD [OF configure_step_counts [OF assms(6-9) wi assms(11,12,15)] TrueI]
    unfolding status_with_def by (auto intro!: updateStatus_wrote report)
  then have "reports e cluster pods (reported_ready cluster pods)" by (simp add: reports_def)
  from pass_wrote [OF assms(1-5) this, of w] show ?thesis by simp
qed

text \<open>The small Memgraph behind an API server that holds the objects of a cluster of two.\<close>

definition pair_cluster :: MemgraphCluster where
  "pair_cluster = running_cluster\<lparr>Spec := (Spec bare_cluster)\<lparr>Replicas := 2\<rparr>\<rparr>"

definition pair_env :: "small_state env" where
  "pair_env = small_env\<lparr>
     get_cluster_op := \<lambda>_ _. State_Monad.return (Inr pair_cluster),
     get_service_op := \<lambda>_ _. State_Monad.return (Inr (buildWriteService pair_cluster ''mg-0'')),
     get_statefulset_op := \<lambda>_ _. State_Monad.return (Inr (buildStatefulSet (quiet_env :: unit env) pair_cluster)),
     get_cronjob_op := \<lambda>_ _. State_Monad.return (Inr (buildSnapshotCronJob pair_cluster)),
     list_pods_op := \<lambda>_ _. State_Monad.return (Inr small_pods)\<rparr>"

lemma pair_replies: "replies pair_env view req v R v' = replies small_env view req v R v'"
  by (simp add: replies_def pair_env_def)

lemma pair_opens: "opens pair_env view = opens small_env view"
  by (simp add: opens_def pair_env_def)

lemma pair_names: "cluster_ns pair_cluster = cluster_ns bare_cluster"
  "getPodFQDN f pair_cluster = getPodFQDN f bare_cluster"
  "replication_mode pair_cluster = replication_mode bare_cluster"
  by (simp_all add: pair_cluster_def running_cluster_def bare_cluster_def getPodFQDN_def
      headlessServiceName_def service_suffix_def replication_mode_def)

lemma pair_ready: "ready_names small_pods = {''mg-0'', ''mg-1''}"
  by code_simp

lemma pair_laws: "memgraph_laws pair_env small_view pair_cluster (ready_names small_pods)"
  using small_laws unfolding memgraph_laws_def pair_replies pair_opens pair_names pair_ready .

lemma pair_streams: "streams pair_env small_view pair_cluster (ready_names small_pods)"
  unfolding streams_def pair_replies pair_names
proof (intro ballI allI impI small_replies)
  fix p v s assume v: "small_view s = v"
  have "lists_streaming (set (small_names ns)) (replicas_table 9 [0, 0, 0, 0, 0]
      (map (\<lambda>n. ([0, 0, 0, 0, 0], small_reg n)) (small_names ns)))" for ns
    unfolding lists_streaming_def
  proof (intro exI conjI)
    have n: "map (reg_name \<circ> snd) (map (\<lambda>n. ([0, 0, 0, 0, 0], small_reg n)) xs) = xs" for xs
      by (induction xs) (simp_all add: small_reg_def)
    show "distinct (map (reg_name \<circ> snd) (map (\<lambda>n. ([0, 0, 0, 0, 0], small_reg n)) (small_names ns)))"
      "set (map (reg_name \<circ> snd) (map (\<lambda>n. ([0, 0, 0, 0, 0], small_reg n)) (small_names ns))) =
        set (small_names ns)"
      unfolding n by (simp_all add: small_names_def)
    have "streaming_info (reg_info (small_reg n))" for n by code_simp
    then show "list_all (\<lambda>(ps, g). length ps = 5 \<and> printable_reg g \<and> streaming_info (reg_info g))
        (map (\<lambda>n. ([0, 0, 0, 0, 0], small_reg n)) (small_names ns))"
      by (auto simp: small_names_def list_all_iff)
  qed auto
  with v show "lists_streaming (mg_regs v p) (fst (small_answer p ''SHOW REPLICAS;'' s)) \<and>
      small_view (snd (small_answer p ''SHOW REPLICAS;'' s)) = v"
    by (cases s) (auto simp: small_answer_def small_distinct small_view_def simp del: set_map)
qed

lemma pair_in_sync: "in_sync pair_env pair_cluster small_pods"
proof -
  have wi: "determineWriteInstance pair_cluster small_pods = ''mg-0''"
    by (simp add: determineWriteInstance_def pair_cluster_def running_cluster_def small_pods_def
        ready_named_def ready_pod_def isPodReady_def)
  have "agrees (buildSnapshotCronJob pair_cluster) (buildSnapshotCronJob pair_cluster)"
    by (simp add: agrees_def)
  moreover have "deep_equal_ok pair_env"
    by (simp add: deep_equal_ok_def pair_env_def small_env_def quiet_env_def)
  moreover have "current_write_instance (buildWriteService pair_cluster ''mg-0'') = ''mg-0''"
    by (simp add: current_write_instance_def buildWriteService_def)
  moreover have "replicas_image (buildStatefulSet (quiet_env :: unit env) pair_cluster) =
      Some (desired_replicas pair_cluster, cluster_image pair_cluster)"
    by (simp add: replicas_image_def buildStatefulSet_def Let_def memgraph_container_def)
  moreover have "IsEnabled (Snapshot (Spec pair_cluster))"
    by (simp add: IsEnabled_def pair_cluster_def bare_cluster_def bare_spec_def)
  ultimately show ?thesis
    unfolding in_sync_def cronjob_settled_def held_def wi
    by (auto simp: pair_env_def small_env_def quiet_env_def always_def)
qed

lemma healthy_cluster_ready_witness:
  "\<exists>c. writes (trace (snd (run_state (Reconcile pair_env ''mg'' ''db'') small_start))) =
     [UpdateClusterStatus c] \<and> reported_ready pair_cluster small_pods c"
proof -
  have "always (get_cluster_op pair_env ''mg'' ''db'') (Inr pair_cluster)"
    "always (new_client_op pair_env) None" "rest_config_set pair_env"
    by (simp_all add: pair_env_def small_env_def quiet_env_def always_def)
  moreover have "sets_conditions pair_env"
    using quiet_sets_conditions by (simp add: sets_conditions_def pair_env_def small_env_def)
  moreover have "\<not> being_deleted pair_cluster" "Phase (Status pair_cluster) \<noteq> []"
    "contains_finalizer pair_env (Meta pair_cluster) finalizerName"
    "desired_replicas pair_cluster = int (length small_pods)"
    by (simp_all add: being_deleted_def pair_cluster_def running_cluster_def bare_cluster_def mk_meta_def
        pair_env_def small_env_def quiet_env_def go_consts desired_replicas_def Let_def small_pods_def)
  moreover have "dns_names small_pods" by code_simp
  moreover have "\<forall>p \<in> set small_pods. isPodReady p" "small_pods \<noteq> []" "length small_pods < 2 ^ 31"
    by (simp_all add: small_pods_def ready_pod_def isPodReady_def)
  ultimately show ?thesis
    using healthy_cluster_ready [of pair_env "''mg''" "''db''" pair_cluster small_pods small_view small_start]
      pair_laws pair_streams pair_in_sync by (simp add: small_start_def quiet_world_def)
qed

end
