(* ===== verification/Small_Server.thy ===== *)
theory Small_Server
  imports Repair Ready
begin

text \<open>
  A small API server next to the small Memgraph: it keeps the objects it is sent under their
  names and does nothing else. It keeps the laws, so the theorems about a server that behaves as
  documented apply to it.
\<close>

section \<open>A server that stores what it is sent\<close>

type_synonym server_state = "api_view \<times> small_state"

definition held_if :: "('k \<Rightarrow> 'x \<Rightarrow> bool) \<Rightarrow> ('k \<rightharpoonup> 'x) \<Rightarrow> ('k \<rightharpoonup> 'x)" where
  "held_if P m k = (case m k of None \<Rightarrow> None | Some x \<Rightarrow> if P k x then Some x else None)"

lemma held_if_Some: "held_if P m k = Some x \<longleftrightarrow> m k = Some x \<and> P k x"
  by (auto simp: held_if_def split: option.splits)

text \<open>What counts of a state are the objects under their own names.\<close>

definition clean :: "api_view \<Rightarrow> api_view" where
  "clean v = \<lparr>
     held_clusters = held_if (\<lambda>k c. meta_key (Meta c) = k) (held_clusters v),
     held_services = held_if (\<lambda>k x. meta_key (SvcMeta x) = k) (held_services v),
     held_statefulsets =
       held_if (\<lambda>k x. meta_key (StsMeta x) = k \<and> replicas_image x \<noteq> None) (held_statefulsets v),
     held_cronjobs = held_if (\<lambda>k x. meta_key (CronMeta x) = k) (held_cronjobs v)\<rparr>"

lemma valid_clean: "valid_view (clean v)"
  by (simp add: valid_view_def clean_def held_if_Some)

lemma held_if_all: "\<forall>k x. m k = Some x \<longrightarrow> P k x \<Longrightarrow> held_if P m = m"
  by (auto simp: held_if_def split: option.splits intro!: ext)

lemma clean_valid: "valid_view v \<Longrightarrow> clean v = v"
  unfolding valid_view_def clean_def by (cases v) (simp add: held_if_all)

definition server_api :: "server_state api" where
  "server_api = \<lparr>view_of = clean \<circ> fst, stored_service = (\<lambda>x. x), stored_statefulset = (\<lambda>x. x),
     stored_cronjob = (\<lambda>x. x)\<rparr>"

lemma server_storage: "storage_laws server_api"
  by (simp add: storage_laws_def server_api_def agrees_def)

definition lookup_op ::
    "(api_view \<Rightarrow> object_key \<rightharpoonup> 'x) \<Rightarrow> string \<Rightarrow> string \<Rightarrow> (server_state, go_error + 'x) state" where
  "lookup_op obj n ns = State (\<lambda>s.
     (case obj (clean (fst s)) (ns, n) of Some x \<Rightarrow> Inr x | None \<Rightarrow> Inl (NotFound n), s))"

definition on_memgraph :: "(small_state, 'x) state \<Rightarrow> (server_state, 'x) state" where
  "on_memgraph m = State (\<lambda>s. case run_state m (snd s) of (x, t) \<Rightarrow> (x, (fst s, t)))"

text \<open>The pods come up when their StatefulSet is held.\<close>

definition server_env :: "server_state env" where
  "server_env = quiet_env\<lparr>
     stream_op := \<lambda>req. on_memgraph (stream_op small_env req),
     get_cluster_op := lookup_op held_clusters,
     get_service_op := lookup_op held_services,
     get_statefulset_op := lookup_op held_statefulsets,
     get_cronjob_op := lookup_op held_cronjobs,
     list_pods_op := \<lambda>ns ls. State (\<lambda>s.
       (Inr (if held_statefulsets (clean (fst s)) (''db'', ''mg'') = None then [] else small_pods), s)),
     write_op := \<lambda>c. State (\<lambda>s. (None, (put_write server_api c (clean (fst s)), snd s))),
     write_cluster_op := \<lambda>c. State (\<lambda>s.
       let v = put_write server_api c (clean (fst s))
       in (case held_clusters v (written_key c) of Some x \<Rightarrow> Inr x | None \<Rightarrow> Inl (NotFound ''cluster''),
           (v, snd s)))\<rparr>"

lemma reads_lookup: "reads (view_of server_api) (lookup_op obj n ns) (\<lambda>v. obj v (ns, n))"
  by (auto simp: reads_def leaves_view_def lookup_op_def server_api_def split: option.split)

lemma clean_put:
  "accepted c (clean v) \<Longrightarrow> clean (put_write server_api c (clean v)) = put_write server_api c (clean v)"
  by (rule clean_valid, rule valid_put [OF server_storage valid_clean]) auto

lemma accepted_cluster:
  "cluster_write c \<Longrightarrow> accepted c v \<Longrightarrow> \<exists>x. held_clusters (put_write A c v) (written_key c) = Some x"
  by (cases c) (auto simp: cluster_write_def written_key_def)

lemma server_laws_small: "server_laws server_env server_api"
proof -
  have view: "view_of server_api s = clean (fst s)" for s by (simp add: server_api_def)
  have obj: "fst (run_state (write_op server_env c) s) = None \<and>
      view_of server_api (snd (run_state (write_op server_env c) s)) = put_write server_api c (view_of server_api s)"
    if "accepted c (view_of server_api s)" for c s
    using that by (simp add: view server_env_def clean_put)
  have clu: "view_of server_api (snd (run_state (write_cluster_op server_env c) s)) =
        put_write server_api c (view_of server_api s) \<and>
      (\<exists>x. held_clusters (put_write server_api c (view_of server_api s)) (written_key c) = Some x \<and>
         fst (run_state (write_cluster_op server_env c) s) = Inr x)"
    if c: "cluster_write c" "accepted c (view_of server_api s)" for c s
  proof -
    obtain x where "held_clusters (put_write server_api c (view_of server_api s)) (written_key c) = Some x"
      using accepted_cluster [OF c] by blast
    then show ?thesis using c(2) by (simp add: view server_env_def Let_def clean_put)
  qed
  have get: "get_cluster_op server_env = lookup_op held_clusters"
    "get_service_op server_env = lookup_op held_services"
    "get_statefulset_op server_env = lookup_op held_statefulsets"
    "get_cronjob_op server_env = lookup_op held_cronjobs"
    by (simp_all add: server_env_def)
  show ?thesis
    unfolding server_laws_def get
    using valid_clean by (intro conjI allI impI reads_lookup obj clu) (simp_all add: view obj)
qed

lemma server_keeps_laws: "api_laws server_env server_api"
proof -
  have "others_leave server_env (view_of server_api)"
    by (simp add: others_leave_def leaves_view_def server_env_def quiet_env_def on_memgraph_def
        server_api_def split: prod.split)
  moreover have "helper_laws server_env"
    by (simp add: helper_laws_def deep_equal_ok_def server_env_def quiet_env_def meta_key_def)
  ultimately show ?thesis
    using server_laws_small server_storage by (simp add: api_laws_def)
qed

section \<open>The Memgraph behind it\<close>

definition server_memgraph :: "server_state \<Rightarrow> memgraph_view" where
  "server_memgraph s = small_view (snd s)"

lemma server_replies:
  assumes "replies small_env small_view req v R v'"
  shows "replies server_env server_memgraph req v R v'"
  unfolding replies_def
proof (intro allI impI)
  fix s assume "server_memgraph s = v"
  then obtain out se t where "run_state (stream_op small_env req) (snd s) = ((out, se, None), t)" "R out"
    "small_view t = v'" using assms unfolding replies_def server_memgraph_def by metis
  then show "\<exists>out se s'. run_state (stream_op server_env req) s = ((out, se, None), s') \<and> R out \<and>
      server_memgraph s' = v'"
    by (simp add: server_env_def on_memgraph_def server_memgraph_def)
qed

lemma server_memgraph_laws:
  assumes "memgraph_laws small_env small_view c P" and "streams small_env small_view c P"
  shows "memgraph_laws server_env server_memgraph c P" and "streams server_env server_memgraph c P"
proof -
  have "opens server_env server_memgraph"
    by (simp add: opens_def server_env_def quiet_env_def)
  then show "memgraph_laws server_env server_memgraph c P"
    using assms(1) unfolding memgraph_laws_def Let_def by (simp add: server_replies)
  show "streams server_env server_memgraph c P"
    using assms(2) unfolding streams_def by (simp add: server_replies)
qed

end
