(* ===== verification/Bootstrap.thy ===== *)
theory Bootstrap
  imports Small_Server
begin

text \<open>
  What the passes achieve on an API server that behaves as documented. After one pass the objects
  of the cluster are in place and the next pass writes nothing but the status; and from the
  moment the resource is created, three passes put everything in place, and the first pass that
  finds the pods up, whenever they come up, makes the cluster reported ready.
\<close>

section \<open>Objects in place\<close>

definition write_service_ok :: "MemgraphCluster \<Rightarrow> string \<Rightarrow> api_view \<Rightarrow> bool" where
  "write_service_ok cluster wi v \<longleftrightarrow>
     (\<exists>x. held_services v (meta_key (SvcMeta (buildWriteService cluster wi))) = Some x \<and>
        (wi \<noteq> [] \<longrightarrow> current_write_instance x = wi))"

definition cronjob_ok :: "MemgraphCluster \<Rightarrow> api_view \<Rightarrow> bool" where
  "cronjob_ok cluster v \<longleftrightarrow>
     (if IsEnabled (Snapshot (Spec cluster))
      then \<exists>x. held_cronjobs v (meta_key (CronMeta (buildSnapshotCronJob cluster))) = Some x
      else held_cronjobs v (cluster_ns cluster, snapshot_name cluster) = None)"

definition in_place :: "'s env \<Rightarrow> MemgraphCluster \<Rightarrow> string \<Rightarrow> api_view \<Rightarrow> bool" where
  "in_place e cluster wi v \<longleftrightarrow>
     held_services v (meta_key (SvcMeta (buildHeadlessService cluster))) \<noteq> None \<and>
     held_services v (meta_key (SvcMeta (buildReadService cluster))) \<noteq> None \<and>
     write_service_ok cluster wi v \<and> scaled e cluster v \<and> cronjob_ok cluster v"

section \<open>The builders do not look at the status\<close>

lemma same_objectE:
  assumes "same_object c c'"
  obtains st where "c' = c\<lparr>Status := st\<rparr>"
  using assms by (cases c; cases c') (auto simp: same_object_def)

lemma builders_same:
  assumes "same_object c c'"
  shows "buildHeadlessService c' = buildHeadlessService c"
    and "buildReadService c' = buildReadService c"
    and "buildWriteService c' wi = buildWriteService c wi"
    and "labelsForCluster c' = labelsForCluster c"
    and "desired_replicas c' = desired_replicas c"
    and "cluster_image c' = cluster_image c"
    and "preferred_main c' = preferred_main c"
    and "snapshot_name c' = snapshot_name c"
  using assms
  by (simp_all add: same_object_def buildHeadlessService_def buildReadService_def buildWriteService_def
      labelsForCluster_def headlessServiceName_def readServiceName_def writeServiceName_def
      service_suffix_def desired_replicas_def cluster_image_def preferred_main_def snapshot_name_def)

lemma statefulset_same:
  assumes "same_object c c'"
  shows "buildStatefulSet e c' = buildStatefulSet e c"
proof -
  have "memgraph_container c' = memgraph_container c"
    using assms by (simp add: memgraph_container_def buildMemgraphArgs_def cluster_image_def same_object_def)
  then show ?thesis
    using assms builders_same [OF assms]
    by (simp add: buildStatefulSet_def headlessServiceName_def service_suffix_def same_object_def)
qed

lemma cronjob_same:
  assumes "same_object c c'"
  shows "buildSnapshotCronJob c' = buildSnapshotCronJob c"
proof -
  have "snapshotCmd c' = snapshotCmd c" "copyCmd c' = copyCmd c" "s3_enabled c' = s3_enabled c"
    "buildS3UploadContainer c' = buildS3UploadContainer c" "buildSnapshotVolumes c' = buildSnapshotVolumes c"
    using assms
    by (simp_all add: fun_eq_iff same_object_def snapshotCmd_def copyCmd_def s3_enabled_def s3Cmd_def
        buildS3UploadContainer_def buildS3Env_def buildSnapshotVolumes_def writeServiceName_def
        service_suffix_def)
  then show ?thesis
    using assms builders_same [OF assms]
    by (simp add: buildSnapshotCronJob_def buildSnapshotInitContainers_def
        buildSnapshotMainContainers_def Let_def same_object_def split: option.split)
qed

text \<open>The choice of the write instance is stable: the instance it chose is kept.\<close>

lemma write_instance_stable:
  assumes "same_object c c'" and "WriteInstance (Status c') = determineWriteInstance c pods"
  shows "determineWriteInstance c' pods = determineWriteInstance c pods"
proof -
  have "ready_named (PodName p) pods" if "find isPodReady pods = Some p" for p
    using find_SomeD [OF that] by (auto simp: ready_named_def)
  then show ?thesis
    using assms(2) builders_same(7) [OF assms(1)]
    by (auto simp: determineWriteInstance_def split: option.splits if_splits)
qed

lemma scaled_same: "same_object c c' \<Longrightarrow> scaled e c' v = scaled e c v"
  by (simp add: scaled_def statefulset_same builders_same)

lemma serves_pods_same: "same_object c c' \<Longrightarrow> serves_pods e A c pods \<Longrightarrow> serves_pods e A c' pods"
  by (simp add: serves_pods_def scaled_same builders_same(4)) (simp add: same_object_def)

section \<open>The writes put the objects in place\<close>

lemma sts_meta_set_image [simp]: "StsMeta (set_image x i) = StsMeta x"
  by (simp add: set_image_def split: list.splits)

lemma service_writes_held:
  fixes A and v and cluster
  assumes "helper_laws e" and "OwnerReferences (SvcMeta built) = []"
  defines "v' \<equiv> put_writes A (service_writes e cluster built v) v"
  shows "held_services v' (meta_key (SvcMeta built)) \<noteq> None"
    and "held_services v k = Some x \<Longrightarrow> held_services v' k = Some x"
    and "held_statefulsets v' = held_statefulsets v" and "held_cronjobs v' = held_cronjobs v"
  using owned [OF assms(1,2), of cluster]
  by (auto simp: v'_def service_writes_def split: option.splits)

lemma write_service_held:
  fixes cluster and wi
  assumes "helper_laws e" and "storage_laws A" and "valid_view v"
  defines "v' \<equiv> put_writes A (write_service_writes e cluster wi v) v"
  shows "write_service_ok cluster wi v'"
    and "held_services v k \<noteq> None \<Longrightarrow> held_services v' k \<noteq> None"
    and "held_statefulsets v' = held_statefulsets v" and "held_cronjobs v' = held_cronjobs v"
proof -
  let ?built = "buildWriteService cluster wi"
  note o = owned [OF assms(1), of "SvcMeta ?built" cluster, simplified]
  have sel: "Selector (stored_service A x) = Selector x" for x
    using assms(2) by (simp add: storage_laws_def)
  have built: "wi \<noteq> [] \<Longrightarrow> Selector ?built podNameLabel = Some wi"
    by (simp add: buildWriteService_def)
  have k: "meta_key (SvcMeta x) = meta_key (SvcMeta ?built)"
    if "held_services v (meta_key (SvcMeta ?built)) = Some x" for x
    using assms(3) that unfolding valid_view_def by blast
  show "write_service_ok cluster wi v'"
    using k built
    by (auto simp: v'_def write_service_writes_def write_service_ok_def o sel current_write_instance_def
        Let_def split: option.splits)
  show "held_services v k \<noteq> None \<Longrightarrow> held_services v' k \<noteq> None"
    "held_statefulsets v' = held_statefulsets v" "held_cronjobs v' = held_cronjobs v"
    by (auto simp: v'_def write_service_writes_def Let_def split: option.splits)
qed

lemma statefulset_writes_rest:
  "held_services (put_writes A (statefulset_writes e cluster v) v) = held_services v"
  "held_cronjobs (put_writes A (statefulset_writes e cluster v) v) = held_cronjobs v"
  by (simp_all add: statefulset_writes_def Let_def split: option.splits)

lemma cronjob_writes_rest:
  "held_services (put_writes A (cronjob_writes e cluster v) v) = held_services v"
  "held_statefulsets (put_writes A (cronjob_writes e cluster v) v) = held_statefulsets v"
  by (simp_all add: cronjob_writes_def Let_def split: option.splits)

lemma cronjob_writes_held:
  fixes cluster
  assumes "helper_laws e" and "storage_laws A" and "valid_view v"
  defines "v' \<equiv> put_writes A (cronjob_writes e cluster v) v"
  shows "cronjob_ok cluster v'" and "cronjob_writes e cluster v' = []"
proof -
  let ?built = "buildSnapshotCronJob cluster"
  note o = owned [OF assms(1), of "CronMeta ?built" cluster, simplified]
  have policy: "CronConcurrencyPolicy (CronSpec ?built) \<noteq> []"
    by (simp add: buildSnapshotCronJob_def Let_def)
  have settled: "\<not> snapshotCronJobNeedsUpdate e (stored_cronjob A x) ?built"
    if "CronSpec x = CronSpec ?built" for x
  proof (rule agrees_no_update)
    show "deep_equal_ok e" using assms(1) by (simp add: helper_laws_def)
    have "agrees (stored_cronjob A x) x"
      using assms(2) policy that by (simp add: storage_laws_def)
    moreover have "agrees x ?built" using that by (simp add: agrees_def)
    ultimately show "agrees (stored_cronjob A x) ?built" by (rule agrees_trans)
  qed
  have k: "meta_key (CronMeta x) = c" if "held_cronjobs v c = Some x" for c x
    using assms(3) that unfolding valid_view_def by blast
  show "cronjob_ok cluster v'" "cronjob_writes e cluster v' = []"
    using k settled by (auto simp: v'_def cronjob_writes_def cronjob_ok_def Let_def o split: option.splits)
qed

lemma valid_writes:
  assumes "storage_laws A" and "helper_laws e" and "valid_view v"
  shows "valid_view (put_writes A (service_writes e cluster built v) v)"
    and "valid_view (put_writes A (statefulset_writes e cluster v) v)"
    and "valid_view (put_writes A (write_service_writes e cluster wi v) v)"
proof -
  have sts: "replicas_image (set_image (x\<lparr>StsReplicas := Some n\<rparr>) i) \<noteq> None"
    if "held_statefulsets v (meta_key (StsMeta (buildStatefulSet e cluster))) = Some x" for x n i
  proof -
    have "replicas_image x \<noteq> None" using assms(3) that unfolding valid_view_def by blast
    then show ?thesis by (simp add: replicas_image_set)
  qed
  show "valid_view (put_writes A (service_writes e cluster built v) v)"
    "valid_view (put_writes A (write_service_writes e cluster wi v) v)"
    using assms(3)
    by (auto simp: service_writes_def write_service_writes_def Let_def cluster_write_def
        simp del: put_write.simps split: option.splits intro!: valid_put [OF assms(1)])
  show "valid_view (put_writes A (statefulset_writes e cluster v) v)"
    using assms(3) sts
    by (auto simp: statefulset_writes_def Let_def cluster_write_def replicas_image_built
        simp del: put_write.simps split: option.splits intro!: valid_put [OF assms(1)])
qed

text \<open>After a pass everything is in place, and a pass over what is in place writes nothing.\<close>

lemma object_writes_in_place:
  fixes cluster and pods
  assumes laws: "storage_laws A" "helper_laws e" and valid: "valid_view v"
  defines "v' \<equiv> put_writes A (object_writes e A cluster pods v) v"
  shows "in_place e cluster (determineWriteInstance cluster pods) v'"
    and "cronjob_writes e cluster v' = []"
proof -
  let ?wi = "determineWriteInstance cluster pods"
  define v1 where "v1 = put_writes A (service_writes e cluster (buildHeadlessService cluster) v) v"
  define v2 where "v2 = put_writes A (statefulset_writes e cluster v1) v1"
  define v3 where "v3 = put_writes A (write_service_writes e cluster ?wi v2) v2"
  define v4 where "v4 = put_writes A (service_writes e cluster (buildReadService cluster) v3) v3"
  have v': "v' = put_writes A (cronjob_writes e cluster v4) v4"
    by (simp add: v'_def object_writes_def Let_def flip: v1_def v2_def v3_def v4_def)
  have valid1: "valid_view v1" unfolding v1_def by (rule valid_writes [OF laws valid])
  have valid2: "valid_view v2" unfolding v2_def by (rule valid_writes [OF laws valid1])
  have valid3: "valid_view v3" unfolding v3_def by (rule valid_writes [OF laws valid2])
  have valid4: "valid_view v4" unfolding v4_def by (rule valid_writes [OF laws valid3])
  note head = service_writes_held [where built = "buildHeadlessService cluster" and A = A and cluster = cluster
    and v = v, OF laws(2), folded v1_def, simplified]
  note main = write_service_held [where cluster = cluster and wi = ?wi, OF laws(2,1) valid2, folded v3_def]
  note read = service_writes_held [where built = "buildReadService cluster" and A = A and cluster = cluster
    and v = v3, OF laws(2), folded v4_def, simplified]
  note cron = cronjob_writes_held [where cluster = cluster, OF laws(2,1) valid4, folded v']
  have s2: "held_services v2 = held_services v1" and s': "held_services v' = held_services v4"
    by (simp_all add: v2_def v' statefulset_writes_rest cronjob_writes_rest)
  have sts: "held_statefulsets v' = held_statefulsets v2"
    using main(3) read(3) by (simp add: v' cronjob_writes_rest)
  have "held_services v4 k \<noteq> None" if "held_services v1 k \<noteq> None" for k
  proof -
    have "held_services v3 k \<noteq> None" using that main(2) s2 by simp
    then show ?thesis using read(2) [of k] by (cases "held_services v3 k") auto
  qed
  then have "held_services v' (meta_key (SvcMeta (buildHeadlessService cluster))) \<noteq> None"
    using head(1) s' by simp
  moreover have "held_services v' (meta_key (SvcMeta (buildReadService cluster))) \<noteq> None"
    using read(1) s' by simp
  moreover have "write_service_ok cluster ?wi v'"
    using main(1) read(2) s' unfolding write_service_ok_def by metis
  moreover have "scaled e cluster v'"
    using statefulset_scaled [OF laws valid1, of cluster] sts by (simp add: scaled_def v2_def)
  ultimately show "in_place e cluster ?wi v'"
    using cron(1) by (simp add: in_place_def)
  show "cronjob_writes e cluster v' = []" by (rule cron(2))
qed

lemma in_place_settled:
  assumes "in_place e cluster (determineWriteInstance cluster pods) v" and "cronjob_writes e cluster v = []"
  shows "object_writes e A cluster pods v = []"
proof -
  have "service_writes e cluster (buildHeadlessService cluster) v = []"
    "statefulset_writes e cluster v = []"
    "write_service_writes e cluster (determineWriteInstance cluster pods) v = []"
    "service_writes e cluster (buildReadService cluster) v = []"
    using assms(1)
    by (auto simp: in_place_def service_writes_def statefulset_writes_def write_service_writes_def
        write_service_ok_def scaled_def Let_def)
  then show ?thesis using assms(2) by (simp add: object_writes_def Let_def)
qed

lemma in_place_same:
  assumes "same_object c c'"
  shows "in_place e c' wi v = in_place e c wi v" and "cronjob_writes e c' v = [] \<longleftrightarrow> cronjob_writes e c v = []"
proof -
  have same: "Meta c' = Meta c" "Spec c' = Spec c" using assms by (simp_all add: same_object_def)
  show "in_place e c' wi v = in_place e c wi v"
    unfolding in_place_def write_service_ok_def cronjob_ok_def
    by (simp only: builders_same [OF assms] scaled_same [OF assms] cronjob_same [OF assms] same)
  show "cronjob_writes e c' v = [] \<longleftrightarrow> cronjob_writes e c v = []"
    unfolding cronjob_writes_def Let_def cronjob_same [OF assms] builders_same [OF assms] same
    by (simp split: option.splits)
qed

lemma status_leaves_objects:
  "in_place e cluster wi (put_write A (UpdateClusterStatus c) v) = in_place e cluster wi v"
  "cronjob_writes e cluster (put_write A (UpdateClusterStatus c) v) = cronjob_writes e cluster v"
  by (simp_all add: in_place_def write_service_ok_def cronjob_ok_def scaled_def cronjob_writes_def Let_def)

section \<open>One pass repairs, the next is quiet\<close>

text \<open>A status that keeps the next pass going: the phase is set and the choice is recorded.\<close>

definition recorded :: "MemgraphCluster \<Rightarrow> Pod list \<Rightarrow> MemgraphCluster \<Rightarrow> bool" where
  "recorded cluster pods c \<longleftrightarrow> same_object cluster c \<and> Phase (Status c) \<noteq> [] \<and>
     WriteInstance (Status c) = determineWriteInstance cluster pods"

lemma conditions_keep:
  "Status (fst (run_state (updateConditions e c wi a b k l) w)) =
     (Status c)\<lparr>Conditions := Conditions (Status (fst (run_state (updateConditions e c wi a b k l) w)))\<rparr>"
  by (simp add: updateConditions_def split: prod.splits)

lemma reporting_recorded: "reporting e cluster pods (recorded cluster pods)"
  unfolding reporting_def reported_def
proof (intro allI impI)
  fix w c w' assume c: "same_object cluster c"
  let ?wi = "determineWriteInstance cluster pods"
    and ?x = "fst (run_state (configure_step e cluster pods (determineWriteInstance cluster pods)) w)"
  let ?s = "status_update c pods ?wi (fst ?x)"
  let ?u = "fst (run_state (updateConditions e ?s ?wi (ready_count pods) (desired_replicas c)
    (fst ?x) (fst (snd ?x))) w')"
  have "same_object cluster ?u"
    using c by (blast intro: same_object_trans status_update_same conditions_same)
  moreover have "Phase (Status ?u) = Phase (Status ?s)" "WriteInstance (Status ?u) = WriteInstance (Status ?s)"
    by (subst conditions_keep, simp)+
  ultimately show "recorded cluster pods ?u"
    by (simp add: recorded_def status_update_def phase_of_def go_consts)
qed

text \<open>The conclusion of a pass over a run of the loop.\<close>

lemma pass_run:
  assumes laws: "api_laws e A" and rep: "reporting e cluster pods G"
    and sp: "serves_pods e A cluster pods"
    and held: "held_clusters (view_of A (ext w)) (ns, name) = Some cluster" and "live e cluster"
  defines "ws \<equiv> object_writes e A cluster pods (view_of A (ext w))"
  shows "\<exists>c. G c \<and> (\<exists>res. fst (run_state (Reconcile e name ns) w) = Inr (res, None) \<and> scheduled res) \<and>
    writes (trace (snd (run_state (Reconcile e name ns) w))) =
      writes (trace w) @ ws @ [UpdateClusterStatus c] \<and>
    view_of A (ext (snd (run_state (Reconcile e name ns) w))) =
      put_write A (UpdateClusterStatus c) (put_writes A ws (view_of A (ext w)))"
proof -
  have "stands A (writes (trace w)) (view_of A (ext w)) w" by (simp add: stands_def)
  from ensuresD [OF pass_finished [OF laws rep sp held assms(5)] this]
  show ?thesis unfolding finished_def stands_def ws_def append_assoc by blast
qed

lemma object_writes_cluster: "held_clusters (put_writes A (object_writes e A cluster pods v) v) = held_clusters v"
  by (simp add: object_writes_def Let_def object_writes_clusters)

text \<open>The object held after the pass.\<close>

lemma held_after:
  assumes "valid_view v" and "held_clusters v (ns, name) = Some cluster" and "same_object cluster c"
  shows "held_clusters (put_write A (UpdateClusterStatus c) (put_writes A (object_writes e A cluster pods v) v))
    (ns, name) = Some c"
proof -
  have "meta_key (Meta cluster) = (ns, name)" using assms(1,2) unfolding valid_view_def by blast
  moreover have "cluster\<lparr>Status := Status c\<rparr> = c"
    using assms(3) by (cases cluster; cases c) (simp add: same_object_def)
  ultimately show ?thesis
    using assms(2,3) by (simp add: object_writes_cluster same_object_def)
qed

lemma live_same: "same_object c c' \<Longrightarrow> Phase (Status c') \<noteq> [] \<Longrightarrow> live e c \<Longrightarrow> live e c'"
  by (simp add: live_def same_object_def being_deleted_def)

text \<open>Two passes in a row, the second starting from where the first ended.\<close>

lemma two_passes:
  assumes laws: "api_laws e A" and rep: "reporting e cluster pods G"
    and G: "\<And>c. G c \<Longrightarrow> recorded cluster pods c"
    and sp: "serves_pods e A cluster pods"
    and held: "held_clusters (view_of A (ext w)) (ns, name) = Some cluster" and live: "live e cluster"
  defines "w1 \<equiv> snd (run_state (Reconcile e name ns) w)"
    and "ws \<equiv> object_writes e A cluster pods (view_of A (ext w))"
  shows "\<exists>c. G c \<and> writes (trace w1) = writes (trace w) @ ws @ [UpdateClusterStatus c] \<and>
    in_place e cluster (determineWriteInstance cluster pods) (view_of A (ext w1)) \<and>
    held_clusters (view_of A (ext w1)) (ns, name) = Some c \<and>
    (\<forall>H. reporting e c pods H \<longrightarrow> (\<exists>c'. H c' \<and>
       writes (trace (snd (run_state (Reconcile e name ns) w1))) =
         writes (trace w1) @ [UpdateClusterStatus c']))"
proof -
  let ?v = "view_of A (ext w)" and ?wi = "determineWriteInstance cluster pods"
  have srv: "server_laws e A" and sto: "storage_laws A" and hlp: "helper_laws e"
    using laws by (simp_all add: api_laws_def)
  have valid: "valid_view ?v" using srv by (simp add: server_laws_def)
  obtain c where c: "G c" and tr: "writes (trace w1) = writes (trace w) @ ws @ [UpdateClusterStatus c]"
    and v1: "view_of A (ext w1) = put_write A (UpdateClusterStatus c) (put_writes A ws ?v)"
    using pass_run [OF laws rep sp held live] unfolding w1_def ws_def by blast
  have same: "same_object cluster c" and phase: "Phase (Status c) \<noteq> []"
    and wi: "WriteInstance (Status c) = ?wi"
    using G [OF c] by (simp_all add: recorded_def)
  have place: "in_place e cluster ?wi (view_of A (ext w1))" and cron: "cronjob_writes e cluster (view_of A (ext w1)) = []"
    unfolding v1 status_leaves_objects ws_def by (rule object_writes_in_place [OF sto hlp valid])+
  have held1: "held_clusters (view_of A (ext w1)) (ns, name) = Some c"
    unfolding v1 ws_def by (rule held_after [OF valid held same])
  have "object_writes e A c pods (view_of A (ext w1)) = []"
    by (rule in_place_settled)
      (use place cron in \<open>simp_all add: in_place_same [OF same] write_instance_stable [OF same wi]\<close>)
  then have "\<exists>c'. H c' \<and> writes (trace (snd (run_state (Reconcile e name ns) w1))) =
      writes (trace w1) @ [UpdateClusterStatus c']" if "reporting e c pods H" for H
    using pass_run [OF laws that serves_pods_same [OF same sp] held1 live_same [OF same phase live]] by auto
  with c tr place held1 show ?thesis by blast
qed

text \<open>C6: One pass repairs, the next is quiet. Whatever objects of a live cluster are missing or have
  drifted on an API server that behaves as documented, a pass makes exactly the writes that
  \<open>object_writes\<close> computes from what the server holds, and then one write of the status;
  afterwards the services exist and the write service points to the chosen instance, the
  StatefulSet has the wanted replicas and image and the CronJob is there exactly if snapshots are
  enabled. The next pass finds nothing to do but to write the status.\<close>

theorem pass_repairs:
  assumes "api_laws e A" and "serves_pods e A cluster pods"
    and "held_clusters (view_of A (ext w)) (ns, name) = Some cluster" and "live e cluster"
  shows "let w1 = snd (run_state (Reconcile e name ns) w);
             w2 = snd (run_state (Reconcile e name ns) w1) in
    \<exists>c c'. same_object cluster c \<and> same_object cluster c' \<and>
      writes (trace w1) = writes (trace w) @ object_writes e A cluster pods (view_of A (ext w)) @
        [UpdateClusterStatus c] \<and>
      in_place e cluster (determineWriteInstance cluster pods) (view_of A (ext w1)) \<and>
      held_clusters (view_of A (ext w1)) (ns, name) = Some c \<and>
      writes (trace w2) = writes (trace w1) @ [UpdateClusterStatus c']"
proof -
  let ?w1 = "snd (run_state (Reconcile e name ns) w)"
  obtain c where c: "recorded cluster pods c"
    and first: "writes (trace ?w1) = writes (trace w) @ object_writes e A cluster pods (view_of A (ext w)) @
        [UpdateClusterStatus c]"
      "in_place e cluster (determineWriteInstance cluster pods) (view_of A (ext ?w1))"
      "held_clusters (view_of A (ext ?w1)) (ns, name) = Some c"
    and next_pass: "\<forall>H. reporting e c pods H \<longrightarrow> (\<exists>c'. H c' \<and>
       writes (trace (snd (run_state (Reconcile e name ns) ?w1))) =
         writes (trace ?w1) @ [UpdateClusterStatus c'])"
    using two_passes [OF assms(1) reporting_recorded _ assms(2-4)] by blast
  have same: "same_object cluster c" using c by (simp add: recorded_def)
  obtain c' where "same_object c c'"
    "writes (trace (snd (run_state (Reconcile e name ns) ?w1))) = writes (trace ?w1) @ [UpdateClusterStatus c']"
    using next_pass reporting_same by blast
  with same first same_object_trans show ?thesis unfolding Let_def by blast
qed

text \<open>A live cluster whose objects are all missing.\<close>

definition holding :: "MemgraphCluster \<Rightarrow> server_state world" where
  "holding cluster = quiet_world (\<lparr>held_clusters = [(''db'', ''mg'') \<mapsto> cluster],
     held_services = Map.empty, held_statefulsets = Map.empty, held_cronjobs = Map.empty\<rparr>,
     ext small_start)"

lemma holding_held:
  "meta_key (Meta c) = (''db'', ''mg'') \<Longrightarrow>
     held_clusters (view_of server_api (ext (holding c))) (''db'', ''mg'') = Some c"
  by (simp add: holding_def quiet_world_def server_api_def clean_def held_if_def)

lemma server_serves:
  assumes "meta_key (Meta c) = (''db'', ''mg'')"
  shows "serves_pods server_env server_api c small_pods"
  using assms
  by (auto simp: serves_pods_def scaled_def buildStatefulSet_def Let_def meta_key_def mk_meta_def
      server_env_def server_api_def)

lemma pair_key: "meta_key (Meta pair_cluster) = (''db'', ''mg'')"
  by (simp add: meta_key_def pair_cluster_def running_cluster_def bare_cluster_def mk_meta_def)

lemma pair_live: "live server_env pair_cluster"
  by (simp add: live_def being_deleted_def pair_cluster_def running_cluster_def bare_cluster_def mk_meta_def
      server_env_def quiet_env_def go_consts)

text \<open>With nothing there, everything is created, in the order of the pass.\<close>

lemma object_writes_nothing:
  fixes e and cluster and pods
  assumes "helper_laws e" and "IsEnabled (Snapshot (Spec cluster))"
    and "distinct [headlessServiceName cluster, writeServiceName cluster, readServiceName cluster]"
    and "held_services v = Map.empty" "held_statefulsets v = Map.empty" "held_cronjobs v = Map.empty"
  defines "wi \<equiv> determineWriteInstance cluster pods" and "own \<equiv> owned_meta e cluster"
  shows "object_writes e A cluster pods v =
    [CreateService (buildHeadlessService cluster\<lparr>SvcMeta := own (SvcMeta (buildHeadlessService cluster))\<rparr>),
     CreateStatefulSet (buildStatefulSet e cluster\<lparr>StsMeta := own (StsMeta (buildStatefulSet e cluster))\<rparr>),
     CreateService (buildWriteService cluster wi\<lparr>SvcMeta := own (SvcMeta (buildWriteService cluster wi))\<rparr>),
     CreateService (buildReadService cluster\<lparr>SvcMeta := own (SvcMeta (buildReadService cluster))\<rparr>),
     CreateCronJob (buildSnapshotCronJob cluster\<lparr>CronMeta := own (CronMeta (buildSnapshotCronJob cluster))\<rparr>)]"
proof -
  have keys: "meta_key (SvcMeta (buildHeadlessService cluster)) = (cluster_ns cluster, headlessServiceName cluster)"
    "meta_key (SvcMeta (buildWriteService cluster x)) = (cluster_ns cluster, writeServiceName cluster)"
    "meta_key (SvcMeta (buildReadService cluster)) = (cluster_ns cluster, readServiceName cluster)" for x
    by (simp_all add: meta_key_def mk_meta_def buildHeadlessService_def buildWriteService_def buildReadService_def)
  have ne: "writeServiceName cluster \<noteq> headlessServiceName cluster"
    "readServiceName cluster \<noteq> headlessServiceName cluster"
    "readServiceName cluster \<noteq> writeServiceName cluster" using assms(3) by auto
  note o = owned [OF assms(1)]
  show ?thesis
    using assms(2,4-6) ne
    by (simp add: object_writes_def service_writes_def statefulset_writes_def write_service_writes_def
        cronjob_writes_def Let_def o keys own_def wi_def)
qed

lemma nothing_held:
  assumes "meta_key (Meta c) = (''db'', ''mg'')" and "ServiceNames (Spec c) = None"
    and "IsEnabled (Snapshot (Spec c))"
  shows "length (object_writes server_env server_api c small_pods (view_of server_api (ext (holding c)))) = 5"
proof -
  have "distinct [headlessServiceName c, writeServiceName c, readServiceName c]"
    using assms(2) by (simp add: headlessServiceName_def writeServiceName_def readServiceName_def
        service_suffix_def go_consts)
  moreover have "held_services (view_of server_api (ext (holding c))) = Map.empty"
    "held_statefulsets (view_of server_api (ext (holding c))) = Map.empty"
    "held_cronjobs (view_of server_api (ext (holding c))) = Map.empty"
    by (simp_all add: holding_def quiet_world_def server_api_def clean_def held_if_def fun_eq_iff)
  moreover have "helper_laws server_env" using server_keeps_laws by (simp add: api_laws_def)
  ultimately show ?thesis using assms(3) by (simp add: object_writes_nothing)
qed

lemma pair_spec: "ServiceNames (Spec pair_cluster) = None" "IsEnabled (Snapshot (Spec pair_cluster))"
  by (simp_all add: IsEnabled_def pair_cluster_def bare_cluster_def bare_spec_def)

lemma pass_repairs_witness:
  "let w0 = holding pair_cluster;
       w1 = snd (run_state (Reconcile server_env ''mg'' ''db'') w0);
       w2 = snd (run_state (Reconcile server_env ''mg'' ''db'') w1);
       ws = object_writes server_env server_api pair_cluster small_pods (view_of server_api (ext w0)) in
   length ws = 5 \<and> (\<exists>c c'. writes (trace w2) = ws @ [UpdateClusterStatus c, UpdateClusterStatus c']) \<and>
   in_place server_env pair_cluster (determineWriteInstance pair_cluster small_pods)
     (view_of server_api (ext w1))"
proof -
  have "writes (trace (holding pair_cluster)) = []" by (simp add: holding_def quiet_world_def)
  with pass_repairs [OF server_keeps_laws server_serves [OF pair_key] holding_held [OF pair_key] pair_live]
    nothing_held [OF pair_key pair_spec]
  show ?thesis unfolding Let_def by auto
qed

section \<open>From the creation of the resource to a ready cluster\<close>

text \<open>
  What surrounds a sequence of passes: the pods that the API server lists when a pass asks, the
  Memgraph instances as they answer during a pass, and what happens between a pass and the next.
  All three depend on the number of the pass, so pods may come up late, come and go, and be ready
  or not, Memgraph may answer anything, and between passes the operator itself may be restarted.
\<close>

record 's surroundings =
  pods_at :: "nat \<Rightarrow> Pod list"
  memgraph_at :: "nat \<Rightarrow> exec_request \<Rightarrow> ('s, string \<times> string \<times> go_error option) state"
  between :: "nat \<Rightarrow> 's world \<Rightarrow> 's world"

definition pass_env :: "'s env \<Rightarrow> MemgraphCluster \<Rightarrow> 's surroundings \<Rightarrow> nat \<Rightarrow> 's env" where
  "pass_env e cluster S n = e\<lparr>
     list_pods_op := \<lambda>ns ls. State_Monad.return (Inr
       (if ns = cluster_ns cluster \<and> ls = labelsForCluster cluster then pods_at S n else [])),
     stream_op := memgraph_at S n\<rparr>"

fun course ::
    "'s env \<Rightarrow> MemgraphCluster \<Rightarrow> 's surroundings \<Rightarrow> string \<Rightarrow> string \<Rightarrow> nat \<Rightarrow> 's world \<Rightarrow> 's world" where
  "course e cluster S name ns 0 w = w"
| "course e cluster S name ns (Suc n) w =
     between S n (snd (run_state (Reconcile (pass_env e cluster S n) name ns) (course e cluster S name ns n w)))"

text \<open>Nobody but the operator edits the objects it reads and writes.\<close>

definition undisturbed :: "'s api \<Rightarrow> 's surroundings \<Rightarrow> bool" where
  "undisturbed A S \<longleftrightarrow>
     (\<forall>n req. leaves_view (view_of A) (memgraph_at S n req)) \<and>
     (\<forall>n w. view_of A (ext (between S n w)) = view_of A (ext w) \<and> trace (between S n w) = trace w)"

text \<open>The pods are up, and Memgraph on them behaves as documented and streams.\<close>

definition healthy_pods ::
    "'s env \<Rightarrow> ('s \<Rightarrow> memgraph_view) \<Rightarrow> MemgraphCluster \<Rightarrow> Pod list \<Rightarrow> bool" where
  "healthy_pods e view cluster pods \<longleftrightarrow>
     memgraph_laws e view cluster (ready_names pods) \<and> streams e view cluster (ready_names pods) \<and>
     rest_config_set e \<and> always (new_client_op e) None \<and> sets_conditions e \<and>
     dns_names pods \<and> (\<forall>p \<in> set pods. isPodReady p) \<and> pods \<noteq> [] \<and>
     desired_replicas cluster = int (length pods) \<and> length pods < 2 ^ 31"

lemma reporting_ready:
  assumes "healthy_pods e view cluster pods"
  shows "reporting e cluster pods (reported_ready cluster pods)"
proof -
  let ?wi = "determineWriteInstance cluster pods"
  have h: "memgraph_laws e view cluster (ready_names pods)" "streams e view cluster (ready_names pods)"
    "rest_config_set e" "always (new_client_op e) None" "sets_conditions e" "dns_names pods"
    "\<forall>p \<in> set pods. isPodReady p" "pods \<noteq> []" "desired_replicas cluster = int (length pods)"
    "length pods < 2 ^ 31"
    using assms by (simp_all add: healthy_pods_def)
  have wi: "?wi \<in> ready_names pods" by (rule write_instance_ready [OF h(8,7)])
  then have ne: "?wi \<noteq> []" using h(6) by (auto simp: ready_names_def dns_names_def)
  have "fst x = int (length pods) - 1 \<and> fst (snd x) = int (length pods) - 1"
    if "x = fst (run_state (configure_step e cluster pods ?wi) w)" for x w
    using ensuresD [OF configure_step_counts [OF h(1-4) wi h(6,7,10)] TrueI] that by (simp add: case_prod_beta)
  then show ?thesis
    unfolding reporting_def reported_def
    using conditions_reported [OF h(5) _ h(7,9,8,10) ne] by simp
qed

lemma healthy_pods_same:
  assumes "same_object c c'" and "healthy_pods e view c pods"
  shows "healthy_pods e view c' pods"
proof -
  have "cluster_ns c' = cluster_ns c" "getPodFQDN f c' = getPodFQDN f c"
    "replication_mode c' = replication_mode c" "desired_replicas c' = desired_replicas c" for f
    using assms(1)
    by (simp_all add: same_object_def getPodFQDN_def headlessServiceName_def service_suffix_def
        replication_mode_def desired_replicas_def)
  then show ?thesis
    using assms(2) by (simp add: healthy_pods_def memgraph_laws_def streams_def)
qed

lemma reported_ready_recorded: "reported_ready cluster pods c \<Longrightarrow> recorded cluster pods c"
  by (simp add: reported_ready_def recorded_def go_consts)

lemma reported_ready_trans:
  assumes "reported_ready c0 pods c" and "reported_ready c pods c'"
  shows "reported_ready c0 pods c'"
proof -
  have same: "same_object c0 c" and "WriteInstance (Status c) = determineWriteInstance c0 pods"
    using assms(1) by (simp_all add: reported_ready_def)
  then have "determineWriteInstance c pods = determineWriteInstance c0 pods"
    by (rule write_instance_stable)
  with assms(2) same_object_trans [OF same] show ?thesis by (simp add: reported_ready_def)
qed

text \<open>The object as the first two passes leave it.\<close>

definition started :: "'s env \<Rightarrow> MemgraphCluster \<Rightarrow> MemgraphCluster" where
  "started e cluster = cluster\<lparr>Meta := add_finalizer e (Meta cluster) finalizerName,
     Status := (Status cluster)\<lparr>Phase := ClusterPhasePending\<rparr>\<rparr>"

lemma api_write_cluster_stands:
  assumes "server_laws e A" and "cluster_write c" and "accepted c v"
  shows "ensures (stands A cs v) (api_write_cluster e c)
    (\<lambda>r w. (\<exists>x. r = Inr x) \<and> stands A (cs @ [c]) (put_write A c v) w)"
proof -
  have law: "view_of A (snd (run_state (write_cluster_op e c) s)) = put_write A c v \<and>
      (\<exists>x. fst (run_state (write_cluster_op e c) s) = Inr x)" if "view_of A s = v" for s
    using assms that unfolding server_laws_def by blast
  show ?thesis
    unfolding ensures_def stands_def api_write_cluster_def
    using law by (auto simp: run_external writes_append)
qed

lemma finalizer_pass:
  assumes laws: "api_laws e A" and held: "held_clusters v (ns, name) = Some cluster"
    and "DeletionTimestamp (Meta cluster) = None"
    and "\<not> contains_finalizer e (Meta cluster) finalizerName"
  defines "c1 \<equiv> cluster\<lparr>Meta := add_finalizer e (Meta cluster) finalizerName\<rparr>"
  shows "ensures (stands A cs v) (Reconcile e name ns)
    (\<lambda>x w. x = Inr (requeue_now, None) \<and>
      stands A (cs @ [UpdateCluster c1]) (put_write A (UpdateCluster c1) v) w)"
proof (rule stands_valid)
  show srv: "server_laws e A" using laws by (simp add: api_laws_def)
  assume "valid_view v"
  then have "meta_key (Meta cluster) = (ns, name)" using held unfolding valid_view_def by blast
  moreover have "meta_key (Meta c1) = meta_key (Meta cluster)" "DeletionTimestamp (Meta c1) = None"
    using laws assms(3) by (simp_all add: c1_def api_laws_def helper_laws_def)
  ultimately have acc: "accepted (UpdateCluster c1) v" "cluster_write (UpdateCluster c1)"
    using held by (simp_all add: cluster_write_def)
  have "\<not> being_deleted cluster" using assms(3) by (simp add: being_deleted_def)
  then show "ensures (stands A cs v) (Reconcile e name ns) (\<lambda>x w. x = Inr (requeue_now, None) \<and>
      stands A (cs @ [UpdateCluster c1]) (put_write A (UpdateCluster c1) v) w)"
    using assms(4)
    by (intro Reconcile_stands [OF laws held])
      (auto simp: reconcile_found_def simp flip: c1_def simp del: put_write.simps
        intro!: ensures_bind [OF api_write_cluster_stands [OF srv acc(2,1)]] ensures_pure ensures_return)
qed

lemma pending_pass:
  assumes laws: "api_laws e A" and held: "held_clusters v (ns, name) = Some c1"
    and "\<not> being_deleted c1" and "contains_finalizer e (Meta c1) finalizerName"
    and "Phase (Status c1) = []"
  defines "c2 \<equiv> c1\<lparr>Status := (Status c1)\<lparr>Phase := ClusterPhasePending\<rparr>\<rparr>"
  shows "ensures (stands A cs v) (Reconcile e name ns)
    (\<lambda>x w. x = Inr (requeue_now, None) \<and>
      stands A (cs @ [UpdateClusterStatus c2]) (put_write A (UpdateClusterStatus c2) v) w)"
proof (rule stands_valid)
  show srv: "server_laws e A" using laws by (simp add: api_laws_def)
  assume "valid_view v"
  then have "meta_key (Meta c2) = (ns, name)" using held unfolding valid_view_def c2_def by simp
  then have acc: "accepted (UpdateClusterStatus c2) v" "cluster_write (UpdateClusterStatus c2)"
    using held by (simp_all add: cluster_write_def)
  show "ensures (stands A cs v) (Reconcile e name ns) (\<lambda>x w. x = Inr (requeue_now, None) \<and>
      stands A (cs @ [UpdateClusterStatus c2]) (put_write A (UpdateClusterStatus c2) v) w)"
    using assms(3-5)
    by (intro Reconcile_stands [OF laws held])
      (auto simp: reconcile_found_def write_status_def simp flip: c2_def simp del: put_write.simps
        intro!: ensures_bind [OF stands_quiet [OF emits_event outside_emit(2)]]
          ensures_bind [OF api_write_cluster_stands [OF srv acc(2,1)]] ensures_pure ensures_return)
qed

section \<open>Along the course\<close>

text \<open>The surroundings of a pass change neither the laws nor what is meant to be in place.\<close>

lemma pass_env_same [simp]:
  "live (pass_env e cluster S n) = live e"
  "contains_finalizer (pass_env e cluster S n) = contains_finalizer e"
  "add_finalizer (pass_env e cluster S n) = add_finalizer e"
  by (simp_all add: fun_eq_iff live_def pass_env_def)

lemma pass_env_containers [simp]:
  "snapshotContainersEqual (pass_env e cluster S n) xs ds = snapshotContainersEqual e xs ds"
proof -
  have "same_containers (pass_env e cluster S n) xs ds = same_containers e xs ds"
    by (induction e xs ds rule: same_containers.induct) (simp_all add: pass_env_def)
  then show ?thesis by (simp add: snapshotContainersEqual_def)
qed

lemma pass_env_equal [simp]:
  "equal_int_ptr (pass_env e cluster S n) = equal_int_ptr e"
  "equal_labels (pass_env e cluster S n) = equal_labels e"
  "equal_values (pass_env e cluster S n) = equal_values e"
  "equal_affinity (pass_env e cluster S n) = equal_affinity e"
  "quantity_is_zero (pass_env e cluster S n) = quantity_is_zero e"
  "quantity_must_parse (pass_env e cluster S n) = quantity_must_parse e"
  "set_controller_reference (pass_env e cluster S n) = set_controller_reference e"
  by (simp_all add: pass_env_def)

lemma pass_env_built [simp]:
  "buildStatefulSet (pass_env e cluster S n) c = buildStatefulSet e c"
  "owned_meta (pass_env e cluster S n) = owned_meta e"
  "snapshotCronJobNeedsUpdate (pass_env e cluster S n) = snapshotCronJobNeedsUpdate e"
  by (simp_all add: fun_eq_iff buildStatefulSet_def owned_meta_def snapshotCronJobNeedsUpdate_def Let_def
      cong: if_cong)

lemma pass_env_writes [simp]:
  "object_writes (pass_env e cluster S n) A c pods v = object_writes e A c pods v"
  "cronjob_writes (pass_env e cluster S n) c v = cronjob_writes e c v"
  by (simp_all add: object_writes_def service_writes_def statefulset_writes_def write_service_writes_def
      cronjob_writes_def Let_def cong: if_cong option.case_cong)

lemma pass_env_laws:
  assumes "api_laws e A" and "undisturbed A S"
  shows "api_laws (pass_env e cluster S n) A"
proof -
  have "leaves_view (view_of A) (State_Monad.return x)" for x :: "go_error + Pod list"
    by (simp add: leaves_view_def)
  then show ?thesis
    using assms
    by (simp add: api_laws_def server_laws_def others_leave_def helper_laws_def deep_equal_ok_def
        undisturbed_def pass_env_def)
qed

lemma started_key:
  assumes "api_laws e A"
  shows "meta_key (Meta (started e cluster)) = meta_key (Meta cluster)"
  using assms by (simp add: started_def api_laws_def helper_laws_def)

lemma pass_env_serves:
  assumes "api_laws e A" and "same_object (started e cluster) c"
  shows "serves_pods (pass_env e cluster S n) A c (pods_at S n)"
proof -
  have "meta_key (Meta c) = meta_key (Meta cluster)"
    using started_key [OF assms(1)] assms(2) by (simp add: same_object_def)
  then have "cluster_ns c = cluster_ns cluster" "labelsForCluster c = labelsForCluster cluster"
    by (simp_all add: meta_key_def labelsForCluster_def)
  then show ?thesis by (simp add: serves_pods_def pass_env_def)
qed

lemma stands_between: "undisturbed A S \<Longrightarrow> stands A cs v w \<Longrightarrow> stands A cs v (between S n w)"
  by (simp add: stands_def undisturbed_def)

text \<open>The first two passes of a new resource.\<close>

lemma first_passes:
  fixes e :: "'s env"
  assumes laws: "api_laws e A" "undisturbed A S"
    and held: "held_clusters (view_of A (ext w)) (ns, name) = Some cluster"
    and fresh: "DeletionTimestamp (Meta cluster) = None"
      "\<not> contains_finalizer e (Meta cluster) finalizerName" "Phase (Status cluster) = []"
  defines "c1 \<equiv> cluster\<lparr>Meta := add_finalizer e (Meta cluster) finalizerName\<rparr>"
    and "R \<equiv> \<lambda>n. course e cluster S name ns n w"
    and "E \<equiv> pass_env e cluster S"
  shows "fst (run_state (Reconcile (E 0) name ns) (R 0)) = Inr (requeue_now, None) \<and>
    fst (run_state (Reconcile (E 1) name ns) (R 1)) = Inr (requeue_now, None) \<and>
    writes (trace (R 2)) = writes (trace w) @ [UpdateCluster c1, UpdateClusterStatus (started e cluster)] \<and>
    held_clusters (view_of A (ext (R 2))) (ns, name) = Some (started e cluster) \<and>
    live e (started e cluster)"
proof -
  let ?c2 = "started e cluster"
  define v where "v = view_of A (ext w)"
  define u where "u = put_write A (UpdateCluster c1) v"
  have srv: "server_laws e A" and hlp: "helper_laws e" using laws by (simp_all add: api_laws_def)
  note lawsE = pass_env_laws [OF laws, of cluster, folded E_def]
  have c2: "?c2 = c1\<lparr>Status := (Status c1)\<lparr>Phase := ClusterPhasePending\<rparr>\<rparr>"
    by (simp add: started_def c1_def)
  have "valid_view (view_of A (ext w))" using srv by (simp add: server_laws_def)
  then have "meta_key (Meta cluster) = (ns, name)" using held unfolding valid_view_def by blast
  then have c1: "meta_key (Meta c1) = (ns, name)" "DeletionTimestamp (Meta c1) = None"
    "contains_finalizer e (Meta c1) finalizerName" "Phase (Status c1) = []" "Status c1 = Status cluster"
    using hlp fresh by (simp_all add: c1_def helper_laws_def)
  have "stands A (writes (trace w)) v w" by (simp add: stands_def v_def)
  from ensuresD [OF finalizer_pass [OF lawsE [of 0] held [folded v_def] fresh(1)] this] fresh(2)
  have first: "fst (run_state (Reconcile (E 0) name ns) (R 0)) = Inr (requeue_now, None)"
    "stands A (writes (trace w) @ [UpdateCluster c1]) u (R 1)"
    using stands_between [OF laws(2)] by (simp_all add: E_def R_def c1_def u_def del: put_write.simps)
  have "c1\<lparr>Status := Status cluster\<rparr> = c1" using c1(5) by (cases c1) simp
  then have held1: "held_clusters u (ns, name) = Some c1"
    using held c1(1) by (simp add: u_def v_def)
  have "\<not> being_deleted c1" using c1(2) by (simp add: being_deleted_def)
  from ensuresD [OF pending_pass [OF lawsE [of 1] held1 this _ c1(4)] first(2)] c1(3)
  have second: "fst (run_state (Reconcile (E 1) name ns) (R 1)) = Inr (requeue_now, None)"
    "stands A ((writes (trace w) @ [UpdateCluster c1]) @ [UpdateClusterStatus ?c2])
      (put_write A (UpdateClusterStatus ?c2) u) (R 2)"
    using stands_between [OF laws(2)]
    by (simp_all add: E_def R_def eval_nat_numeral c2 del: put_write.simps)
  have "held_clusters (put_write A (UpdateClusterStatus ?c2) u) (ns, name) = Some ?c2"
    using held1 c1(1) by (simp add: c2)
  then have "held_clusters (view_of A (ext (R 2))) (ns, name) = Some ?c2"
    using second(2) by (simp add: stands_def)
  moreover have "live e ?c2"
    using c1 by (simp add: live_def c2 being_deleted_def go_consts)
  ultimately show ?thesis
    using first(1) second by (simp add: stands_def)
qed

text \<open>A later pass, over an object that is live.\<close>

lemma live_step:
  fixes e :: "'s env"
  assumes laws: "api_laws e A" "undisturbed A S"
    and same: "same_object (started e cluster) c" and "live e c"
    and held: "held_clusters (view_of A (ext w)) (ns, name) = Some c"
    and rep: "reporting (pass_env e cluster S n) c (pods_at S n) G"
    and G: "\<And>x. G x \<Longrightarrow> recorded c (pods_at S n) x"
  defines "pass \<equiv> run_state (Reconcile (pass_env e cluster S n) name ns) w"
  defines "w' \<equiv> between S n (snd pass)"
  shows "(\<exists>res. fst pass = Inr (res, None) \<and> scheduled res) \<and>
    (\<exists>c'. G c' \<and> held_clusters (view_of A (ext w')) (ns, name) = Some c' \<and>
       writes (trace w') = writes (trace w) @ object_writes e A c (pods_at S n) (view_of A (ext w)) @
         [UpdateClusterStatus c'] \<and>
       in_place e c (determineWriteInstance c (pods_at S n)) (view_of A (ext w')) \<and>
       cronjob_writes e c (view_of A (ext w')) = [])"
proof -
  let ?v = "view_of A (ext w)" and ?ws = "object_writes e A c (pods_at S n) (view_of A (ext w))"
  have sto: "storage_laws A" and hlp: "helper_laws e" and valid: "valid_view ?v"
    using laws(1) by (simp_all add: api_laws_def server_laws_def)
  have "live (pass_env e cluster S n) c" using \<open>live e c\<close> by simp
  from pass_run [OF pass_env_laws [OF laws] rep pass_env_serves [OF laws(1) same] held this]
  obtain c' where c': "G c'" and res: "\<exists>res. fst pass = Inr (res, None) \<and> scheduled res"
    and tr: "writes (trace (snd pass)) = writes (trace w) @ ?ws @ [UpdateClusterStatus c']"
    and v: "view_of A (ext (snd pass)) = put_write A (UpdateClusterStatus c') (put_writes A ?ws ?v)"
    unfolding pass_def pass_env_writes by blast
  have v': "view_of A (ext w') = put_write A (UpdateClusterStatus c') (put_writes A ?ws ?v)"
    and tr': "writes (trace w') = writes (trace w) @ ?ws @ [UpdateClusterStatus c']"
    using laws(2) v tr by (simp_all add: w'_def undisturbed_def del: put_write.simps)
  have "same_object c c'" using G [OF c'] by (simp add: recorded_def)
  then have "held_clusters (view_of A (ext w')) (ns, name) = Some c'"
    unfolding v' by (rule held_after [OF valid held])
  moreover have "in_place e c (determineWriteInstance c (pods_at S n)) (view_of A (ext w'))"
    "cronjob_writes e c (view_of A (ext w')) = []"
    unfolding v' status_leaves_objects by (rule object_writes_in_place [OF sto hlp valid])+
  ultimately show ?thesis using c' res tr' by blast
qed

text \<open>Every pass from the third on finds a live object and leaves one, whatever the pods do.\<close>

definition kept :: "'s api \<Rightarrow> object_key \<Rightarrow> MemgraphCluster \<Rightarrow> 's world \<Rightarrow> bool" where
  "kept A k c0 w \<longleftrightarrow>
     (\<exists>c. held_clusters (view_of A (ext w)) k = Some c \<and> same_object c0 c \<and> Phase (Status c) \<noteq> [])"

lemma live_started: "same_object (started e cluster) c \<Longrightarrow> live e (started e cluster) \<Longrightarrow>
    Phase (Status c) \<noteq> [] \<Longrightarrow> live e c"
  by (rule live_same)

lemma course_kept:
  assumes "api_laws e A" and "undisturbed A S" and "live e (started e cluster)"
    and "kept A (ns, name) (started e cluster) (course e cluster S name ns m w)" and "m \<le> n"
  shows "kept A (ns, name) (started e cluster) (course e cluster S name ns n w)"
  using assms(5)
proof (induction n rule: dec_induct)
  case base
  show ?case by (rule assms(4))
next
  case (step n)
  then obtain c where held: "held_clusters (view_of A (ext (course e cluster S name ns n w))) (ns, name) = Some c"
    and same: "same_object (started e cluster) c" and "Phase (Status c) \<noteq> []"
    unfolding kept_def by blast
  then have "live e c" using live_started assms(3) by blast
  from live_step [OF assms(1,2) same this held reporting_recorded] obtain c' where
    "recorded c (pods_at S n) c'"
    "held_clusters (view_of A (ext (course e cluster S name ns (Suc n) w))) (ns, name) = Some c'"
    unfolding course.simps by blast
  then show ?case using same_object_trans [OF same] by (auto simp: kept_def recorded_def)
qed

text \<open>From the pass that finds the pods up on, the cluster is reported ready and nothing moves.\<close>

definition ready_place ::
    "'s env \<Rightarrow> 's api \<Rightarrow> object_key \<Rightarrow> MemgraphCluster \<Rightarrow> Pod list \<Rightarrow> 's world \<Rightarrow> bool" where
  "ready_place e A k c1 pods w \<longleftrightarrow>
     (\<exists>c. held_clusters (view_of A (ext w)) k = Some c \<and> reported_ready c1 pods c) \<and>
     in_place e c1 (determineWriteInstance c1 pods) (view_of A (ext w)) \<and>
     cronjob_writes e c1 (view_of A (ext w)) = []"

lemma ready_step:
  fixes e :: "'s env"
  assumes laws: "api_laws e A" "undisturbed A S"
    and live: "live e (started e cluster)" and c1: "same_object (started e cluster) c1"
    and pods: "pods_at S n = pods"
    and healthy: "healthy_pods (pass_env e cluster S n) view (started e cluster) pods"
    and held: "held_clusters (view_of A (ext w)) (ns, name) = Some c" and "Phase (Status c) \<noteq> []"
    and c: "c = c1 \<or> reported_ready c1 pods c"
  defines "w' \<equiv> between S n (snd (run_state (Reconcile (pass_env e cluster S n) name ns) w))"
  shows "ready_place e A (ns, name) c1 pods w'" and
    "\<exists>c'. writes (trace w') = writes (trace w) @ object_writes e A c pods (view_of A (ext w)) @
       [UpdateClusterStatus c']"
proof -
  have same: "same_object c1 c" and stable: "determineWriteInstance c pods = determineWriteInstance c1 pods"
    using c write_instance_stable [of c1 c pods] by (auto simp: reported_ready_def)
  note same0 = same_object_trans [OF c1 same]
  have rep: "reporting (pass_env e cluster S n) c (pods_at S n) (reported_ready c pods)"
    unfolding pods by (rule reporting_ready [OF healthy_pods_same [OF same0 healthy]])
  have rec: "\<And>x. reported_ready c pods x \<Longrightarrow> recorded c (pods_at S n) x"
    unfolding pods by (rule reported_ready_recorded)
  have "live e c" by (rule live_started [OF same0 live assms(8)])
  from live_step [OF laws same0 this held rep rec] obtain c' where c': "reported_ready c pods c'"
    and held': "held_clusters (view_of A (ext w')) (ns, name) = Some c'"
    and tr: "writes (trace w') = writes (trace w) @ object_writes e A c pods (view_of A (ext w)) @
       [UpdateClusterStatus c']"
    and place: "in_place e c (determineWriteInstance c pods) (view_of A (ext w'))"
      "cronjob_writes e c (view_of A (ext w')) = []"
    unfolding w'_def pods by blast
  have "reported_ready c1 pods c'" using c c' reported_ready_trans by blast
  then show "ready_place e A (ns, name) c1 pods w'"
    using held' place by (simp add: ready_place_def stable in_place_same [OF same])
  show "\<exists>c'. writes (trace w') = writes (trace w) @ object_writes e A c pods (view_of A (ext w)) @
       [UpdateClusterStatus c']" using tr by blast
qed

lemma course_ready:
  fixes e :: "'s env"
  assumes laws: "api_laws e A" "undisturbed A S"
    and live: "live e (started e cluster)"
    and up: "\<forall>n \<ge> N. pods_at S n = pods \<and>
      healthy_pods (pass_env e cluster S n) view (started e cluster) pods"
    and kept: "kept A (ns, name) (started e cluster) (course e cluster S name ns N w)"
  shows "\<exists>c1. same_object (started e cluster) c1 \<and>
    (\<forall>n > N. ready_place e A (ns, name) c1 pods (course e cluster S name ns n w))"
proof -
  let ?R = "\<lambda>n. course e cluster S name ns n w"
  obtain c1 where held: "held_clusters (view_of A (ext (?R N))) (ns, name) = Some c1"
    and c1: "same_object (started e cluster) c1" and "Phase (Status c1) \<noteq> []"
    using kept unfolding kept_def by blast
  have up': "pods_at S n = pods" "healthy_pods (pass_env e cluster S n) view (started e cluster) pods"
    if "N \<le> n" for n using up that by blast+
  note step = ready_step(1) [OF laws live c1 up'(1) up'(2)]
  have "ready_place e A (ns, name) c1 pods (?R n)" if "Suc N \<le> n" for n
    using that
  proof (induction n rule: dec_induct)
    case base
    show ?case unfolding course.simps
      using step [OF order_refl order_refl held \<open>Phase (Status c1) \<noteq> []\<close>] by blast
  next
    case (step n)
    then obtain c where held: "held_clusters (view_of A (ext (?R n))) (ns, name) = Some c"
      and ready: "reported_ready c1 pods c" unfolding ready_place_def by blast
    have "Phase (Status c) \<noteq> []" using ready by (simp add: reported_ready_def go_consts)
    moreover have "N \<le> n" using step.hyps by simp
    ultimately show ?case unfolding course.simps
      using ready_step(1) [OF laws live c1 up'(1) up'(2) held _ disjI2 [OF ready]] by blast
  qed
  with c1 show ?thesis by (auto simp: Suc_le_eq)
qed

text \<open>In a ready place a pass only writes the status.\<close>

lemma ready_place_quiet:
  fixes e :: "'s env"
  assumes laws: "api_laws e A" "undisturbed A S"
    and live: "live e (started e cluster)" and c1: "same_object (started e cluster) c1"
    and pods: "pods_at S n = pods"
    and healthy: "healthy_pods (pass_env e cluster S n) view (started e cluster) pods"
    and place: "ready_place e A (ns, name) c1 pods w"
  shows "\<exists>c. writes (trace (between S n (snd (run_state (Reconcile (pass_env e cluster S n) name ns) w)))) =
    writes (trace w) @ [UpdateClusterStatus c]"
proof -
  obtain c where held: "held_clusters (view_of A (ext w)) (ns, name) = Some c"
    and ready: "reported_ready c1 pods c"
    and there: "in_place e c1 (determineWriteInstance c1 pods) (view_of A (ext w))"
      "cronjob_writes e c1 (view_of A (ext w)) = []"
    using place unfolding ready_place_def by blast
  have same: "same_object c1 c" and wi: "WriteInstance (Status c) = determineWriteInstance c1 pods"
    and "Phase (Status c) \<noteq> []"
    using ready by (simp_all add: reported_ready_def go_consts)
  have "object_writes e A c pods (view_of A (ext w)) = []"
    by (rule in_place_settled)
      (use there in \<open>simp_all add: in_place_same [OF same] write_instance_stable [OF same wi]\<close>)
  then show ?thesis
    using ready_step(2) [OF laws live c1 pods healthy held \<open>Phase (Status c) \<noteq> []\<close> disjI2 [OF ready]]
    by simp
qed

text \<open>C1: The way from creation to ready. Take a new resource, with no finalizer and no phase, on an API
  server that behaves as documented and whose objects nobody else edits. The first pass adds the
  finalizer, the second sets the phase Pending, and both ask to be run again at once. Every later
  pass, whatever pods are listed to it and whatever Memgraph answers on them, succeeds and asks to
  be run again after a while; it makes the writes that the objects held and the listed pods call
  for and records the write instance it chose, and it leaves everything in place. Suppose that
  from some pass \<open>N\<close> on the wanted number of pods is listed, all ready, with a Memgraph on them that
  behaves as documented and streams: then the cluster is reported ready from the end of that pass
  on, whatever roles and registrations were left over, and later passes write only the status.
  When the next pass runs is not claimed.\<close>

theorem created_to_ready:
  assumes "api_laws e A" and "undisturbed A S"
    and "held_clusters (view_of A (ext w)) (ns, name) = Some cluster"
    and "DeletionTimestamp (Meta cluster) = None"
    and "\<not> contains_finalizer e (Meta cluster) finalizerName" and "Phase (Status cluster) = []"
    and "2 \<le> N" and "\<forall>n \<ge> N. pods_at S n = pods \<and>
      healthy_pods (pass_env e cluster S n) view (started e cluster) pods"
  shows "let R = (\<lambda>n. course e cluster S name ns n w); c0 = started e cluster;
      result = (\<lambda>n. fst (run_state (Reconcile (pass_env e cluster S n) name ns) (R n)));
      objects = (\<lambda>n. view_of A (ext (R n))); held = (\<lambda>n. held_clusters (objects n) (ns, name));
      written = (\<lambda>n. writes (trace (R n))) in
    (\<forall>n < 2. result n = Inr (requeue_now, None)) \<and>
    written 2 = writes (trace w) @ [UpdateCluster (cluster\<lparr>Meta := Meta c0\<rparr>), UpdateClusterStatus c0] \<and>
    (\<forall>n \<ge> 2. (\<exists>res. result n = Inr (res, None) \<and> scheduled res) \<and>
      (\<exists>c c'. held n = Some c \<and> held (Suc n) = Some c' \<and> same_object c0 c' \<and>
         WriteInstance (Status c') = determineWriteInstance c (pods_at S n) \<and>
         written (Suc n) = written n @ object_writes e A c (pods_at S n) (objects n) @ [UpdateClusterStatus c'] \<and>
         in_place e c0 (WriteInstance (Status c')) (objects (Suc n)))) \<and>
    (\<exists>c1. same_object c0 c1 \<and> (\<forall>n > N. (\<exists>c. held n = Some c \<and> reported_ready c1 pods c) \<and>
       (\<exists>c. written (Suc n) = written n @ [UpdateClusterStatus c])))"
proof -
  let ?R = "\<lambda>n. course e cluster S name ns n w" and ?c0 = "started e cluster"
  note first = first_passes [OF assms(1-6)]
  then have live: "live e ?c0" by blast
  then have "Phase (Status ?c0) \<noteq> []" by (simp add: live_def)
  then have kept2: "kept A (ns, name) ?c0 (?R 2)" using first by (auto simp: kept_def)
  note kept = course_kept [OF assms(1,2) live kept2]
  have later: "(\<exists>res. fst (run_state (Reconcile (pass_env e cluster S n) name ns) (?R n)) = Inr (res, None) \<and>
        scheduled res) \<and>
      (\<exists>c c'. held_clusters (view_of A (ext (?R n))) (ns, name) = Some c \<and>
         held_clusters (view_of A (ext (?R (Suc n)))) (ns, name) = Some c' \<and> same_object ?c0 c' \<and>
         WriteInstance (Status c') = determineWriteInstance c (pods_at S n) \<and>
         writes (trace (?R (Suc n))) = writes (trace (?R n)) @
           object_writes e A c (pods_at S n) (view_of A (ext (?R n))) @ [UpdateClusterStatus c'] \<and>
         in_place e ?c0 (WriteInstance (Status c')) (view_of A (ext (?R (Suc n)))))" if "2 \<le> n" for n
  proof -
    have "kept A (ns, name) ?c0 (?R n)" by (rule kept [OF that])
    then obtain c where held: "held_clusters (view_of A (ext (?R n))) (ns, name) = Some c"
      and same: "same_object ?c0 c" and "Phase (Status c) \<noteq> []"
      unfolding kept_def by blast
    then have "live e c" using live_started live by blast
    note step = live_step [where n = n, OF assms(1,2) same this held reporting_recorded,
      folded course.simps]
    then obtain c' where c': "recorded c (pods_at S n) c'"
      "held_clusters (view_of A (ext (?R (Suc n)))) (ns, name) = Some c'"
      "writes (trace (?R (Suc n))) = writes (trace (?R n)) @
         object_writes e A c (pods_at S n) (view_of A (ext (?R n))) @ [UpdateClusterStatus c']"
      "in_place e c (determineWriteInstance c (pods_at S n)) (view_of A (ext (?R (Suc n))))"
      by blast
    have same': "same_object ?c0 c'" and wi: "WriteInstance (Status c') = determineWriteInstance c (pods_at S n)"
      using c'(1) same_object_trans [OF same] by (auto simp: recorded_def)
    have "in_place e ?c0 (WriteInstance (Status c')) (view_of A (ext (?R (Suc n))))"
      using c'(4) by (simp only: wi in_place_same(1) [OF same])
    with conjunct1 [OF step] held c'(2,3) same' wi show ?thesis by blast
  qed
  obtain c1 where c1: "same_object ?c0 c1"
    and ready: "\<forall>n > N. ready_place e A (ns, name) c1 pods (?R n)"
    using course_ready [OF assms(1,2) live assms(8) kept [OF assms(7)]] by blast
  have quiet: "(\<exists>c. held_clusters (view_of A (ext (?R n))) (ns, name) = Some c \<and> reported_ready c1 pods c) \<and>
      (\<exists>c. writes (trace (?R (Suc n))) = writes (trace (?R n)) @ [UpdateClusterStatus c])" if "N < n" for n
  proof -
    have "pods_at S n = pods" "healthy_pods (pass_env e cluster S n) view ?c0 pods"
      using assms(8) that by simp_all
    from ready_place_quiet [OF assms(1,2) live c1 this] show ?thesis
      using ready that unfolding course.simps ready_place_def by blast
  qed
  have early: "fst (run_state (Reconcile (pass_env e cluster S n) name ns) (?R n)) = Inr (requeue_now, None)"
    if "n < 2" for n
    using that first by (cases n) (auto simp: less_Suc_eq)
  have "writes (trace (?R 2)) = writes (trace w) @
      [UpdateCluster (cluster\<lparr>Meta := Meta ?c0\<rparr>), UpdateClusterStatus ?c0]"
    using first by (simp add: started_def)
  with early later quiet c1 show ?thesis unfolding Let_def by blast
qed

text \<open>
  The way of a new resource with two replicas on the small server. The pods appear, not ready and
  answering no query, for the fifth pass; the operator is restarted after it; from the seventh
  pass on they are up.
\<close>

definition new_cluster :: MemgraphCluster where
  "new_cluster = bare_cluster\<lparr>Spec := (Spec bare_cluster)\<lparr>Replicas := 2\<rparr>\<rparr>"

definition new_surroundings :: "server_state surroundings" where
  "new_surroundings = \<lparr>
     pods_at = \<lambda>n. if n < 4 then []
       else if n < 6 then map (\<lambda>p. p\<lparr>PodConditions := [(''Ready'', ''False'')]\<rparr>) small_pods else small_pods,
     memgraph_at = \<lambda>n. if n < 6 then (\<lambda>_. State_Monad.return ([], [], Some (OtherError ''not up'')))
       else stream_op server_env,
     between = \<lambda>n w. if n = 4 then w\<lparr>replicationManager := None\<rparr> else w\<rparr>"

lemma new_key: "meta_key (Meta new_cluster) = (''db'', ''mg'')"
  by (simp add: meta_key_def new_cluster_def bare_cluster_def mk_meta_def)

lemma new_undisturbed: "undisturbed server_api new_surroundings"
proof -
  have "leaves_view (view_of server_api) (stream_op server_env req)" for req
    using server_keeps_laws by (simp add: api_laws_def others_leave_def)
  then show ?thesis by (simp add: undisturbed_def new_surroundings_def leaves_view_def)
qed

lemma new_healthy:
  assumes "6 \<le> n"
  shows "healthy_pods (pass_env server_env new_cluster new_surroundings n) server_memgraph
    (started server_env new_cluster) small_pods"
proof -
  let ?c = "started server_env new_cluster" and ?e = "pass_env server_env new_cluster new_surroundings n"
  have same: "cluster_ns ?c = cluster_ns bare_cluster" "getPodFQDN f ?c = getPodFQDN f bare_cluster"
    "replication_mode ?c = replication_mode bare_cluster" for f
    by (simp_all add: started_def new_cluster_def bare_cluster_def getPodFQDN_def headlessServiceName_def
        service_suffix_def replication_mode_def mk_meta_def server_env_def quiet_env_def)
  have env: "stream_op ?e = stream_op server_env" "new_executor_op ?e = new_executor_op server_env"
    using assms by (simp_all add: pass_env_def new_surroundings_def)
  have replies: "replies ?e = replies server_env" "opens ?e = opens server_env"
    by (simp_all add: fun_eq_iff replies_def opens_def env)
  have "memgraph_laws small_env small_view ?c (ready_names small_pods)"
    using small_laws unfolding memgraph_laws_def same pair_ready .
  moreover have "streams small_env small_view ?c (ready_names small_pods)"
    using pair_streams unfolding streams_def pair_replies same pair_names .
  ultimately have "memgraph_laws server_env server_memgraph ?c (ready_names small_pods)"
    "streams server_env server_memgraph ?c (ready_names small_pods)"
    by (rule server_memgraph_laws)+
  then have "memgraph_laws ?e server_memgraph ?c (ready_names small_pods)"
    "streams ?e server_memgraph ?c (ready_names small_pods)"
    unfolding memgraph_laws_def streams_def replies .
  moreover have "sets_conditions ?e"
    using quiet_sets_conditions by (simp add: sets_conditions_def server_env_def pass_env_def)
  moreover have "rest_config_set ?e" "always (new_client_op ?e) None"
    by (simp_all add: pass_env_def server_env_def quiet_env_def always_def)
  moreover have "dns_names small_pods" by code_simp
  moreover have "desired_replicas ?c = int (length small_pods)"
    by (simp add: desired_replicas_def started_def new_cluster_def small_pods_def go_consts)
  ultimately show ?thesis
    by (simp add: healthy_pods_def) (simp add: small_pods_def ready_pod_def isPodReady_def)
qed

lemma created_to_ready_witness:
  "let R = (\<lambda>n. course server_env new_cluster new_surroundings ''mg'' ''db'' n (holding new_cluster));
       view = (\<lambda>n. view_of server_api (ext (R n))); held = (\<lambda>n. held_clusters (view n) (''db'', ''mg'')) in
     (\<exists>c. held 3 = Some c \<and>
        in_place server_env (started server_env new_cluster) (WriteInstance (Status c)) (view 3)) \<and>
     (\<exists>c c1. held 7 = Some c \<and> reported_ready c1 small_pods c)"
proof -
  have fresh: "DeletionTimestamp (Meta new_cluster) = None"
    "\<not> contains_finalizer server_env (Meta new_cluster) finalizerName" "Phase (Status new_cluster) = []"
    by (simp_all add: new_cluster_def bare_cluster_def bare_status_def mk_meta_def server_env_def quiet_env_def)
  have up: "\<forall>n \<ge> 6. pods_at new_surroundings n = small_pods \<and>
      healthy_pods (pass_env server_env new_cluster new_surroundings n) server_memgraph
        (started server_env new_cluster) small_pods"
    using new_healthy by (simp add: new_surroundings_def)
  have "(2 :: nat) \<le> 6" and third: "Suc 2 = 3" and "(6 :: nat) < 7" by simp_all
  note all = created_to_ready [OF server_keeps_laws new_undisturbed holding_held [OF new_key] fresh this(1) up,
    unfolded Let_def, THEN conjunct2, THEN conjunct2]
  let ?held = "\<lambda>n. held_clusters (view_of server_api (ext (course server_env new_cluster new_surroundings
    ''mg'' ''db'' n (holding new_cluster)))) (''db'', ''mg'')"
  from conjunct1 [OF all, THEN spec, of 2]
  have "\<exists>c. ?held 3 = Some c \<and> in_place server_env (started server_env new_cluster) (WriteInstance (Status c))
      (view_of server_api (ext (course server_env new_cluster new_surroundings ''mg'' ''db'' 3
        (holding new_cluster))))"
    unfolding third by blast
  moreover obtain c1 where "\<forall>n > 6. \<exists>c. ?held n = Some c \<and> reported_ready c1 small_pods c"
    using conjunct2 [OF all] by blast
  then have "\<exists>c. ?held 7 = Some c \<and> reported_ready c1 small_pods c" using \<open>(6 :: nat) < 7\<close> by blast
  ultimately show ?thesis unfolding Let_def by blast
qed

end
