(* ===== verification/Registration.thy ===== *)
theory Registration
  imports Reconciler
begin

text \<open>
  How the operator makes itself known: the API group and the types it registers
  (\<open>api/v1alpha1/groupversion_info.go\<close> and the \<open>init\<close> functions), the set-up of the controller
  with the manager (\<open>SetupWithManager\<close>) and the permissions the kubebuilder markers above
  \<open>Reconcile\<close> ask for. The scheme and the controller builder belong to the client libraries;
  what the operator tells them is kept as data.
\<close>

section \<open>The API group and its types\<close>

record group_version =
  Group :: string
  Version :: string

definition GroupVersion :: group_version where
  "GroupVersion = \<lparr>Group = ''memgraph.base14.io'', Version = ''v1alpha1''\<rparr>"

datatype object_kind =
    MemgraphClusterKind | MemgraphClusterListKind | StatefulSetKind | ServiceKind | CronJobKind

record scheme_builder =
  BuilderVersion :: group_version
  RegisteredTypes :: "object_kind list"

definition SchemeBuilder :: scheme_builder where
  "SchemeBuilder = \<lparr>BuilderVersion = GroupVersion, RegisteredTypes = []\<rparr>"

text \<open>The \<open>init\<close> of the package, given the builder's \<open>Register\<close>.\<close>

definition register_types ::
    "(scheme_builder \<Rightarrow> object_kind list \<Rightarrow> scheme_builder) \<Rightarrow> scheme_builder" where
  "register_types Register = Register SchemeBuilder [MemgraphClusterKind, MemgraphClusterListKind]"

text \<open>
  The \<open>init\<close> of \<open>main\<close> adds the types of the client library and of the operator to the scheme;
  \<open>utilruntime.Must\<close> panics at an error, which is then the result.
\<close>

definition must :: "('m, go_error option) state \<Rightarrow> ('m, go_error option) state \<Rightarrow> ('m, go_error option) state" where
  "must m k = do {
     err \<leftarrow> m;
     case err of Some er \<Rightarrow> State_Monad.return (Some er) | None \<Rightarrow> k
   }"

definition init_scheme ::
    "('m, go_error option) state \<Rightarrow> ('m, go_error option) state \<Rightarrow> ('m, go_error option) state" where
  "init_scheme clientgo_AddToScheme memgraph_AddToScheme =
     must clientgo_AddToScheme (must memgraph_AddToScheme (State_Monad.return None))"

section \<open>The controller\<close>

record controller_setup =
  ForObject :: object_kind
  OwnedObjects :: "object_kind list"
  ControllerName :: string

definition memgraph_controller :: controller_setup where
  "memgraph_controller = \<lparr>ForObject = MemgraphClusterKind,
     OwnedObjects = [StatefulSetKind, ServiceKind, CronJobKind], ControllerName = ''memgraphcluster''\<rparr>"

definition SetupWithManager :: "(controller_setup \<Rightarrow> go_error option) \<Rightarrow> go_error option" where
  "SetupWithManager Complete = Complete memgraph_controller"

section \<open>Permissions\<close>

text \<open>The markers: API group, resource and verbs.\<close>

definition rbac_markers :: "(string \<times> string \<times> string list) list" where
  "rbac_markers =
     (let all = [''get'', ''list'', ''watch'', ''create'', ''update'', ''patch'', ''delete''];
          see = [''get'', ''list'', ''watch''] in
      [(''memgraph.base14.io'', ''memgraphclusters'', all),
       (''memgraph.base14.io'', ''memgraphclusters/status'', [''get'', ''update'', ''patch'']),
       (''memgraph.base14.io'', ''memgraphclusters/finalizers'', [''update'']),
       (''apps'', ''statefulsets'', all),
       (''core'', ''services'', all),
       (''core'', ''pods'', see),
       (''core'', ''pods/exec'', [''create'']),
       (''core'', ''events'', [''create'', ''patch'']),
       (''batch'', ''cronjobs'', all),
       (''batch'', ''jobs'', see)])"

definition allows :: "string \<Rightarrow> string \<Rightarrow> string \<Rightarrow> bool" where
  "allows grp resource verb \<longleftrightarrow>
     (\<exists>(g, r, verbs) \<in> set rbac_markers. g = grp \<and> r = resource \<and> verb \<in> set verbs)"

text \<open>The object a write is about, its resource and the verb of the request.\<close>

fun write_kind :: "api_write \<Rightarrow> object_kind" where
  "write_kind (CreateService x) = ServiceKind"
| "write_kind (UpdateService x) = ServiceKind"
| "write_kind (CreateStatefulSet x) = StatefulSetKind"
| "write_kind (UpdateStatefulSet x) = StatefulSetKind"
| "write_kind (CreateCronJob x) = CronJobKind"
| "write_kind (UpdateCronJob x) = CronJobKind"
| "write_kind (DeleteCronJob x) = CronJobKind"
| "write_kind (UpdateCluster c) = MemgraphClusterKind"
| "write_kind (UpdateClusterStatus c) = MemgraphClusterKind"

fun write_request :: "api_write \<Rightarrow> string \<times> string \<times> string" where
  "write_request (CreateService x) = (''core'', ''services'', ''create'')"
| "write_request (UpdateService x) = (''core'', ''services'', ''update'')"
| "write_request (CreateStatefulSet x) = (''apps'', ''statefulsets'', ''create'')"
| "write_request (UpdateStatefulSet x) = (''apps'', ''statefulsets'', ''update'')"
| "write_request (CreateCronJob x) = (''batch'', ''cronjobs'', ''create'')"
| "write_request (UpdateCronJob x) = (''batch'', ''cronjobs'', ''update'')"
| "write_request (DeleteCronJob x) = (''batch'', ''cronjobs'', ''delete'')"
| "write_request (UpdateCluster c) = (''memgraph.base14.io'', ''memgraphclusters'', ''update'')"
| "write_request (UpdateClusterStatus c) = (''memgraph.base14.io'', ''memgraphclusters/status'', ''update'')"

definition permitted :: "api_write \<Rightarrow> bool" where
  "permitted c = (case write_request c of (grp, resource, verb) \<Rightarrow> allows grp resource verb)"

lemma writes_permitted: "permitted c"
  by (cases c) (simp_all add: permitted_def allows_def rbac_markers_def Let_def)

text \<open>An object other than the cluster is of a kind whose changes start a pass of its owner.\<close>

definition watched :: "object_kind \<Rightarrow> bool" where
  "watched k \<longleftrightarrow> k = ForObject memgraph_controller \<or> k \<in> set (OwnedObjects memgraph_controller)"

lemma writes_watched: "watched (write_kind c)"
  by (cases c) (simp_all add: watched_def memgraph_controller_def)

end
