(* ===== verification/Pass_Writes.thy ===== *)
theory Pass_Writes
  imports Quiescence Registration
begin

text \<open>
  What a pass may write, whatever the outside answers. Every object it creates is the one the
  builders give for the cluster that was read, with the cluster as its owner; every update takes
  an object that was read and changes the fields that are the operator's; and the status it
  writes has the types and the enumerations of the custom resource definition.
\<close>

section \<open>Answers of the outside\<close>

definition may_answer :: "('s, 'a) state \<Rightarrow> 'a \<Rightarrow> bool" where
  "may_answer m x \<longleftrightarrow> (\<exists>s. fst (run_state m s) = x)"

lemma emits_read:
  assumes "\<And>x. may_answer m x \<Longrightarrow> state_io_rel (emits P) (f x)"
  shows "state_io_rel (emits P) (State_Monad.bind (external m) f)"
proof (rule emits.bind_rel_run [OF emits_external])
  fix x w w' assume "run_state (external m) w = (x, w')"
  then have "may_answer m x" by (auto simp: run_external may_answer_def)
  then show "state_io_rel (emits P) (f x)" by (rule assms)
qed

lemma emits_bind_result:
  assumes "state_io_rel (emits P) m" and "\<And>w. S (fst (run_state m w))"
    and "\<And>x. S x \<Longrightarrow> state_io_rel (emits P) (f x)"
  shows "state_io_rel (emits P) (State_Monad.bind m f)"
  by (rule emits.bind_rel_run [OF assms(1)]) (metis assms(2,3) fst_conv)

section \<open>The type of the status\<close>

definition validation_typed :: "ValidationStatus \<Rightarrow> bool" where
  "validation_typed v \<longleftrightarrow> is_int64 (ReplicationLagMs v) \<and>
     (\<forall>i \<in> set (Instances v). IVRole i \<in> {''MAIN'', ''REPLICA''} \<and> is_int64 (IVLagMs i))"

definition condition_values :: "Condition list \<Rightarrow> bool" where
  "condition_values cs \<longleftrightarrow> (\<forall>c \<in> set cs. CondStatus c \<in> {''True'', ''False'', ''Unknown''})"

definition status_typed :: "MemgraphClusterStatus \<Rightarrow> bool" where
  "status_typed st \<longleftrightarrow>
     Phase st \<in> {[], ClusterPhasePending, ClusterPhaseInitializing, ClusterPhaseRunning, ClusterPhaseFailed} \<and>
     is_int32 (ReadyInstances st) \<and> is_int32 (RegisteredReplicas st) \<and>
     (\<forall>v. Validation st = Some v \<longrightarrow> validation_typed v) \<and>
     condition_values (Conditions st)"

text \<open>The helper of the library changes one condition and keeps the others.\<close>

definition condition_helper_ok :: "'s env \<Rightarrow> bool" where
  "condition_helper_ok e \<longleftrightarrow>
     (\<forall>cs c. \<forall>x \<in> set (set_status_condition e cs c). x \<in> set cs \<or> CondStatus x = CondStatus c)"

lemma Milliseconds_int64: "is_int64 (Milliseconds (time_sub t u))"
proof -
  have "- (2 ^ 63) \<le> time_sub t u" "time_sub t u < 2 ^ 63"
    by (auto simp: time_sub_def duration_units)
  then show ?thesis
    by (auto simp: Milliseconds_def go_div_def is_int64_def duration_units)
qed

section \<open>The writes a pass may make\<close>

text \<open>The object a builder gives, owned by the cluster.\<close>

definition owned_by :: "'s env \<Rightarrow> MemgraphCluster \<Rightarrow> ObjectMeta \<Rightarrow> ObjectMeta \<Rightarrow> bool" where
  "owned_by e cluster built m \<longleftrightarrow> set_controller_reference e cluster built = Inr m"

definition keeps_type :: "'s env \<Rightarrow> MemgraphCluster \<Rightarrow> MemgraphCluster \<Rightarrow> bool" where
  "keeps_type e cluster c \<longleftrightarrow> same_object cluster c \<and>
     (condition_helper_ok e \<longrightarrow> status_typed (Status cluster) \<longrightarrow> status_typed (Status c))"

fun fair_write :: "'s env \<Rightarrow> MemgraphCluster \<Rightarrow> api_write \<Rightarrow> bool" where
  "fair_write e cluster (CreateService x) \<longleftrightarrow>
     (\<exists>built m wi. built \<in> {buildHeadlessService cluster, buildReadService cluster, buildWriteService cluster wi} \<and>
        owned_by e cluster (SvcMeta built) m \<and> x = built\<lparr>SvcMeta := m\<rparr>)"
| "fair_write e cluster (UpdateService x) \<longleftrightarrow>
     (\<exists>y m wi. owned_by e cluster (SvcMeta (buildWriteService cluster wi)) m \<and> wi \<noteq> [] \<and>
        may_answer (get_service_op e (Name m) (Namespace m)) (Inr y) \<and>
        x = y\<lparr>Selector := Selector (buildWriteService cluster wi)\<rparr>)"
| "fair_write e cluster (CreateStatefulSet x) \<longleftrightarrow>
     (\<exists>m. owned_by e cluster (StsMeta (buildStatefulSet e cluster)) m \<and>
        x = buildStatefulSet e cluster\<lparr>StsMeta := m\<rparr>)"
| "fair_write e cluster (UpdateStatefulSet x) \<longleftrightarrow>
     (\<exists>y m. owned_by e cluster (StsMeta (buildStatefulSet e cluster)) m \<and>
        may_answer (get_statefulset_op e (Name m) (Namespace m)) (Inr y) \<and>
        x = set_image (y\<lparr>StsReplicas := Some (desired_replicas cluster)\<rparr>) (cluster_image cluster))"
| "fair_write e cluster (CreateCronJob x) \<longleftrightarrow> IsEnabled (Snapshot (Spec cluster)) \<and>
     (\<exists>m. owned_by e cluster (CronMeta (buildSnapshotCronJob cluster)) m \<and>
        x = buildSnapshotCronJob cluster\<lparr>CronMeta := m\<rparr>)"
| "fair_write e cluster (UpdateCronJob x) \<longleftrightarrow> IsEnabled (Snapshot (Spec cluster)) \<and>
     (\<exists>y m. owned_by e cluster (CronMeta (buildSnapshotCronJob cluster)) m \<and>
        may_answer (get_cronjob_op e (Name m) (Namespace m)) (Inr y) \<and>
        x = y\<lparr>CronSpec := CronSpec (buildSnapshotCronJob cluster)\<rparr>)"
| "fair_write e cluster (DeleteCronJob x) \<longleftrightarrow> \<not> IsEnabled (Snapshot (Spec cluster)) \<and>
     may_answer (get_cronjob_op e (snapshot_name cluster) (cluster_ns cluster)) (Inr x)"
| "fair_write e cluster (UpdateCluster x) \<longleftrightarrow>
     x = cluster\<lparr>Meta := (if being_deleted cluster then remove_finalizer e (Meta cluster) finalizerName
       else add_finalizer e (Meta cluster) finalizerName)\<rparr>"
| "fair_write e cluster (UpdateClusterStatus x) \<longleftrightarrow> keeps_type e cluster x"

definition fair :: "'s env \<Rightarrow> MemgraphCluster \<Rightarrow> effect \<Rightarrow> bool" where
  "fair e cluster eff = (case eff of Write c \<Rightarrow> fair_write e cluster c | _ \<Rightarrow> True)"

lemma fair_simps [simp]:
  "fair e cluster (Exec r)" "fair e cluster (Event t rs msg)" "fair e cluster (Metric m)"
  "fair e cluster (Write c) \<longleftrightarrow> fair_write e cluster c"
  by (simp_all add: fair_def)

lemma quiet_fair: "state_io_rel (emits no_write) m \<Longrightarrow> state_io_rel (emits (fair e cluster)) m"
  by (erule emits_mono) (auto simp: no_write_def split: effect.splits)

lemma api_write_fair:
  "fair_write e cluster c \<Longrightarrow> state_io_rel (emits (fair e cluster)) (api_write e' c)"
  "fair_write e cluster c \<Longrightarrow> state_io_rel (emits (fair e cluster)) (api_write_cluster e' c)"
  unfolding api_write_def api_write_cluster_def by (intro rel_intros; simp)+

text \<open>The rules for code that has no writes of its own to justify.\<close>

lemmas fair_rules = emits.return_rel emits_emit emits_event api_write_fair
  if_rel case_option_rel case_sum_rel case_prod_rel case_list_rel let_rel

section \<open>The objects of the cluster\<close>

lemma ensureService_fair:
  assumes "built \<in> {buildHeadlessService cluster, buildReadService cluster}"
  shows "state_io_rel (emits (fair e cluster)) (ensureService e cluster built)"
  unfolding ensureService_def Let_def
  by (intro fair_rules emits_read) (use assms in \<open>auto simp: owned_by_def\<close>)

lemma services_fair:
  "state_io_rel (emits (fair e cluster)) (reconcileHeadlessService e cluster)"
  "state_io_rel (emits (fair e cluster)) (reconcileReadService e cluster)"
  unfolding reconcileHeadlessService_def reconcileReadService_def by (simp_all add: ensureService_fair)

lemma reconcileWriteService_fair:
  "state_io_rel (emits (fair e cluster)) (reconcileWriteService e cluster wi)"
  unfolding reconcileWriteService_def Let_def
  by (intro fair_rules emits_read emits.bind_rel [OF emits_event]) (auto simp: owned_by_def)

lemma cronjob_fair: "state_io_rel (emits (fair e cluster)) (reconcileSnapshotCronJob e cluster)"
  unfolding reconcileSnapshotCronJob_def deleteSnapshotCronJob_def Let_def
  by (intro fair_rules emits_read emits.bind_rel [OF api_write_fair(1)] emits.bind_rel [OF emits_event])
    (auto simp: owned_by_def)

text \<open>Whichever of the two fields differ, the StatefulSet written is the one read with both set.\<close>

lemma update_statefulset_fair:
  assumes "owned_by e cluster (StsMeta (buildStatefulSet e cluster)) m"
    and "may_answer (get_statefulset_op e (Name m) (Namespace m)) (Inr y)"
  shows "state_io_rel (emits (fair e cluster))
    (update_statefulset e y (buildStatefulSet e cluster\<lparr>StsMeta := m\<rparr>))"
proof (cases "StsReplicas y")
  case None
  then show ?thesis by (simp add: update_statefulset_def emits.return_rel)
next
  case (Some n)
  let ?n = "desired_replicas cluster" and ?i = "cluster_image cluster"
  have built: "the (StsReplicas (buildStatefulSet e cluster\<lparr>StsMeta := m\<rparr>)) = ?n"
    "ContainerImage (hd (Containers (TemplateSpec (buildStatefulSet e cluster\<lparr>StsMeta := m\<rparr>)))) = ?i"
    by (simp_all add: buildStatefulSet_def Let_def memgraph_container_def)
  have same: "y\<lparr>StsReplicas := Some ?n\<rparr> = y" if "n = ?n" using Some that by (cases y) simp
  have image: "set_image (y\<lparr>StsReplicas := Some ?n\<rparr>) ?i = y\<lparr>StsReplicas := Some ?n\<rparr>"
    if "Containers (TemplateSpec y) = c # cs" "ContainerImage c = ?i" for c cs
    using that by (simp add: set_image_def)
  have sent: "fair_write e cluster (UpdateStatefulSet x)"
    if "x = set_image (y\<lparr>StsReplicas := Some ?n\<rparr>) ?i" for x
    using assms that by auto
  show ?thesis
    unfolding update_statefulset_def Some option.case built scale_step_def image_step_def
    by (auto simp: same image split: list.split
        intro!: emits.bind_rel [OF emits_event] emits.bind_rel [OF api_write_fair(1)] fair_rules sent)
qed

lemma reconcileStatefulSet_fair: "state_io_rel (emits (fair e cluster)) (reconcileStatefulSet e cluster)"
  unfolding reconcileStatefulSet_def Let_def
  by (intro fair_rules emits_read emits.bind_rel [OF emits_event] emits.bind_rel [OF api_write_fair(1)]
      update_statefulset_fair) (auto simp: owned_by_def)

section \<open>The status\<close>

lemma keeps_type_refl: "keeps_type e cluster cluster"
  by (simp add: keeps_type_def)

lemma keeps_type_trans: "keeps_type e a b \<Longrightarrow> keeps_type e b c \<Longrightarrow> keeps_type e a c"
  by (auto simp: keeps_type_def intro: same_object_trans)

lemma snapshot_type: "keeps_type e c (snd (fst (run_state (updateSnapshotStatus e c) w)))"
  by (auto simp: keeps_type_def updateSnapshotStatus_def same_object_def status_typed_def
      split: prod.splits sum.splits option.splits)

lemma probe_int64:
  "is_int64 m \<Longrightarrow> is_int64 (fst (run_state (probe_replica e cluster wi v t0 ts pod m) w))"
  by (auto simp: probe_replica_def Let_def is_int64_int64 Milliseconds_int64
      split: sum.splits prod.splits if_splits)

lemma probes_int64:
  "is_int64 m \<Longrightarrow> is_int64 (fst (run_state (for_fold (probe_replica e cluster wi v t0 ts) pods m) w))"
proof (induction pods arbitrary: m w)
  case (Cons pod pods)
  obtain m1 w1 where p: "run_state (probe_replica e cluster wi v t0 ts pod m) w = (m1, w1)"
    by (cases "run_state (probe_replica e cluster wi v t0 ts pod m) w")
  have "is_int64 m1" using probe_int64 [OF Cons.prems, of e cluster wi v t0 ts pod w] p by simp
  from Cons.IH [OF this, of w1] show ?case by (simp add: p)
qed simp

lemma lag_int64:
  assumes "fst (run_state (testReplicationLag e cluster pods wi) w) = Inr lag"
  shows "is_int64 lag"
proof -
  have "is_int64 m" if "run_state (for_fold (probe_replica e cluster wi v t0 ts) pods 0) w' = (m, w'')"
    for v t0 ts m and w' w'' :: "'a world"
    using probes_int64 [of 0 e cluster wi v t0 ts pods w'] that by (simp add: is_int64_def)
  with assms show ?thesis
    by (auto simp: testReplicationLag_def Let_def split: sum.splits prod.splits if_splits)
qed

text \<open>The result of a validation: the roles and the lags.\<close>

definition result_typed :: "ValidationResult \<Rightarrow> bool" where
  "result_typed res \<longleftrightarrow> is_int64 (VReplicationLagMs res) \<and>
     (\<forall>i \<in> set (InstanceResults res). VRole i \<in> {''MAIN'', ''REPLICA''} \<and> is_int64 (VLagMs i))"

lemma ping_typed:
  "result_typed res \<Longrightarrow> result_typed (fst (run_state (ping_instance e cluster wi pod res) w))"
  by (auto simp: ping_instance_def result_typed_def is_int64_def Let_def split: option.splits prod.splits)

lemma pings_typed:
  "result_typed res \<Longrightarrow> result_typed (fst (run_state (for_fold (ping_instance e cluster wi) pods res) w))"
proof (induction pods arbitrary: res w)
  case (Cons pod pods)
  obtain r1 w1 where p: "run_state (ping_instance e cluster wi pod res) w = (r1, w1)"
    by (cases "run_state (ping_instance e cluster wi pod res) w")
  have "result_typed r1" using ping_typed [OF Cons.prems, of e cluster wi pod w] p by simp
  from Cons.IH [OF this, of w1] show ?case by (simp add: p)
qed simp

lemma RunValidation_typed: "result_typed (fst (run_state (RunValidation e cluster pods wi) w))"
proof -
  let ?r0 = "\<lparr>ConnectivityPassed = True, ReplicationPassed = True, VReplicationLagMs = 0, InstanceResults = []\<rparr>"
  obtain r1 w1 where p: "run_state (for_fold (ping_instance e cluster wi) pods ?r0) w = (r1, w1)"
    by (cases "run_state (for_fold (ping_instance e cluster wi) pods ?r0) w")
  have r1: "result_typed r1"
    using pings_typed [of ?r0 e cluster wi pods w] p by (simp add: result_typed_def is_int64_def)
  obtain q w2 where q: "run_state (testReplicationLag e cluster pods wi) w1 = (q, w2)"
    by (cases "run_state (testReplicationLag e cluster pods wi) w1")
  have "is_int64 lag" if "q = Inr lag" for lag
    using lag_int64 [of e cluster pods wi w1 lag] q that by simp
  with r1 show ?thesis
    by (auto simp: RunValidation_def p q result_typed_def Let_def split: sum.splits)
qed

lemma run_validation_type: "keeps_type e c (snd (fst (run_state (run_validation e' c pods wi) w)))"
proof -
  have "status_typed (Status (fst (run_state (UpdateValidationStatus e' c res) w')))"
    if "result_typed res" "status_typed (Status c)" for res w'
    using that by (auto simp: UpdateValidationStatus_def Let_def status_typed_def validation_typed_def
        result_typed_def instance_status_def split: prod.splits)
  with RunValidation_typed [of e' c pods wi] run_validation_same [of c e' pods wi w] show ?thesis
    by (auto simp: keeps_type_def run_validation_def split: prod.splits option.splits) (metis fst_conv)+
qed

lemma validation_type: "keeps_type e c (snd (fst (run_state (reconcileValidation e' c pods wi) w)))"
  using run_validation_type [of e c e' pods wi]
  by (auto simp: reconcileValidation_def keeps_type_refl split: prod.splits option.splits)

lemma conditions_typed:
  assumes "condition_helper_ok e" and "condition_values cs" and "condition_values news"
  shows "condition_values (fold (\<lambda>c cs. set_status_condition e cs c) news cs)"
  using assms(2,3)
proof (induction news arbitrary: cs)
  case (Cons n news)
  have "condition_values (set_status_condition e cs n)"
    unfolding condition_values_def
  proof
    fix x assume "x \<in> set (set_status_condition e cs n)"
    then have "x \<in> set cs \<or> CondStatus x = CondStatus n"
      using assms(1) unfolding condition_helper_ok_def by blast
    then show "CondStatus x \<in> {''True'', ''False'', ''Unknown''}"
    proof
      assume "x \<in> set cs"
      then show ?thesis using Cons.prems(1) unfolding condition_values_def by blast
    next
      assume "CondStatus x = CondStatus n"
      then show ?thesis using Cons.prems(2) unfolding condition_values_def by simp
    qed
  qed
  moreover have "condition_values news" using Cons.prems(2) by (simp add: condition_values_def)
  ultimately show ?case by (simp add: Cons.IH)
qed simp

lemma the_conditions_values: "condition_values (the_conditions t wi a b k l)"
  unfolding condition_values_def
proof
  fix x assume "x \<in> set (the_conditions t wi a b k l)"
  then have "\<exists>ok. CondStatus x = conditionStatus ok" by (auto simp: the_conditions_def Let_def)
  then show "CondStatus x \<in> {''True'', ''False'', ''Unknown''}"
    by (auto simp: conditionStatus_def split: if_splits)
qed

lemma status_update_type:
  assumes "is_int32 registered"
  shows "keeps_type e c (fst (run_state (updateConditions e (status_update c pods wi registered) wi a b k l) w))"
proof -
  have "is_int32 (ready_count pods)" by (simp add: ready_count_def is_int32_int32)
  moreover have "phase_of (ready_count pods) (desired_replicas c) \<in>
      {[], ClusterPhasePending, ClusterPhaseInitializing, ClusterPhaseRunning, ClusterPhaseFailed}"
    by (simp add: phase_of_def)
  ultimately show ?thesis
    using assms
    by (simp add: conditions_typed [OF _ _ the_conditions_values] keeps_type_def updateConditions_def status_update_def same_object_def status_typed_def
        del: insert_iff split: prod.splits)
qed

lemma health_int32:
  "fst (run_state (CheckReplicationHealth e cluster wi) w) = Inr (health, rs) \<Longrightarrow> is_int32 (TotalReplicas health)"
  by (auto simp: CheckReplicationHealth_def Let_def is_int32_int32 split: if_splits sum.splits prod.splits)

lemma configure_step_int32: "is_int32 (fst (fst (run_state (configure_step e cluster pods wi) w)))"
proof -
  have zero: "is_int32 0" by (simp add: is_int32_def)
  have health: "is_int32 (TotalReplicas h)"
    if "run_state (CheckReplicationHealth e cluster wi) w' = (Inr (h, rs), w'')" for h rs w' w''
    using health_int32 [of e cluster wi w' h rs] that by simp
  show ?thesis
    by (auto simp: configure_step_def zero dest: health split: prod.splits option.splits sum.splits)
qed

section \<open>The pass\<close>

text \<open>Sequencing after an operation that returns the object, its type kept.\<close>

lemma bind_keeps_type:
  assumes "state_io_rel (emits P) m" and "\<And>w. keeps_type e c (snd (fst (run_state m w)))"
    and "\<And>x c'. keeps_type e c c' \<Longrightarrow> state_io_rel (emits P) (f x c')"
  shows "state_io_rel (emits P) (do { (x, c') \<leftarrow> m; f x c' })"
  by (rule emits_bind_result [where S = "\<lambda>p. keeps_type e c (snd p)"]) (use assms in \<open>auto split: prod.splits\<close>)

lemma write_status_fair:
  "keeps_type e cluster c \<Longrightarrow> state_io_rel (emits (fair e cluster)) (write_status e c)"
  unfolding write_status_def by (intro emits.bind_rel [OF api_write_fair(2)] fair_rules) simp

lemma updateStatus_fair:
  assumes "keeps_type e cluster c" and "is_int32 registered"
  shows "state_io_rel (emits (fair e cluster)) (updateStatus e c pods wi registered healthy)"
  unfolding updateStatus_def
proof (rule emits_bind_result [where S = "keeps_type e cluster"])
  show "state_io_rel (emits (fair e cluster))
      (updateConditions e (status_update c pods wi registered) wi a b k l)" for a b k l
    by (rule quiet_fair) (rule others_quiet)
qed (auto intro: write_status_fair keeps_type_trans [OF assms(1) status_update_type [OF assms(2)]])

lemma finish_fair:
  assumes "is_int32 registered"
  shows "state_io_rel (emits (fair e cluster)) (finish_resources e cluster pods wi registered healthy er)"
proof -
  let ?v = "\<lambda>c. if Phase (Status c) = ClusterPhaseRunning then reconcileValidation e c pods wi
      else State_Monad.return (None, c)"
  have v: "state_io_rel (emits (fair e cluster)) (?v c)" for c
    by (intro if_rel quiet_fair reconcileValidation_quiet emits.return_rel)
  have vt: "keeps_type e cluster (snd (fst (run_state (?v c) w)))" if "keeps_type e cluster c" for c w
    using keeps_type_trans [OF that validation_type [of e c e pods wi w]] that by simp
  show ?thesis
    unfolding finish_resources_def
    apply (rule emits.bind_rel [OF cronjob_fair])
    apply (rule bind_keeps_type [OF quiet_fair [OF others_quiet(1)] snapshot_type])
    apply (rule bind_keeps_type [OF v vt], assumption)
    apply (rule emits.bind_rel [OF quiet_fair [OF others_quiet(4)]])
    apply (rule emits.bind_rel [OF updateStatus_fair [OF _ assms]], assumption)
    apply (intro fair_rules)
    done
qed

lemma members_fair: "state_io_rel (emits (fair e cluster)) (reconcile_members e cluster pods)"
proof -
  have "state_io_rel (emits (fair e cluster)) (do {
      (registered, healthy, er) \<leftarrow> configure_step e cluster pods wi;
      finish_resources e cluster pods wi registered healthy er })" for wi
    by (rule emits_bind_result [where S = "\<lambda>x. is_int32 (fst x)", OF quiet_fair [OF others_quiet(5)]])
      (auto intro: configure_step_int32 finish_fair split: prod.splits)
  then show ?thesis
    unfolding reconcile_members_def Let_def failed_def
    by (intro emits.bind_rel [OF reconcileWriteService_fair] emits.bind_rel [OF services_fair(2)] fair_rules)
qed

lemma resources_fair: "state_io_rel (emits (fair e cluster)) (reconcileResources e cluster)"
  unfolding reconcileResources_def failed_def
  by (intro emits.bind_rel [OF services_fair(1)] emits.bind_rel [OF reconcileStatefulSet_fair]
      emits.bind_rel [OF quiet_fair [OF others_quiet(2)]] members_fair fair_rules)

lemma reconcile_cluster_fair: "state_io_rel (emits (fair e cluster)) (reconcile_cluster e t0 cluster)"
proof -
  have "state_io_rel (emits (fair e cluster)) (RecordReconcileDuration n ns d)"
    "state_io_rel (emits (fair e cluster)) (RecordReconcileOperation n ns r)" for n ns d r
    by (rule quiet_fair, intro rel_intros)+
  then show ?thesis
    unfolding reconcile_cluster_def
    by (intro emits.bind_rel [OF resources_fair] emits.bind_rel [OF emits_now] emits.bind_rel
        quiet_fair [OF others_quiet(6)] fair_rules) simp_all
qed

lemma pending_type: "keeps_type e cluster (cluster\<lparr>Status := (Status cluster)\<lparr>Phase := ClusterPhasePending\<rparr>\<rparr>)"
  by (simp add: keeps_type_def same_object_def status_typed_def)

lemma found_fair: "state_io_rel (emits (fair e cluster)) (reconcile_found e t0 cluster)"
  unfolding reconcile_found_def handleDeletion_def
  by (intro fair_rules emits.bind_rel write_status_fair [OF pending_type] reconcile_cluster_fair) simp_all

text \<open>The writes of a pass are fair to a cluster it read.\<close>

lemma Reconcile_fair:
  assumes "Write c \<in> set (calls (Reconcile e name ns) w)"
  shows "\<exists>cluster. may_answer (get_cluster_op e name ns) (Inr cluster) \<and> fair_write e cluster c"
proof -
  let ?P = "\<lambda>eff. \<forall>c. eff = Write c \<longrightarrow>
    (\<exists>cluster. may_answer (get_cluster_op e name ns) (Inr cluster) \<and> fair_write e cluster c)"
  have found: "state_io_rel (emits ?P) (reconcile_found e t0 cluster)"
    if "may_answer (get_cluster_op e name ns) (Inr cluster)" for t0 cluster
    by (rule emits_mono [OF found_fair]) (use that in auto)
  have quiet: "state_io_rel (emits ?P) m" if "state_io_rel (emits no_write) m" for m :: "('s, 'b) op"
    by (rule emits_mono [OF that]) auto
  have "state_io_rel (emits ?P) (Reconcile e name ns)"
    unfolding Reconcile_def
    apply (rule emits.bind_rel [OF emits_now])
    apply (rule emits.bind_rel [OF emits_modify], simp)
    apply (rule emits_read)
    apply (rule case_sum_rel)
     apply (rule quiet, unfold DeleteClusterState_def, intro rel_intros; simp)
    apply (simp add: found)
    done
  from calls_emits [OF this assms] show ?thesis by blast
qed

text \<open>C3: The operator writes only what is its own. Whatever the API server and Memgraph answer,
  every write of a pass belongs to a cluster that was read for the request: an object it creates
  is the one built for the cluster with the cluster as owner; of a service that was read it
  changes the selector only, of a StatefulSet the replicas and the first image, of a CronJob the
  spec; it deletes the CronJob only when snapshots are disabled; of the cluster it changes the
  finalizer or the status. Each such request is allowed by the permissions the operator asks
  for, and concerns a kind whose changes the controller watches.\<close>

theorem writes_owned:
  assumes "Write c \<in> set (calls (Reconcile e name ns) w)"
  shows "\<exists>cluster. may_answer (get_cluster_op e name ns) (Inr cluster) \<and> fair_write e cluster c \<and>
    permitted c \<and> watched (write_kind c)"
  using Reconcile_fair [OF assms] writes_permitted writes_watched by blast

text \<open>A pass of a running cluster, which writes its status.\<close>

lemma running_pass:
  "\<exists>c. Write (UpdateClusterStatus c) \<in> set (calls (Reconcile running_env ''mg'' ''db'') (quiet_world ()))"
proof -
  have "always (get_cluster_op running_env ''mg'' ''db'') (Inr running_cluster)"
    by (simp add: running_env_def quiet_env_def always_def)
  moreover have "\<not> being_deleted running_cluster" "Phase (Status running_cluster) \<noteq> []"
    "contains_finalizer running_env (Meta running_cluster) finalizerName"
    by (simp_all add: being_deleted_def running_cluster_def bare_cluster_def mk_meta_def
        running_env_def quiet_env_def go_consts)
  moreover have "Write c \<in> set tr" if "c \<in> set (writes tr)" for c tr
    using that by (induction tr) (auto simp: writes_def split: effect.splits)
  ultimately show ?thesis
    using pass_wrote [of running_env "''mg''" "''db''" running_cluster running_pods, OF _ _ _ _ _ reports_same,
        of "quiet_world ()"] running_in_sync
    by (simp add: quiet_world_def calls_def) (metis list.set_intros(1))
qed

lemma running_answer:
  "may_answer (get_cluster_op running_env ''mg'' ''db'') (Inr cluster) \<longleftrightarrow> cluster = running_cluster"
  by (auto simp: may_answer_def running_env_def)

lemma writes_owned_witness:
  "\<exists>c. Write (UpdateClusterStatus c) \<in> set (calls (Reconcile running_env ''mg'' ''db'') (quiet_world ())) \<and>
     same_object running_cluster c"
proof -
  obtain c where c: "Write (UpdateClusterStatus c) \<in>
      set (calls (Reconcile running_env ''mg'' ''db'') (quiet_world ()))" using running_pass by blast
  from writes_owned [OF this] have "same_object running_cluster c"
    by (auto simp: running_answer keeps_type_def)
  with c show ?thesis by blast
qed

text \<open>C13: The status has its declared type. If the object read has one of the declared phases, 32 bit
  counts, 64 bit lags, instance roles MAIN or REPLICA and condition values True, False or
  Unknown, then so has every status a pass writes for it: the counts of pods and replicas and
  the lags computed from Memgraph's answers never leave the range the resource definition
  declares.\<close>

theorem status_types:
  assumes "condition_helper_ok e"
    and "\<And>cluster. may_answer (get_cluster_op e name ns) (Inr cluster) \<Longrightarrow> status_typed (Status cluster)"
    and "Write (UpdateClusterStatus c) \<in> set (calls (Reconcile e name ns) w)"
  shows "status_typed (Status c)"
  using Reconcile_fair [OF assms(3)] assms(1,2) by (auto simp: keeps_type_def)

lemma status_types_witness:
  "\<exists>c. Write (UpdateClusterStatus c) \<in> set (calls (Reconcile running_env ''mg'' ''db'') (quiet_world ())) \<and>
     status_typed (Status c)"
proof -
  obtain c where c: "Write (UpdateClusterStatus c) \<in>
      set (calls (Reconcile running_env ''mg'' ''db'') (quiet_world ()))" using running_pass by blast
  have "condition_helper_ok running_env"
    by (auto simp: condition_helper_ok_def running_env_def quiet_env_def)
  moreover have "status_typed (Status running_cluster)"
    by (simp add: status_typed_def running_cluster_def bare_cluster_def bare_status_def is_int32_def
        condition_values_def)
  ultimately have "status_typed (Status c)"
    by (intro status_types [OF _ _ c]) (simp_all add: running_answer)
  with c show ?thesis by blast
qed

end
