(* ===== verification/Go_Store.thy ===== *)
theory Go_Store
  imports Prelude "HOL-Library.AList"
begin

text \<open>
  Memory as Go code sees it when pointers matter: cells at addresses, allocated in order and
  never freed. A cell has one component for every type the code allocates, of which the code
  uses the one of the cell's own type; \<open>cell_type\<close> names the component. A pointer is an
  \<open>addr option\<close> whose \<open>None\<close> is nil, a slice or a map is a pointer to its backing array.
  The locale \<open>deep_copy\<close> is the contract of a copying function: a result with the same value,
  built from new cells only. Pointers, slices and maps of copied values inherit it.
\<close>

section \<open>Cells\<close>

type_synonym addr = nat

record 'c store =
  cells :: "addr \<Rightarrow> 'c"
  brk :: addr

record ('c, 'a) cell_type =
  peek :: "'c \<Rightarrow> 'a"
  poke :: "'a \<Rightarrow> 'c \<Rightarrow> 'c"
  zero_val :: 'a

definition new :: "('c, 'a) cell_type \<Rightarrow> 'a \<Rightarrow> ('c store, addr) state" where
  "new T v = State (\<lambda>m. (brk m,
     m\<lparr>cells := (cells m)(brk m := poke T v (cells m (brk m))), brk := Suc (brk m)\<rparr>))"

definition load :: "('c, 'a) cell_type \<Rightarrow> addr \<Rightarrow> ('c store, 'a) state" where
  "load T a = gets (\<lambda>m. peek T (cells m a))"

definition assign :: "('c, 'a) cell_type \<Rightarrow> addr \<Rightarrow> 'a \<Rightarrow> ('c store, unit) state" where
  "assign T a v = modify (\<lambda>m. m\<lparr>cells := (cells m)(a := poke T v (cells m a))\<rparr>)"

definition proper_cell :: "('c, 'a) cell_type \<Rightarrow> bool" where
  "proper_cell T \<longleftrightarrow> (\<forall>v c. peek T (poke T v c) = v)"

lemma peek_poke: "proper_cell T \<Longrightarrow> peek T (poke T v c) = v"
  by (simp add: proper_cell_def)

lemma run_new: "run_state (new T v) m = (brk m,
     m\<lparr>cells := (cells m)(brk m := poke T v (cells m (brk m))), brk := Suc (brk m)\<rparr>)"
  by (simp add: new_def)

lemma run_load: "run_state (load T a) m = (peek T (cells m a), m)"
  by (simp add: load_def)

lemma run_assign:
  "run_state (assign T a v) m = ((), m\<lparr>cells := (cells m)(a := poke T v (cells m a))\<rparr>)"
  by (simp add: assign_def)

lemmas run_cells = run_new run_load run_assign

text \<open>Memory grows: what was allocated before keeps its contents.\<close>

definition grows :: "'c store \<Rightarrow> 'c store \<Rightarrow> bool" where
  "grows m m' \<longleftrightarrow> brk m \<le> brk m' \<and> (\<forall>a < brk m. cells m' a = cells m a)"

interpretation grows: frame grows
  by unfold_locales (auto simp: grows_def)

section \<open>Values and footprints\<close>

text \<open>
  A view reads a Go value: whether it is well formed (its pointers are allocated), the cells it
  is made of, and the value it stands for.
\<close>

record ('c, 'a, 'v) view =
  ok :: "'c store \<Rightarrow> 'a \<Rightarrow> bool"
  foot :: "'c store \<Rightarrow> 'a \<Rightarrow> addr set"
  val :: "'c store \<Rightarrow> 'a \<Rightarrow> 'v"

definition plain_view :: "('a \<Rightarrow> 'v) \<Rightarrow> ('c, 'a, 'v) view" where
  "plain_view f = \<lparr>ok = (\<lambda>m x. True), foot = (\<lambda>m x. {}), val = (\<lambda>m x. f x)\<rparr>"

definition pointer_view ::
    "('c, 'a) cell_type \<Rightarrow> ('c, 'a, 'v) view \<Rightarrow> ('c, addr option, 'v option) view" where
  "pointer_view T V =
     \<lparr>ok = (\<lambda>m p. case p of None \<Rightarrow> True | Some a \<Rightarrow> a < brk m \<and> ok V m (peek T (cells m a))),
      foot = (\<lambda>m p. case p of None \<Rightarrow> {} | Some a \<Rightarrow> insert a (foot V m (peek T (cells m a)))),
      val = (\<lambda>m p. case p of None \<Rightarrow> None | Some a \<Rightarrow> Some (val V m (peek T (cells m a))))\<rparr>"

definition slice_view ::
    "('c, 'a list) cell_type \<Rightarrow> ('c, 'a, 'v) view \<Rightarrow> ('c, addr option, 'v list option) view" where
  "slice_view T V =
     \<lparr>ok = (\<lambda>m p. case p of None \<Rightarrow> True
        | Some a \<Rightarrow> a < brk m \<and> list_all (ok V m) (peek T (cells m a))),
      foot = (\<lambda>m p. case p of None \<Rightarrow> {}
        | Some a \<Rightarrow> insert a (\<Union>x \<in> set (peek T (cells m a)). foot V m x)),
      val = (\<lambda>m p. case p of None \<Rightarrow> None | Some a \<Rightarrow> Some (map (val V m) (peek T (cells m a))))\<rparr>"

text \<open>A map cell holds its entries in iteration order, with distinct keys.\<close>

definition map_view ::
    "('c, ('k \<times> 'v) list) cell_type \<Rightarrow> ('c, addr option, ('k \<rightharpoonup> 'v) option) view" where
  "map_view T =
     \<lparr>ok = (\<lambda>m p. case p of None \<Rightarrow> True
        | Some a \<Rightarrow> a < brk m \<and> distinct (map fst (peek T (cells m a)))),
      foot = (\<lambda>m p. case p of None \<Rightarrow> {} | Some a \<Rightarrow> {a}),
      val = (\<lambda>m p. case p of None \<Rightarrow> None | Some a \<Rightarrow> Some (map_of (peek T (cells m a))))\<rparr>"

lemmas view_defs = plain_view_def pointer_view_def slice_view_def map_view_def

text \<open>A view is local: it depends on the cells of the footprint only.\<close>

definition local_view :: "('c, 'a, 'v) view \<Rightarrow> bool" where
  "local_view V \<longleftrightarrow> (\<forall>m m' x. ok V m x \<longrightarrow> foot V m x \<subseteq> {..<brk m} \<and>
     (brk m \<le> brk m' \<longrightarrow> (\<forall>a \<in> foot V m x. cells m' a = cells m a) \<longrightarrow>
      ok V m' x \<and> foot V m' x = foot V m x \<and> val V m' x = val V m x))"

lemma local_viewI:
  assumes "\<And>m x. ok V m x \<Longrightarrow> foot V m x \<subseteq> {..<brk m}"
    and "\<And>m m' x. ok V m x \<Longrightarrow> brk m \<le> brk m' \<Longrightarrow> (\<forall>a \<in> foot V m x. cells m' a = cells m a) \<Longrightarrow>
      ok V m' x \<and> foot V m' x = foot V m x \<and> val V m' x = val V m x"
  shows "local_view V"
  using assms unfolding local_view_def by blast

lemma local_below: "local_view V \<Longrightarrow> ok V m x \<Longrightarrow> foot V m x \<subseteq> {..<brk m}"
  unfolding local_view_def by blast

lemma local_agree:
  "local_view V \<Longrightarrow> ok V m x \<Longrightarrow> brk m \<le> brk m' \<Longrightarrow> (\<forall>a \<in> foot V m x. cells m' a = cells m a) \<Longrightarrow>
   ok V m' x \<and> foot V m' x = foot V m x \<and> val V m' x = val V m x"
  unfolding local_view_def by blast

lemma local_grows:
  assumes "local_view V" and "ok V m x" and "grows m m'"
  shows "ok V m' x \<and> foot V m' x = foot V m x \<and> val V m' x = val V m x"
proof (rule local_agree [OF assms(1,2)])
  show "brk m \<le> brk m'" using assms(3) by (simp add: grows_def)
  show "\<forall>a \<in> foot V m x. cells m' a = cells m a"
    using local_below [OF assms(1,2)] assms(3) unfolding grows_def by blast
qed

lemma local_plain: "local_view (plain_view f)"
  by (rule local_viewI) (auto simp: plain_view_def)

lemma local_pointer:
  assumes "local_view V"
  shows "local_view (pointer_view T V)"
proof (rule local_viewI)
  show "ok (pointer_view T V) m x \<Longrightarrow> foot (pointer_view T V) m x \<subseteq> {..<brk m}" for m x
    using local_below [OF assms] by (auto simp: pointer_view_def split: option.splits)
  show "ok (pointer_view T V) m' x \<and> foot (pointer_view T V) m' x = foot (pointer_view T V) m x \<and>
      val (pointer_view T V) m' x = val (pointer_view T V) m x"
    if "ok (pointer_view T V) m x" "brk m \<le> brk m'"
      "\<forall>a \<in> foot (pointer_view T V) m x. cells m' a = cells m a" for m m' x
    using that local_agree [OF assms, of m _ m']
    by (auto simp: pointer_view_def split: option.splits)
qed

lemma local_slice:
  assumes "local_view V"
  shows "local_view (slice_view T V)"
proof (rule local_viewI)
  show "ok (slice_view T V) m x \<Longrightarrow> foot (slice_view T V) m x \<subseteq> {..<brk m}" for m x
    using local_below [OF assms] by (fastforce simp: slice_view_def list_all_iff split: option.splits)
  show "ok (slice_view T V) m' x \<and> foot (slice_view T V) m' x = foot (slice_view T V) m x \<and>
      val (slice_view T V) m' x = val (slice_view T V) m x"
    if *: "ok (slice_view T V) m x" "brk m \<le> brk m'"
      "\<forall>a \<in> foot (slice_view T V) m x. cells m' a = cells m a" for m m' x
  proof (cases x)
    case (Some a)
    have same: "cells m' a = cells m a"
      using * Some by (simp add: slice_view_def)
    have elem: "ok V m' y \<and> foot V m' y = foot V m y \<and> val V m' y = val V m y"
      if "y \<in> set (peek T (cells m a))" for y
      using * Some that by (intro local_agree [OF assms]) (auto simp: slice_view_def list_all_iff)
    show ?thesis
      using * Some same elem by (auto simp: slice_view_def list_all_iff)
  qed (simp add: slice_view_def)
qed

lemma local_map: "local_view (map_view T)"
  by (rule local_viewI) (auto simp: map_view_def split: option.splits)

text \<open>
  A struct is read field by field: \<open>field_view\<close> looks through a selector, \<open>both_view\<close> joins
  two views and \<open>struct_view\<close> builds the value from the struct and what its fields read.
\<close>

definition field_view :: "('a \<Rightarrow> 'b) \<Rightarrow> ('c, 'b, 'v) view \<Rightarrow> ('c, 'a, 'v) view" where
  "field_view f V = \<lparr>ok = (\<lambda>m x. ok V m (f x)), foot = (\<lambda>m x. foot V m (f x)),
     val = (\<lambda>m x. val V m (f x))\<rparr>"

definition both_view :: "('c, 'a, 'u) view \<Rightarrow> ('c, 'a, 'v) view \<Rightarrow> ('c, 'a, 'u \<times> 'v) view" where
  "both_view V W = \<lparr>ok = (\<lambda>m x. ok V m x \<and> ok W m x), foot = (\<lambda>m x. foot V m x \<union> foot W m x),
     val = (\<lambda>m x. (val V m x, val W m x))\<rparr>"

definition struct_view :: "('a \<Rightarrow> 'u \<Rightarrow> 'v) \<Rightarrow> ('c, 'a, 'u) view \<Rightarrow> ('c, 'a, 'v) view" where
  "struct_view g V = \<lparr>ok = ok V, foot = foot V, val = (\<lambda>m x. g x (val V m x))\<rparr>"

lemma local_field: "local_view V \<Longrightarrow> local_view (field_view f V)"
  unfolding local_view_def field_view_def view.simps by blast

lemma local_both:
  assumes "local_view V" and "local_view W"
  shows "local_view (both_view V W)"
proof (rule local_viewI)
  show "ok (both_view V W) m x \<Longrightarrow> foot (both_view V W) m x \<subseteq> {..<brk m}" for m x
    using local_below [OF assms(1)] local_below [OF assms(2)] by (simp add: both_view_def)
  show "ok (both_view V W) m' x \<and> foot (both_view V W) m' x = foot (both_view V W) m x \<and>
      val (both_view V W) m' x = val (both_view V W) m x"
    if "ok (both_view V W) m x" "brk m \<le> brk m'"
      "\<forall>a \<in> foot (both_view V W) m x. cells m' a = cells m a" for m m' x
    using that local_agree [OF assms(1), of m x m'] local_agree [OF assms(2), of m x m']
    by (simp add: both_view_def)
qed

lemma local_struct: "local_view V \<Longrightarrow> local_view (struct_view g V)"
  unfolding local_view_def struct_view_def view.simps by metis

lemmas local_rules = local_plain local_pointer local_slice local_map local_field local_both local_struct

lemma ok_struct [simp]:
  "ok (field_view f U) m y = ok U m (f y)"
  "ok (both_view V W) m x \<longleftrightarrow> ok V m x \<and> ok W m x"
  "ok (struct_view g V) m x = ok V m x"
  by (simp_all add: field_view_def both_view_def struct_view_def)

section \<open>The contract of a copy\<close>

text \<open>
  \<open>copied V m x m' y\<close>: in the memory \<open>m'\<close>, grown from \<open>m\<close>, \<open>y\<close> has the value \<open>x\<close> has in \<open>m\<close> and
  is made of cells that \<open>m\<close> has not got.
\<close>

definition copied :: "('c, 'a, 'v) view \<Rightarrow> 'c store \<Rightarrow> 'a \<Rightarrow> 'c store \<Rightarrow> 'a \<Rightarrow> bool" where
  "copied V m x m' y \<longleftrightarrow>
     ok V m' y \<and> val V m' y = val V m x \<and> foot V m' y \<subseteq> {brk m..<brk m'}"

lemma copied_both:
  "copied (both_view V W) m x m' y \<longleftrightarrow> copied V m x m' y \<and> copied W m x m' y"
  by (auto simp: copied_def both_view_def)

lemma copied_field: "copied (field_view f V) m x m' y \<longleftrightarrow> copied V m (f x) m' (f y)"
  by (simp add: copied_def field_view_def)

lemma copied_struct:
  "copied V m x m' y \<Longrightarrow> (\<And>u. g y u = g x u) \<Longrightarrow> copied (struct_view g V) m x m' y"
  by (simp add: copied_def struct_view_def)

locale deep_copy =
  fixes V :: "('c, 'a, 'v) view" and copy :: "'a \<Rightarrow> ('c store, 'a) state"
  assumes view_local: "local_view V"
    and copy_grows: "ok V m x \<Longrightarrow> run_state (copy x) m = (y, m') \<Longrightarrow> grows m m'"
    and copy_copied: "ok V m x \<Longrightarrow> run_state (copy x) m = (y, m') \<Longrightarrow> copied V m x m' y"
begin

lemma copy_disjoint:
  assumes "ok V m x" and "run_state (copy x) m = (y, m')"
  shows "foot V m' x \<inter> foot V m' y = {}" and "foot V m' x = foot V m x"
    and "ok V m' x" and "val V m' x = val V m x"
proof -
  note x = local_grows [OF view_local assms(1) copy_grows [OF assms]]
  show "foot V m' x = foot V m x" and "ok V m' x" and "val V m' x = val V m x"
    using x by auto
  show "foot V m' x \<inter> foot V m' y = {}"
    using x local_below [OF view_local assms(1)] copy_copied [OF assms]
    by (fastforce simp: copied_def)
qed

text \<open>The original and the copy do not see each other's writes.\<close>

lemma copy_isolated:
  assumes "ok V m x" and "run_state (copy x) m = (y, m')" and "brk m' \<le> brk m''"
  shows "(\<forall>a. a \<notin> foot V m' x \<longrightarrow> cells m'' a = cells m' a) \<Longrightarrow> val V m'' y = val V m x"
    and "(\<forall>a. a \<notin> foot V m' y \<longrightarrow> cells m'' a = cells m' a) \<Longrightarrow> val V m'' x = val V m x"
proof -
  note d = copy_disjoint [OF assms(1,2)] and c = copy_copied [OF assms(1,2)]
  have y: "ok V m' y" "val V m' y = val V m x"
    using c by (auto simp: copied_def)
  show "val V m'' y = val V m x" if "\<forall>a. a \<notin> foot V m' x \<longrightarrow> cells m'' a = cells m' a"
  proof -
    have "\<forall>a \<in> foot V m' y. cells m'' a = cells m' a" using that d(1) by blast
    with local_agree [OF view_local y(1) assms(3)] y(2) show ?thesis by simp
  qed
  show "val V m'' x = val V m x" if "\<forall>a. a \<notin> foot V m' y \<longrightarrow> cells m'' a = cells m' a"
  proof -
    have "\<forall>a \<in> foot V m' x. cells m'' a = cells m' a" using that d(1) by blast
    with local_agree [OF view_local d(3) assms(3)] d(4) show ?thesis by simp
  qed
qed

end

text \<open>
  Copying the fields of a struct one after the other. \<open>builds m f Q m1\<close>: from \<open>m1\<close>, a memory
  grown from \<open>m\<close>, the block \<open>f\<close> only grows the memory and ends with \<open>Q\<close>.
\<close>

definition builds :: "'c store \<Rightarrow> ('c store, 'a) state \<Rightarrow> ('c store \<Rightarrow> 'a \<Rightarrow> bool) \<Rightarrow> bool" where
  "builds m f Q \<longleftrightarrow> (\<forall>m1 y m'. grows m m1 \<longrightarrow> run_state f m1 = (y, m') \<longrightarrow> grows m1 m' \<and> Q m' y)"

lemma builds_return: "(\<And>m'. grows m m' \<Longrightarrow> Q m' y) \<Longrightarrow> builds m (State_Monad.return y) Q"
  by (auto simp: builds_def grows.frame_refl)

lemma builds_copy:
  assumes "deep_copy V c" and "ok V m x"
    and f: "\<And>y. builds m (f y) (\<lambda>m' z. copied V m x m' y \<longrightarrow> Q m' z)"
  shows "builds m (State_Monad.bind (c x) f) Q"
  unfolding builds_def
proof (intro allI impI)
  note local = deep_copy.view_local [OF assms(1)] and grows = deep_copy.copy_grows [OF assms(1)]
    and copied = deep_copy.copy_copied [OF assms(1)]
  fix m1 z m'
  assume g: "grows m m1" and r: "run_state (State_Monad.bind (c x) f) m1 = (z, m')"
  obtain y m2 where y: "run_state (c x) m1 = (y, m2)" by (cases "run_state (c x) m1")
  then have z: "run_state (f y) m2 = (z, m')" using r by simp
  note x1 = local_grows [OF local assms(2) g]
  have g2: "grows m1 m2" and c2: "copied V m1 x m2 y"
    using grows copied x1 y by blast+
  have gm2: "grows m m2" using g g2 by (rule grows.frame_trans)
  have g3: "grows m2 m'" and Q: "copied V m x m' y \<longrightarrow> Q m' z"
    using f [of y] gm2 z by (auto simp: builds_def)
  have "copied V m x m' y"
    using local_grows [OF local _ g3, of y] c2 x1 g g3
    by (auto simp: copied_def grows_def)
  then show "grows m1 m' \<and> Q m' z"
    using Q grows.frame_trans [OF g2 g3] by simp
qed

lemma deep_copyI:
  assumes "local_view V" and "\<And>m x. ok V m x \<Longrightarrow> builds m (c x) (\<lambda>m' y. copied V m x m' y)"
  shows "deep_copy V c"
proof
  show "local_view V" by (rule assms(1))
  show "grows m m'" if "ok V m x" "run_state (c x) m = (y, m')" for m x y m'
    using assms(2) [OF that(1)] that(2) grows.frame_refl unfolding builds_def by blast
  show "copied V m x m' y" if "ok V m x" "run_state (c x) m = (y, m')" for m x y m'
    using assms(2) [OF that(1)] that(2) grows.frame_refl unfolding builds_def by blast
qed

section \<open>Copying pointers, slices and maps\<close>

text \<open>
  \<open>if p != nil { *out = new(T); (*p).DeepCopyInto(*out) }\<close>. With \<open>return\<close> for the copy it is
  \<open>*out = new(T); **out = **p\<close>.
\<close>

definition copy_pointer ::
    "('c, 'a) cell_type \<Rightarrow> ('a \<Rightarrow> ('c store, 'a) state) \<Rightarrow> addr option \<Rightarrow>
     ('c store, addr option) state" where
  "copy_pointer T copy p = (case p of None \<Rightarrow> State_Monad.return None
   | Some a \<Rightarrow> do {
       b \<leftarrow> new T (zero_val T);
       v \<leftarrow> load T a;
       v' \<leftarrow> copy v;
       assign T b v';
       State_Monad.return (Some b)
     })"

text \<open>
  \<open>if p != nil { *out = make([]T, len(*p)); for i := range *p { (*p)[i].DeepCopyInto(&(*out)[i]) } }\<close>;
  \<open>z\<close> is the zero value of an element.
\<close>

definition copy_element ::
    "('c, 'a list) cell_type \<Rightarrow> ('a \<Rightarrow> ('c store, 'a) state) \<Rightarrow> addr \<Rightarrow> addr \<Rightarrow> nat \<Rightarrow>
     ('c store, unit) state" where
  "copy_element T copy a b i = do {
     xs \<leftarrow> load T a;
     v \<leftarrow> copy (xs ! i);
     ys \<leftarrow> load T b;
     assign T b (ys[i := v])
   }"

definition copy_slice ::
    "('c, 'a list) cell_type \<Rightarrow> 'a \<Rightarrow> ('a \<Rightarrow> ('c store, 'a) state) \<Rightarrow> addr option \<Rightarrow>
     ('c store, addr option) state" where
  "copy_slice T z copy p = (case p of None \<Rightarrow> State_Monad.return None
   | Some a \<Rightarrow> do {
       xs \<leftarrow> load T a;
       b \<leftarrow> new T (replicate (length xs) z);
       for_each (copy_element T copy a b) [0..<length xs];
       State_Monad.return (Some b)
     })"

text \<open>The builtin \<open>copy\<close>: as many elements as both slices have.\<close>

definition copy_elements :: "'a list \<Rightarrow> 'a list \<Rightarrow> 'a list" where
  "copy_elements dst src = take (length dst) src @ drop (length src) dst"

definition copy_plain_slice ::
    "('c, 'a list) cell_type \<Rightarrow> 'a \<Rightarrow> addr option \<Rightarrow> ('c store, addr option) state" where
  "copy_plain_slice T z p = (case p of None \<Rightarrow> State_Monad.return None
   | Some a \<Rightarrow> do {
       xs \<leftarrow> load T a;
       b \<leftarrow> new T (replicate (length xs) z);
       ys \<leftarrow> load T b;
       xs \<leftarrow> load T a;
       assign T b (copy_elements ys xs);
       State_Monad.return (Some b)
     })"

text \<open>\<open>*out = make(map[K]V, len(*p)); for key, val := range *p { (*out)[key] = val }\<close>.\<close>

definition copy_entry ::
    "('c, ('k \<times> 'v) list) cell_type \<Rightarrow> addr \<Rightarrow> 'k \<times> 'v \<Rightarrow> ('c store, unit) state" where
  "copy_entry T b kv = do {
     ys \<leftarrow> load T b;
     assign T b (AList.update (fst kv) (snd kv) ys)
   }"

definition copy_map ::
    "('c, ('k \<times> 'v) list) cell_type \<Rightarrow> addr option \<Rightarrow> ('c store, addr option) state" where
  "copy_map T p = (case p of None \<Rightarrow> State_Monad.return None
   | Some a \<Rightarrow> do {
       b \<leftarrow> new T [];
       xs \<leftarrow> load T a;
       for_each (copy_entry T b) xs;
       State_Monad.return (Some b)
     })"

text \<open>What a write to a new cell keeps.\<close>

lemma grows_assign: "grows m m' \<Longrightarrow> brk m \<le> b \<Longrightarrow> grows m (snd (run_state (assign T b v) m'))"
  by (auto simp: grows_def run_assign)

lemma grows_new: "grows m (snd (run_state (new T v) m))"
  by (auto simp: grows_def run_new)

lemma deep_copy_return: "deep_copy (plain_view f) State_Monad.return"
  by (rule deep_copyI [OF local_plain], rule builds_return) (simp add: copied_def plain_view_def)


text \<open>A write outside of the footprint of a copy does not touch it.\<close>

lemma copied_assign:
  assumes "local_view V" and "copied V m x m' y" and "b \<notin> foot V m' y"
  shows "copied V m x (snd (run_state (assign T b v) m')) y"
    and "foot V (snd (run_state (assign T b v) m')) y = foot V m' y"
  using local_agree [OF assms(1), of m' y "snd (run_state (assign T b v) m')"] assms(2,3)
  by (auto simp: copied_def run_assign)

lemma copied_grows:
  assumes "local_view V" and "copied V m x m' y" and "grows m' m''"
  shows "copied V m x m'' y" and "foot V m'' y = foot V m' y"
  using local_grows [OF assms(1) _ assms(3)] assms(2,3) by (auto simp: copied_def grows_def)

lemma deep_copy_pointer:
  assumes T: "proper_cell T" and V: "deep_copy V c"
  shows "deep_copy (pointer_view T V) (copy_pointer T c)"
proof -
  note local = deep_copy.view_local [OF V] and grows = deep_copy.copy_grows [OF V]
    and copied = deep_copy.copy_copied [OF V]
  have main: "grows m m' \<and> copied (pointer_view T V) m p m' q"
    if okp: "ok (pointer_view T V) m p" and run: "run_state (copy_pointer T c p) m = (q, m')"
    for m p q m'
  proof (cases p)
    case None
    then show ?thesis
      using run by (auto simp: copy_pointer_def copied_def pointer_view_def grows.frame_refl)
  next
    case (Some a)
    define m1 where "m1 = snd (run_state (new T (zero_val T)) m)"
    define v where "v = peek T (cells m a)"
    have a: "a < brk m" and okv: "ok V m v"
      using okp Some by (auto simp: pointer_view_def v_def)
    have g1: "grows m m1"
      unfolding m1_def by (rule grows_new)
    have b1: "brk m1 = Suc (brk m)"
      by (simp add: m1_def run_new)
    obtain v' m2 where c: "run_state (c v) m1 = (v', m2)" by (cases "run_state (c v) m1")
    have eq: "peek T (cells m1 a) = v"
      using a by (simp add: m1_def v_def run_new)
    have res: "q = Some (brk m)" "m' = snd (run_state (assign T (brk m) v') m2)"
      using run c eq Some by (auto simp: copy_pointer_def run_cells m1_def)
    note ok1 = local_grows [OF local okv g1]
    have g2: "grows m1 m2" and c2: "copied V m1 v m2 v'"
      using grows copied ok1 c by blast+
    have notin: "brk m \<notin> foot V m2 v'"
      using c2 b1 by (auto simp: copied_def)
    note c3 = copied_assign [OF local c2 notin, of T v']
    have "grows m m'"
      unfolding res by (rule grows_assign [OF grows.frame_trans [OF g1 g2]]) simp
    moreover have "copied (pointer_view T V) m p m' q"
      using c3 b1 ok1 g1 g2 Some notin unfolding res
      by (auto simp: copied_def pointer_view_def run_assign peek_poke [OF T] grows_def v_def)
    ultimately show ?thesis ..
  qed
  show ?thesis
    by unfold_locales (use main in \<open>blast intro: local_pointer local\<close>)+
qed

text \<open>The loop over a slice: after \<open>k\<close> turns the first \<open>k\<close> elements are copies.\<close>

definition copied_upto ::
    "('c, 'a list) cell_type \<Rightarrow> ('c, 'a, 'v) view \<Rightarrow> 'c store \<Rightarrow> 'a list \<Rightarrow> nat \<Rightarrow> addr \<Rightarrow>
     'c store \<Rightarrow> bool" where
  "copied_upto T V m xs k b m' \<longleftrightarrow> grows m m' \<and> brk m \<le> b \<and> b < brk m' \<and>
     length (peek T (cells m' b)) = length xs \<and>
     (\<forall>j < k. copied V m (xs ! j) m' (peek T (cells m' b) ! j) \<and>
        b \<notin> foot V m' (peek T (cells m' b) ! j))"

lemma copied_upto_step:
  assumes T: "proper_cell T" and V: "deep_copy V c"
    and a: "a < brk m" "peek T (cells m a) = xs" and oks: "\<forall>x \<in> set xs. ok V m x"
    and k: "k < length xs" and I: "copied_upto T V m xs k b m1"
  shows "copied_upto T V m xs (Suc k) b (snd (run_state (copy_element T c a b k) m1))"
proof -
  note local = deep_copy.view_local [OF V] and grows = deep_copy.copy_grows [OF V]
    and copied = deep_copy.copy_copied [OF V]
  define ys where "ys = peek T (cells m1 b)"
  have g1: "grows m m1" and b: "brk m \<le> b" "b < brk m1" and len: "length ys = length xs"
    and old: "\<And>j. j < k \<Longrightarrow> copied V m (xs ! j) m1 (ys ! j) \<and> b \<notin> foot V m1 (ys ! j)"
    using I by (auto simp: copied_upto_def ys_def)
  have xs1: "peek T (cells m1 a) = xs" using a g1 by (simp add: grows_def)
  obtain v m2 where c: "run_state (c (xs ! k)) m1 = (v, m2)" by (cases "run_state (c (xs ! k)) m1")
  note okk = local_grows [OF local _ g1, of "xs ! k"]
  have okx: "ok V m (xs ! k)" using oks k by simp
  have g2: "grows m1 m2" and c2: "copied V m1 (xs ! k) m2 v"
    using grows copied okk [OF okx] c by blast+
  have ys2: "peek T (cells m2 b) = ys" using b g2 by (simp add: ys_def grows_def)
  define m3 where "m3 = snd (run_state (assign T b (ys[k := v])) m2)"
  have run: "snd (run_state (copy_element T c a b k) m1) = m3"
    using xs1 c ys2 by (simp add: copy_element_def run_cells m3_def)
  have ys3: "peek T (cells m3 b) = ys[k := v]" and brk3: "brk m3 = brk m2"
    by (auto simp: m3_def run_assign peek_poke [OF T])
  have cv: "copied V m (xs ! k) m2 v" and nv: "b \<notin> foot V m2 v"
    using c2 okk [OF okx] g1 b by (auto simp: copied_def grows_def)
  have new: "copied V m (xs ! k) m3 v \<and> b \<notin> foot V m3 v"
    using copied_assign [OF local cv nv, of T "ys[k := v]"] nv by (simp add: m3_def)
  have kept: "copied V m (xs ! j) m3 (ys ! j) \<and> b \<notin> foot V m3 (ys ! j)" if "j < k" for j
  proof -
    have c: "copied V m (xs ! j) m2 (ys ! j)" and n: "b \<notin> foot V m2 (ys ! j)"
      using copied_grows [OF local _ g2] old [OF that] by blast+
    show ?thesis
      using copied_assign [OF local c n, of T "ys[k := v]"] n by (simp add: m3_def)
  qed
  have g3: "grows m m3"
    unfolding m3_def by (rule grows_assign [OF grows.frame_trans [OF g1 g2] b(1)])
  have "b < brk m3" using b g2 by (simp add: brk3 grows_def)
  then show ?thesis
    using g3 b len k new kept by (auto simp: run copied_upto_def ys3 nth_list_update less_Suc_eq)
qed

lemma copied_upto_loop:
  assumes "proper_cell T" and "deep_copy V c"
    and "a < brk m" and "peek T (cells m a) = xs" and "\<forall>x \<in> set xs. ok V m x"
    and "k \<le> length xs" and "copied_upto T V m xs 0 b m1"
  shows "copied_upto T V m xs k b (snd (run_state (for_each (copy_element T c a b) [0..<k]) m1))"
  using assms(6)
proof (induction k)
  case 0
  then show ?case using assms(7) by simp
next
  case (Suc k)
  define m2 where "m2 = snd (run_state (for_each (copy_element T c a b) [0..<k]) m1)"
  have "copied_upto T V m xs k b m2"
    using Suc by (simp add: m2_def)
  from copied_upto_step [OF assms(1-5) _ this] Suc.prems show ?case
    by (simp add: for_each_append flip: m2_def split: prod.splits)
qed

lemma deep_copy_slice:
  assumes T: "proper_cell T" and V: "deep_copy V c"
  shows "deep_copy (slice_view T V) (copy_slice T z c)"
proof -
  note local = deep_copy.view_local [OF V] and grows = deep_copy.copy_grows [OF V]
    and copied = deep_copy.copy_copied [OF V]
  have main: "grows m m' \<and> copied (slice_view T V) m p m' q"
    if okp: "ok (slice_view T V) m p" and run: "run_state (copy_slice T z c p) m = (q, m')"
    for m p q m'
  proof (cases p)
    case None
    then show ?thesis
      using run by (auto simp: copy_slice_def copied_def slice_view_def grows.frame_refl)
  next
    case (Some a)
    define xs where "xs = peek T (cells m a)"
    define m1 where "m1 = snd (run_state (new T (replicate (length xs) z)) m)"
    have a: "a < brk m" and oks: "\<forall>x \<in> set xs. ok V m x"
      using okp Some by (auto simp: slice_view_def xs_def list_all_iff)
    have "grows m m1"
      unfolding m1_def by (rule grows_new)
    then have start: "copied_upto T V m xs 0 (brk m) m1"
      by (simp add: copied_upto_def m1_def run_new peek_poke [OF T])
    have res: "q = Some (brk m)"
      "m' = snd (run_state (for_each (copy_element T c a (brk m)) [0..<length xs]) m1)"
      using run Some by (auto simp: copy_slice_def run_cells m1_def xs_def split: prod.splits)
    have I: "copied_upto T V m xs (length xs) (brk m) m'"
      unfolding res by (rule copied_upto_loop [OF T V a xs_def [symmetric] oks _ start]) simp
    then have len: "length (peek T (cells m' (brk m))) = length xs"
      and el: "\<And>j. j < length xs \<Longrightarrow> copied V m (xs ! j) m' (peek T (cells m' (brk m)) ! j)"
      by (auto simp: copied_upto_def)
    have vals: "map (val V m') (peek T (cells m' (brk m))) = map (val V m) xs"
      using len el by (intro nth_equalityI) (auto simp: copied_def)
    have el': "ok V m' y \<and> foot V m' y \<subseteq> {brk m..<brk m'}" if "y \<in> set (peek T (cells m' (brk m)))" for y
      using that el len by (fastforce simp: in_set_conv_nth copied_def)
    then have "copied (slice_view T V) m p m' q"
      using I vals Some unfolding res(1)
      by (fastforce simp: copied_def slice_view_def copied_upto_def list_all_iff xs_def)
    then show ?thesis using I by (simp add: copied_upto_def)
  qed
  show ?thesis
    by unfold_locales (use main in \<open>blast intro: local_slice local\<close>)+
qed

text \<open>A slice of plain values, copied by the builtin.\<close>

lemma copy_elements_all: "length dst = length src \<Longrightarrow> copy_elements dst src = src"
  by (simp add: copy_elements_def)

lemma deep_copy_plain_slice:
  assumes T: "proper_cell T"
  shows "deep_copy (slice_view T (plain_view f)) (copy_plain_slice T z)"
proof -
  have main: "grows m m' \<and> copied (slice_view T (plain_view f)) m p m' q"
    if "ok (slice_view T (plain_view f)) m p" and "run_state (copy_plain_slice T z p) m = (q, m')"
    for m p q m'
    using that
    by (cases p) (auto simp: copy_plain_slice_def copied_def view_defs grows_def run_cells
        peek_poke [OF T] copy_elements_all list_all_iff)
  show ?thesis
    by unfold_locales (use main in \<open>blast intro: local_slice local_plain\<close>)+
qed

text \<open>The entries of a map, inserted one by one into the empty map.\<close>

lemma copy_map_loop:
  assumes T: "proper_cell T" and "distinct (map fst (ys @ xs))" and "b < brk m"
    and "peek T (cells m b) = ys"
  shows "\<exists>c. peek T c = ys @ xs \<and>
    snd (run_state (for_each (copy_entry T b) xs) m) = m\<lparr>cells := (cells m)(b := c)\<rparr>"
  using assms(2-4)
proof (induction xs arbitrary: ys m)
  case Nil
  then show ?case by (intro exI [of _ "cells m b"]) simp
next
  case (Cons x xs)
  define m1 where "m1 = snd (run_state (copy_entry T b x) m)"
  have up: "AList.update (fst x) (snd x) ys = ys @ [x]"
    using Cons.prems(1) by (induction ys) auto
  have m1: "m1 = m\<lparr>cells := (cells m)(b := poke T (ys @ [x]) (cells m b))\<rparr>"
    using Cons.prems(3) by (simp add: m1_def copy_entry_def run_cells up)
  have step: "run_state (copy_entry T b x) m = ((), m1)"
    using Cons.prems(3) by (simp add: m1 copy_entry_def run_cells up)
  have "peek T (cells m1 b) = ys @ [x]" and "b < brk m1"
    using Cons.prems(2) by (simp_all add: m1 peek_poke [OF T])
  then obtain c where "peek T c = (ys @ [x]) @ xs"
      "snd (run_state (for_each (copy_entry T b) xs) m1) = m1\<lparr>cells := (cells m1)(b := c)\<rparr>"
    using Cons.IH [of "ys @ [x]" m1] Cons.prems(1) by (auto simp del: fun_upd_apply)
  then show ?case
    by (intro exI [of _ c]) (simp add: step m1 del: fun_upd_apply)
qed

lemma deep_copy_map:
  assumes T: "proper_cell T"
  shows "deep_copy (map_view T) (copy_map T)"
proof -
  have main: "grows m m' \<and> copied (map_view T) m p m' q"
    if okp: "ok (map_view T) m p" and run: "run_state (copy_map T p) m = (q, m')"
    for m p q m'
  proof (cases p)
    case None
    then show ?thesis
      using run by (auto simp: copy_map_def copied_def map_view_def grows.frame_refl)
  next
    case (Some a)
    define xs where "xs = peek T (cells m a)"
    define m1 where "m1 = snd (run_state (new T []) m)"
    have a: "a < brk m" and d: "distinct (map fst xs)"
      using okp Some by (auto simp: map_view_def xs_def)
    have res: "q = Some (brk m)" "m' = snd (run_state (for_each (copy_entry T (brk m)) xs) m1)"
      using run Some a by (auto simp: copy_map_def run_cells m1_def xs_def split: prod.splits)
    obtain c where "peek T c = xs" and m': "m' = m1\<lparr>cells := (cells m1)(brk m := c)\<rparr>"
      using copy_map_loop [OF T, of "[]" xs "brk m" m1] d
      by (auto simp: res m1_def run_new peek_poke [OF T])
    then show ?thesis
      using Some d a by (auto simp: copied_def map_view_def grows_def res(1) m1_def run_new xs_def)
  qed
  show ?thesis
    by unfold_locales (use main in \<open>blast intro: local_map\<close>)+
qed

end
