(* ===== verification/Deep_Copy.thy ===== *)
theory Deep_Copy
  imports Go_Store Api_Types
begin

text \<open>
  The generated deep copies (\<open>api/v1alpha1/zz_generated.deepcopy.go\<close>) over a memory with
  pointers. Everywhere else in the development an API object is a value, and passing it on
  copies it; here the structs are as Go lays them out, with addresses in their pointer, slice and
  map fields, and every \<open>DeepCopyInto\<close> and \<open>DeepCopy\<close> is translated on that memory. A view reads
  a struct back as the value of \<open>Api_Types\<close>, so the theorems say that a deep copy is the copy of a
  value. The structs of the Kubernetes packages are not code of this repository: their layout
  \<open>'x\<close>, how they are read and how they are copied are the record \<open>k8s\<close>.
\<close>

section \<open>The structs in memory\<close>

text \<open>
  A field of pointer, slice or map type holds an address. The structs without such fields
  (\<open>HighAvailabilitySpec\<close>, \<open>ServiceNamesSpec\<close>, \<open>ReplicationHealth\<close>) are those of \<open>Api_Types\<close>.
\<close>

record 'x StorageSpec_mem =
  mSize :: 'x
  mStorageClassName :: "addr option"

record MemgraphConfig_mem =
  mLogLevel :: string
  mMemoryLimit :: int
  mWALFlushEveryNTx :: int
  mSnapshotIntervalSec :: "addr option"
  mSnapshotRetentionCount :: "addr option"
  mSnapshotOnExit :: "addr option"

record ReplicationSpec_mem =
  mMode :: string
  mBehindAlertThreshold :: "addr option"

record S3BackupSpec_mem =
  mS3Enabled :: bool
  mBucket :: string
  mRegion :: string
  mEndpoint :: string
  mPrefix :: string
  mSecretRef :: "addr option"
  mRetentionDays :: int

record SnapshotSpec_mem =
  mSnapshotEnabled :: "addr option"
  mSchedule :: string
  mConcurrencyPolicy :: string
  mActiveDeadlineSeconds :: "addr option"
  mStartingDeadlineSeconds :: "addr option"
  mRetentionCount :: int
  mS3 :: "addr option"

record 'x MemgraphClusterSpec_mem =
  mReplicas :: int
  mImage :: string
  mResources :: 'x
  mStorage :: "'x StorageSpec_mem"
  mConfig :: MemgraphConfig_mem
  mReplication :: ReplicationSpec_mem
  mHighAvailability :: "addr option"
  mSnapshot :: SnapshotSpec_mem
  mNodeSelector :: "addr option"
  mTolerations :: "addr option"
  mAffinity :: "addr option"
  mServiceNames :: "addr option"

record InstanceValidationStatus_mem =
  mIVName :: string
  mIVRole :: string
  mIVHealthy :: bool
  mIVLagMs :: int
  mIVLastTestTime :: "addr option"

record ValidationStatus_mem =
  mLastConnectivityTest :: "addr option"
  mLastReplicationTest :: "addr option"
  mReplicationLagMs :: int
  mAllReplicasHealthy :: bool
  mInstances :: "addr option"

record MemgraphClusterStatus_mem =
  mPhase :: string
  mWriteInstance :: string
  mReadInstances :: "addr option"
  mReadyInstances :: int
  mRegisteredReplicas :: int
  mLastSnapshotTime :: "addr option"
  mLastS3BackupTime :: "addr option"
  mValidation :: "addr option"
  mConditions :: "addr option"

record TypeMeta =
  TypeKind :: string
  TypeAPIVersion :: string

record 'x MemgraphCluster_mem =
  mTypeMeta :: TypeMeta
  mObjectMeta :: 'x
  mSpec :: "'x MemgraphClusterSpec_mem"
  mStatus :: MemgraphClusterStatus_mem

record 'x MemgraphClusterList_mem =
  mListTypeMeta :: TypeMeta
  mListMeta :: 'x
  mItems :: "addr option"

section \<open>Cells\<close>

record 'x cell =
  c_bool :: bool
  c_int32 :: int
  c_int64 :: int
  c_string :: string
  c_strings :: "string list"
  c_string_map :: "(string \<times> string) list"
  c_duration :: duration
  c_local_ref :: string
  c_ha :: HighAvailabilitySpec
  c_names :: ServiceNamesSpec
  c_health :: ReplicationHealth
  c_storage :: "'x StorageSpec_mem"
  c_config :: MemgraphConfig_mem
  c_replication :: ReplicationSpec_mem
  c_s3 :: S3BackupSpec_mem
  c_snapshot :: SnapshotSpec_mem
  c_spec :: "'x MemgraphClusterSpec_mem"
  c_instance :: InstanceValidationStatus_mem
  c_instances :: "InstanceValidationStatus_mem list"
  c_validation :: ValidationStatus_mem
  c_status :: MemgraphClusterStatus_mem
  c_cluster :: "'x MemgraphCluster_mem"
  c_clusters :: "'x MemgraphCluster_mem list"
  c_list :: "'x MemgraphClusterList_mem"
  c_struct :: 'x
  c_structs :: "'x list"

text \<open>
  The Kubernetes packages: the zero struct, how each of their types is read, and their copies.
  A \<open>metav1.Time\<close> is only used behind a pointer.
\<close>

record 'x k8s =
  zero_struct :: 'x
  ObjectMeta_view :: "('x cell, 'x, ObjectMeta) view"
  ListMeta_view :: "('x cell, 'x, k8s_value) view"
  Condition_view :: "('x cell, 'x, Condition) view"
  Toleration_view :: "('x cell, 'x, k8s_value) view"
  Affinity_view :: "('x cell, 'x, k8s_value) view"
  Resources_view :: "('x cell, 'x, k8s_value) view"
  Quantity_view :: "('x cell, 'x, Quantity) view"
  Time_view :: "('x cell, addr option, instant option) view"
  ObjectMeta_DeepCopyInto :: "'x \<Rightarrow> ('x cell store, 'x) state"
  ListMeta_DeepCopyInto :: "'x \<Rightarrow> ('x cell store, 'x) state"
  Condition_DeepCopyInto :: "'x \<Rightarrow> ('x cell store, 'x) state"
  Toleration_DeepCopyInto :: "'x \<Rightarrow> ('x cell store, 'x) state"
  Affinity_DeepCopyInto :: "'x \<Rightarrow> ('x cell store, 'x) state"
  Resources_DeepCopyInto :: "'x \<Rightarrow> ('x cell store, 'x) state"
  Quantity_DeepCopy :: "'x \<Rightarrow> ('x cell store, 'x) state"
  Time_DeepCopy :: "addr option \<Rightarrow> ('x cell store, addr option) state"

section \<open>Zero values and cell types\<close>

definition zero_ha :: HighAvailabilitySpec where
  "zero_ha = \<lparr>HAEnabled = False, FailoverTimeoutSeconds = 0, PreferredMain = []\<rparr>"

definition zero_names :: ServiceNamesSpec where
  "zero_names = \<lparr>HeadlessSuffix = [], WriteSuffix = [], ReadSuffix = []\<rparr>"

definition zero_health :: ReplicationHealth where
  "zero_health = \<lparr>TotalReplicas = 0, HealthyReplicas = 0\<rparr>"

definition zero_StorageSpec :: "'x k8s \<Rightarrow> 'x StorageSpec_mem" where
  "zero_StorageSpec K = \<lparr>mSize = zero_struct K, mStorageClassName = None\<rparr>"

definition zero_MemgraphConfig :: MemgraphConfig_mem where
  "zero_MemgraphConfig = \<lparr>mLogLevel = [], mMemoryLimit = 0, mWALFlushEveryNTx = 0,
     mSnapshotIntervalSec = None, mSnapshotRetentionCount = None, mSnapshotOnExit = None\<rparr>"

definition zero_ReplicationSpec :: ReplicationSpec_mem where
  "zero_ReplicationSpec = \<lparr>mMode = [], mBehindAlertThreshold = None\<rparr>"

definition zero_S3BackupSpec :: S3BackupSpec_mem where
  "zero_S3BackupSpec = \<lparr>mS3Enabled = False, mBucket = [], mRegion = [], mEndpoint = [],
     mPrefix = [], mSecretRef = None, mRetentionDays = 0\<rparr>"

definition zero_SnapshotSpec :: SnapshotSpec_mem where
  "zero_SnapshotSpec = \<lparr>mSnapshotEnabled = None, mSchedule = [], mConcurrencyPolicy = [],
     mActiveDeadlineSeconds = None, mStartingDeadlineSeconds = None, mRetentionCount = 0,
     mS3 = None\<rparr>"

definition zero_MemgraphClusterSpec :: "'x k8s \<Rightarrow> 'x MemgraphClusterSpec_mem" where
  "zero_MemgraphClusterSpec K = \<lparr>mReplicas = 0, mImage = [], mResources = zero_struct K,
     mStorage = zero_StorageSpec K, mConfig = zero_MemgraphConfig,
     mReplication = zero_ReplicationSpec, mHighAvailability = None, mSnapshot = zero_SnapshotSpec,
     mNodeSelector = None, mTolerations = None, mAffinity = None, mServiceNames = None\<rparr>"

definition zero_InstanceValidationStatus :: InstanceValidationStatus_mem where
  "zero_InstanceValidationStatus = \<lparr>mIVName = [], mIVRole = [], mIVHealthy = False, mIVLagMs = 0,
     mIVLastTestTime = None\<rparr>"

definition zero_ValidationStatus_mem :: ValidationStatus_mem where
  "zero_ValidationStatus_mem = \<lparr>mLastConnectivityTest = None, mLastReplicationTest = None,
     mReplicationLagMs = 0, mAllReplicasHealthy = False, mInstances = None\<rparr>"

definition zero_MemgraphClusterStatus :: MemgraphClusterStatus_mem where
  "zero_MemgraphClusterStatus = \<lparr>mPhase = [], mWriteInstance = [], mReadInstances = None,
     mReadyInstances = 0, mRegisteredReplicas = 0, mLastSnapshotTime = None,
     mLastS3BackupTime = None, mValidation = None, mConditions = None\<rparr>"

definition zero_MemgraphCluster :: "'x k8s \<Rightarrow> 'x MemgraphCluster_mem" where
  "zero_MemgraphCluster K = \<lparr>mTypeMeta = \<lparr>TypeKind = [], TypeAPIVersion = []\<rparr>,
     mObjectMeta = zero_struct K, mSpec = zero_MemgraphClusterSpec K,
     mStatus = zero_MemgraphClusterStatus\<rparr>"

definition zero_MemgraphClusterList :: "'x k8s \<Rightarrow> 'x MemgraphClusterList_mem" where
  "zero_MemgraphClusterList K = \<lparr>mListTypeMeta = \<lparr>TypeKind = [], TypeAPIVersion = []\<rparr>,
     mListMeta = zero_struct K, mItems = None\<rparr>"

definition bool_cell :: "('x cell, bool) cell_type" where
  "bool_cell = \<lparr>peek = c_bool, poke = (\<lambda>v c. c\<lparr>c_bool := v\<rparr>),
     zero_val = False\<rparr>"

definition int32_cell :: "('x cell, int) cell_type" where
  "int32_cell = \<lparr>peek = c_int32, poke = (\<lambda>v c. c\<lparr>c_int32 := v\<rparr>),
     zero_val = 0\<rparr>"

definition int64_cell :: "('x cell, int) cell_type" where
  "int64_cell = \<lparr>peek = c_int64, poke = (\<lambda>v c. c\<lparr>c_int64 := v\<rparr>),
     zero_val = 0\<rparr>"

definition string_cell :: "('x cell, string) cell_type" where
  "string_cell = \<lparr>peek = c_string, poke = (\<lambda>v c. c\<lparr>c_string := v\<rparr>),
     zero_val = []\<rparr>"

definition strings_cell :: "('x cell, string list) cell_type" where
  "strings_cell = \<lparr>peek = c_strings, poke = (\<lambda>v c. c\<lparr>c_strings := v\<rparr>),
     zero_val = []\<rparr>"

definition string_map_cell :: "('x cell, (string \<times> string) list) cell_type" where
  "string_map_cell = \<lparr>peek = c_string_map, poke = (\<lambda>v c. c\<lparr>c_string_map := v\<rparr>),
     zero_val = []\<rparr>"

definition duration_cell :: "('x cell, duration) cell_type" where
  "duration_cell = \<lparr>peek = c_duration, poke = (\<lambda>v c. c\<lparr>c_duration := v\<rparr>),
     zero_val = 0\<rparr>"

definition local_ref_cell :: "('x cell, string) cell_type" where
  "local_ref_cell = \<lparr>peek = c_local_ref, poke = (\<lambda>v c. c\<lparr>c_local_ref := v\<rparr>),
     zero_val = []\<rparr>"

definition ha_cell :: "('x cell, HighAvailabilitySpec) cell_type" where
  "ha_cell = \<lparr>peek = c_ha, poke = (\<lambda>v c. c\<lparr>c_ha := v\<rparr>),
     zero_val = zero_ha\<rparr>"

definition names_cell :: "('x cell, ServiceNamesSpec) cell_type" where
  "names_cell = \<lparr>peek = c_names, poke = (\<lambda>v c. c\<lparr>c_names := v\<rparr>),
     zero_val = zero_names\<rparr>"

definition health_cell :: "('x cell, ReplicationHealth) cell_type" where
  "health_cell = \<lparr>peek = c_health, poke = (\<lambda>v c. c\<lparr>c_health := v\<rparr>),
     zero_val = zero_health\<rparr>"

definition storage_cell :: "'x k8s \<Rightarrow> ('x cell, 'x StorageSpec_mem) cell_type" where
  "storage_cell K = \<lparr>peek = c_storage, poke = (\<lambda>v c. c\<lparr>c_storage := v\<rparr>),
     zero_val = zero_StorageSpec K\<rparr>"

definition config_cell :: "('x cell, MemgraphConfig_mem) cell_type" where
  "config_cell = \<lparr>peek = c_config, poke = (\<lambda>v c. c\<lparr>c_config := v\<rparr>),
     zero_val = zero_MemgraphConfig\<rparr>"

definition replication_cell :: "('x cell, ReplicationSpec_mem) cell_type" where
  "replication_cell = \<lparr>peek = c_replication, poke = (\<lambda>v c. c\<lparr>c_replication := v\<rparr>),
     zero_val = zero_ReplicationSpec\<rparr>"

definition s3_cell :: "('x cell, S3BackupSpec_mem) cell_type" where
  "s3_cell = \<lparr>peek = c_s3, poke = (\<lambda>v c. c\<lparr>c_s3 := v\<rparr>),
     zero_val = zero_S3BackupSpec\<rparr>"

definition snapshot_cell :: "('x cell, SnapshotSpec_mem) cell_type" where
  "snapshot_cell = \<lparr>peek = c_snapshot, poke = (\<lambda>v c. c\<lparr>c_snapshot := v\<rparr>),
     zero_val = zero_SnapshotSpec\<rparr>"

definition spec_cell :: "'x k8s \<Rightarrow> ('x cell, 'x MemgraphClusterSpec_mem) cell_type" where
  "spec_cell K = \<lparr>peek = c_spec, poke = (\<lambda>v c. c\<lparr>c_spec := v\<rparr>),
     zero_val = zero_MemgraphClusterSpec K\<rparr>"

definition instance_cell :: "('x cell, InstanceValidationStatus_mem) cell_type" where
  "instance_cell = \<lparr>peek = c_instance, poke = (\<lambda>v c. c\<lparr>c_instance := v\<rparr>),
     zero_val = zero_InstanceValidationStatus\<rparr>"

definition instances_cell :: "('x cell, InstanceValidationStatus_mem list) cell_type" where
  "instances_cell = \<lparr>peek = c_instances, poke = (\<lambda>v c. c\<lparr>c_instances := v\<rparr>),
     zero_val = []\<rparr>"

definition validation_cell :: "('x cell, ValidationStatus_mem) cell_type" where
  "validation_cell = \<lparr>peek = c_validation, poke = (\<lambda>v c. c\<lparr>c_validation := v\<rparr>),
     zero_val = zero_ValidationStatus_mem\<rparr>"

definition status_cell :: "('x cell, MemgraphClusterStatus_mem) cell_type" where
  "status_cell = \<lparr>peek = c_status, poke = (\<lambda>v c. c\<lparr>c_status := v\<rparr>),
     zero_val = zero_MemgraphClusterStatus\<rparr>"

definition cluster_cell :: "'x k8s \<Rightarrow> ('x cell, 'x MemgraphCluster_mem) cell_type" where
  "cluster_cell K = \<lparr>peek = c_cluster, poke = (\<lambda>v c. c\<lparr>c_cluster := v\<rparr>),
     zero_val = zero_MemgraphCluster K\<rparr>"

definition clusters_cell :: "('x cell, 'x MemgraphCluster_mem list) cell_type" where
  "clusters_cell = \<lparr>peek = c_clusters, poke = (\<lambda>v c. c\<lparr>c_clusters := v\<rparr>),
     zero_val = []\<rparr>"

definition cluster_list_cell :: "'x k8s \<Rightarrow> ('x cell, 'x MemgraphClusterList_mem) cell_type" where
  "cluster_list_cell K = \<lparr>peek = c_list, poke = (\<lambda>v c. c\<lparr>c_list := v\<rparr>),
     zero_val = zero_MemgraphClusterList K\<rparr>"

definition struct_cell :: "'x k8s \<Rightarrow> ('x cell, 'x) cell_type" where
  "struct_cell K = \<lparr>peek = c_struct, poke = (\<lambda>v c. c\<lparr>c_struct := v\<rparr>),
     zero_val = zero_struct K\<rparr>"

definition structs_cell :: "('x cell, 'x list) cell_type" where
  "structs_cell = \<lparr>peek = c_structs, poke = (\<lambda>v c. c\<lparr>c_structs := v\<rparr>),
     zero_val = []\<rparr>"

lemmas cell_defs = bool_cell_def int32_cell_def int64_cell_def string_cell_def strings_cell_def string_map_cell_def duration_cell_def local_ref_cell_def ha_cell_def names_cell_def health_cell_def storage_cell_def config_cell_def replication_cell_def s3_cell_def snapshot_cell_def spec_cell_def instance_cell_def instances_cell_def validation_cell_def status_cell_def cluster_cell_def clusters_cell_def cluster_list_cell_def struct_cell_def structs_cell_def

lemma proper_cells [simp]:
  "proper_cell bool_cell"
  "proper_cell int32_cell"
  "proper_cell int64_cell"
  "proper_cell string_cell"
  "proper_cell strings_cell"
  "proper_cell string_map_cell"
  "proper_cell duration_cell"
  "proper_cell local_ref_cell"
  "proper_cell ha_cell"
  "proper_cell names_cell"
  "proper_cell health_cell"
  "proper_cell (storage_cell K)"
  "proper_cell config_cell"
  "proper_cell replication_cell"
  "proper_cell s3_cell"
  "proper_cell snapshot_cell"
  "proper_cell (spec_cell K)"
  "proper_cell instance_cell"
  "proper_cell instances_cell"
  "proper_cell validation_cell"
  "proper_cell status_cell"
  "proper_cell (cluster_cell K)"
  "proper_cell clusters_cell"
  "proper_cell (cluster_list_cell K)"
  "proper_cell (struct_cell K)"
  "proper_cell structs_cell"
  by (simp_all add: proper_cell_def cell_defs)

section \<open>The copies\<close>

text \<open>\<open>if p != nil { *out = (*p).DeepCopy() }\<close> for a time: \<open>*out\<close> is the nil of \<open>*in\<close> otherwise.\<close>

definition copy_time :: "'x k8s \<Rightarrow> addr option \<Rightarrow> ('x cell store, addr option) state" where
  "copy_time K p = (if p = None then State_Monad.return p else Time_DeepCopy K p)"

definition HighAvailabilitySpec_DeepCopyInto ::
    "HighAvailabilitySpec \<Rightarrow> ('x cell store, HighAvailabilitySpec) state" where
  "HighAvailabilitySpec_DeepCopyInto src = State_Monad.return src"

definition HighAvailabilitySpec_DeepCopy :: "addr option \<Rightarrow> ('x cell store, addr option) state" where
  "HighAvailabilitySpec_DeepCopy = copy_pointer ha_cell HighAvailabilitySpec_DeepCopyInto"

definition InstanceValidationStatus_DeepCopyInto ::
    "'x k8s \<Rightarrow> InstanceValidationStatus_mem \<Rightarrow> ('x cell store, InstanceValidationStatus_mem) state" where
  "InstanceValidationStatus_DeepCopyInto K src = do {
     t \<leftarrow> copy_time K (mIVLastTestTime src);
     State_Monad.return (src\<lparr>mIVLastTestTime := t\<rparr>)
   }"

definition InstanceValidationStatus_DeepCopy ::
    "'x k8s \<Rightarrow> addr option \<Rightarrow> ('x cell store, addr option) state" where
  "InstanceValidationStatus_DeepCopy K =
     copy_pointer instance_cell (InstanceValidationStatus_DeepCopyInto K)"

definition MemgraphConfig_DeepCopyInto ::
    "MemgraphConfig_mem \<Rightarrow> ('x cell store, MemgraphConfig_mem) state" where
  "MemgraphConfig_DeepCopyInto src = do {
     interval \<leftarrow> copy_pointer int32_cell State_Monad.return (mSnapshotIntervalSec src);
     retention \<leftarrow> copy_pointer int32_cell State_Monad.return (mSnapshotRetentionCount src);
     onExit \<leftarrow> copy_pointer bool_cell State_Monad.return (mSnapshotOnExit src);
     State_Monad.return (src\<lparr>mSnapshotIntervalSec := interval, mSnapshotRetentionCount := retention,
       mSnapshotOnExit := onExit\<rparr>)
   }"

definition MemgraphConfig_DeepCopy :: "addr option \<Rightarrow> ('x cell store, addr option) state" where
  "MemgraphConfig_DeepCopy = copy_pointer config_cell MemgraphConfig_DeepCopyInto"

definition ReplicationHealth_DeepCopyInto ::
    "ReplicationHealth \<Rightarrow> ('x cell store, ReplicationHealth) state" where
  "ReplicationHealth_DeepCopyInto src = State_Monad.return src"

definition ReplicationHealth_DeepCopy :: "addr option \<Rightarrow> ('x cell store, addr option) state" where
  "ReplicationHealth_DeepCopy = copy_pointer health_cell ReplicationHealth_DeepCopyInto"

definition ReplicationSpec_DeepCopyInto ::
    "ReplicationSpec_mem \<Rightarrow> ('x cell store, ReplicationSpec_mem) state" where
  "ReplicationSpec_DeepCopyInto src = do {
     t \<leftarrow> copy_pointer duration_cell State_Monad.return (mBehindAlertThreshold src);
     State_Monad.return (src\<lparr>mBehindAlertThreshold := t\<rparr>)
   }"

definition ReplicationSpec_DeepCopy :: "addr option \<Rightarrow> ('x cell store, addr option) state" where
  "ReplicationSpec_DeepCopy = copy_pointer replication_cell ReplicationSpec_DeepCopyInto"

definition S3BackupSpec_DeepCopyInto ::
    "S3BackupSpec_mem \<Rightarrow> ('x cell store, S3BackupSpec_mem) state" where
  "S3BackupSpec_DeepCopyInto src = do {
     r \<leftarrow> copy_pointer local_ref_cell State_Monad.return (mSecretRef src);
     State_Monad.return (src\<lparr>mSecretRef := r\<rparr>)
   }"

definition S3BackupSpec_DeepCopy :: "addr option \<Rightarrow> ('x cell store, addr option) state" where
  "S3BackupSpec_DeepCopy = copy_pointer s3_cell S3BackupSpec_DeepCopyInto"

definition ServiceNamesSpec_DeepCopyInto ::
    "ServiceNamesSpec \<Rightarrow> ('x cell store, ServiceNamesSpec) state" where
  "ServiceNamesSpec_DeepCopyInto src = State_Monad.return src"

definition ServiceNamesSpec_DeepCopy :: "addr option \<Rightarrow> ('x cell store, addr option) state" where
  "ServiceNamesSpec_DeepCopy = copy_pointer names_cell ServiceNamesSpec_DeepCopyInto"

definition SnapshotSpec_DeepCopyInto ::
    "SnapshotSpec_mem \<Rightarrow> ('x cell store, SnapshotSpec_mem) state" where
  "SnapshotSpec_DeepCopyInto src = do {
     enabled \<leftarrow> copy_pointer bool_cell State_Monad.return (mSnapshotEnabled src);
     active \<leftarrow> copy_pointer int64_cell State_Monad.return (mActiveDeadlineSeconds src);
     starting \<leftarrow> copy_pointer int64_cell State_Monad.return (mStartingDeadlineSeconds src);
     s3 \<leftarrow> copy_pointer s3_cell S3BackupSpec_DeepCopyInto (mS3 src);
     State_Monad.return (src\<lparr>mSnapshotEnabled := enabled, mActiveDeadlineSeconds := active,
       mStartingDeadlineSeconds := starting, mS3 := s3\<rparr>)
   }"

definition SnapshotSpec_DeepCopy :: "addr option \<Rightarrow> ('x cell store, addr option) state" where
  "SnapshotSpec_DeepCopy = copy_pointer snapshot_cell SnapshotSpec_DeepCopyInto"

definition StorageSpec_DeepCopyInto ::
    "'x k8s \<Rightarrow> 'x StorageSpec_mem \<Rightarrow> ('x cell store, 'x StorageSpec_mem) state" where
  "StorageSpec_DeepCopyInto K src = do {
     size \<leftarrow> Quantity_DeepCopy K (mSize src);
     class \<leftarrow> copy_pointer string_cell State_Monad.return (mStorageClassName src);
     State_Monad.return (src\<lparr>mSize := size, mStorageClassName := class\<rparr>)
   }"

definition StorageSpec_DeepCopy ::
    "'x k8s \<Rightarrow> addr option \<Rightarrow> ('x cell store, addr option) state" where
  "StorageSpec_DeepCopy K = copy_pointer (storage_cell K) (StorageSpec_DeepCopyInto K)"

definition ValidationStatus_DeepCopyInto ::
    "'x k8s \<Rightarrow> ValidationStatus_mem \<Rightarrow> ('x cell store, ValidationStatus_mem) state" where
  "ValidationStatus_DeepCopyInto K src = do {
     connectivity \<leftarrow> copy_time K (mLastConnectivityTest src);
     replication \<leftarrow> copy_time K (mLastReplicationTest src);
     instances \<leftarrow> copy_slice instances_cell zero_InstanceValidationStatus
       (InstanceValidationStatus_DeepCopyInto K) (mInstances src);
     State_Monad.return (src\<lparr>mLastConnectivityTest := connectivity,
       mLastReplicationTest := replication, mInstances := instances\<rparr>)
   }"

definition ValidationStatus_DeepCopy ::
    "'x k8s \<Rightarrow> addr option \<Rightarrow> ('x cell store, addr option) state" where
  "ValidationStatus_DeepCopy K = copy_pointer validation_cell (ValidationStatus_DeepCopyInto K)"

definition MemgraphClusterStatus_DeepCopyInto ::
    "'x k8s \<Rightarrow> MemgraphClusterStatus_mem \<Rightarrow> ('x cell store, MemgraphClusterStatus_mem) state" where
  "MemgraphClusterStatus_DeepCopyInto K src = do {
     readers \<leftarrow> copy_plain_slice strings_cell [] (mReadInstances src);
     snapshot \<leftarrow> copy_time K (mLastSnapshotTime src);
     backup \<leftarrow> copy_time K (mLastS3BackupTime src);
     validation \<leftarrow> copy_pointer validation_cell (ValidationStatus_DeepCopyInto K) (mValidation src);
     conditions \<leftarrow> copy_slice structs_cell (zero_struct K) (Condition_DeepCopyInto K) (mConditions src);
     State_Monad.return (src\<lparr>mReadInstances := readers, mLastSnapshotTime := snapshot,
       mLastS3BackupTime := backup, mValidation := validation, mConditions := conditions\<rparr>)
   }"

definition MemgraphClusterStatus_DeepCopy ::
    "'x k8s \<Rightarrow> addr option \<Rightarrow> ('x cell store, addr option) state" where
  "MemgraphClusterStatus_DeepCopy K = copy_pointer status_cell (MemgraphClusterStatus_DeepCopyInto K)"

definition MemgraphClusterSpec_DeepCopyInto ::
    "'x k8s \<Rightarrow> 'x MemgraphClusterSpec_mem \<Rightarrow> ('x cell store, 'x MemgraphClusterSpec_mem) state" where
  "MemgraphClusterSpec_DeepCopyInto K src = do {
     resources \<leftarrow> Resources_DeepCopyInto K (mResources src);
     storage \<leftarrow> StorageSpec_DeepCopyInto K (mStorage src);
     config \<leftarrow> MemgraphConfig_DeepCopyInto (mConfig src);
     replication \<leftarrow> ReplicationSpec_DeepCopyInto (mReplication src);
     ha \<leftarrow> copy_pointer ha_cell State_Monad.return (mHighAvailability src);
     snapshot \<leftarrow> SnapshotSpec_DeepCopyInto (mSnapshot src);
     selector \<leftarrow> copy_map string_map_cell (mNodeSelector src);
     tolerations \<leftarrow> copy_slice structs_cell (zero_struct K) (Toleration_DeepCopyInto K)
       (mTolerations src);
     affinity \<leftarrow> copy_pointer (struct_cell K) (Affinity_DeepCopyInto K) (mAffinity src);
     names \<leftarrow> copy_pointer names_cell State_Monad.return (mServiceNames src);
     State_Monad.return (src\<lparr>mResources := resources, mStorage := storage, mConfig := config,
       mReplication := replication, mHighAvailability := ha, mSnapshot := snapshot,
       mNodeSelector := selector, mTolerations := tolerations, mAffinity := affinity,
       mServiceNames := names\<rparr>)
   }"

definition MemgraphClusterSpec_DeepCopy ::
    "'x k8s \<Rightarrow> addr option \<Rightarrow> ('x cell store, addr option) state" where
  "MemgraphClusterSpec_DeepCopy K = copy_pointer (spec_cell K) (MemgraphClusterSpec_DeepCopyInto K)"

definition MemgraphCluster_DeepCopyInto ::
    "'x k8s \<Rightarrow> 'x MemgraphCluster_mem \<Rightarrow> ('x cell store, 'x MemgraphCluster_mem) state" where
  "MemgraphCluster_DeepCopyInto K src = do {
     meta \<leftarrow> ObjectMeta_DeepCopyInto K (mObjectMeta src);
     spec \<leftarrow> MemgraphClusterSpec_DeepCopyInto K (mSpec src);
     status \<leftarrow> MemgraphClusterStatus_DeepCopyInto K (mStatus src);
     State_Monad.return (src\<lparr>mObjectMeta := meta, mSpec := spec, mStatus := status\<rparr>)
   }"

definition MemgraphCluster_DeepCopy ::
    "'x k8s \<Rightarrow> addr option \<Rightarrow> ('x cell store, addr option) state" where
  "MemgraphCluster_DeepCopy K = copy_pointer (cluster_cell K) (MemgraphCluster_DeepCopyInto K)"

definition MemgraphClusterList_DeepCopyInto ::
    "'x k8s \<Rightarrow> 'x MemgraphClusterList_mem \<Rightarrow> ('x cell store, 'x MemgraphClusterList_mem) state" where
  "MemgraphClusterList_DeepCopyInto K src = do {
     meta \<leftarrow> ListMeta_DeepCopyInto K (mListMeta src);
     items \<leftarrow> copy_slice clusters_cell (zero_MemgraphCluster K) (MemgraphCluster_DeepCopyInto K)
       (mItems src);
     State_Monad.return (src\<lparr>mListMeta := meta, mItems := items\<rparr>)
   }"

definition MemgraphClusterList_DeepCopy ::
    "'x k8s \<Rightarrow> addr option \<Rightarrow> ('x cell store, addr option) state" where
  "MemgraphClusterList_DeepCopy K = copy_pointer (cluster_list_cell K) (MemgraphClusterList_DeepCopyInto K)"

text \<open>
  \<open>runtime.Object\<close> is an interface: nil, or one of the two pointer types. The test of the copy
  against nil keeps a nil pointer from becoming an interface that is not nil.
\<close>

datatype runtime_object = ClusterObject addr | ListObject addr

definition MemgraphCluster_DeepCopyObject ::
    "'x k8s \<Rightarrow> addr option \<Rightarrow> ('x cell store, runtime_object option) state" where
  "MemgraphCluster_DeepCopyObject K p = do {
     c \<leftarrow> MemgraphCluster_DeepCopy K p;
     State_Monad.return (case c of Some a \<Rightarrow> Some (ClusterObject a) | None \<Rightarrow> None)
   }"

definition MemgraphClusterList_DeepCopyObject ::
    "'x k8s \<Rightarrow> addr option \<Rightarrow> ('x cell store, runtime_object option) state" where
  "MemgraphClusterList_DeepCopyObject K p = do {
     c \<leftarrow> MemgraphClusterList_DeepCopy K p;
     State_Monad.return (case c of Some a \<Rightarrow> Some (ListObject a) | None \<Rightarrow> None)
   }"

section \<open>Reading a struct back\<close>

definition plain_pointer :: "('c, 'a) cell_type \<Rightarrow> ('c, addr option, 'a option) view" where
  "plain_pointer T = pointer_view T (plain_view (\<lambda>x. x))"

definition elements :: "'a list option \<Rightarrow> 'a list" where
  "elements xs = (case xs of None \<Rightarrow> [] | Some ys \<Rightarrow> ys)"

definition entries :: "('k \<rightharpoonup> 'v) option \<Rightarrow> 'k \<rightharpoonup> 'v" where
  "entries f = (case f of None \<Rightarrow> Map.empty | Some g \<Rightarrow> g)"

definition StorageSpec_view :: "'x k8s \<Rightarrow> ('x cell, 'x StorageSpec_mem, StorageSpec) view" where
  "StorageSpec_view K = struct_view (\<lambda>s (size, class). \<lparr>Size = size, StorageClassName = class\<rparr>)
     (both_view (field_view mSize (Quantity_view K))
       (field_view mStorageClassName (plain_pointer string_cell)))"

definition MemgraphConfig_view :: "('x cell, MemgraphConfig_mem, MemgraphConfig) view" where
  "MemgraphConfig_view = struct_view (\<lambda>s (interval, retention, onExit).
       \<lparr>LogLevel = mLogLevel s, MemoryLimit = mMemoryLimit s, WALFlushEveryNTx = mWALFlushEveryNTx s,
        SnapshotIntervalSec = interval, SnapshotRetentionCount = retention, SnapshotOnExit = onExit\<rparr>)
     (both_view (field_view mSnapshotIntervalSec (plain_pointer int32_cell))
     (both_view (field_view mSnapshotRetentionCount (plain_pointer int32_cell))
       (field_view mSnapshotOnExit (plain_pointer bool_cell))))"

definition ReplicationSpec_view :: "('x cell, ReplicationSpec_mem, ReplicationSpec) view" where
  "ReplicationSpec_view = struct_view (\<lambda>s t. \<lparr>Mode = mMode s, BehindAlertThreshold = t\<rparr>)
     (field_view mBehindAlertThreshold (plain_pointer duration_cell))"

definition S3BackupSpec_view :: "('x cell, S3BackupSpec_mem, S3BackupSpec) view" where
  "S3BackupSpec_view = struct_view (\<lambda>s r. \<lparr>S3Enabled = mS3Enabled s, Bucket = mBucket s,
       Region = mRegion s, Endpoint = mEndpoint s, Prefix = mPrefix s, SecretRef = r,
       RetentionDays = mRetentionDays s\<rparr>)
     (field_view mSecretRef (plain_pointer local_ref_cell))"

definition SnapshotSpec_view :: "('x cell, SnapshotSpec_mem, SnapshotSpec) view" where
  "SnapshotSpec_view = struct_view (\<lambda>s (enabled, active, starting, s3).
       \<lparr>SnapshotEnabled = enabled, Schedule = mSchedule s, ConcurrencyPolicy = mConcurrencyPolicy s,
        ActiveDeadlineSeconds = active, StartingDeadlineSeconds = starting,
        RetentionCount = mRetentionCount s, S3 = s3\<rparr>)
     (both_view (field_view mSnapshotEnabled (plain_pointer bool_cell))
     (both_view (field_view mActiveDeadlineSeconds (plain_pointer int64_cell))
     (both_view (field_view mStartingDeadlineSeconds (plain_pointer int64_cell))
       (field_view mS3 (pointer_view s3_cell S3BackupSpec_view)))))"

definition MemgraphClusterSpec_view ::
    "'x k8s \<Rightarrow> ('x cell, 'x MemgraphClusterSpec_mem, MemgraphClusterSpec) view" where
  "MemgraphClusterSpec_view K = struct_view
     (\<lambda>s (resources, storage, config, replication, ha, snapshot, selector, tolerations, affinity, names).
       \<lparr>Replicas = mReplicas s, Image = mImage s, Resources = resources, Storage = storage,
        Config = config, Replication = replication, HighAvailability = ha, Snapshot = snapshot,
        NodeSelector = entries selector, Tolerations = elements tolerations, Affinity = affinity,
        ServiceNames = names\<rparr>)
     (both_view (field_view mResources (Resources_view K))
     (both_view (field_view mStorage (StorageSpec_view K))
     (both_view (field_view mConfig MemgraphConfig_view)
     (both_view (field_view mReplication ReplicationSpec_view)
     (both_view (field_view mHighAvailability (plain_pointer ha_cell))
     (both_view (field_view mSnapshot SnapshotSpec_view)
     (both_view (field_view mNodeSelector (map_view string_map_cell))
     (both_view (field_view mTolerations (slice_view structs_cell (Toleration_view K)))
     (both_view (field_view mAffinity (pointer_view (struct_cell K) (Affinity_view K)))
       (field_view mServiceNames (plain_pointer names_cell)))))))))))"

definition InstanceValidationStatus_view ::
    "'x k8s \<Rightarrow> ('x cell, InstanceValidationStatus_mem, InstanceValidationStatus) view" where
  "InstanceValidationStatus_view K = struct_view (\<lambda>s t. \<lparr>IVName = mIVName s, IVRole = mIVRole s,
       IVHealthy = mIVHealthy s, IVLagMs = mIVLagMs s, IVLastTestTime = t\<rparr>)
     (field_view mIVLastTestTime (Time_view K))"

definition ValidationStatus_view ::
    "'x k8s \<Rightarrow> ('x cell, ValidationStatus_mem, ValidationStatus) view" where
  "ValidationStatus_view K = struct_view (\<lambda>s (connectivity, replication, instances).
       \<lparr>LastConnectivityTest = connectivity, LastReplicationTest = replication,
        ReplicationLagMs = mReplicationLagMs s, AllReplicasHealthy = mAllReplicasHealthy s,
        Instances = elements instances\<rparr>)
     (both_view (field_view mLastConnectivityTest (Time_view K))
     (both_view (field_view mLastReplicationTest (Time_view K))
       (field_view mInstances (slice_view instances_cell (InstanceValidationStatus_view K)))))"

definition MemgraphClusterStatus_view ::
    "'x k8s \<Rightarrow> ('x cell, MemgraphClusterStatus_mem, MemgraphClusterStatus) view" where
  "MemgraphClusterStatus_view K = struct_view
     (\<lambda>s (readers, snapshot, backup, validation, conditions).
       \<lparr>Phase = mPhase s, WriteInstance = mWriteInstance s, ReadInstances = elements readers,
        ReadyInstances = mReadyInstances s, RegisteredReplicas = mRegisteredReplicas s,
        LastSnapshotTime = snapshot, LastS3BackupTime = backup, Validation = validation,
        Conditions = elements conditions\<rparr>)
     (both_view (field_view mReadInstances (slice_view strings_cell (plain_view (\<lambda>x. x))))
     (both_view (field_view mLastSnapshotTime (Time_view K))
     (both_view (field_view mLastS3BackupTime (Time_view K))
     (both_view (field_view mValidation (pointer_view validation_cell (ValidationStatus_view K)))
       (field_view mConditions (slice_view structs_cell (Condition_view K)))))))"

definition MemgraphCluster_view ::
    "'x k8s \<Rightarrow> ('x cell, 'x MemgraphCluster_mem, TypeMeta \<times> MemgraphCluster) view" where
  "MemgraphCluster_view K = struct_view
     (\<lambda>s (meta, spec, status). (mTypeMeta s, \<lparr>Meta = meta, Spec = spec, Status = status\<rparr>))
     (both_view (field_view mObjectMeta (ObjectMeta_view K))
     (both_view (field_view mSpec (MemgraphClusterSpec_view K))
       (field_view mStatus (MemgraphClusterStatus_view K))))"

definition MemgraphClusterList_view ::
    "'x k8s \<Rightarrow> ('x cell, 'x MemgraphClusterList_mem,
       TypeMeta \<times> k8s_value \<times> (TypeMeta \<times> MemgraphCluster) list) view" where
  "MemgraphClusterList_view K = struct_view
     (\<lambda>s (meta, items). (mListTypeMeta s, meta, elements items))
     (both_view (field_view mListMeta (ListMeta_view K))
       (field_view mItems (slice_view clusters_cell (MemgraphCluster_view K))))"

section \<open>Every copy is deep\<close>

text \<open>The documented behaviour of the deep copies of the Kubernetes packages.\<close>

definition k8s_copies :: "'x k8s \<Rightarrow> bool" where
  "k8s_copies K \<longleftrightarrow>
     deep_copy (ObjectMeta_view K) (ObjectMeta_DeepCopyInto K) \<and>
     deep_copy (ListMeta_view K) (ListMeta_DeepCopyInto K) \<and>
     deep_copy (Condition_view K) (Condition_DeepCopyInto K) \<and>
     deep_copy (Toleration_view K) (Toleration_DeepCopyInto K) \<and>
     deep_copy (Affinity_view K) (Affinity_DeepCopyInto K) \<and>
     deep_copy (Resources_view K) (Resources_DeepCopyInto K) \<and>
     deep_copy (Quantity_view K) (Quantity_DeepCopy K) \<and>
     deep_copy (Time_view K) (Time_DeepCopy K) \<and>
     (\<forall>m. foot (Time_view K) m None = {})"

named_theorems type_copies "deep copies of the types"

lemma k8s_copiesD [type_copies]:
  assumes "k8s_copies K"
  shows "deep_copy (ObjectMeta_view K) (ObjectMeta_DeepCopyInto K)"
    and "deep_copy (ListMeta_view K) (ListMeta_DeepCopyInto K)"
    and "deep_copy (Condition_view K) (Condition_DeepCopyInto K)"
    and "deep_copy (Toleration_view K) (Toleration_DeepCopyInto K)"
    and "deep_copy (Affinity_view K) (Affinity_DeepCopyInto K)"
    and "deep_copy (Resources_view K) (Resources_DeepCopyInto K)"
    and "deep_copy (Quantity_view K) (Quantity_DeepCopy K)"
  using assms by (simp_all add: k8s_copies_def)

lemma deep_copy_time [type_copies]:
  assumes K: "k8s_copies K"
  shows "deep_copy (Time_view K) (copy_time K)"
proof -
  have T: "deep_copy (Time_view K) (Time_DeepCopy K)" using K by (simp add: k8s_copies_def)
  note local = deep_copy.view_local [OF T] and grows = deep_copy.copy_grows [OF T]
    and copied = deep_copy.copy_copied [OF T]
  have none: "copied (Time_view K) m None m' None" if "ok (Time_view K) m None" "grows m m'" for m m'
    using local_grows [OF local that] K by (simp add: copied_def k8s_copies_def)
  have "grows m m' \<and> copied (Time_view K) m p m' q"
    if "ok (Time_view K) m p" "run_state (copy_time K p) m = (q, m')" for m p q m'
    using that none [of m m] grows copied
    by (auto simp: copy_time_def grows.frame_refl split: if_splits)
  then show ?thesis
    by unfold_locales (use local in blast)+
qed

lemma deep_copy_plain_pointer [type_copies]:
  "proper_cell T \<Longrightarrow> deep_copy (plain_pointer T) (copy_pointer T State_Monad.return)"
  unfolding plain_pointer_def by (intro deep_copy_pointer deep_copy_return)

lemma deep_copy_strings [type_copies]:
  "deep_copy (slice_view strings_cell (plain_view (\<lambda>x. x))) (copy_plain_slice strings_cell z)"
  by (rule deep_copy_plain_slice) simp

lemmas copy_combinators = deep_copy_pointer deep_copy_slice deep_copy_map

text \<open>
  A struct is copied deeply when its view is made of the views of its fields and its function
  copies each of them: the block is run field by field.
\<close>

lemma deep_copy_StorageSpec [type_copies]:
  assumes K: "k8s_copies K"
  shows "deep_copy (StorageSpec_view K) (StorageSpec_DeepCopyInto K)"
proof (rule deep_copyI)
  show "local_view (StorageSpec_view K)"
    unfolding StorageSpec_view_def
    by (intro local_rules type_copies [THEN deep_copy.view_local] K proper_cells)
  show "builds m (StorageSpec_DeepCopyInto K s) (\<lambda>m' t. copied (StorageSpec_view K) m s m' t)"
    if "ok (StorageSpec_view K) m s" for m s
    using that unfolding StorageSpec_DeepCopyInto_def StorageSpec_view_def
    by - ((rule builds_copy, (rule type_copies copy_combinators K proper_cells)+, simp)+,
      auto intro!: builds_return copied_struct simp: copied_both copied_field)
qed

lemma deep_copy_MemgraphConfig [type_copies]:
  "deep_copy MemgraphConfig_view MemgraphConfig_DeepCopyInto"
proof (rule deep_copyI)
  show "local_view MemgraphConfig_view"
    unfolding MemgraphConfig_view_def
    by (intro local_rules type_copies [THEN deep_copy.view_local] proper_cells)
  show "builds m (MemgraphConfig_DeepCopyInto s) (\<lambda>m' t. copied MemgraphConfig_view m s m' t)"
    if "ok MemgraphConfig_view m s" for m s
    using that unfolding MemgraphConfig_DeepCopyInto_def MemgraphConfig_view_def
    by - ((rule builds_copy, (rule type_copies copy_combinators proper_cells)+, simp)+,
      auto intro!: builds_return copied_struct simp: copied_both copied_field)
qed

lemma deep_copy_ReplicationSpec [type_copies]:
  "deep_copy ReplicationSpec_view ReplicationSpec_DeepCopyInto"
proof (rule deep_copyI)
  show "local_view ReplicationSpec_view"
    unfolding ReplicationSpec_view_def
    by (intro local_rules type_copies [THEN deep_copy.view_local] proper_cells)
  show "builds m (ReplicationSpec_DeepCopyInto s) (\<lambda>m' t. copied ReplicationSpec_view m s m' t)"
    if "ok ReplicationSpec_view m s" for m s
    using that unfolding ReplicationSpec_DeepCopyInto_def ReplicationSpec_view_def
    by - ((rule builds_copy, (rule type_copies copy_combinators proper_cells)+, simp)+,
      auto intro!: builds_return copied_struct simp: copied_both copied_field)
qed

lemma deep_copy_S3BackupSpec [type_copies]:
  "deep_copy S3BackupSpec_view S3BackupSpec_DeepCopyInto"
proof (rule deep_copyI)
  show "local_view S3BackupSpec_view"
    unfolding S3BackupSpec_view_def
    by (intro local_rules type_copies [THEN deep_copy.view_local] proper_cells)
  show "builds m (S3BackupSpec_DeepCopyInto s) (\<lambda>m' t. copied S3BackupSpec_view m s m' t)"
    if "ok S3BackupSpec_view m s" for m s
    using that unfolding S3BackupSpec_DeepCopyInto_def S3BackupSpec_view_def
    by - ((rule builds_copy, (rule type_copies copy_combinators proper_cells)+, simp)+,
      auto intro!: builds_return copied_struct simp: copied_both copied_field)
qed

lemma deep_copy_SnapshotSpec [type_copies]:
  "deep_copy SnapshotSpec_view SnapshotSpec_DeepCopyInto"
proof (rule deep_copyI)
  show "local_view SnapshotSpec_view"
    unfolding SnapshotSpec_view_def
    by (intro local_rules type_copies [THEN deep_copy.view_local] proper_cells)
  show "builds m (SnapshotSpec_DeepCopyInto s) (\<lambda>m' t. copied SnapshotSpec_view m s m' t)"
    if "ok SnapshotSpec_view m s" for m s
    using that unfolding SnapshotSpec_DeepCopyInto_def SnapshotSpec_view_def
    by - ((rule builds_copy, (rule type_copies copy_combinators proper_cells)+, simp)+,
      auto intro!: builds_return copied_struct simp: copied_both copied_field)
qed

lemma deep_copy_MemgraphClusterSpec [type_copies]:
  assumes K: "k8s_copies K"
  shows "deep_copy (MemgraphClusterSpec_view K) (MemgraphClusterSpec_DeepCopyInto K)"
proof (rule deep_copyI)
  show "local_view (MemgraphClusterSpec_view K)"
    unfolding MemgraphClusterSpec_view_def
    by (intro local_rules type_copies [THEN deep_copy.view_local] K proper_cells)
  show "builds m (MemgraphClusterSpec_DeepCopyInto K s) (\<lambda>m' t. copied (MemgraphClusterSpec_view K) m s m' t)"
    if "ok (MemgraphClusterSpec_view K) m s" for m s
    using that unfolding MemgraphClusterSpec_DeepCopyInto_def MemgraphClusterSpec_view_def
    by - ((rule builds_copy, (rule type_copies copy_combinators K proper_cells)+, simp)+,
      auto intro!: builds_return copied_struct simp: copied_both copied_field)
qed

lemma deep_copy_InstanceValidationStatus [type_copies]:
  assumes K: "k8s_copies K"
  shows "deep_copy (InstanceValidationStatus_view K) (InstanceValidationStatus_DeepCopyInto K)"
proof (rule deep_copyI)
  show "local_view (InstanceValidationStatus_view K)"
    unfolding InstanceValidationStatus_view_def
    by (intro local_rules type_copies [THEN deep_copy.view_local] K proper_cells)
  show "builds m (InstanceValidationStatus_DeepCopyInto K s) (\<lambda>m' t. copied (InstanceValidationStatus_view K) m s m' t)"
    if "ok (InstanceValidationStatus_view K) m s" for m s
    using that unfolding InstanceValidationStatus_DeepCopyInto_def InstanceValidationStatus_view_def
    by - ((rule builds_copy, (rule type_copies copy_combinators K proper_cells)+, simp)+,
      auto intro!: builds_return copied_struct simp: copied_both copied_field)
qed

lemma deep_copy_ValidationStatus [type_copies]:
  assumes K: "k8s_copies K"
  shows "deep_copy (ValidationStatus_view K) (ValidationStatus_DeepCopyInto K)"
proof (rule deep_copyI)
  show "local_view (ValidationStatus_view K)"
    unfolding ValidationStatus_view_def
    by (intro local_rules type_copies [THEN deep_copy.view_local] K proper_cells)
  show "builds m (ValidationStatus_DeepCopyInto K s) (\<lambda>m' t. copied (ValidationStatus_view K) m s m' t)"
    if "ok (ValidationStatus_view K) m s" for m s
    using that unfolding ValidationStatus_DeepCopyInto_def ValidationStatus_view_def
    by - ((rule builds_copy, (rule type_copies copy_combinators K proper_cells)+, simp)+,
      auto intro!: builds_return copied_struct simp: copied_both copied_field)
qed

lemma deep_copy_MemgraphClusterStatus [type_copies]:
  assumes K: "k8s_copies K"
  shows "deep_copy (MemgraphClusterStatus_view K) (MemgraphClusterStatus_DeepCopyInto K)"
proof (rule deep_copyI)
  show "local_view (MemgraphClusterStatus_view K)"
    unfolding MemgraphClusterStatus_view_def
    by (intro local_rules type_copies [THEN deep_copy.view_local] K proper_cells)
  show "builds m (MemgraphClusterStatus_DeepCopyInto K s) (\<lambda>m' t. copied (MemgraphClusterStatus_view K) m s m' t)"
    if "ok (MemgraphClusterStatus_view K) m s" for m s
    using that unfolding MemgraphClusterStatus_DeepCopyInto_def MemgraphClusterStatus_view_def
    by - ((rule builds_copy, (rule type_copies copy_combinators K proper_cells)+, simp)+,
      auto intro!: builds_return copied_struct simp: copied_both copied_field)
qed

lemma deep_copy_MemgraphCluster [type_copies]:
  assumes K: "k8s_copies K"
  shows "deep_copy (MemgraphCluster_view K) (MemgraphCluster_DeepCopyInto K)"
proof (rule deep_copyI)
  show "local_view (MemgraphCluster_view K)"
    unfolding MemgraphCluster_view_def
    by (intro local_rules type_copies [THEN deep_copy.view_local] K proper_cells)
  show "builds m (MemgraphCluster_DeepCopyInto K s) (\<lambda>m' t. copied (MemgraphCluster_view K) m s m' t)"
    if "ok (MemgraphCluster_view K) m s" for m s
    using that unfolding MemgraphCluster_DeepCopyInto_def MemgraphCluster_view_def
    by - ((rule builds_copy, (rule type_copies copy_combinators K proper_cells)+, simp)+,
      auto intro!: builds_return copied_struct simp: copied_both copied_field)
qed

lemma deep_copy_MemgraphClusterList [type_copies]:
  assumes K: "k8s_copies K"
  shows "deep_copy (MemgraphClusterList_view K) (MemgraphClusterList_DeepCopyInto K)"
proof (rule deep_copyI)
  show "local_view (MemgraphClusterList_view K)"
    unfolding MemgraphClusterList_view_def
    by (intro local_rules type_copies [THEN deep_copy.view_local] K proper_cells)
  show "builds m (MemgraphClusterList_DeepCopyInto K s) (\<lambda>m' t. copied (MemgraphClusterList_view K) m s m' t)"
    if "ok (MemgraphClusterList_view K) m s" for m s
    using that unfolding MemgraphClusterList_DeepCopyInto_def MemgraphClusterList_view_def
    by - ((rule builds_copy, (rule type_copies copy_combinators K proper_cells)+, simp)+,
      auto intro!: builds_return copied_struct simp: copied_both copied_field)
qed

text \<open>The types whose copies need nothing of the Kubernetes packages.\<close>

interpretation config_copy: deep_copy MemgraphConfig_view MemgraphConfig_DeepCopyInto
  by (rule deep_copy_MemgraphConfig)

interpretation replication_copy: deep_copy ReplicationSpec_view ReplicationSpec_DeepCopyInto
  by (rule deep_copy_ReplicationSpec)

interpretation s3_copy: deep_copy S3BackupSpec_view S3BackupSpec_DeepCopyInto
  by (rule deep_copy_S3BackupSpec)

interpretation snapshot_copy: deep_copy "pointer_view snapshot_cell SnapshotSpec_view" SnapshotSpec_DeepCopy
  unfolding SnapshotSpec_DeepCopy_def
  by (intro deep_copy_pointer deep_copy_SnapshotSpec proper_cells)

section \<open>A deep copy is a copy of the value\<close>

abbreviation cluster_pointer ::
    "'x k8s \<Rightarrow> ('x cell, addr option, (TypeMeta \<times> MemgraphCluster) option) view" where
  "cluster_pointer K \<equiv> pointer_view (cluster_cell K) (MemgraphCluster_view K)"

abbreviation list_pointer :: "'x k8s \<Rightarrow> ('x cell, addr option,
    (TypeMeta \<times> k8s_value \<times> (TypeMeta \<times> MemgraphCluster) list) option) view" where
  "list_pointer K \<equiv> pointer_view (cluster_list_cell K) (MemgraphClusterList_view K)"

lemma cluster_pointer_copy:
  "k8s_copies K \<Longrightarrow> deep_copy (cluster_pointer K) (MemgraphCluster_DeepCopy K)"
  unfolding MemgraphCluster_DeepCopy_def
  by (intro deep_copy_pointer deep_copy_MemgraphCluster proper_cells)

lemma list_pointer_copy:
  "k8s_copies K \<Longrightarrow> deep_copy (list_pointer K) (MemgraphClusterList_DeepCopy K)"
  unfolding MemgraphClusterList_DeepCopy_def
  by (intro deep_copy_pointer deep_copy_MemgraphClusterList proper_cells)

lemma copy_pointer_Some:
  "\<exists>m'. run_state (copy_pointer T c (Some a)) m = (Some (brk m), m')"
  by (simp add: copy_pointer_def run_cells split: prod.splits)

lemma cluster_copy_fresh:
  assumes K: "k8s_copies K" and ok: "ok (cluster_pointer K) m (Some a)"
    and run: "run_state (MemgraphCluster_DeepCopyObject K (Some a)) m = (r, m')"
  shows "r = Some (ClusterObject (brk m)) \<and>
    run_state (MemgraphCluster_DeepCopy K (Some a)) m = (Some (brk m), m')"
proof -
  obtain m1 where "run_state (MemgraphCluster_DeepCopy K (Some a)) m = (Some (brk m), m1)"
    unfolding MemgraphCluster_DeepCopy_def using copy_pointer_Some by blast
  then show ?thesis
    using run by (simp add: MemgraphCluster_DeepCopyObject_def)
qed

text \<open>C12: The deep copy of a cluster is a new object that reads back as the same value: nothing
  that was in memory changes, every cell of the copy is new, and it shares none with the original;
  a nil pointer is copied to a nil object.\<close>

theorem cluster_copy_deep:
  assumes "k8s_copies K" and "ok (cluster_pointer K) m (Some a)"
    and "run_state (MemgraphCluster_DeepCopyObject K (Some a)) m = (r, m')"
  shows "\<exists>b. r = Some (ClusterObject b) \<and> ok (cluster_pointer K) m' (Some b) \<and>
    val (cluster_pointer K) m' (Some b) = val (cluster_pointer K) m (Some a) \<and>
    val (cluster_pointer K) m' (Some a) = val (cluster_pointer K) m (Some a) \<and>
    (\<forall>x < brk m. cells m' x = cells m x) \<and>
    foot (cluster_pointer K) m' (Some b) \<subseteq> {brk m..<brk m'} \<and>
    foot (cluster_pointer K) m' (Some a) \<inter> foot (cluster_pointer K) m' (Some b) = {} \<and>
    run_state (MemgraphCluster_DeepCopyObject K None) m = (None, m)"
proof -
  note copy = cluster_pointer_copy [OF assms(1)]
  note f = cluster_copy_fresh [OF assms]
  then have run: "run_state (MemgraphCluster_DeepCopy K (Some a)) m = (Some (brk m), m')" ..
  show ?thesis
    using f deep_copy.copy_grows [OF copy assms(2) run] deep_copy.copy_copied [OF copy assms(2) run]
      deep_copy.copy_disjoint [OF copy assms(2) run]
    by (simp add: grows_def copied_def MemgraphCluster_DeepCopyObject_def
        MemgraphCluster_DeepCopy_def copy_pointer_def)
qed

lemma list_copy_fresh:
  assumes run: "run_state (MemgraphClusterList_DeepCopyObject K (Some a)) m = (r, m')"
  shows "r = Some (ListObject (brk m)) \<and>
    run_state (MemgraphClusterList_DeepCopy K (Some a)) m = (Some (brk m), m')"
proof -
  obtain m1 where "run_state (MemgraphClusterList_DeepCopy K (Some a)) m = (Some (brk m), m1)"
    unfolding MemgraphClusterList_DeepCopy_def using copy_pointer_Some by blast
  then show ?thesis
    using run by (simp add: MemgraphClusterList_DeepCopyObject_def)
qed

text \<open>C14: A list of clusters and its deep copy do not see each other's writes: whatever is
  later written to the cells of the one, the other still reads as the list did when it was copied.\<close>

theorem list_copy_isolated:
  assumes "k8s_copies K" and "ok (list_pointer K) m (Some a)"
    and "run_state (MemgraphClusterList_DeepCopyObject K (Some a)) m = (Some (ListObject b), m')"
    and "brk m' \<le> brk m''"
  shows "((\<forall>x. x \<notin> foot (list_pointer K) m' (Some a) \<longrightarrow> cells m'' x = cells m' x) \<longrightarrow>
      val (list_pointer K) m'' (Some b) = val (list_pointer K) m (Some a)) \<and>
    ((\<forall>x. x \<notin> foot (list_pointer K) m' (Some b) \<longrightarrow> cells m'' x = cells m' x) \<longrightarrow>
      val (list_pointer K) m'' (Some a) = val (list_pointer K) m (Some a))"
proof -
  note copy = list_pointer_copy [OF assms(1)]
  have run: "run_state (MemgraphClusterList_DeepCopy K (Some a)) m = (Some b, m')"
    using list_copy_fresh [OF assms(3)] by simp
  show ?thesis
    using deep_copy.copy_isolated [OF copy assms(2) run assms(4)] by blast
qed

section \<open>A concrete memory\<close>

text \<open>
  Kubernetes structs without pointers, except that a time lives in a cell of its own, and a
  cluster with a pointer, a map, a slice and a time.
\<close>

datatype sample_struct = ZeroStruct | MetaStruct ObjectMeta | ValueStruct k8s_value
  | ConditionStruct Condition | QuantityStruct string | TimeStruct instant

fun sample_meta :: "sample_struct \<Rightarrow> ObjectMeta" where
  "sample_meta (MetaStruct md) = md"
| "sample_meta _ = mk_meta [] [] Map.empty"

fun sample_value :: "sample_struct \<Rightarrow> k8s_value" where
  "sample_value (ValueStruct v) = v"
| "sample_value _ = KNull"

fun sample_condition :: "sample_struct \<Rightarrow> Condition" where
  "sample_condition (ConditionStruct c) = c"
| "sample_condition _ = \<lparr>CondType = [], CondStatus = [], LastTransitionTime = 0, CondReason = [],
     CondMessage = []\<rparr>"

fun sample_quantity :: "sample_struct \<Rightarrow> Quantity" where
  "sample_quantity (QuantityStruct q) = q"
| "sample_quantity _ = []"

fun sample_time :: "sample_struct \<Rightarrow> instant" where
  "sample_time (TimeStruct t) = t"
| "sample_time _ = 0"

definition time_cell :: "(sample_struct cell, sample_struct) cell_type" where
  "time_cell = \<lparr>peek = c_struct, poke = (\<lambda>v c. c\<lparr>c_struct := v\<rparr>), zero_val = TimeStruct 0\<rparr>"

definition sample_k8s :: "sample_struct k8s" where
  "sample_k8s = \<lparr>zero_struct = ZeroStruct, ObjectMeta_view = plain_view sample_meta,
     ListMeta_view = plain_view sample_value, Condition_view = plain_view sample_condition,
     Toleration_view = plain_view sample_value, Affinity_view = plain_view sample_value,
     Resources_view = plain_view sample_value, Quantity_view = plain_view sample_quantity,
     Time_view = pointer_view time_cell (plain_view sample_time),
     ObjectMeta_DeepCopyInto = State_Monad.return, ListMeta_DeepCopyInto = State_Monad.return,
     Condition_DeepCopyInto = State_Monad.return, Toleration_DeepCopyInto = State_Monad.return,
     Affinity_DeepCopyInto = State_Monad.return, Resources_DeepCopyInto = State_Monad.return,
     Quantity_DeepCopy = State_Monad.return, Time_DeepCopy = copy_pointer time_cell State_Monad.return\<rparr>"

lemma sample_copies: "k8s_copies sample_k8s"
  unfolding k8s_copies_def sample_k8s_def k8s.simps
  by (intro conjI deep_copy_pointer deep_copy_return)
     (auto simp: proper_cell_def time_cell_def pointer_view_def)

definition blank_cell :: "sample_struct cell" where
  "blank_cell = \<lparr>c_bool = False, c_int32 = 0, c_int64 = 0, c_string = [], c_strings = [],
     c_string_map = [], c_duration = 0, c_local_ref = [], c_ha = zero_ha, c_names = zero_names,
     c_health = zero_health,
     c_storage = zero_StorageSpec sample_k8s, c_config = zero_MemgraphConfig,
     c_replication = zero_ReplicationSpec, c_s3 = zero_S3BackupSpec, c_snapshot = zero_SnapshotSpec,
     c_spec = zero_MemgraphClusterSpec sample_k8s, c_instance = zero_InstanceValidationStatus,
     c_instances = [], c_validation = zero_ValidationStatus_mem, c_status = zero_MemgraphClusterStatus,
     c_cluster = zero_MemgraphCluster sample_k8s, c_clusters = [],
     c_list = zero_MemgraphClusterList sample_k8s, c_struct = ZeroStruct, c_structs = []\<rparr>"

definition sample_cluster_mem :: "sample_struct MemgraphCluster_mem" where
  "sample_cluster_mem = (zero_MemgraphCluster sample_k8s)\<lparr>
     mObjectMeta := MetaStruct (mk_meta ''mg'' ''db'' Map.empty),
     mSpec := (zero_MemgraphClusterSpec sample_k8s)\<lparr>mReplicas := 3, mHighAvailability := Some 1,
       mNodeSelector := Some 2\<rparr>,
     mStatus := zero_MemgraphClusterStatus\<lparr>mReadInstances := Some 3, mLastSnapshotTime := Some 4\<rparr>\<rparr>"

definition sample_store :: "sample_struct cell store" where
  "sample_store = \<lparr>cells = (\<lambda>_. blank_cell)(0 := blank_cell\<lparr>c_cluster := sample_cluster_mem\<rparr>,
       1 := blank_cell\<lparr>c_ha := \<lparr>HAEnabled = True, FailoverTimeoutSeconds = 30, PreferredMain = ''mg-0''\<rparr>\<rparr>,
       2 := blank_cell\<lparr>c_string_map := [(''disk'', ''ssd''), (''zone'', ''a'')]\<rparr>,
       3 := blank_cell\<lparr>c_strings := [''mg-1'', ''mg-2'']\<rparr>,
       4 := blank_cell\<lparr>c_struct := TimeStruct 7\<rparr>,
       5 := blank_cell\<lparr>c_list := (zero_MemgraphClusterList sample_k8s)\<lparr>mItems := Some 6\<rparr>\<rparr>,
       6 := blank_cell\<lparr>c_clusters := [sample_cluster_mem, zero_MemgraphCluster sample_k8s]\<rparr>),
     brk = 7\<rparr>"

lemmas sample_defs = sample_k8s_def sample_cluster_mem_def sample_store_def cell_defs time_cell_def
  zero_MemgraphCluster_def zero_MemgraphClusterSpec_def zero_StorageSpec_def zero_MemgraphConfig_def
  zero_ReplicationSpec_def zero_SnapshotSpec_def zero_MemgraphClusterStatus_def
  zero_MemgraphClusterList_def

lemmas type_views = MemgraphClusterList_view_def MemgraphCluster_view_def
  MemgraphClusterSpec_view_def StorageSpec_view_def MemgraphConfig_view_def
  ReplicationSpec_view_def SnapshotSpec_view_def MemgraphClusterStatus_view_def plain_pointer_def

lemma sample_cluster_ok:
  "ok (MemgraphCluster_view sample_k8s) sample_store sample_cluster_mem"
  "ok (MemgraphCluster_view sample_k8s) sample_store (zero_MemgraphCluster sample_k8s)"
  by (simp_all add: type_views sample_defs view_defs)

lemma sample_pointers:
  "peek (cluster_cell sample_k8s) (cells sample_store 0) = sample_cluster_mem"
  "peek (cluster_list_cell sample_k8s) (cells sample_store 5) =
     (zero_MemgraphClusterList sample_k8s)\<lparr>mItems := Some 6\<rparr>"
  "peek clusters_cell (cells sample_store 6) = [sample_cluster_mem, zero_MemgraphCluster sample_k8s]"
  "brk sample_store = 7"
  by (simp_all add: cell_defs sample_store_def)

lemma sample_ok:
  "ok (cluster_pointer sample_k8s) sample_store (Some 0)"
  "ok (list_pointer sample_k8s) sample_store (Some 5)"
  by (simp_all add: pointer_view_def slice_view_def sample_pointers sample_cluster_ok
      MemgraphClusterList_view_def zero_MemgraphClusterList_def) (simp add: sample_k8s_def plain_view_def)

theorem cluster_copy_deep_witness:
  "\<exists>b. fst (run_state (MemgraphCluster_DeepCopyObject sample_k8s (Some 0)) sample_store) =
      Some (ClusterObject b) \<and>
    val (cluster_pointer sample_k8s)
      (snd (run_state (MemgraphCluster_DeepCopyObject sample_k8s (Some 0)) sample_store)) (Some b) =
    val (cluster_pointer sample_k8s) sample_store (Some 0)"
  using cluster_copy_deep [OF sample_copies sample_ok(1) surjective_pairing] by blast

theorem list_copy_isolated_witness:
  "\<exists>b m'. run_state (MemgraphClusterList_DeepCopyObject sample_k8s (Some 5)) sample_store =
      (Some (ListObject b), m') \<and>
    val (list_pointer sample_k8s) (m'\<lparr>cells := (cells m')(5 := blank_cell)\<rparr>) (Some b) =
    val (list_pointer sample_k8s) sample_store (Some 5)"
proof -
  obtain r m' where run: "run_state (MemgraphClusterList_DeepCopyObject sample_k8s (Some 5)) sample_store
      = (r, m')" by (cases "run_state (MemgraphClusterList_DeepCopyObject sample_k8s (Some 5)) sample_store")
  then obtain b where run: "run_state (MemgraphClusterList_DeepCopyObject sample_k8s (Some 5)) sample_store
      = (Some (ListObject b), m')"
    using list_copy_fresh [OF run] by simp
  have "5 \<in> foot (list_pointer sample_k8s) m' (Some 5)"
    by (simp add: pointer_view_def)
  then have "\<forall>x. x \<notin> foot (list_pointer sample_k8s) m' (Some 5) \<longrightarrow>
      cells (m'\<lparr>cells := (cells m')(5 := blank_cell)\<rparr>) x = cells m' x"
    by auto
  then show ?thesis
    using list_copy_isolated [OF sample_copies sample_ok(2) run, of "m'\<lparr>cells := (cells m')(5 := blank_cell)\<rparr>"] run
    by simp
qed

end
