(* ===== verification/Storage_Laws.thy ===== *)
theory Storage_Laws
  imports Storage_Info Replica_View
begin

text \<open>
  What the storage parser (\<open>parseStorageInfoOutput\<close>, \<open>parseMemoryValue\<close> in
  \<open>internal/memgraph/client.go\<close>) computes: the value of a size with a unit, and the report it
  reads back from a printed table.
\<close>

section \<open>Sizes with units\<close>

lemma hex_digit_digit_char: "0 \<le> d \<Longrightarrow> d < 10 \<Longrightarrow> digit_in 10 (digit_char d) = Some d"
  by (simp add: digit_in_def hex_digit_def of_char_digit_char)

lemma digit_plain: "is_digit c \<Longrightarrow> c \<noteq> CHR ''_'' \<and> c \<noteq> CHR ''.''"
  by (auto simp: is_digit_def)

lemma digit_in_10: "is_digit c \<Longrightarrow> digit_in 10 c = Some (digit_val c)"
  by (auto simp: digit_in_def hex_digit_def is_digit_def digit_val_def Let_def)

lemma mantissa_digits:
  "list_all is_digit ds \<Longrightarrow> parse_uint_loop m ds = Inr k \<Longrightarrow>
   mantissa_loop 10 ds m fr False seen = (k, fr, seen \<or> ds \<noteq> [], [])"
  by (induction ds arbitrary: m seen)
    (auto simp: digit_plain digit_in_10 Let_def split: if_splits)

lemma show_pos_digit_list: "0 \<le> n \<Longrightarrow> list_all is_digit (show_pos n)"
  by (auto simp: list_all_iff show_pos_digits)

lemma parse_decimal_show_pos:
  "0 \<le> n \<Longrightarrow> n < 2 ^ 53 \<Longrightarrow> parse_decimal (show_pos n) = Some (of_int n)"
  using mantissa_digits [OF show_pos_digit_list, of n 0 n 0 False] parse_show_pos [of n]
    show_pos_not_Nil [of n]
  by (simp add: parse_decimal_def)

lemma digits_lower: "list_all is_digit ds \<Longrightarrow> ToLower ds = ds"
  by (induction ds) (auto simp: ToLower_def to_lower_char_def is_digit_def)

lemma digits_not_word:
  "list_all is_digit ds \<Longrightarrow> c \<in> set s \<Longrightarrow> \<not> is_digit c \<Longrightarrow> ds \<noteq> s"
  by (auto simp: list_all_iff)

lemma parse_unsigned_digits:
  assumes "list_all is_digit ds"
  shows "parse_unsigned_float ds = parse_decimal ds"
proof -
  have "CHR ''_'' \<notin> set ds" using assms digit_plain by (auto simp: list_all_iff)
  moreover have "to_lower_char b \<noteq> CHR ''x''" if "is_digit b" for b
    using that by (auto simp: to_lower_char_def is_digit_def)
  ultimately show ?thesis
    using assms by (auto simp: parse_unsigned_float_def split: list.splits)
qed

lemma ParseFloat_show_pos:
  assumes "0 \<le> n" and "n < 2 ^ 53"
  shows "ParseFloat (show_pos n) = (Fin (of_int n), None)"
proof -
  let ?s = "show_pos n"
  have d: "list_all is_digit ?s" by (rule show_pos_digit_list [OF assms(1)])
  have "hd ?s \<in> set ?s" by (simp add: show_pos_not_Nil)
  then have "is_digit (hd ?s)" using d by (simp add: list_all_iff)
  then have sign: "hd ?s \<noteq> CHR ''+''" "hd ?s \<noteq> CHR ''-''" using digit_not_sign by auto
  have nd: "\<not> is_digit (CHR ''n'')" by (simp add: is_digit_def)
  have "ToLower ?s \<noteq> ''inf''" "ToLower ?s \<noteq> ''infinity''" "ToLower ?s \<noteq> ''nan''"
    unfolding digits_lower [OF d] by (rule digits_not_word [OF d _ nd]; simp)+
  moreover have "f64_round (of_int n) = Fin (of_int n)"
    using f64_of_int_exact [of n] assms by (simp add: f64_of_int_def)
  ultimately show ?thesis
    using sign by (simp add: ParseFloat_def Let_def parse_unsigned_digits [OF d] parse_decimal_show_pos [OF assms])
qed

definition unit_powers :: "(string \<times> nat) list" where
  "unit_powers = [(''B'', 0), (''BYTES'', 0), (''KB'', 1), (''KIB'', 1), (''MB'', 2), (''MIB'', 2),
     (''GB'', 3), (''GIB'', 3), (''TB'', 4), (''TIB'', 4)]"

lemma f64_scale_exact:
  "0 \<le> n \<Longrightarrow> n * 1024 < 2 ^ 53 \<Longrightarrow> f64_scale 1024 (Fin (of_int n)) = Fin (of_int (n * 1024))"
  using f64_of_int_exact [of "n * 1024"] by (simp add: f64_of_int_def)

lemma to_int64_exact: "0 \<le> n \<Longrightarrow> n < 2 ^ 53 \<Longrightarrow> f64_to_int64 oor (Fin (of_int n)) = n"
  by (simp add: f64_to_int64_def is_int64_def)

lemma f64_scale_exact_pow:
  assumes "0 \<le> n" and "n * 1024 ^ k < 2 ^ 53"
  shows "(f64_scale 1024 ^^ k) (Fin (of_int n)) = Fin (of_int (n * 1024 ^ k))"
  using assms(2)
proof (induction k)
  case (Suc k)
  have "n * 1024 ^ k \<le> n * 1024 ^ Suc k" using assms(1) by (simp add: mult_left_mono)
  with Suc show ?case
    using f64_scale_exact [of "n * 1024 ^ k"] assms(1) by (simp add: mult.assoc mult.commute)
qed simp

lemma applyMemoryUnit_pow:
  assumes "map_of unit_powers (ToUpper u) = Some k"
  shows "applyMemoryUnit oor num u = f64_to_int64 oor ((f64_scale 1024 ^^ k) num)"
  using assms
  by (auto simp: unit_powers_def applyMemoryUnit_def Let_def numeral_eq_Suc split: if_splits)


lemma ParseInt_letters:
  assumes "0 \<le> n" and "n < 2 ^ 53" and "\<not> is_digit x"
  shows "ParseInt (show_pos n @ x # xs) = (0, Some ErrSyntax)"
proof -
  have d: "list_all is_digit (show_pos n)" by (rule show_pos_digit_list [OF assms(1)])
  obtain c cs where s: "show_pos n = c # cs" using show_pos_not_Nil by (cases "show_pos n") auto
  then have "c \<notin> {CHR ''-'', CHR ''+''}" using d digit_not_sign by simp
  moreover have "parse_uint_loop 0 (show_pos n @ x # xs) = Inl ErrSyntax"
    using parse_show_pos [of n] assms by (simp add: parse_loop_append)
  ultimately show ?thesis using s by (simp add: ParseInt_def ParseUint_def del: parse_uint_loop.simps)
qed

lemma letter_codes: "is_letter c \<Longrightarrow> \<not> is_digit c \<and> \<not> is_space c"
proof -
  assume "is_letter c"
  then have l: "65 \<le> (of_char c :: int)" by (auto simp: is_letter_def Let_def)
  then have "c \<noteq> CHR 0x09" "c \<noteq> CHR 0x0A" "c \<noteq> CHR 0x0B" "c \<noteq> CHR 0x0C" "c \<noteq> CHR 0x0D" "c \<noteq> CHR '' ''"
    by fastforce+
  with l show ?thesis by (simp add: is_digit_def is_space_def)
qed

lemma digit_not_space: "is_digit c \<Longrightarrow> \<not> is_space c \<and> \<not> is_letter c"
  by (auto simp: is_digit_def is_space_def is_letter_def Let_def)

lemma Fields_single:
  assumes "s \<noteq> []" and "\<forall>c \<in> set s. \<not> is_space c"
  shows "Fields s = [s]"
proof -
  obtain c cs where s: "s = c # cs" using assms(1) by (cases s) auto
  have "takeWhile (\<lambda>x. \<not> is_space x) cs = cs" and d: "dropWhile (\<lambda>x. \<not> is_space x) cs = []"
    using assms(2) s by auto
  moreover have "Fields [] = []" by (subst Fields.simps) simp
  ultimately show ?thesis using assms(2) unfolding s by (subst Fields.simps) (simp add: d)
qed

lemma Fields_pair:
  assumes "s \<noteq> []" and "\<forall>c \<in> set s. \<not> is_space c" and "u \<noteq> []" and "\<forall>c \<in> set u. \<not> is_space c"
  shows "Fields (s @ CHR '' '' # u) = [s, u]"
proof -
  obtain c cs where s: "s = c # cs" using assms(1) by (cases s) auto
  have sp: "is_space (CHR '' '')" by (simp add: is_space_def)
  then have "takeWhile (\<lambda>x. \<not> is_space x) (cs @ CHR '' '' # u) = cs"
    and "dropWhile (\<lambda>x. \<not> is_space x) (cs @ CHR '' '' # u) = CHR '' '' # u"
    using assms(2) s by (auto simp: takeWhile_append dropWhile_append)
  moreover have "Fields (CHR '' '' # u) = Fields u"
    using sp by (subst (1 2) Fields.simps) simp
  ultimately show ?thesis
    using assms s by (subst Fields.simps) (simp add: Fields_single)
qed

lemma memory_with_unit:
  assumes "map_of unit_powers (ToUpper u) = Some k" and "list_all is_letter u"
    and "0 \<le> n" and "n * 1024 ^ k < 2 ^ 53" and "sep \<in> {[], '' ''}"
  shows "parseMemoryValue oor (show_pos n @ sep @ u) = n * 1024 ^ k"
proof -
  let ?s = "show_pos n" and ?v = "show_pos n @ sep @ u"
  have "n \<le> n * 1024 ^ k" using assms(3) by (simp add: mult_le_cancel_left1)
  then have n: "n < 2 ^ 53" using assms(4) by linarith
  have d: "list_all is_digit ?s" by (rule show_pos_digit_list [OF assms(3)])
  have u: "u \<noteq> []" using assms(1) by (auto simp: unit_powers_def ToUpper_def)
  then obtain x xs where x: "u = x # xs" by (cases u) auto
  then have lx: "is_letter x" using assms(2) by simp
  have ns: "\<forall>c \<in> set ?s. \<not> is_space c" "\<forall>c \<in> set u. \<not> is_space c"
    using d assms(2) digit_not_space letter_codes by (auto simp: list_all_iff)
  have "hd ?v \<in> set ?s" "last ?v \<in> set u" using u by (simp_all add: show_pos_not_Nil)
  then have trim: "TrimSpace ?v = ?v"
    unfolding TrimSpace_def using ns by (intro TrimFunc_id) auto
  have "\<not> is_digit (CHR '' '')" by (simp add: is_digit_def)
  then have pi: "ParseInt ?v = (0, Some ErrSyntax)"
    using assms(5) ParseInt_letters [OF assms(3) n] letter_codes [OF lx] x by auto
  have split: "splitNumberAndUnit (?s @ u) = (?s, u)"
    using d lx x digit_not_space by (auto simp: splitNumberAndUnit_def list_all_iff takeWhile_append dropWhile_append)
  have val: "applyMemoryUnit oor (Fin (of_int n)) u = n * 1024 ^ k"
    using to_int64_exact [of "n * 1024 ^ k" oor] assms(3,4)
    by (simp only: applyMemoryUnit_pow [OF assms(1)] f64_scale_exact_pow) simp
  have pf: "ParseFloat ?s = (Fin (of_int n), None)" by (rule ParseFloat_show_pos [OF assms(3) n])
  show ?thesis
  proof (cases "sep = []")
    case True
    have "Fields (?s @ u) = [?s @ u]" using ns u by (intro Fields_single) auto
    with True trim pi show ?thesis
      by (simp add: parseMemoryValue_def show_pos_not_Nil split pf u val)
  next
    case False
    then have "sep = '' ''" using assms(5) by simp
    moreover have "Fields (?s @ CHR '' '' # u) = [?s, u]"
      using ns u show_pos_not_Nil by (intro Fields_pair) auto
    ultimately show ?thesis
      using trim pi by (simp add: parseMemoryValue_def show_pos_not_Nil pf val)
  qed
qed

lemma memory_plain: "is_int64 i \<Longrightarrow> parseMemoryValue oor (Itoa i) = i"
proof -
  assume i: "is_int64 i"
  have "is_digit c \<or> c = CHR ''-''" if "c \<in> set (Itoa i)" for c
    using that by (rule Itoa_chars)
  then have ns: "\<not> is_space c" if "c \<in> set (Itoa i)" for c
    using that digit_not_space by (auto simp: is_space_def)
  have ne: "Itoa i \<noteq> []" by (simp add: Itoa_def show_pos_not_Nil)
  then have "hd (Itoa i) \<in> set (Itoa i)" "last (Itoa i) \<in> set (Itoa i)" by simp_all
  then have "TrimSpace (Itoa i) = Itoa i"
    unfolding TrimSpace_def using ns by (intro TrimFunc_id) auto
  with ne i show ?thesis by (simp add: parseMemoryValue_def ParseInt_Itoa)
qed

text \<open>C37: Sizes mean what they say. A size printed as a number and a unit, joined or separated by a
  space and in any case, is read as the number times the power of 1024 of its unit, exactly, as
  long as the result is below \<open>2 ^ 53\<close> (KB and KiB mean the same); a plain integer is read as
  itself over the whole \<open>int64\<close> range.\<close>

theorem memory_units:
  assumes "map_of unit_powers (ToUpper u) = Some k" and "list_all is_letter u"
    and "0 \<le> n" and "n * 1024 ^ k < 2 ^ 53" and "sep \<in> {[], '' ''}" and "is_int64 i"
  shows "parseMemoryValue oor (Itoa n @ sep @ u) = n * 1024 ^ k \<and> parseMemoryValue oor (Itoa i) = i"
  using memory_with_unit [OF assms(1-5)] memory_plain [OF assms(6)] assms(3)
  by (simp add: Itoa_def [of n])

lemma memory_units_witness:
  "parseMemoryValue (\<lambda>_. 0) (Itoa 512 @ '' '' @ ''MiB'') = 512 * 1024 ^ 2 \<and>
   parseMemoryValue (\<lambda>_. 0) (Itoa (- (2 ^ 63))) = - (2 ^ 63)"
proof (rule memory_units)
  show "map_of unit_powers (ToUpper ''MiB'') = Some 2" by code_simp
  show "list_all is_letter ''MiB''" by code_simp
qed (simp_all add: is_int64_def)

section \<open>The printed report\<close>

text \<open>
  A row of the report has a quoted key and a value. The value states a field of the report: a
  count is printed in decimal, a size in decimal or with a unit, the average degree in any way
  the float parser reads as it, and a string in quotes. A row with another key states nothing.
\<close>

definition size_text :: "int \<Rightarrow> string \<Rightarrow> bool" where
  "size_text n t \<longleftrightarrow> t = Itoa n \<and> is_int64 n \<or>
     (\<exists>m sep u k. t = Itoa m @ sep @ u \<and> map_of unit_powers (ToUpper u) = Some k \<and>
        list_all is_letter u \<and> 0 \<le> m \<and> sep \<in> {[], '' ''} \<and> n = m * 1024 ^ k \<and> n < 2 ^ 53)"

definition count_text :: "int \<Rightarrow> string \<Rightarrow> bool" where
  "count_text n t \<longleftrightarrow> t = Itoa n \<and> is_int64 n"

definition string_text :: "string \<Rightarrow> string \<Rightarrow> bool" where
  "string_text x t \<longleftrightarrow> t = quoted x \<and> CHR 0x22 \<notin> set x"

definition field_texts :: "StorageInfo \<Rightarrow> (string \<times> (string \<Rightarrow> bool)) list" where
  "field_texts g =
     [(''name'', string_text (SName g)), (''vertex_count'', count_text (VertexCount g)),
      (''edge_count'', count_text (EdgeCount g)),
      (''average_degree'', \<lambda>t. CHR 0x22 \<notin> set t \<and> ParseFloat t = (AverageDegree g, None)),
      (''memory_res'', size_text (MemoryRes g)), (''peak_memory_res'', size_text (PeakMemoryRes g)),
      (''disk_usage'', size_text (DiskUsage g)), (''memory_tracked'', size_text (MemoryTracked g)),
      (''allocation_limit'', size_text (AllocationLimit g)),
      (''unreleased_delta_objects'', count_text (UnreleasedDeltaObjects g)),
      (''storage_mode'', string_text (StorageMode g)),
      (''global_isolation_level'', string_text (IsolationLevel g))]"

definition states :: "StorageInfo \<Rightarrow> string \<times> string \<Rightarrow> bool" where
  "states g row \<longleftrightarrow>
     (case map_of (field_texts g) (fst row) of None \<Rightarrow> True | Some P \<Rightarrow> P (snd row))"

text \<open>The table: a header and the rows, each with its paddings, between borders.\<close>

definition storage_row :: "nat list \<Rightarrow> string \<times> string \<Rightarrow> string" where
  "storage_row ws row = table_row ws [quoted (fst row), snd row]"

definition storage_table :: "nat \<Rightarrow> nat list \<Rightarrow> (nat list \<times> string \<times> string) list \<Rightarrow> string" where
  "storage_table n ws rows = join_with (CHR 0x0A)
     ([border n, table_row ws [''storage info'', ''value''], border n]
      @ map (\<lambda>(ws, row). storage_row ws row) rows @ [border n, []])"

definition printable_row :: "nat list \<times> string \<times> string \<Rightarrow> bool" where
  "printable_row r \<longleftrightarrow> length (fst r) = 2 \<and> CHR 0x22 \<notin> set (fst (snd r)) \<and>
     list_all safe_char (fst (snd r)) \<and> trimmed_cell (snd (snd r))"

text \<open>What reading a row does to a report.\<close>

lemma parse_storage_cells:
  assumes "length ws = 2" and "list_all trimmed_cell [a, b]"
  shows "parse_storage_line oor (table_row ws [a, b]) = store_storage oor (TrimQuotes a) (TrimQuotes b)"
proof -
  let ?cs = "zip ws [a, b]"
  obtain m n where ws: "ws = [m, n]"
    using assms(1) by (auto simp: length_Suc_conv numeral_2_eq_2)
  have zip: "?cs = [(m, a), (n, b)]" and ne: "?cs \<noteq> []" by (simp_all add: ws)
  have "TrimSpace (table_row ws [a, b]) = table_row ws [a, b]"
    unfolding TrimSpace_def table_row_def
    by (rule TrimFunc_id) (use row_last [OF ne] in \<open>simp add: is_space_def\<close>)
  moreover have cs: "\<forall>(n, c) \<in> set ?cs. list_all safe_char c"
    using assms(2) by (auto simp: ws trimmed_cell_def)
  have "Split (CHR ''|'') (table_row ws [a, b]) =
      [] # map (\<lambda>(n, c). CHR '' '' # c @ replicate n (CHR '' '')) ?cs @ [[]]"
    by (simp add: table_row_def Split_row [OF cs])
  then have "Split (CHR ''|'') (table_row ws [a, b]) =
      [[], CHR '' '' # a @ replicate m (CHR '' ''), CHR '' '' # b @ replicate n (CHR '' ''), []]"
    by (simp only: zip list.map prod.case append.simps)
  moreover have "TrimSpace (CHR '' '' # a @ replicate m (CHR '' '')) = a"
    "TrimSpace (CHR '' '' # b @ replicate n (CHR '' '')) = b"
    using assms(2) by (auto simp: trimmed_cell_def intro!: TrimSpace_pad)
  ultimately show ?thesis
    by (simp add: fun_eq_iff parse_storage_line_def Let_def table_row_def HasPrefix_def)
qed

lemma parse_storage_border: "parse_storage_line oor (border n) info = info"
proof -
  have "TrimSpace (border n) = border n"
    unfolding TrimSpace_def by (rule TrimFunc_id) (simp add: border_def is_space_def)
  then show ?thesis by (simp add: parse_storage_line_def Let_def HasPrefix_def border_def)
qed

lemma parse_storage_row:
  assumes "printable_row (ws, key, t)"
  shows "parse_storage_line oor (storage_row ws (key, t)) = store_storage oor key (TrimQuotes t)"
  using assms parse_storage_cells [of ws "quoted key" t oor]
  by (simp add: printable_row_def storage_row_def quoted_trimmed TrimQuotes_quoted)

text \<open>Each text is read as what it states.\<close>

lemma TrimQuotes_plain: "CHR 0x22 \<notin> set t \<Longrightarrow> TrimQuotes t = t"
  unfolding TrimQuotes_def TrimChar_def by (rule TrimFunc_id) (metis hd_in_set last_in_set)

lemma Itoa_no_quote: "CHR 0x22 \<notin> set (Itoa n)"
  using Itoa_safe [of "CHR 0x22" n] by auto

lemma string_read: "string_text x t \<Longrightarrow> TrimQuotes t = x"
  by (simp add: string_text_def TrimQuotes_quoted)

lemma count_read: "count_text n t \<Longrightarrow> fst (ParseInt (TrimQuotes t)) = n"
  by (simp add: count_text_def TrimQuotes_plain Itoa_no_quote ParseInt_Itoa)

lemma size_read:
  assumes "size_text n t"
  shows "parseMemoryValue oor (TrimQuotes t) = n"
proof -
  have plain: "is_int64 n \<Longrightarrow> parseMemoryValue oor (TrimQuotes (Itoa n)) = n"
    by (simp add: TrimQuotes_plain Itoa_no_quote memory_plain)
  have "parseMemoryValue oor (TrimQuotes (Itoa m @ sep @ u)) = m * 1024 ^ k"
    if "map_of unit_powers (ToUpper u) = Some k" "list_all is_letter u" "0 \<le> m"
      "sep \<in> {[], '' ''}" "m * 1024 ^ k < 2 ^ 53" for m sep u k
  proof -
    have "CHR 0x22 \<notin> set u" using that(2) by (auto simp: list_all_iff is_letter_def Let_def)
    then have "CHR 0x22 \<notin> set (Itoa m @ sep @ u)" using that(4) Itoa_no_quote [of m] by auto
    then show ?thesis
      using memory_with_unit [OF that(1-3,5,4)] that(3) by (simp add: TrimQuotes_plain Itoa_def [of m])
  qed
  with plain show ?thesis using assms by (auto simp: size_text_def)
qed

text \<open>The field of a key.\<close>

definition same_field :: "StorageInfo \<Rightarrow> StorageInfo \<Rightarrow> string \<Rightarrow> bool" where
  "same_field a b key \<longleftrightarrow>
     (key = ''name'' \<longrightarrow> SName a = SName b) \<and>
     (key = ''vertex_count'' \<longrightarrow> VertexCount a = VertexCount b) \<and>
     (key = ''edge_count'' \<longrightarrow> EdgeCount a = EdgeCount b) \<and>
     (key = ''average_degree'' \<longrightarrow> AverageDegree a = AverageDegree b) \<and>
     (key = ''memory_res'' \<longrightarrow> MemoryRes a = MemoryRes b) \<and>
     (key = ''peak_memory_res'' \<longrightarrow> PeakMemoryRes a = PeakMemoryRes b) \<and>
     (key = ''disk_usage'' \<longrightarrow> DiskUsage a = DiskUsage b) \<and>
     (key = ''memory_tracked'' \<longrightarrow> MemoryTracked a = MemoryTracked b) \<and>
     (key = ''allocation_limit'' \<longrightarrow> AllocationLimit a = AllocationLimit b) \<and>
     (key = ''unreleased_delta_objects'' \<longrightarrow> UnreleasedDeltaObjects a = UnreleasedDeltaObjects b) \<and>
     (key = ''storage_mode'' \<longrightarrow> StorageMode a = StorageMode b) \<and>
     (key = ''global_isolation_level'' \<longrightarrow> IsolationLevel a = IsolationLevel b)"

definition storage_keys :: "string list" where
  "storage_keys = [''name'', ''vertex_count'', ''edge_count'', ''average_degree'', ''memory_res'',
     ''peak_memory_res'', ''disk_usage'', ''memory_tracked'', ''allocation_limit'',
     ''unreleased_delta_objects'', ''storage_mode'', ''global_isolation_level'']"

lemma storage_key:
  "key \<in> set storage_keys \<Longrightarrow>
     key = ''name'' \<or> key = ''vertex_count'' \<or> key = ''edge_count'' \<or> key = ''average_degree'' \<or>
     key = ''memory_res'' \<or> key = ''peak_memory_res'' \<or> key = ''disk_usage'' \<or> key = ''memory_tracked'' \<or>
     key = ''allocation_limit'' \<or> key = ''unreleased_delta_objects'' \<or> key = ''storage_mode'' \<or>
     key = ''global_isolation_level''"
  by (simp add: storage_keys_def)

lemma store_unknown: "key \<notin> set storage_keys \<Longrightarrow> store_storage oor key value info = info"
  by (simp add: storage_keys_def store_storage_def)

lemma store_other:
  assumes "k \<noteq> key"
  shows "same_field (store_storage oor key value info) g k = same_field info g k"
proof (cases "key \<in> set storage_keys")
  case True
  from storage_key [OF this] show ?thesis
    using assms by (elim disjE; simp add: same_field_def store_storage_def)
qed (simp add: store_unknown)

lemma store_states:
  assumes "states g (key, t)"
  shows "same_field (store_storage oor key (TrimQuotes t) info) g key"
proof (cases "key \<in> set storage_keys")
  case True
  from storage_key [OF this] show ?thesis
    using assms
    by (elim disjE;
        simp add: states_def field_texts_def same_field_def store_storage_def TrimQuotes_plain;
        elim string_read count_read size_read)
next
  case False
  then show ?thesis by (simp add: storage_keys_def same_field_def)
qed

lemma same_field_all:
  assumes "\<And>k. k \<in> set storage_keys \<Longrightarrow> same_field a g k"
  shows "a = g"
proof -
  have "\<forall>k \<in> set storage_keys. same_field a g k" using assms by blast
  then show ?thesis by (cases a; cases g) (simp add: storage_keys_def same_field_def)
qed

lemma rows_stated:
  assumes "list_all (\<lambda>r. printable_row r \<and> states g (snd r)) rows"
    and "k \<in> (fst \<circ> snd) ` set rows \<or> same_field info g k"
  shows "same_field (fold (parse_storage_line oor) (map (\<lambda>(ws, row). storage_row ws row) rows) info) g k"
  using assms
proof (induction rows arbitrary: info)
  case (Cons r rows)
  obtain ws key t where r: "r = (ws, key, t)" by (cases r) auto
  with Cons.prems(1) have "printable_row (ws, key, t)" and t: "states g (key, t)" by simp_all
  note row = parse_storage_row [OF this(1), of oor]
  have "k \<in> (fst \<circ> snd) ` set rows \<or> same_field (store_storage oor key (TrimQuotes t) info) g k"
    using Cons.prems(2) store_states [OF t, of oor info] store_other [of k key] r by (cases "k = key") auto
  with Cons.IH Cons.prems(1) show ?case by (simp add: r row)
qed simp

text \<open>C38: The storage report is read back as it was printed. The table of a report, with its keys
  quoted, its rows in any order and padding, with rows of other keys among them and its sizes
  printed plainly or with a unit, parses to exactly that report: every field gets the value that
  its own row states, in bytes where it is a size.\<close>

theorem storage_report_parsed:
  assumes "length ws = 2" and "list_all (\<lambda>r. printable_row r \<and> states g (snd r)) rows"
    and "set storage_keys \<subseteq> (fst \<circ> snd) ` set rows"
  shows "parseStorageInfoOutput oor (storage_table n ws rows) = g"
proof -
  let ?header = "[''storage info'', ''value'']"
  let ?lines = "[border n, table_row ws ?header, border n]
      @ map (\<lambda>(ws, row). storage_row ws row) rows @ [border n, []]"
  have header: "list_all trimmed_cell ?header"
    by (simp add: trimmed_cell_def is_space_def safe_char_def)
  have "list_all trimmed_cell [quoted (fst row), snd row]" if "(ps, row) \<in> set rows" for ps row
    using assms(2) that by (auto simp: list_all_iff printable_row_def quoted_trimmed)
  then have "CHR 0x0A \<notin> set (storage_row ps row)" if "(ps, row) \<in> set rows" for ps row
    unfolding storage_row_def using that row_no_newline by blast
  moreover have "CHR 0x0A \<notin> set (border n)" by (auto simp: border_def)
  ultimately have "\<forall>l \<in> set ?lines. CHR 0x0A \<notin> set l"
    using row_no_newline [OF header] by auto
  then have split: "Split (CHR 0x0A) (storage_table n ws rows) = ?lines"
    unfolding storage_table_def by (intro Split_join) auto
  have h: "parse_storage_line oor (table_row ws ?header) info = info" for info
    unfolding parse_storage_cells [OF assms(1) header]
    by (simp add: TrimQuotes_plain) (simp add: store_storage_def)
  have e: "parse_storage_line oor [] info = info" for info
    by (simp add: parse_storage_line_def TrimSpace_def TrimFunc_def)
  have "parseStorageInfoOutput oor (storage_table n ws rows) =
      fold (parse_storage_line oor) (map (\<lambda>(ws, row). storage_row ws row) rows) zero_StorageInfo"
    by (simp add: parseStorageInfoOutput_def split parse_storage_border h e)
  moreover have "same_field (fold (parse_storage_line oor) (map (\<lambda>(ws, row). storage_row ws row) rows)
      zero_StorageInfo) g k" if "k \<in> set storage_keys" for k
    by (rule rows_stated [OF assms(2)]) (use assms(3) that in blast)
  ultimately show ?thesis by (simp add: same_field_all)
qed

definition sample_report :: StorageInfo where
  "sample_report = \<lparr>SName = ''memgraph'', VertexCount = 3151, EdgeCount = 42, AverageDegree = Fin 2,
     MemoryRes = 512 * 1024 ^ 2, PeakMemoryRes = 3 * 1024 ^ 3, DiskUsage = 7 * 1024, MemoryTracked = 99,
     AllocationLimit = 2 * 1024 ^ 4, UnreleasedDeltaObjects = 0, StorageMode = ''IN_MEMORY_TRANSACTIONAL'',
     IsolationLevel = ''SNAPSHOT_ISOLATION''\<rparr>"

definition sample_storage_rows :: "(nat list \<times> string \<times> string) list" where
  "sample_storage_rows =
     [([3, 0], ''storage_mode'', quoted ''IN_MEMORY_TRANSACTIONAL''), ([0, 1], ''vertex_count'', ''3151''),
      ([0, 1], ''name'', quoted ''memgraph''), ([0, 9], ''edge_count'', ''42''),
      ([0, 0], ''average_degree'', ''2''), ([0, 0], ''vm_max_map_count'', ''-1''),
      ([0, 0], ''memory_res'', ''512MiB''), ([0, 0], ''peak_memory_res'', ''3 GiB''),
      ([0, 0], ''disk_usage'', ''7KiB''), ([2, 2], ''memory_tracked'', ''99''),
      ([0, 0], ''allocation_limit'', ''2tb''), ([0, 0], ''unreleased_delta_objects'', ''0''),
      ([0, 0], ''global_isolation_level'', quoted ''SNAPSHOT_ISOLATION'')]"

lemma sample_printable: "list_all printable_row sample_storage_rows"
  by code_simp

lemma size_sample:
  "size_text (512 * 1024 ^ 2) ''512MiB''" "size_text (3 * 1024 ^ 3) ''3 GiB''"
  "size_text (7 * 1024) ''7KiB''" "size_text (2 * 1024 ^ 4) ''2tb''"
proof -
  have t: "''512MiB'' = Itoa 512 @ [] @ ''MiB''" "''3 GiB'' = Itoa 3 @ '' '' @ ''GiB''"
    "''7KiB'' = Itoa 7 @ [] @ ''KiB''" "''2tb'' = Itoa 2 @ [] @ ''tb''" by code_simp+
  have u: "map_of unit_powers (ToUpper ''MiB'') = Some 2" "map_of unit_powers (ToUpper ''GiB'') = Some 3"
    "map_of unit_powers (ToUpper ''KiB'') = Some 1" "map_of unit_powers (ToUpper ''tb'') = Some 4"
    "list_all is_letter ''MiB''" "list_all is_letter ''GiB''" "list_all is_letter ''KiB''"
    "list_all is_letter ''tb''" by code_simp+
  have size: "size_text (m * 1024 ^ k) (Itoa m @ sep @ u)"
    if "map_of unit_powers (ToUpper u) = Some k" "list_all is_letter u" "0 \<le> m" "sep \<in> {[], '' ''}"
      "m * 1024 ^ k < 2 ^ 53" for m sep u k
    using that unfolding size_text_def by blast
  show "size_text (512 * 1024 ^ 2) ''512MiB''" unfolding t by (rule size [OF u(1,5)]) simp_all
  show "size_text (3 * 1024 ^ 3) ''3 GiB''" unfolding t by (rule size [OF u(2,6)]) simp_all
  show "size_text (7 * 1024) ''7KiB''" unfolding t using size [OF u(3,7), of 7 "[]"] by simp
  show "size_text (2 * 1024 ^ 4) ''2tb''" unfolding t by (rule size [OF u(4,8)]) simp_all
qed

lemma sample_counts:
  "count_text 3151 ''3151''" "count_text 42 ''42''" "size_text 99 ''99''" "count_text 0 ''0''"
  "ParseFloat ''2'' = (Fin 2, None)"
proof -
  have t: "''3151'' = Itoa 3151" "''42'' = Itoa 42" "''99'' = Itoa 99" "''0'' = Itoa 0" by code_simp+
  show "count_text 3151 ''3151''" "count_text 42 ''42''" "size_text 99 ''99''" "count_text 0 ''0''"
    unfolding t by (simp_all add: count_text_def size_text_def is_int64_def)
  have "''2'' = show_pos 2" by code_simp
  then show "ParseFloat ''2'' = (Fin 2, None)" using ParseFloat_show_pos [of 2] by simp
qed

lemma sample_states: "list_all (states sample_report \<circ> snd) sample_storage_rows"
  using size_sample sample_counts
  by (simp add: sample_storage_rows_def states_def field_texts_def sample_report_def string_text_def
      del: power_numeral)

lemma storage_report_parsed_witness:
  "parseStorageInfoOutput (\<lambda>_. 0) (storage_table 40 [1, 2] sample_storage_rows) = sample_report"
proof (rule storage_report_parsed)
  show "list_all (\<lambda>r. printable_row r \<and> states sample_report (snd r)) sample_storage_rows"
    using sample_printable sample_states by (simp add: list_all_iff)
  show "set storage_keys \<subseteq> (fst \<circ> snd) ` set sample_storage_rows"
    by (simp add: storage_keys_def sample_storage_rows_def)
qed simp

end
