(* ===== verification/Metric_Series.thy ===== *)
theory Metric_Series
  imports Metrics
begin

text \<open>
  What a scrape sees. The Prometheus client library is not part of this repository; the locale
  states what its gauge vectors document: a set stores the value of one series, a deletion
  removes the series with these label values, a partial match removes every series that carries
  the given labels, and no call touches other series. The recorder's calls are replayed on it.
\<close>

locale gauge_registry =
  fixes sample :: "'g \<Rightarrow> metric \<Rightarrow> string list \<Rightarrow> f64 option"
    and call :: "metric_op \<Rightarrow> 'g \<Rightarrow> 'g"
  assumes sample_set: "sample (call (GaugeSet m ls v) g) m' ls' =
      (if m' = m \<and> ls' = ls then Some v else sample g m' ls')"
    and sample_delete: "sample (call (DeleteLabelValues m ls) g) m' ls' =
      (if m' = m \<and> ls' = ls then None else sample g m' ls')"
    and sample_partial: "sample (call (DeletePartialMatch m ps) g) m' ls' =
      (if m' = m \<and> set ps \<subseteq> set (zip (snd m) ls') then None else sample g m' ls')"

fun replay :: "(metric_op \<Rightarrow> 'g \<Rightarrow> 'g) \<Rightarrow> effect list \<Rightarrow> 'g \<Rightarrow> 'g" where
  "replay call [] g = g"
| "replay call (eff # effs) g =
     replay call effs (case eff of Metric m \<Rightarrow> call m g | _ \<Rightarrow> g)"

lemma replay_append: "replay call (xs @ ys) g = replay call ys (replay call xs g)"
  by (induction xs arbitrary: g) auto

section \<open>The calls of a recording\<close>

text \<open>The series of one replica, without the leading cluster, namespace and name labels.\<close>

definition replica_row :: "ReplicaInfo \<Rightarrow> (metric \<times> string list \<times> f64) list" where
  "replica_row r =
     (replicaHealthyGauge, [], f64_bool (IsHealthy r)) #
     map (\<lambda>st. (replicaStatusGauge, [st], f64_bool (st = RStatus r))) knownReplicaStatuses @
     [(replicaBehindGauge, [], f64_of_int (RBehind r)),
      (replicaLastConfirmedTimestampGauge, [], f64_of_int (RTimestamp r)),
      (replicaDataInfoPresentGauge, [], f64_bool (DataInfoPresent r))]"

definition replica_vectors :: "metric list" where
  "replica_vectors = [replicaHealthyGauge, replicaStatusGauge, replicaBehindGauge,
     replicaLastConfirmedTimestampGauge, replicaDataInfoPresentGauge]"

text \<open>All series of a replica set with their label values, and the cluster rollups.\<close>

definition replica_series ::
  "string \<Rightarrow> string \<Rightarrow> ReplicaInfo list \<Rightarrow> ((metric \<times> string list) \<times> f64) list" where
  "replica_series cl ns rs =
     concat (map (\<lambda>r. map (\<lambda>(m, extra, v). ((m, [cl, ns, RName r] @ extra), v)) (replica_row r)) rs)"

definition rollups ::
  "string \<Rightarrow> string \<Rightarrow> ReplicaInfo list \<Rightarrow> ((metric \<times> string list) \<times> f64) list" where
  "rollups cl ns rs =
     [((clusterReplicasTotalGauge, [cl, ns]), f64_of_int (int (length rs))),
      ((clusterReplicasHealthyTotalGauge, [cl, ns]), f64_of_int (int (length (filter IsHealthy rs)))),
      ((replicationHealthyGauge, [cl, ns]), f64_bool (list_all IsHealthy rs))]"

definition gauge_sets :: "((metric \<times> string list) \<times> f64) list \<Rightarrow> effect list" where
  "gauge_sets ws = map (\<lambda>((m, ls), v). Metric (GaugeSet m ls v)) ws"

definition sweep_calls :: "string \<Rightarrow> string \<Rightarrow> metric list \<Rightarrow> effect list" where
  "sweep_calls cl ns ms =
     map (\<lambda>m. Metric (DeletePartialMatch m [(''cluster'', cl), (''namespace'', ns)])) ms"

lemma set_gauge_yields: "yields (set_gauge m ls v) [Metric (GaugeSet m ls v)] ()"
  unfolding set_gauge_def by (rule yields_metric)

lemma delete_partial_yields:
  "yields (delete_partial cl ns m)
     [Metric (DeletePartialMatch m [(''cluster'', cl), (''namespace'', ns)])] ()"
  unfolding delete_partial_def by (rule yields_metric)

lemma record_replica_yields:
  "yields (record_replica cl ns r k)
     (gauge_sets (map (\<lambda>(m, extra, v). ((m, [cl, ns, RName r] @ extra), v)) (replica_row r)))
     (if IsHealthy r then k + 1 else k)"
proof -
  have st: "yields (for_each (\<lambda>st. set_gauge replicaStatusGauge [cl, ns, RName r, st]
        (f64_bool (st = RStatus r))) knownReplicaStatuses)
      (concat (map (\<lambda>st. [Metric (GaugeSet replicaStatusGauge [cl, ns, RName r, st]
        (f64_bool (st = RStatus r)))]) knownReplicaStatuses)) ()"
    by (intro yields_for_each set_gauge_yields)
  have "yields (record_replica cl ns r k)
      ([Metric (GaugeSet replicaHealthyGauge [cl, ns, RName r] (f64_bool (IsHealthy r)))] @
       concat (map (\<lambda>st. [Metric (GaugeSet replicaStatusGauge [cl, ns, RName r, st]
         (f64_bool (st = RStatus r)))]) knownReplicaStatuses) @
       [Metric (GaugeSet replicaBehindGauge [cl, ns, RName r] (f64_of_int (RBehind r)))] @
       [Metric (GaugeSet replicaLastConfirmedTimestampGauge [cl, ns, RName r] (f64_of_int (RTimestamp r)))] @
       [Metric (GaugeSet replicaDataInfoPresentGauge [cl, ns, RName r] (f64_bool (DataInfoPresent r)))] @ [])
      (if IsHealthy r then k + 1 else k)"
    unfolding record_replica_def
    by (intro yields_bind [OF set_gauge_yields] yields_bind [OF st] yields_return)
  then show ?thesis by (simp add: gauge_sets_def replica_row_def comp_def map_concat)
qed

lemma healthy_count_fold:
  "fold (\<lambda>r k. if IsHealthy r then k + 1 else k) rs k = k + int (length (filter IsHealthy rs))"
  by (induction rs arbitrary: k) auto

lemma RecordReplicaSet_yields:
  "yields (RecordReplicaSet cl ns rs)
     (sweep_calls cl ns replica_vectors @ gauge_sets (replica_series cl ns rs) @ gauge_sets (rollups cl ns rs))
     ()"
proof -
  have d: "yields (for_each (delete_partial cl ns) replica_vectors)
      (concat (map (\<lambda>m. [Metric (DeletePartialMatch m [(''cluster'', cl), (''namespace'', ns)])])
        replica_vectors)) ()"
    by (intro yields_for_each delete_partial_yields)
  have f: "yields (for_fold (record_replica cl ns) rs 0)
      (concat (map (\<lambda>r. gauge_sets (map (\<lambda>(m, extra, v). ((m, [cl, ns, RName r] @ extra), v))
        (replica_row r))) rs)) (int (length (filter IsHealthy rs)))"
    using yields_for_fold [of rs "record_replica cl ns" _ "\<lambda>r k. if IsHealthy r then k + 1 else k" 0,
      OF record_replica_yields] healthy_count_fold [of rs 0] by simp
  have all: "(int (length (filter IsHealthy rs)) = int (length rs)) = list_all IsHealthy rs"
    by (simp add: list_all_iff) (metis filter_id_conv length_filter_less nat_less_le)
  have "yields (RecordReplicaSet cl ns rs)
      (concat (map (\<lambda>m. [Metric (DeletePartialMatch m [(''cluster'', cl), (''namespace'', ns)])])
        replica_vectors) @
       concat (map (\<lambda>r. gauge_sets (map (\<lambda>(m, extra, v). ((m, [cl, ns, RName r] @ extra), v))
        (replica_row r))) rs) @
       [Metric (GaugeSet clusterReplicasTotalGauge [cl, ns] (f64_of_int (int (length rs))))] @
       [Metric (GaugeSet clusterReplicasHealthyTotalGauge [cl, ns]
          (f64_of_int (int (length (filter IsHealthy rs)))))] @
       [Metric (GaugeSet replicationHealthyGauge [cl, ns] (f64_bool (list_all IsHealthy rs)))]) ()"
    unfolding RecordReplicaSet_def replica_vectors_def [symmetric] all [symmetric]
    by (intro yields_bind [OF d] yields_bind [OF f] yields_bind [OF set_gauge_yields] set_gauge_yields)
  then show ?thesis
    by (simp add: gauge_sets_def sweep_calls_def replica_series_def rollups_def map_concat comp_def)
qed

section \<open>Replaying the calls\<close>

lemma replica_vectors_distinct: "distinct replica_vectors"
  by (simp add: replica_vectors_def metric_vectors)

lemma rollups_apart: "fst ` fst ` set (rollups cl ns rs) \<inter> set replica_vectors = {}"
  by (simp add: rollups_def replica_vectors_def metric_vectors)

lemma rollups_distinct: "distinct (map fst (rollups cl ns rs))"
  by (simp add: rollups_def metric_vectors)

lemma replica_row_vectors: "(m, extra, v) \<in> set (replica_row r) \<Longrightarrow> m \<in> set replica_vectors"
  by (auto simp: replica_row_def replica_vectors_def)

lemma replica_row_distinct: "distinct (map (\<lambda>(m, extra, v). (m, extra)) (replica_row r))"
  by (simp add: replica_row_def metric_vectors knownReplicaStatuses_def go_consts)

lemma replica_series_mem:
  "((m, ls), v) \<in> set (replica_series cl ns rs) \<longleftrightarrow>
     (\<exists>r \<in> set rs. \<exists>extra. (m, extra, v) \<in> set (replica_row r) \<and> ls = [cl, ns, RName r] @ extra)"
  by (force simp: replica_series_def)

lemma replica_series_distinct:
  "distinct (map RName rs) \<Longrightarrow> distinct (map fst (replica_series cl ns rs))"
proof (induction rs)
  case (Cons r rs)
  let ?row = "map (\<lambda>(m, extra, v). ((m, [cl, ns, RName r] @ extra), v)) (replica_row r)"
  have "map fst ?row = map (\<lambda>(m, extra). (m, [cl, ns, RName r] @ extra))
      (map (\<lambda>(m, extra, v). (m, extra)) (replica_row r))"
    by (simp add: case_prod_beta comp_def)
  then have "distinct (map fst ?row)"
    using replica_row_distinct [of r] by (auto simp: distinct_map inj_on_def)
  moreover have "fst ` set ?row \<inter> fst ` set (replica_series cl ns rs) = {}"
  proof -
    have "RName r \<noteq> RName q" if "q \<in> set rs" for q using Cons.prems that by auto
    then have "(m, [cl, ns, RName r] @ extra) \<notin> fst ` set (replica_series cl ns rs)" for m extra
      by (auto simp: replica_series_mem)
    then show ?thesis by (auto split: prod.splits) (metis fst_conv image_eqI)
  qed
  moreover have "distinct (map fst (replica_series cl ns rs))" using Cons by simp
  ultimately have "distinct (map fst (?row @ replica_series cl ns rs))"
    unfolding map_append distinct_append set_map by blast
  then show ?case by (simp add: replica_series_def)
qed (simp add: replica_series_def)

lemma zip_labels:
  assumes "a \<notin> set ks" and "b \<notin> set ks" and "a \<noteq> b"
  shows "set [(a, x), (b, y)] \<subseteq> set (zip (a # b # ks) ls) \<longleftrightarrow> prefix [x, y] ls"
proof -
  have apart: "(a, z) \<notin> set (zip ks xs)" "(b, z) \<notin> set (zip ks xs)" for z xs
    using assms(1,2) set_zip_leftD by fast+
  show ?thesis using assms(3) by (cases ls; cases "tl ls") (auto simp: apart)
qed

lemma prefix_partial:
  assumes "m \<in> set replica_vectors"
  shows "set [(''cluster'', cl), (''namespace'', ns)] \<subseteq> set (zip (snd m) ls) \<longleftrightarrow> prefix [cl, ns] ls"
proof -
  have "snd m \<in> {''cluster'' # ''namespace'' # [''replica''],
      ''cluster'' # ''namespace'' # [''replica'', ''status'']}"
    using assms by (auto simp: replica_vectors_def metric_vectors)
  then obtain ks where "snd m = ''cluster'' # ''namespace'' # ks"
    and "''cluster'' \<notin> set ks" "''namespace'' \<notin> set ks"
    by auto
  then show ?thesis using zip_labels [of "''cluster''" ks "''namespace''" cl ns ls] by simp
qed

lemma map_of_rev: "distinct (map fst xs) \<Longrightarrow> map_of (rev xs) = map_of xs"
  by (rule map_of_inject_set [THEN iffD2]) (simp_all add: rev_map [symmetric])

context gauge_registry
begin

lemma sample_gauge_sets:
  "sample (replay call (gauge_sets ws) g) m ls =
     (case map_of (rev ws) (m, ls) of Some v \<Rightarrow> Some v | None \<Rightarrow> sample g m ls)"
proof (induction ws arbitrary: g)
  case (Cons w ws)
  obtain m' ls' v where w: "w = ((m', ls'), v)" by (metis prod.exhaust)
  have "replay call (gauge_sets (w # ws)) g = replay call (gauge_sets ws) (call (GaugeSet m' ls' v) g)"
    by (simp add: gauge_sets_def w)
  then show ?case
    by (auto simp: Cons.IH w sample_set map_add_def split: option.splits)
qed (simp add: gauge_sets_def)

lemma sample_sweep:
  assumes "set ms \<subseteq> set replica_vectors"
  shows "sample (replay call (sweep_calls cl ns ms) g) m ls =
     (if m \<in> set ms \<and> prefix [cl, ns] ls then None else sample g m ls)"
  using assms
proof (induction ms arbitrary: g)
  case (Cons m' ms)
  then have m': "m' \<in> set replica_vectors" by simp
  have "replay call (sweep_calls cl ns (m' # ms)) g =
      replay call (sweep_calls cl ns ms)
        (call (DeletePartialMatch m' [(''cluster'', cl), (''namespace'', ns)]) g)"
    by (simp add: sweep_calls_def)
  moreover have "sample (call (DeletePartialMatch m' [(''cluster'', cl), (''namespace'', ns)]) g) m ls =
      (if m = m' \<and> prefix [cl, ns] ls then None else sample g m ls)"
    using prefix_partial [OF m', of cl ns ls] unfolding sample_partial by metis
  moreover have "set ms \<subseteq> set replica_vectors" using Cons.prems by simp
  ultimately show ?case by (simp only: Cons.IH) auto
qed (simp add: sweep_calls_def)

lemma sample_record:
  assumes "distinct (map RName rs)"
  shows "sample (replay call (calls (RecordReplicaSet cl ns rs) w) g) m ls =
     (case map_of (rollups cl ns rs) (m, ls) of Some v \<Rightarrow> Some v
      | None \<Rightarrow> (case map_of (replica_series cl ns rs) (m, ls) of Some v \<Rightarrow> Some v
        | None \<Rightarrow> if m \<in> set replica_vectors \<and> prefix [cl, ns] ls then None else sample g m ls))"
  unfolding yields_calls [OF RecordReplicaSet_yields] replay_append sample_gauge_sets
    map_of_rev [OF rollups_distinct] map_of_rev [OF replica_series_distinct [OF assms]]
    sample_sweep [OF order_refl]
  by (rule refl)

end

section \<open>The series after a recording\<close>

text \<open>Gauges as a map from series to values.\<close>

fun gauge_call :: "metric_op \<Rightarrow> (metric \<times> string list \<Rightarrow> f64 option) \<Rightarrow> metric \<times> string list \<Rightarrow> f64 option" where
  "gauge_call (GaugeSet m ls v) g = g((m, ls) := Some v)"
| "gauge_call (DeleteLabelValues m ls) g = g((m, ls) := None)"
| "gauge_call (DeletePartialMatch m ps) g =
     (\<lambda>(m', ls). if m' = m \<and> set ps \<subseteq> set (zip (snd m) ls) then None else g (m', ls))"
| "gauge_call (CounterInc m ls) g = g"
| "gauge_call (HistogramObserve m ls v) g = g"

interpretation gauges: gauge_registry "\<lambda>g m ls. g (m, ls)" gauge_call
  by unfold_locales auto

lemma replica_series_lookup:
  assumes "distinct (map RName rs)"
  shows "map_of (replica_series cl ns rs) (m, ls) = Some v \<longleftrightarrow>
     (\<exists>r \<in> set rs. \<exists>extra. (m, extra, v) \<in> set (replica_row r) \<and> ls = [cl, ns, RName r] @ extra)"
  using replica_series_distinct [OF assms] replica_series_mem by (metis map_of_eq_Some_iff)

lemma rollups_no_series:
  "m \<in> set replica_vectors \<Longrightarrow> map_of (rollups cl ns rs) (m, ls) = None"
  using rollups_apart [of cl ns rs] by (force simp: map_of_eq_None_iff)

lemma rollups_prefix:
  "\<not> prefix [cl, ns] ls \<Longrightarrow> map_of (rollups cl ns rs) (m, ls) = None"
  by (auto simp: rollups_def)

text \<open>C15: The scrape shows the replicas MAIN lists and no others. Whatever the gauges held before,
  after a recording of a list of replicas (no name twice) the per-replica gauges of the cluster
  have for each listed replica exactly its values, with the status gauge one-hot over the known
  statuses, and no series at all for any other replica; the rollups count the replicas and the
  healthy ones, replication is healthy exactly when all are, and no series of another cluster
  or namespace has changed.\<close>

theorem replica_gauges_exact:
  fixes sample :: "'g \<Rightarrow> metric \<Rightarrow> string list \<Rightarrow> f64 option" and w :: "'s world" and g :: 'g
    and cl ns :: string
  assumes "gauge_registry sample call" and "distinct (map RName rs)"
  defines "g' \<equiv> replay call (calls (RecordReplicaSet cl ns rs) w) g"
  shows "(\<forall>m \<in> set replica_vectors. \<forall>x extra v. sample g' m ([cl, ns, x] @ extra) = Some v \<longleftrightarrow>
        (\<exists>r \<in> set rs. RName r = x \<and> (m, extra, v) \<in> set (replica_row r))) \<and>
     sample g' clusterReplicasTotalGauge [cl, ns] = Some (f64_of_int (int (length rs))) \<and>
     sample g' clusterReplicasHealthyTotalGauge [cl, ns] =
       Some (f64_of_int (int (length (filter IsHealthy rs)))) \<and>
     sample g' replicationHealthyGauge [cl, ns] = Some (f64_bool (list_all IsHealthy rs)) \<and>
     (\<forall>m ls. \<not> prefix [cl, ns] ls \<longrightarrow> sample g' m ls = sample g m ls)"
proof -
  note sample = gauge_registry.sample_record [OF assms(1,2), of cl ns w g, folded g'_def]
  have "sample g' m ([cl, ns, x] @ extra) = Some v \<longleftrightarrow>
      (\<exists>r \<in> set rs. RName r = x \<and> (m, extra, v) \<in> set (replica_row r))"
    if "m \<in> set replica_vectors" for m x extra v
  proof -
    have "sample g' m ([cl, ns, x] @ extra) = map_of (replica_series cl ns rs) (m, [cl, ns, x] @ extra)"
      using that by (auto simp: sample rollups_no_series split: option.split)
    then show ?thesis by (auto simp: replica_series_lookup [OF assms(2)])
  qed
  moreover have "sample g' m ls = sample g m ls" if "\<not> prefix [cl, ns] ls" for m ls
  proof -
    have "map_of (replica_series cl ns rs) (m, ls) = None"
      using that replica_series_lookup [OF assms(2), of cl ns m ls] by (cases "map_of (replica_series cl ns rs) (m, ls)") (simp, fastforce)
    then show ?thesis using that by (simp add: sample rollups_prefix)
  qed
  moreover have "sample g' m [cl, ns] = Some v" if "((m, [cl, ns]), v) \<in> set (rollups cl ns rs)" for m v
    using map_of_is_SomeI [OF rollups_distinct that] by (simp add: sample)
  ultimately show ?thesis by (simp add: rollups_def)
qed

definition sample_listed :: "string \<Rightarrow> string \<Rightarrow> ReplicaInfo" where
  "sample_listed n st = \<lparr>RName = n, SocketAddress = [], RHost = [], RPort = 10000, SyncMode = ''async'',
     DataInfo = [(''memgraph'', \<lparr>Behind = 0, DBStatus = st, Timestamp = 1\<rparr>)],
     RBehind = 0, RStatus = st, RTimestamp = 1\<rparr>"

text \<open>A store that still shows a replica that is gone, and the recording of two others.\<close>

definition listed_pair :: "ReplicaInfo list" where
  "listed_pair = [sample_listed ''r_1'' ''ready'', sample_listed ''r_2'' ''recovery'']"

definition stale_gauges :: "metric \<times> string list \<Rightarrow> f64 option" where
  "stale_gauges = [(replicaHealthyGauge, [''mg'', ''db'', ''r_0'']) \<mapsto> Fin 1]"

definition replayed_gauges :: "metric \<times> string list \<Rightarrow> f64 option" where
  "replayed_gauges =
     replay gauge_call (calls (RecordReplicaSet ''mg'' ''db'' listed_pair) (quiet_world ())) stale_gauges"

lemma replica_gauges_exact_witness:
  "stale_gauges (replicaHealthyGauge, [''mg'', ''db'', ''r_0'']) = Some (Fin 1) \<and>
   replayed_gauges (replicaHealthyGauge, [''mg'', ''db'', ''r_0'']) = None \<and>
   replayed_gauges (replicaHealthyGauge, [''mg'', ''db'', ''r_1'']) = Some (Fin 1) \<and>
   replayed_gauges (replicaHealthyGauge, [''mg'', ''db'', ''r_2'']) = Some (Fin 0)"
proof -
  have d: "distinct (map RName listed_pair)" by (simp add: listed_pair_def sample_listed_def)
  have reg: "gauge_registry (\<lambda>g m ls. g (m, ls)) gauge_call" by unfold_locales
  have m: "replicaHealthyGauge \<in> set replica_vectors" by (simp add: replica_vectors_def)
  have row: "(replicaHealthyGauge, [], v) \<in> set (replica_row r) \<longleftrightarrow> v = f64_bool (IsHealthy r)" for v r
    by (auto simp: replica_row_def metric_vectors)
  have eq: "replayed_gauges (replicaHealthyGauge, [''mg'', ''db'', x]) = Some v \<longleftrightarrow>
      (\<exists>r \<in> set listed_pair. RName r = x \<and> v = f64_bool (IsHealthy r))" for x v
    using replica_gauges_exact [OF reg d, of "''mg''" "''db''" "quiet_world ()" stale_gauges] m
    unfolding replayed_gauges_def row [symmetric] by (metis append_Cons append_Nil)
  have "replayed_gauges (replicaHealthyGauge, [''mg'', ''db'', ''r_0'']) = None"
    using eq [of "''r_0''"]
    by (cases "replayed_gauges (replicaHealthyGauge, [''mg'', ''db'', ''r_0''])")
      (auto simp: sample_listed_def listed_pair_def)
  then show ?thesis
    using eq [of "''r_1''" "Fin 1"] eq [of "''r_2''" "Fin 0"]
    by (simp add: stale_gauges_def listed_pair_def sample_listed_def IsHealthy_def f64_bool_def go_consts)
qed

end
