(* ===== verification/Startup.thy ===== *)
theory Startup
  imports Api_Types Go_Strings
begin

text \<open>
  The start of the operator: its configuration (\<open>internal/config/config.go\<close>), its logger
  (\<open>internal/logger/logger.go\<close>) and \<open>main\<close> (\<open>cmd/main.go\<close>). The values of the flags are the
  input (the \<open>flag\<close> package reads them); the calls of controller-runtime, envconfig and zap are
  logged in order with their results given by an environment. The package's \<open>init\<close>, which fills
  the scheme before \<open>main\<close> begins, is not modelled. The two servers share a slice of
  TLS options, so slices are modelled with their backing arrays and capacities.
\<close>

section \<open>Configuration and logger\<close>

record LoggingConfig =
  Level :: string
  Development :: bool

record Config =
  Environment :: string
  Logging :: LoggingConfig

definition IsDevelopment :: "Config \<Rightarrow> bool" where
  "IsDevelopment c \<longleftrightarrow> Environment c = ''development''"

datatype zap_level = DebugLevel | InfoLevel | WarnLevel | ErrorLevel

text \<open>The zap configuration \<open>New\<close> builds: which preset, the colour encoder, the level.\<close>

record zap_config =
  DevelopmentPreset :: bool
  CapitalColor :: bool
  ZapLevel :: zap_level

definition zap_level_of :: "string \<Rightarrow> zap_level" where
  "zap_level_of s =
     (if s = ''debug'' then DebugLevel else if s = ''info'' then InfoLevel
      else if s = ''warn'' then WarnLevel else if s = ''error'' then ErrorLevel else InfoLevel)"

definition logger_config :: "Config \<Rightarrow> zap_config" where
  "logger_config cfg =
     (let dev = (Development (Logging cfg) \<or> IsDevelopment cfg) in
      \<lparr>DevelopmentPreset = dev, CapitalColor = dev, ZapLevel = zap_level_of (Level (Logging cfg))\<rparr>)"

section \<open>Paths\<close>

text \<open>\<open>filepath.Join\<close>: the elements that are not empty, joined and cleaned lexically.\<close>

fun clean_parts :: "bool \<Rightarrow> string list \<Rightarrow> string list \<Rightarrow> string list" where
  "clean_parts rooted out [] = rev out"
| "clean_parts rooted out (p # ps) =
     (if p = [] \<or> p = ''.'' then clean_parts rooted out ps
      else if p = ''..'' then
        (case out of
           [] \<Rightarrow> clean_parts rooted (if rooted then [] else [p]) ps
         | q # qs \<Rightarrow> clean_parts rooted (if q = ''..'' then p # out else qs) ps)
      else clean_parts rooted (p # out) ps)"

definition path_clean :: "string \<Rightarrow> string" where
  "path_clean s =
     (let rooted = (s \<noteq> [] \<and> hd s = CHR ''/'');
          body = join_with (CHR ''/'') (clean_parts rooted [] (Split (CHR ''/'') s)) in
      if rooted then CHR ''/'' # body else if body = [] then ''.'' else body)"

definition path_join :: "string \<Rightarrow> string \<Rightarrow> string" where
  "path_join a b =
     (let es = filter (\<lambda>e. e \<noteq> []) [a, b] in
      if es = [] then [] else path_clean (join_with (CHR ''/'') es))"

section \<open>TLS options and slices\<close>

text \<open>
  A TLS option is a function on the TLS configuration: \<open>NoOpt\<close> is the nil function of an
  array cell never written. A certificate is named by its file and its key file.
\<close>

datatype tls_opt = NoOpt | DisableHTTP2 | GetCertificateOf "string \<times> string"

record tls_config =
  NextProtos :: "string list"
  GetCertificate :: "(string \<times> string) option"

fun apply_opt :: "tls_opt \<Rightarrow> tls_config \<Rightarrow> tls_config" where
  "apply_opt NoOpt c = c"
| "apply_opt DisableHTTP2 c = c\<lparr>NextProtos := [''http/1.1'']\<rparr>"
| "apply_opt (GetCertificateOf w) c = c\<lparr>GetCertificate := Some w\<rparr>"

text \<open>
  A slice is a window on a backing array of the heap; a nil slice has capacity 0. \<open>append\<close>
  writes into the array while there is capacity and else copies into a new array, whose
  capacity for \<open>n\<close> elements the runtime chooses (\<open>grow n\<close>, at least \<open>n\<close>).
\<close>

type_synonym heap = "tls_opt list list"

record slice =
  base :: nat
  len :: nat
  cap :: nat

definition nil_slice :: slice where
  "nil_slice = \<lparr>base = 0, len = 0, cap = 0\<rparr>"

definition read_slice :: "heap \<Rightarrow> slice \<Rightarrow> tls_opt list" where
  "read_slice h s = (if len s = 0 then [] else take (len s) (h ! base s))"

definition append_slice :: "(nat \<Rightarrow> nat) \<Rightarrow> tls_opt \<Rightarrow> slice \<Rightarrow> heap \<Rightarrow> slice \<times> heap" where
  "append_slice grow x s h =
     (if len s < cap s
      then (s\<lparr>len := Suc (len s)\<rparr>, h[base s := (h ! base s)[len s := x]])
      else let n = Suc (len s) in
        (\<lparr>base = length h, len = n, cap = max n (grow n)\<rparr>,
         h @ [read_slice h s @ x # replicate (max n (grow n) - n) NoOpt]))"

section \<open>main\<close>

record startup_flags =
  metricsAddr :: string
  metricsCertPath :: string
  metricsCertName :: string
  metricsCertKey :: string
  webhookCertPath :: string
  webhookCertName :: string
  webhookCertKey :: string
  enableLeaderElection :: bool
  probeAddr :: string
  secureMetrics :: bool
  enableHTTP2 :: bool

definition default_flags :: startup_flags where
  "default_flags = \<lparr>metricsAddr = ''0'', metricsCertPath = [], metricsCertName = ''tls.crt'',
     metricsCertKey = ''tls.key'', webhookCertPath = [], webhookCertName = ''tls.crt'',
     webhookCertKey = ''tls.key'', enableLeaderElection = False, probeAddr = '':8081'',
     secureMetrics = True, enableHTTP2 = False\<rparr>"

record manager_options =
  BindAddress :: string
  SecureServing :: bool
  FilterProvider :: bool
  MetricsTLSOpts :: slice
  WebhookTLSOpts :: slice
  HealthProbeBindAddress :: string
  LeaderElection :: bool
  LeaderElectionID :: string

datatype startup_call =
    ParseFlags
  | LoadConfig
  | BuildLogger zap_config
  | NewCertWatcher "string \<times> string"
  | GetConfigOrDie
  | NewManager manager_options
  | SetupController
  | AddCertWatcher "string \<times> string"
  | AddHealthzCheck string
  | AddReadyzCheck string
  | StartManager

text \<open>What the libraries answer, and how the runtime grows slices.\<close>

record startup_env =
  process_config :: "string \<Rightarrow> Config \<Rightarrow> go_error + Config"
  startup_result :: "startup_call \<Rightarrow> go_error option"
  grow_slice :: "nat \<Rightarrow> nat"

text \<open>
  \<open>config.Load\<close>: envconfig fills the zero value from the variables with the prefix, using the
  defaults of the struct tags.
\<close>

definition zero_Config :: Config where
  "zero_Config = \<lparr>Environment = [], Logging = \<lparr>Level = [], Development = False\<rparr>\<rparr>"

definition Load :: "startup_env \<Rightarrow> go_error + Config" where
  "Load e = (case process_config e ''MEMGRAPH'' zero_Config of Inl er \<Rightarrow> Inl er | Inr cfg \<Rightarrow> Inr cfg)"

record startup =
  st_heap :: heap
  st_calls :: "startup_call list"

text \<open>
  How the process ends: \<open>Fatal\<close> logs a message with the error and exits; \<open>Died\<close> is the exit a
  library makes itself, as \<open>flag.Parse\<close> and \<open>ctrl.GetConfigOrDie\<close> do, with no message of
  \<open>main\<close>.
\<close>

datatype startup_exit = Fatal string go_error | Died go_error | Finished manager_options

text \<open>A call, whose error ends the process in the way \<open>stop\<close> says; else \<open>k\<close> goes on.\<close>

definition guarded ::
  "startup_call \<Rightarrow> go_error option \<Rightarrow> (go_error \<Rightarrow> startup_exit) \<Rightarrow>
   (startup \<Rightarrow> startup_exit \<times> startup) \<Rightarrow> startup \<Rightarrow> startup_exit \<times> startup" where
  "guarded c r stop k st =
     (let st' = st\<lparr>st_calls := st_calls st @ [c]\<rparr> in
      case r of Some er \<Rightarrow> (stop er, st') | None \<Rightarrow> k st')"

definition append_opt ::
  "startup_env \<Rightarrow> tls_opt \<Rightarrow> slice \<Rightarrow> (slice \<Rightarrow> startup \<Rightarrow> startup_exit \<times> startup) \<Rightarrow>
   startup \<Rightarrow> startup_exit \<times> startup" where
  "append_opt e x s k st =
     (case append_slice (grow_slice e) x s (st_heap st) of (s', h) \<Rightarrow> k s' (st\<lparr>st_heap := h\<rparr>))"

text \<open>A certificate watcher: none without a path, else created and its option appended.\<close>

definition with_watcher ::
  "startup_env \<Rightarrow> string \<Rightarrow> string \<Rightarrow> string \<Rightarrow> string \<Rightarrow> slice \<Rightarrow>
   ((string \<times> string) option \<Rightarrow> slice \<Rightarrow> startup \<Rightarrow> startup_exit \<times> startup) \<Rightarrow>
   startup \<Rightarrow> startup_exit \<times> startup" where
  "with_watcher e path name key msg s k =
     (if path = [] then k None s
      else let w = (path_join path name, path_join path key) in
        guarded (NewCertWatcher w) (startup_result e (NewCertWatcher w)) (Fatal msg)
          (append_opt e (GetCertificateOf w) s (k (Some w))))"

definition add_watcher ::
  "startup_env \<Rightarrow> (string \<times> string) option \<Rightarrow> string \<Rightarrow> (startup \<Rightarrow> startup_exit \<times> startup) \<Rightarrow>
   startup \<Rightarrow> startup_exit \<times> startup" where
  "add_watcher e p msg k =
     (case p of None \<Rightarrow> k
      | Some w \<Rightarrow> guarded (AddCertWatcher w) (startup_result e (AddCertWatcher w)) (Fatal msg) k)"

definition run_manager ::
  "startup_env \<Rightarrow> manager_options \<Rightarrow> (string \<times> string) option \<Rightarrow> (string \<times> string) option \<Rightarrow>
   startup \<Rightarrow> startup_exit \<times> startup" where
  "run_manager e opts metricsCertWatcher webhookCertWatcher =
     (let call = (\<lambda>c msg. guarded c (startup_result e c) (Fatal msg)) in
      guarded GetConfigOrDie (startup_result e GetConfigOrDie) Died (
      call (NewManager opts) ''unable to start manager'' (
      call SetupController ''unable to create controller'' (
      add_watcher e metricsCertWatcher ''unable to add metrics certificate watcher to manager'' (
      add_watcher e webhookCertWatcher ''unable to add webhook certificate watcher to manager'' (
      call (AddHealthzCheck ''healthz'') ''unable to set up health check'' (
      call (AddReadyzCheck ''readyz'') ''unable to set up ready check'' (
      call StartManager ''problem running manager'' (
      Pair (Finished opts))))))))))"

definition main_servers :: "startup_env \<Rightarrow> startup_flags \<Rightarrow> startup \<Rightarrow> startup_exit \<times> startup" where
  "main_servers e f =
     (if enableHTTP2 f then (\<lambda>k. k nil_slice) else append_opt e DisableHTTP2 nil_slice) (\<lambda>tlsOpts.
      with_watcher e (webhookCertPath f) (webhookCertName f) (webhookCertKey f)
        ''failed to initialize webhook certificate watcher'' tlsOpts (\<lambda>webhookCertWatcher webhookTLSOpts.
      with_watcher e (metricsCertPath f) (metricsCertName f) (metricsCertKey f)
        ''failed to initialize metrics certificate watcher'' tlsOpts (\<lambda>metricsCertWatcher metricsTLSOpts.
      run_manager e
        \<lparr>BindAddress = metricsAddr f, SecureServing = secureMetrics f,
         FilterProvider = secureMetrics f, MetricsTLSOpts = metricsTLSOpts,
         WebhookTLSOpts = webhookTLSOpts, HealthProbeBindAddress = probeAddr f,
         LeaderElection = enableLeaderElection f, LeaderElectionID = ''d0f99007.base14.io''\<rparr>
        metricsCertWatcher webhookCertWatcher)))"

definition main :: "startup_env \<Rightarrow> startup_flags \<Rightarrow> startup_exit \<times> startup" where
  "main e f =
     guarded ParseFlags (startup_result e ParseFlags) Died (
       case Load e of
         Inl er \<Rightarrow>
           guarded LoadConfig (Some er) (Fatal ''failed to load configuration'') (Pair (Died er))
       | Inr cfg \<Rightarrow>
           guarded LoadConfig None (Fatal ''failed to load configuration'') (
             let c = BuildLogger (logger_config cfg) in
             guarded c (startup_result e c) (Fatal ''failed to create logger'') (main_servers e f)))
       \<lparr>st_heap = [], st_calls = []\<rparr>"

section \<open>Errors stop the start\<close>

definition call_result :: "startup_env \<Rightarrow> startup_call \<Rightarrow> go_error option" where
  "call_result e c =
     (if c = LoadConfig then (case Load e of Inl er \<Rightarrow> Some er | Inr _ \<Rightarrow> None)
      else startup_result e c)"

text \<open>The calls that end the process themselves when they fail.\<close>

definition dies :: "startup_call \<Rightarrow> bool" where
  "dies c \<longleftrightarrow> c \<in> {ParseFlags, GetConfigOrDie}"

text \<open>Every call but the last succeeded; the last one explains the exit.\<close>

definition explained :: "startup_env \<Rightarrow> startup_exit \<times> startup \<Rightarrow> bool" where
  "explained e p \<longleftrightarrow>
     (let cs = st_calls (snd p) in cs \<noteq> [] \<and> list_all (\<lambda>c. call_result e c = None) (butlast cs) \<and>
      (case fst p of
         Fatal msg er \<Rightarrow> call_result e (last cs) = Some er \<and> \<not> dies (last cs)
       | Died er \<Rightarrow> call_result e (last cs) = Some er \<and> dies (last cs)
       | Finished opts \<Rightarrow> last cs = StartManager \<and> call_result e StartManager = None))"

definition proper :: "startup_env \<Rightarrow> (startup \<Rightarrow> startup_exit \<times> startup) \<Rightarrow> bool" where
  "proper e k \<longleftrightarrow> (\<forall>st. list_all (\<lambda>c. call_result e c = None) (st_calls st) \<longrightarrow> explained e (k st))"

lemma proper_guarded:
  assumes "proper e k"
  shows "\<not> dies c \<Longrightarrow> proper e (guarded c (call_result e c) (Fatal msg) k)"
    and "dies c \<Longrightarrow> proper e (guarded c (call_result e c) Died k)"
  using assms by (auto simp: proper_def guarded_def explained_def Let_def split: option.splits)

lemma proper_call:
  assumes "c \<noteq> LoadConfig" and "proper e k"
  shows "\<not> dies c \<Longrightarrow> proper e (guarded c (startup_result e c) (Fatal msg) k)"
    and "dies c \<Longrightarrow> proper e (guarded c (startup_result e c) Died k)"
proof -
  have "call_result e c = startup_result e c" using assms(1) by (simp add: call_result_def)
  with proper_guarded [OF assms(2), of c]
  show "\<not> dies c \<Longrightarrow> proper e (guarded c (startup_result e c) (Fatal msg) k)"
    "dies c \<Longrightarrow> proper e (guarded c (startup_result e c) Died k)" by simp_all
qed

lemma proper_start:
  "proper e (guarded StartManager (startup_result e StartManager) (Fatal msg) (Pair (Finished opts)))"
  by (auto simp: proper_def guarded_def explained_def call_result_def dies_def Let_def split: option.splits)

lemma proper_append_opt: "(\<And>s. proper e (k s)) \<Longrightarrow> proper e (append_opt e x s0 k)"
  by (simp add: proper_def append_opt_def split: prod.splits)

lemma proper_with_watcher:
  "(\<And>w s. proper e (k w s)) \<Longrightarrow> proper e (with_watcher e path n key msg s0 k)"
  unfolding with_watcher_def Let_def by (simp add: proper_call proper_append_opt dies_def)

lemma proper_add_watcher: "proper e k \<Longrightarrow> proper e (add_watcher e p msg k)"
  by (cases p) (simp_all add: add_watcher_def proper_call dies_def)

lemma proper_run_manager: "proper e (run_manager e opts m w)"
  unfolding run_manager_def Let_def
  by (intro proper_call proper_add_watcher proper_start; simp add: dies_def)

lemma proper_main_servers: "proper e (main_servers e f)"
  unfolding main_servers_def
  by (auto intro!: proper_append_opt proper_with_watcher proper_run_manager)

text \<open>C39: The operator starts all or nothing. Its start is a sequence of library calls, from the
  reading of the flags on, of which all but the last succeeded. It ends with the manager that ran
  and stopped without an error, or at the first call that failed, with the error of that call: the
  reading of the flags and \<open>GetConfigOrDie\<close> then end the process themselves, every other call has
  its error logged as fatal. The manager is never started after a failed set-up step.\<close>

theorem startup_stops_at_error: "explained e (main e f)"
proof -
  let ?logger = "\<lambda>cfg. BuildLogger (logger_config cfg)"
  have servers: "proper e (guarded (?logger cfg) (startup_result e (?logger cfg))
      (Fatal ''failed to create logger'') (main_servers e f))" for cfg
    by (intro proper_call proper_main_servers) (simp_all add: dies_def)
  have loaded: "proper e (case Load e of
      Inl er \<Rightarrow> guarded LoadConfig (Some er) (Fatal ''failed to load configuration'') (Pair (Died er))
    | Inr cfg \<Rightarrow> guarded LoadConfig None (Fatal ''failed to load configuration'')
        (let c = ?logger cfg in
         guarded c (startup_result e c) (Fatal ''failed to create logger'') (main_servers e f)))"
  proof (cases "Load e")
    case (Inl er)
    then show ?thesis
      by (simp add: proper_def explained_def guarded_def call_result_def dies_def Let_def)
  next
    case (Inr cfg)
    have "call_result e LoadConfig = None" "\<not> dies LoadConfig"
      by (simp_all add: call_result_def Inr dies_def)
    with proper_guarded(1) [OF servers [of cfg], of LoadConfig] show ?thesis by (simp add: Inr Let_def)
  qed
  have "proper e (guarded ParseFlags (startup_result e ParseFlags) Died (case Load e of
      Inl er \<Rightarrow> guarded LoadConfig (Some er) (Fatal ''failed to load configuration'') (Pair (Died er))
    | Inr cfg \<Rightarrow> guarded LoadConfig None (Fatal ''failed to load configuration'')
        (let c = ?logger cfg in
         guarded c (startup_result e c) (Fatal ''failed to create logger'') (main_servers e f))))"
    using proper_call(2) [OF _ loaded, of ParseFlags] by (simp add: dies_def)
  then show ?thesis unfolding main_def proper_def by simp
qed

section \<open>The TLS options of the two servers\<close>

text \<open>The configuration a server ends up with: its options applied to the library's own.\<close>

definition effective :: "heap \<Rightarrow> slice \<Rightarrow> tls_config \<Rightarrow> tls_config" where
  "effective h s c = fold apply_opt (read_slice h s) c"

lemma guarded_Finished:
  "(\<And>er. stop er \<noteq> Finished opts) \<Longrightarrow> guarded c r stop k st = (Finished opts, st') \<longleftrightarrow>
     r = None \<and> k (st\<lparr>st_calls := st_calls st @ [c]\<rparr>) = (Finished opts, st')"
  by (auto simp: guarded_def Let_def split: option.splits)

lemma add_watcher_Finished:
  "add_watcher e p msg k st = (Finished opts, st') \<Longrightarrow>
     \<exists>cs. k (st\<lparr>st_calls := cs\<rparr>) = (Finished opts, st')"
  by (cases p) (auto simp: add_watcher_def guarded_Finished intro: exI [of _ "st_calls st"])

lemma run_manager_Finished:
  "run_manager e o' m w st = (Finished opts, st') \<Longrightarrow> opts = o' \<and> st_heap st' = st_heap st"
  by (auto simp: run_manager_def guarded_Finished Let_def dest!: add_watcher_Finished)

definition watcher_of :: "string \<Rightarrow> string \<Rightarrow> string \<Rightarrow> string \<times> string" where
  "watcher_of path name key = (path_join path name, path_join path key)"

text \<open>C40: The two servers and the slice they share. Unless HTTP/2 is enabled both servers speak
  HTTP/1.1 only, and the metrics server presents its own certificate when it has one. The
  webhook server does so too, as long as the runtime gives the slice of one option no spare
  capacity; with spare capacity, HTTP/2 disabled and both certificates configured, the metrics
  option overwrites the one of the webhook server, which then presents the metrics
  certificate.\<close>

theorem startup_tls:
  assumes "main e f = (Finished opts, st)"
  shows "(let web = effective (st_heap st) (WebhookTLSOpts opts) c;
          met = effective (st_heap st) (MetricsTLSOpts opts) c;
          protos = (if enableHTTP2 f then NextProtos c else [''http/1.1'']);
          webCert = watcher_of (webhookCertPath f) (webhookCertName f) (webhookCertKey f);
          metCert = watcher_of (metricsCertPath f) (metricsCertName f) (metricsCertKey f) in
     NextProtos web = protos \<and> NextProtos met = protos \<and>
     GetCertificate met = (if metricsCertPath f = [] then GetCertificate c else Some metCert) \<and>
     GetCertificate web =
       (if webhookCertPath f = [] then GetCertificate c
        else if \<not> enableHTTP2 f \<and> metricsCertPath f \<noteq> [] \<and> 1 < grow_slice e 1 then Some metCert
        else Some webCert))"
proof -
  obtain st1 where st1: "main_servers e f st1 = (Finished opts, st)" "st_heap st1 = []"
    using assms by (auto simp: main_def guarded_Finished Let_def split: sum.splits)
  note run = main_servers_def append_opt_def append_slice_def with_watcher_def guarded_Finished
    nil_slice_def effective_def read_slice_def watcher_of_def Let_def max_def nth_append
  consider m where "grow_slice e (Suc 0) = Suc (Suc m)" | "grow_slice e (Suc 0) \<le> Suc 0"
    by (metis Suc_le_mono le_0_eq not_less_eq_eq nat.exhaust zero_le)
  then show ?thesis
    using st1
    by cases
      (cases "enableHTTP2 f"; cases "webhookCertPath f = []"; cases "metricsCertPath f = []";
        auto simp: run dest!: run_manager_Finished)+
qed

definition sample_startup_env :: startup_env where
  "sample_startup_env = \<lparr>
     process_config = (\<lambda>_ _. Inr \<lparr>Environment = ''production'', Logging = \<lparr>Level = ''info'', Development = False\<rparr>\<rparr>),
     startup_result = (\<lambda>_. None), grow_slice = (\<lambda>n. n)\<rparr>"

definition sample_flags :: startup_flags where
  "sample_flags = default_flags\<lparr>webhookCertPath := ''/certs/webhook'', metricsCertPath := ''/certs/metrics/''\<rparr>"

lemma startup_sample:
  "\<exists>opts st. main sample_startup_env sample_flags = (Finished opts, st)"
  by (simp add: main_def guarded_def Let_def Load_def sample_startup_env_def main_servers_def sample_flags_def
      default_flags_def append_opt_def with_watcher_def add_watcher_def run_manager_def split: prod.splits)

definition web_cert :: "startup_exit \<times> startup \<Rightarrow> (string \<times> string) option" where
  "web_cert p = (case p of
      (Finished opts, st) \<Rightarrow> GetCertificate (effective (st_heap st) (WebhookTLSOpts opts)
        \<lparr>NextProtos = [''h2''], GetCertificate = None\<rparr>)
    | (_, st) \<Rightarrow> None)"

lemma startup_tls_witness:
  "web_cert (main sample_startup_env sample_flags) =
     Some (''/certs/webhook/tls.crt'', ''/certs/webhook/tls.key'')"
proof -
  obtain opts st where m: "main sample_startup_env sample_flags = (Finished opts, st)"
    using startup_sample by blast
  have j: "path_join ''/certs/webhook'' ''tls.crt'' = ''/certs/webhook/tls.crt''"
    "path_join ''/certs/webhook'' ''tls.key'' = ''/certs/webhook/tls.key''"
    by code_simp+
  have g: "\<not> 1 < grow_slice sample_startup_env 1" by (simp add: sample_startup_env_def)
  have f: "webhookCertPath sample_flags = ''/certs/webhook''"
    "webhookCertName sample_flags = ''tls.crt''" "webhookCertKey sample_flags = ''tls.key''"
    by (simp_all add: sample_flags_def default_flags_def)
  show ?thesis
    using startup_tls [OF m, of "\<lparr>NextProtos = [''h2''], GetCertificate = None\<rparr>"] g
    by (simp add: Let_def web_cert_def m f watcher_of_def j)
qed

end
