(* ===== verification/Spec2Isabelle.thy ===== *)
theory Spec2Isabelle
  imports Bootstrap Pass_Writes Deep_Copy Storage_Laws Metric_Series Startup
begin

text \<open>
  A model of the Memgraph operator, a Kubernetes controller written in Go, and the theorems that
  make it correct.

  \<^bold>\<open>The program.\<close> A \<open>MemgraphCluster\<close> object asks for a number of Memgraph instances of which one
  is MAIN and the others are its replicas. One pass of \<open>Reconcile\<close>
  (\<open>internal/controller/memgraphcluster_controller.go\<close>) reads the object, handles its deletion and
  its finalizer, and then brings the services, the StatefulSet and the snapshot CronJob to the
  wanted state, chooses the write instance among the ready pods, has the replication manager
  (\<open>replication.go\<close>) set the roles and register the replicas, asks MAIN for the state of its
  replicas, classifies each of them (\<open>replica_classifier.go\<close>), runs the validation probes
  (\<open>validation.go\<close>), records metrics (\<open>metrics.go\<close>) and writes the status. Every query goes through
  the client (\<open>internal/memgraph/client.go\<close>), which runs \<open>mgconsole\<close> in the Memgraph container of a
  pod and parses the tables it prints.

  \<^bold>\<open>The model.\<close> An operation is a value of the state monad over the record \<open>world\<close> (theory
  \<open>World\<close>): the outside state, the trace of all calls the outside sees (API writes, exec requests,
  events, metric calls) in the order of the code, and the lazily created fields of the
  reconciler. The Kubernetes API, the exec streams, the clock and the pure helpers of the
  Kubernetes libraries are not code of this repository: they are the fields of the record \<open>env\<close>,
  an argument of every operation that uses them, so each theorem holds for whatever they answer.
  Errors are values (\<open>go_error option\<close> where the code returns an error only, a sum otherwise), and
  the two run-time panics of the StatefulSet update are the values \<open>go_panic\<close>. Go integers are
  \<open>int\<close> with the wrap-around of their width written out (\<open>int32\<close>, \<open>int64\<close>), \<open>float64\<close> values are
  exact rationals or special values rounded at 53 bits, Go maps are association lists whose order
  stands for the iteration order.

  \<^bold>\<open>The theories.\<close>
    \<^item> \<open>Prelude\<close>: loops as monadic traversals, the locale \<open>frame\<close> and the rules \<open>rel_intros\<close>, by
      which a fact about each primitive effect becomes one about a whole pass.
    \<^item> \<open>Go_Strings\<close>, \<open>Go_Numbers\<close>, \<open>Go_Time\<close>, \<open>Go_Float\<close>, \<open>Go_Json\<close>: the parts of Go's library the
      source uses (\<open>strings\<close>, \<open>strconv\<close>, \<open>time\<close>, \<open>encoding/json\<close>).
    \<^item> \<open>Api_Types\<close> (\<open>api/v1alpha1/memgraphcluster_types.go\<close>), \<open>K8s_Objects\<close>, \<open>World\<close>: the resource, the
      Kubernetes objects the operator builds, and what surrounds it.
    \<^item> \<open>Client\<close>, \<open>Data_Info\<close>, \<open>Storage_Info\<close>: the Memgraph client. \<open>Replica_View\<close> and \<open>Storage_Laws\<close>
      hold what its parsers compute: a printed table of replicas and a printed storage report are
      read back, the order of a Go map does not matter, the units are powers of 1024.
    \<^item> \<open>Classifier\<close>, \<open>Timer_Store\<close>: the health state machine of one replica over its two timers, whose
      classes are linearly ordered by severity, and the store of the timers, whose interface is
      the locale \<open>timer_store\<close> (interpretation \<open>ts\<close>).
    \<^item> \<open>Replication\<close>: configuration, roles, registration, cleanup, health check and failover.
      \<open>Replication_Laws\<close>: which queries a configuration pass may send and to whom, that a settled
      cluster is left alone, how health checks count and evolve the timers, whom a failover picks.
      \<open>Convergence\<close>: with the documented behaviour of Memgraph as laws over a view of its roles and
      registrations, one pass reaches the wanted replication and the next one keeps it.
    \<^item> \<open>Metrics\<close>, \<open>Events\<close>: the recorder and the event reasons. \<open>Metric_Series\<close>: what a scrape sees
      after a recording, over the locale \<open>gauge_registry\<close> of the Prometheus client library.
    \<^item> \<open>Services\<close>, \<open>Workload\<close>, \<open>Snapshot\<close>, \<open>Validation\<close>: \<open>labels.go\<close>, \<open>service.go\<close>, \<open>statefulset.go\<close>,
      \<open>snapshot.go\<close>, \<open>validation.go\<close>, each with its properties.
    \<^item> \<open>Reconciler\<close>: the pass itself. \<open>Reconciler_Laws\<close>: write instance, status, conditions,
      StatefulSet updates, requeueing, lifecycle. \<open>Reconciler_Safety\<close>: whole passes and the states
      reachable by any sequence of passes and outside changes (\<open>reachable\<close>). \<open>Quiescence\<close>: a pass over
      objects that are in sync writes the status and nothing else. \<open>Ready\<close>: both together, a pass over
      a healthy cluster reports it ready.
    \<^item> \<open>Api_Server\<close>: the API server as laws over a view of the objects it holds (\<open>api_laws\<close>). \<open>Repair\<close>: the
      abstract pass \<open>object_writes\<close>, a function from the objects held to the writes to make, and the
      proof that the detailed operations make exactly these. \<open>Bootstrap\<close>: one pass repairs and the
      next is quiet; from the creation of the resource three passes put everything in place, and
      the first pass that finds the pods up, however late, makes the cluster reported ready. The
      pods, the answers of Memgraph and what happens between two passes vary from pass to pass
      there (\<open>surroundings\<close>).
      \<open>Small_Server\<close>: a server and a Memgraph that keep all the laws, for the witnesses.
    \<^item> \<open>Registration\<close>: \<open>groupversion_info.go\<close>, the \<open>init\<close> functions, \<open>SetupWithManager\<close> and the permission
      markers, as the data the libraries are given. \<open>Pass_Writes\<close>: what a pass may write, and of
      which type, whatever the outside answers.
    \<^item> \<open>Go_Store\<close>, \<open>Deep_Copy\<close>: \<open>zz_generated.deepcopy.go\<close> over a memory with pointers, slices and maps.
      The locale \<open>deep_copy\<close> says that a copy reads as the same value and shares no cell with the
      original; each \<open>DeepCopyInto\<close> is shown to be one. This is what allows the other theories to
      treat API objects as values.
    \<^item> \<open>Startup\<close>: \<open>internal/config\<close>, \<open>internal/logger\<close> and \<open>cmd/main.go\<close>, over an environment of its
      own whose calls are logged, with the exits that \<open>main\<close> and its libraries make. The two servers are given the same slice of TLS options, so
      slices are modelled with backing arrays and capacities.

  \<^bold>\<open>Sequential passes.\<close> The controller runs with one worker, the default of controller-runtime, so
  passes do not overlap and the mutex of the replication manager, held for the whole of a health
  check, never blocks; the model leaves it out. The watches only decide when a pass happens, and
  \<open>reachable\<close> allows any order of passes of any clusters with any change of the outside in between.
  No theorem says when the next pass comes: the delay a pass asks for is a field of its result, and
  the event of its own status write may start the next pass earlier.

  \<^bold>\<open>Bounds.\<close> The JSON parser runs on fuel \<open>2 * length + 2\<close>, and by \<open>json_fuel_enough\<close> more fuel never
  changes its result; nesting is bounded at 10000 as in Go. The quote scanner of \<open>Data_Info\<close>, the bit
  length and the decimal printer end by a measure; every other recursion is structural.

  \<^bold>\<open>Not modelled.\<close> Log lines, which have no effect on anything else. \<open>test/utils\<close>: helpers of the
  end-to-end tests. The inside of \<open>flag\<close>, \<open>envconfig\<close>, \<open>zap\<close>, controller-runtime, the scheme, the deep
  copies of the Kubernetes types and the Prometheus client: libraries.
  The 100 ms sleep of the validation probe: the clock of the environment may advance at any action.
  The constructors that only wrap a client or an empty struct (\<open>NewSnapshotManager\<close>,
  \<open>NewValidationManager\<close>, \<open>NewMetricsRecorder\<close>) and \<open>ptr\<close>: what they return has no state in the model.
\<close>

end
